(* ===== verification/Prelude.thy ===== *)
theory Prelude
  imports Main "HOL-Library.Word" "HOL-Library.Sublist"
begin

text \<open>
  Shared vocabulary of the development: the widths of the machine integers the
  crates use, the \<open>Result\<close> monad (a sum, \<open>Inl\<close> the error), the generic list and
  option facts the components share, and the two interfaces every component
  instantiates:
  \<^item> \<open>machine\<close>: a deterministic step function with an invariant every step keeps;
    runs over event lists inherit the invariant;
  \<^item> \<open>codec\<close>: an encoder and a decoder that hands back the rest of the buffer, with
    a round-trip law; sequences of encodings decode one after the other.
\<close>

section \<open>Machine integers\<close>

type_synonym u8 = "8 word"
type_synonym u16 = "16 word"
type_synonym u32 = "32 word"
type_synonym u64 = "64 word"
type_synonym bytes = "u8 list"

text \<open>A \<open>Uuid\<close> is a 128-bit value compared for equality only.\<close>

type_synonym uuid = "128 word"

section \<open>Results\<close>

named_theorems res_simps \<open>rewriting of results and of the early return\<close>

text \<open>\<open>rbind m f\<close> is Rust's \<open>let x = m?; f(x)\<close>: an error is returned at once.\<close>

fun rbind :: "'e + 'a \<Rightarrow> ('a \<Rightarrow> 'e + 'b) \<Rightarrow> 'e + 'b" where
  "rbind (Inl e) f = Inl e"
| "rbind (Inr x) f = f x"

text \<open>\<open>ok_or e x\<close> is \<open>Option::ok_or\<close>.\<close>

fun ok_or :: "'e \<Rightarrow> 'a option \<Rightarrow> 'e + 'a" where
  "ok_or e None = Inl e"
| "ok_or e (Some x) = Inr x"

definition is_ok :: "'e + 'a \<Rightarrow> bool" where
  "is_ok r \<longleftrightarrow> (case r of Inl _ \<Rightarrow> False | Inr _ \<Rightarrow> True)"

lemma is_ok_simps [simp]: "\<not> is_ok (Inl e)" "is_ok (Inr x)"
  by (simp_all add: is_ok_def)

lemma is_ok_iff: "is_ok r \<longleftrightarrow> (\<exists>x. r = Inr x)"
  by (cases r) auto

lemma rbind_eq_Inr [res_simps]:
  "rbind m f = Inr y \<longleftrightarrow> (\<exists>x. m = Inr x \<and> f x = Inr y)"
  by (cases m) auto

lemma rbind_eq_Inl [res_simps]:
  "rbind m f = Inl e \<longleftrightarrow> m = Inl e \<or> (\<exists>x. m = Inr x \<and> f x = Inl e)"
  by (cases m) auto

lemma is_ok_rbind [res_simps]:
  "is_ok (rbind m f) \<longleftrightarrow> (\<exists>x. m = Inr x \<and> is_ok (f x))"
  by (cases m) auto

lemma ok_or_eq_Inr [res_simps]: "ok_or e x = Inr y \<longleftrightarrow> x = Some y"
  by (cases x) auto

lemma rbind_assoc: "rbind (rbind m f) g = rbind m (\<lambda>x. rbind (f x) g)"
  by (cases m) auto

section \<open>Deterministic machines\<close>

text \<open>
  Every stateful component is a step function on a state and an event. The
  invariant of one step is the invariant of a run.
\<close>

locale machine =
  fixes step :: "'s \<Rightarrow> 'e \<Rightarrow> 's"
    and inv :: "'s \<Rightarrow> bool"
  assumes step_inv: "inv s \<Longrightarrow> inv (step s e)"
begin

lemma run_inv: "inv s \<Longrightarrow> inv (foldl step s es)"
  by (induction es arbitrary: s) (auto simp: step_inv)

lemma run_inv_prefix: "inv s \<Longrightarrow> inv (foldl step s (take n es))"
  by (rule run_inv)

end

section \<open>Codecs\<close>

text \<open>
  An encoder \<open>enc\<close> of well-formed values and a decoder \<open>dec\<close> that consumes a prefix
  of the buffer and returns the rest.
\<close>

locale codec =
  fixes enc :: "'a \<Rightarrow> 'b list"
    and dec :: "'b list \<Rightarrow> 'e + 'a \<times> 'b list"
    and wf :: "'a \<Rightarrow> bool"
  assumes dec_enc: "wf x \<Longrightarrow> dec (enc x @ rest) = Inr (x, rest)"
begin

lemma dec_enc_all: "wf x \<Longrightarrow> dec (enc x) = Inr (x, [])"
  using dec_enc [of x "[]"] by simp

text \<open>Encodings are prefix free: a reader never mistakes one value for another.\<close>

lemma enc_prefix_free:
  assumes "wf x" and "wf y" and "enc x @ r = enc y @ r'"
  shows "x = y \<and> r = r'"
proof -
  have "Inr (x, r) = dec (enc x @ r)"
    by (rule dec_enc [OF assms(1), symmetric])
  also have "\<dots> = dec (enc y @ r')"
    by (simp only: assms(3))
  also have "\<dots> = Inr (y, r')"
    by (rule dec_enc [OF assms(2)])
  finally show ?thesis by simp
qed

lemma enc_inj: "wf x \<Longrightarrow> wf y \<Longrightarrow> enc x = enc y \<Longrightarrow> x = y"
  using enc_prefix_free [of x y "[]" "[]"] by simp

end

section \<open>Lists and options\<close>

lemma find_Some_in:
  "find P xs = Some x \<Longrightarrow> x \<in> set xs \<and> P x"
  by (induction xs) (auto split: if_splits)

lemma find_None_iff_all: "find P xs = None \<longleftrightarrow> (\<forall>x \<in> set xs. \<not> P x)"
  by (induction xs) auto

lemma find_append:
  "find P (xs @ ys) = (case find P xs of None \<Rightarrow> find P ys | Some x \<Rightarrow> Some x)"
  by (induction xs) auto

lemma find_first_split:
  "find P xs = Some x \<Longrightarrow> \<exists>us vs. xs = us @ x # vs \<and> P x \<and> (\<forall>u \<in> set us. \<not> P u)"
proof (induction xs)
  case Nil
  then show ?case by simp
next
  case (Cons a xs)
  show ?case
  proof (cases "P a")
    case True
    with Cons.prems have "a # xs = [] @ x # xs \<and> P x" by simp
    then show ?thesis by force
  next
    case False
    with Cons obtain us vs where "xs = us @ x # vs" "P x" "\<forall>u \<in> set us. \<not> P u"
      by auto
    with False have "a # xs = (a # us) @ x # vs \<and> P x \<and> (\<forall>u \<in> set (a # us). \<not> P u)"
      by simp
    then show ?thesis by blast
  qed
qed

lemma map_filter_keys_dom:
  "dom (\<lambda>k. if P k then m k else None) = {k \<in> dom m. P k}"
  by (auto split: if_splits)

lemma find_map_key:
  "(\<And>x. P (f x) = P x) \<Longrightarrow> find P (map f xs) = map_option f (find P xs)"
  by (induction xs) auto

lemma filter_empty_find: "filter P xs = [] \<longleftrightarrow> find P xs = None"
  by (induction xs) auto

lemma distinct_key_find:
  "distinct (map k xs) \<Longrightarrow> find (\<lambda>x. k x = i \<and> Q x) xs =
     (case find (\<lambda>x. k x = i) xs of None \<Rightarrow> None | Some x \<Rightarrow> if Q x then Some x else None)"
proof (induction xs)
  case (Cons a xs)
  then have "k a = i \<Longrightarrow> find (\<lambda>x. k x = i) xs = None"
    by (auto simp: find_None_iff_all image_iff)
  with Cons show ?case by auto
qed simp

lemma fold_max_ge: "x \<in> set xs \<Longrightarrow> x \<le> fold max xs (a :: int)"
  by (simp add: Max.set_eq_fold [symmetric] del: List.list.set(2)) simp

end
