(* ===== verification/Rust_Std.thy ===== *)
theory Rust_Std
  imports Prelude "HOL-Library.Code_Target_Nat"
begin

text \<open>
  What the crates use of Rust's standard library, written out once.
  A \<open>String\<close> is its UTF-8 bytes: a \<open>string\<close> whose characters are the bytes, so that
  \<open>len\<close> counts bytes and the ASCII classifications act on single characters.
  Byte buffers (\<open>Vec<u8>\<close>, \<open>Bytes\<close>) are lists of 8-bit words.
\<close>

section \<open>ASCII\<close>

definition char_code :: "char \<Rightarrow> nat" where
  "char_code c = of_char c"

definition is_ascii_upper :: "char \<Rightarrow> bool" where
  "is_ascii_upper c \<longleftrightarrow> 65 \<le> char_code c \<and> char_code c \<le> 90"

definition is_ascii_lower :: "char \<Rightarrow> bool" where
  "is_ascii_lower c \<longleftrightarrow> 97 \<le> char_code c \<and> char_code c \<le> 122"

definition is_ascii_digit :: "char \<Rightarrow> bool" where
  "is_ascii_digit c \<longleftrightarrow> 48 \<le> char_code c \<and> char_code c \<le> 57"

definition is_ascii_alphabetic :: "char \<Rightarrow> bool" where
  "is_ascii_alphabetic c \<longleftrightarrow> is_ascii_upper c \<or> is_ascii_lower c"

definition is_ascii_alphanumeric :: "char \<Rightarrow> bool" where
  "is_ascii_alphanumeric c \<longleftrightarrow> is_ascii_alphabetic c \<or> is_ascii_digit c"

definition to_ascii_lower :: "char \<Rightarrow> char" where
  "to_ascii_lower c = (if is_ascii_upper c then char_of (char_code c + 32) else c)"

definition to_ascii_upper :: "char \<Rightarrow> char" where
  "to_ascii_upper c = (if is_ascii_lower c then char_of (char_code c - 32) else c)"

definition to_ascii_lowercase :: "string \<Rightarrow> string" where
  "to_ascii_lowercase = map to_ascii_lower"

definition to_ascii_uppercase :: "string \<Rightarrow> string" where
  "to_ascii_uppercase = map to_ascii_upper"

lemmas ascii_defs =
  is_ascii_upper_def is_ascii_lower_def is_ascii_digit_def is_ascii_alphabetic_def
  is_ascii_alphanumeric_def char_code_def

lemma char_code_less_256 [simp]: "char_code c < 256"
  by (simp add: char_code_def)

lemma char_code_char_of [simp]: "n < 256 \<Longrightarrow> char_code (char_of n) = n"
  by (simp add: char_code_def)

lemma char_code_inject: "char_code c = char_code d \<longleftrightarrow> c = d"
  by (simp add: char_code_def)

lemma to_ascii_lower_not_upper: "\<not> is_ascii_upper (to_ascii_lower c)"
  by (auto simp: to_ascii_lower_def is_ascii_upper_def)

lemma to_ascii_upper_not_lower: "\<not> is_ascii_lower (to_ascii_upper c)"
  by (auto simp: to_ascii_upper_def is_ascii_lower_def)

lemma to_ascii_lower_idem [simp]: "to_ascii_lower (to_ascii_lower c) = to_ascii_lower c"
  using to_ascii_lower_not_upper [of c] by (simp add: to_ascii_lower_def [of "to_ascii_lower c"])

lemma to_ascii_lowercase_idem [simp]:
  "to_ascii_lowercase (to_ascii_lowercase s) = to_ascii_lowercase s"
  by (simp add: to_ascii_lowercase_def)

lemma to_ascii_lower_alphanumeric [simp]:
  "is_ascii_alphanumeric (to_ascii_lower c) = is_ascii_alphanumeric c"
  by (auto simp: to_ascii_lower_def is_ascii_alphanumeric_def is_ascii_alphabetic_def
      is_ascii_upper_def is_ascii_lower_def is_ascii_digit_def)

section \<open>Strings\<close>

text \<open>\<open>str::strip_prefix\<close>.\<close>

definition strip_prefix :: "string \<Rightarrow> string \<Rightarrow> string option" where
  "strip_prefix p s = (if prefix p s then Some (drop (length p) s) else None)"

text \<open>
  \<open>str::splitn(n, c)\<close> for a character separator: at most \<open>n\<close> parts, the last one
  holding whatever remains, separators included.
\<close>

fun splitn :: "nat \<Rightarrow> char \<Rightarrow> string \<Rightarrow> string list" where
  "splitn 0 c s = []"
| "splitn (Suc 0) c s = [s]"
| "splitn (Suc (Suc n)) c s =
     (if c \<in> set s
      then takeWhile (\<lambda>x. x \<noteq> c) s # splitn (Suc n) c (tl (dropWhile (\<lambda>x. x \<noteq> c) s))
      else [s])"

text \<open>\<open>str::split(c)\<close>: every part between separators, empty ones included.\<close>

fun split_on :: "char \<Rightarrow> string \<Rightarrow> string list" where
  "split_on c [] = [[]]"
| "split_on c (x # xs) =
     (if x = c then [] # split_on c xs
      else (case split_on c xs of [] \<Rightarrow> [[x]] | p # ps \<Rightarrow> (x # p) # ps))"

lemma split_on_not_Nil [simp]: "split_on c s \<noteq> []"
  by (induction s) (auto split: list.splits)

text \<open>
  \<open>str::trim\<close> removes the characters with the Unicode property White\_Space; these
  are their UTF-8 encodings (U+0009 to U+000D, U+0020, U+0085, U+00A0, U+1680,
  U+2000 to U+200A, U+2028, U+2029, U+202F, U+205F, U+3000).
\<close>

definition utf8_whitespace :: "string list" where
  "utf8_whitespace =
     map (\<lambda>n. [char_of n]) [9::nat, 10, 11, 12, 13, 32] @
     map (map char_of)
       ([[0xC2, 0x85], [0xC2, 0xA0], [0xE1, 0x9A, 0x80]] @
        map (\<lambda>n. [0xE2, 0x80, 0x80 + n]) [0..<11] @
        [[0xE2, 0x80, 0xA8], [0xE2, 0x80, 0xA9], [0xE2, 0x80, 0xAF],
         [0xE2, 0x81, 0x9F], [0xE3, 0x80, 0x80 :: nat]])"

lemma utf8_whitespace_nonempty: "w \<in> set utf8_whitespace \<Longrightarrow> w \<noteq> []"
  by (auto simp: utf8_whitespace_def)

function trim_start :: "string \<Rightarrow> string" where
  "trim_start s =
     (case find (\<lambda>w. prefix w s) utf8_whitespace of
        None \<Rightarrow> s
      | Some w \<Rightarrow> trim_start (drop (length w) s))"
  by pat_completeness auto
termination
proof (relation "measure length")
  show "wf (measure length)" by simp
next
  fix s w
  assume "find (\<lambda>w. prefix w s) utf8_whitespace = Some w"
  then have "w \<in> set utf8_whitespace" and "prefix w s"
    by (auto dest: find_Some_in)
  then have "w \<noteq> []" and "length w \<le> length s"
    by (auto simp: utf8_whitespace_nonempty prefix_length_le)
  then show "(drop (length w) s, s) \<in> measure length"
    by (cases w) auto
qed

declare trim_start.simps [simp del]

function trim_end :: "string \<Rightarrow> string" where
  "trim_end s =
     (case find (\<lambda>w. suffix w s) utf8_whitespace of
        None \<Rightarrow> s
      | Some w \<Rightarrow> trim_end (take (length s - length w) s))"
  by pat_completeness auto
termination
proof (relation "measure length")
  show "wf (measure length)" by simp
next
  fix s w
  assume "find (\<lambda>w. suffix w s) utf8_whitespace = Some w"
  then have "w \<in> set utf8_whitespace" and "suffix w s"
    by (auto dest: find_Some_in)
  then have "w \<noteq> []" and "length w \<le> length s"
    by (auto simp: utf8_whitespace_nonempty suffix_length_le)
  then show "(take (length s - length w) s, s) \<in> measure length"
    by (cases w) auto
qed

declare trim_end.simps [simp del]

definition trim :: "string \<Rightarrow> string" where
  "trim s = trim_end (trim_start s)"

text \<open>\<open>str::contains(&str)\<close>.\<close>

definition contains_str :: "string \<Rightarrow> string \<Rightarrow> bool" where
  "contains_str s p \<longleftrightarrow> sublist p s"

section \<open>Bytes and UTF-8\<close>

definition as_bytes :: "string \<Rightarrow> bytes" where
  "as_bytes = map (\<lambda>c. word_of_nat (char_code c))"

definition str_of_bytes :: "bytes \<Rightarrow> string" where
  "str_of_bytes = map (\<lambda>b. char_of (unat b))"

lemma unat_u8_less [simp]: "unat (b :: u8) < 256"
  using unsigned_less [where 'a = nat, of b] by simp

lemma unat_of_code [simp]: "unat (word_of_nat (char_code c) :: u8) = char_code c"
  by (simp add: unat_of_nat)

lemma str_of_as_bytes [simp]: "str_of_bytes (as_bytes s) = s"
  by (simp add: str_of_bytes_def as_bytes_def o_def map_idI char_code_def [symmetric])
    (simp add: char_code_def)

lemma as_bytes_str_of [simp]: "as_bytes (str_of_bytes bs) = bs"
  by (simp add: str_of_bytes_def as_bytes_def o_def map_idI)

lemma length_as_bytes [simp]: "length (as_bytes s) = length s"
  by (simp add: as_bytes_def)

lemma as_bytes_append: "as_bytes (s @ t) = as_bytes s @ as_bytes t"
  by (simp add: as_bytes_def)

text \<open>
  One step of the standard library's UTF-8 decoder on a non-empty buffer: how many
  bytes it looks at and whether they are one well-formed character. An ill-formed
  step covers the longest prefix that could still have started a character.
\<close>

definition cont :: "bytes \<Rightarrow> nat \<Rightarrow> bool" where
  "cont bs i \<longleftrightarrow> i < length bs \<and> 0x80 \<le> unat (bs ! i) \<and> unat (bs ! i) \<le> 0xBF"

definition second_ok :: "bytes \<Rightarrow> nat \<Rightarrow> nat \<Rightarrow> bool" where
  "second_ok bs lo hi \<longleftrightarrow> 1 < length bs \<and> lo \<le> unat (bs ! 1) \<and> unat (bs ! 1) \<le> hi"

definition utf8_step :: "bytes \<Rightarrow> nat \<times> bool" where
  "utf8_step bs =
     (let b = unat (hd bs);
          three = (\<lambda>lo hi. if \<not> second_ok bs lo hi then (1, False)
                           else if \<not> cont bs 2 then (2, False) else (3, True));
          four = (\<lambda>lo hi. if \<not> second_ok bs lo hi then (1, False)
                          else if \<not> cont bs 2 then (2, False)
                          else if \<not> cont bs 3 then (3, False) else (4, True))
      in if b < 0x80 then (1, True)
         else if 0xC2 \<le> b \<and> b \<le> 0xDF then (if cont bs 1 then (2, True) else (1, False))
         else if b = 0xE0 then three 0xA0 0xBF
         else if 0xE1 \<le> b \<and> b \<le> 0xEC then three 0x80 0xBF
         else if b = 0xED then three 0x80 0x9F
         else if b = 0xEE \<or> b = 0xEF then three 0x80 0xBF
         else if b = 0xF0 then four 0x90 0xBF
         else if 0xF1 \<le> b \<and> b \<le> 0xF3 then four 0x80 0xBF
         else if b = 0xF4 then four 0x80 0x8F
         else (1, False))"

lemma utf8_step_pos: "0 < fst (utf8_step bs)"
  by (simp add: utf8_step_def Let_def)

function valid_utf8 :: "bytes \<Rightarrow> bool" where
  "valid_utf8 bs =
     (if bs = [] then True
      else if snd (utf8_step bs) then valid_utf8 (drop (fst (utf8_step bs)) bs)
      else False)"
  by pat_completeness auto
termination
  by (relation "measure length") (auto simp: utf8_step_pos)

declare valid_utf8.simps [simp del]

text \<open>\<open>String::from_utf8_lossy\<close>: every ill-formed step becomes U+FFFD.\<close>

function lossy_bytes :: "bytes \<Rightarrow> bytes" where
  "lossy_bytes bs =
     (if bs = [] then []
      else (let (n, good) = utf8_step bs
            in (if good then take n bs else [0xEF, 0xBF, 0xBD]) @ lossy_bytes (drop n bs)))"
  by pat_completeness auto
termination
proof (relation "measure length")
  show "wf (measure length)" by simp
next
  fix bs :: bytes and p n good
  assume "bs \<noteq> []" and "p = utf8_step bs" and "(n, good) = p"
  then have "0 < n" using utf8_step_pos [of bs] by (metis fst_conv)
  with \<open>bs \<noteq> []\<close> show "(drop n bs, bs) \<in> measure length" by simp
qed

declare lossy_bytes.simps [simp del]

definition from_utf8_lossy :: "bytes \<Rightarrow> string" where
  "from_utf8_lossy bs = str_of_bytes (lossy_bytes bs)"

text \<open>A string that Rust's type system accepts: its bytes are valid UTF-8.\<close>

definition str_ok :: "string \<Rightarrow> bool" where
  "str_ok s \<longleftrightarrow> valid_utf8 (as_bytes s)"

lemma str_ok_Nil [simp]: "str_ok []"
  by (simp add: str_ok_def as_bytes_def valid_utf8.simps [of "[]"])

text \<open>Valid input is unchanged by the lossy conversion.\<close>

lemma lossy_bytes_valid: "valid_utf8 bs \<Longrightarrow> lossy_bytes bs = bs"
proof (induction bs rule: valid_utf8.induct)
  case (1 bs)
  show ?case
  proof (cases "bs = []")
    case True
    then show ?thesis by (simp add: lossy_bytes.simps)
  next
    case False
    with "1.prems" have "snd (utf8_step bs)"
      and "valid_utf8 (drop (fst (utf8_step bs)) bs)"
      by (simp_all add: valid_utf8.simps [of bs] split: if_splits)
    with "1.IH" False have "lossy_bytes (drop (fst (utf8_step bs)) bs) = drop (fst (utf8_step bs)) bs"
      by simp
    with False \<open>snd (utf8_step bs)\<close> show ?thesis
      by (simp add: lossy_bytes.simps [of bs] split_beta Let_def)
  qed
qed

lemma from_utf8_lossy_valid: "str_ok s \<Longrightarrow> from_utf8_lossy (as_bytes s) = s"
  by (simp add: from_utf8_lossy_def str_ok_def lossy_bytes_valid)

lemma str_ok_ascii: "list_all (\<lambda>c. char_code c < 128) s \<Longrightarrow> str_ok s"
proof (induction s)
  case (Cons c s)
  have "utf8_step (as_bytes (c # s)) = (1, True)"
    using Cons.prems by (simp add: utf8_step_def as_bytes_def Let_def)
  then show ?case using Cons
    by (simp add: str_ok_def valid_utf8.simps [of "as_bytes (c # s)"]) (simp add: as_bytes_def)
qed simp

section \<open>Integers as bytes\<close>

text \<open>\<open>to_le_bytes\<close> and \<open>from_le_bytes\<close> on \<open>k\<close> bytes, through the value.\<close>

fun le_bytes :: "nat \<Rightarrow> nat \<Rightarrow> bytes" where
  "le_bytes 0 n = []"
| "le_bytes (Suc k) n = word_of_nat n # le_bytes k (n div 256)"

fun le_val :: "bytes \<Rightarrow> nat" where
  "le_val [] = 0"
| "le_val (b # bs) = unat b + 256 * le_val bs"

definition be_bytes :: "nat \<Rightarrow> nat \<Rightarrow> bytes" where
  "be_bytes k n = rev (le_bytes k n)"

definition be_val :: "bytes \<Rightarrow> nat" where
  "be_val bs = le_val (rev bs)"

lemma length_le_bytes [simp]: "length (le_bytes k n) = k"
  by (induction k arbitrary: n) auto

lemma length_be_bytes [simp]: "length (be_bytes k n) = k"
  by (simp add: be_bytes_def)

lemma le_val_le_bytes: "le_val (le_bytes k n) = n mod 256 ^ k"
proof (induction k arbitrary: n)
  case 0
  then show ?case by simp
next
  case (Suc k)
  have "unat (word_of_nat n :: u8) = n mod 256"
    by (simp add: unat_of_nat)
  with Suc show ?case
    by (simp add: mod_mult2_eq)
qed

lemma radix_step: "a < 256 \<Longrightarrow> v < N \<Longrightarrow> a + 256 * v < 256 * (N :: nat)"
  by simp

lemma le_val_bound: "le_val bs < 256 ^ length bs"
proof (induction bs)
  case Nil
  then show ?case by simp
next
  case (Cons b bs)
  have "unat b < 256" by simp
  from radix_step [OF this Cons] show ?case by simp
qed

lemma le_bytes_le_val: "le_bytes (length bs) (le_val bs) = bs"
proof (induction bs)
  case Nil
  then show ?case by simp
next
  case (Cons b bs)
  have "word_of_nat (unat b + 256 * le_val bs) = (b :: u8)"
    by (rule word_unat_eq_iff [THEN iffD2]) (simp only: unat_of_nat, simp)
  moreover have "(unat b + 256 * le_val bs) div 256 = le_val bs"
    by simp
  ultimately show ?case using Cons by simp
qed

lemma be_val_be_bytes: "be_val (be_bytes k n) = n mod 256 ^ k"
  by (simp add: be_val_def be_bytes_def le_val_le_bytes)

lemma be_val_bound: "be_val bs < 256 ^ length bs"
  using le_val_bound [of "rev bs"] by (simp add: be_val_def)

lemma le_val_append: "le_val (xs @ ys) = le_val xs + 256 ^ length xs * le_val ys"
  by (induction xs) (auto simp: algebra_simps)

end
