(* ===== verification/Auth.thy ===== *)
theory Auth
  imports Rust_Std
begin

text \<open>
  Authentication (\<open>gated-common/src/auth\<close>): credentials and their kinds, the
  credential policies (the \<open>CredentialPolicy\<close> trait and its three implementations),
  the login selector and the authentication state with its change signal.
  The trait is the locale \<open>credential_policy\<close>; it is interpreted on the dispatch
  function \<open>is_sufficient\<close> of every policy value.
\<close>

section \<open>Credentials (cred.rs)\<close>

datatype CredentialKind =
  Password | PublicKey | Certificate | Totp | Sso | WebUserApproval

datatype AuthCredential =
    Otp string
  | Password string
  | PublicKey string bytes
  | Certificate string
  | Sso (provider: string) (email: string) (iss: string) (sub: string)
  | WebUserApproval

fun kind :: "AuthCredential \<Rightarrow> CredentialKind" where
  "kind (Password _) = CredentialKind.Password"
| "kind (PublicKey _ _) = CredentialKind.PublicKey"
| "kind (Certificate _) = CredentialKind.Certificate"
| "kind (Otp _) = CredentialKind.Totp"
| "kind (Sso _ _ _ _) = CredentialKind.Sso"
| "kind WebUserApproval = CredentialKind.WebUserApproval"

fun safe_description :: "AuthCredential \<Rightarrow> string" where
  "safe_description (Password _) = ''password''"
| "safe_description (PublicKey _ _) = ''public key''"
| "safe_description (Certificate _) = ''client certificate''"
| "safe_description (Otp _) = ''one-time password''"
| "safe_description (Sso p _ _ _) = ''SSO ('' @ p @ '')''"
| "safe_description WebUserApproval = ''in-browser auth''"

section \<open>Policies (policy.rs)\<close>

datatype CredentialPolicyResponse = Ok | Need "CredentialKind set"

text \<open>
  The three implementations of the trait. \<open>PerProtocolCredentialPolicy\<close> holds a map
  from protocol names to policies and a default.
\<close>

datatype CredentialPolicy =
    AnySingleCredentialPolicy "CredentialKind set"
  | AllCredentialsPolicy "CredentialKind set" "CredentialKind set"
  | PerProtocolCredentialPolicy "string \<Rightarrow> CredentialPolicy option" CredentialPolicy

definition any_single_is_sufficient ::
  "CredentialKind set \<Rightarrow> AuthCredential list \<Rightarrow> CredentialPolicyResponse" where
  "any_single_is_sufficient supported creds = (if creds = [] then Need supported else Ok)"

definition all_is_sufficient ::
  "CredentialKind set \<Rightarrow> AuthCredential list \<Rightarrow> CredentialPolicyResponse" where
  "all_is_sufficient required creds =
     (if required = {} then Need {}
      else (let types = set (map kind creds)
            in if types \<noteq> {} \<and> required \<subseteq> types then Ok else Need (required - types)))"

primrec is_sufficient ::
  "CredentialPolicy \<Rightarrow> string \<Rightarrow> AuthCredential list \<Rightarrow> CredentialPolicyResponse" where
  "is_sufficient (AnySingleCredentialPolicy supported) =
     (\<lambda>protocol creds. any_single_is_sufficient supported creds)"
| "is_sufficient (AllCredentialsPolicy required supported) =
     (\<lambda>protocol creds. all_is_sufficient required creds)"
| "is_sufficient (PerProtocolCredentialPolicy protocols dflt) =
     (\<lambda>protocol creds.
        (case (map_option is_sufficient \<circ> protocols) protocol of
           Some suff \<Rightarrow> suff protocol creds
         | None \<Rightarrow> is_sufficient dflt protocol creds))"

text \<open>
  The contract of the trait: no credential is never enough, a further credential
  never revokes a sufficient set, and what is still needed has not been presented.
\<close>

locale credential_policy =
  fixes suff :: "string \<Rightarrow> AuthCredential list \<Rightarrow> CredentialPolicyResponse"
  assumes fails_closed: "suff protocol [] \<noteq> Ok"
    and ok_snoc: "suff protocol cs = Ok \<Longrightarrow> suff protocol (cs @ [c]) = Ok"
    and need_missing: "suff protocol cs = Need ks \<Longrightarrow> ks \<inter> set (map kind cs) = {}"
begin

lemma ok_nonempty: "suff protocol cs = Ok \<Longrightarrow> cs \<noteq> []"
  using fails_closed by auto

lemma ok_append: "suff protocol cs = Ok \<Longrightarrow> suff protocol (cs @ ds) = Ok"
proof (induction ds rule: rev_induct)
  case Nil
  then show ?case by simp
next
  case (snoc d ds)
  then have "suff protocol ((cs @ ds) @ [d]) = Ok"
    by (intro ok_snoc) simp
  then show ?case by simp
qed

text \<open>Sufficiency starts at one credential and holds from there on.\<close>

lemma ok_threshold:
  assumes "suff protocol cs = Ok"
  shows "\<exists>n. 0 < n \<and> n \<le> length cs \<and>
             (\<forall>m \<le> length cs. suff protocol (take m cs) = Ok \<longleftrightarrow> n \<le> m)"
proof -
  define P where "P m \<longleftrightarrow> suff protocol (take m cs) = Ok" for m
  define n where "n = (LEAST m. P m)"
  have len: "P (length cs)" using assms by (simp add: P_def)
  then have n: "P n" unfolding n_def by (rule LeastI)
  have le: "n \<le> length cs" unfolding n_def using len by (rule Least_le)
  have "0 < n" using n fails_closed by (cases n) (auto simp: P_def)
  moreover have "P m \<longleftrightarrow> n \<le> m" if "m \<le> length cs" for m
  proof
    show "n \<le> m" if "P m" unfolding n_def using that by (rule Least_le)
  next
    assume "n \<le> m"
    then have "take m cs = take n cs @ drop n (take m cs)"
      by (metis append_take_drop_id min.absorb2 take_take min.commute)
    with n ok_append show "P m" unfolding P_def by metis
  qed
  ultimately show ?thesis using le unfolding P_def by blast
qed

end

lemma any_single_contract: "credential_policy (\<lambda>protocol. any_single_is_sufficient supported)"
  by unfold_locales (auto simp: any_single_is_sufficient_def split: if_splits)

lemma all_contract: "credential_policy (\<lambda>protocol. all_is_sufficient required)"
  by unfold_locales (auto simp: all_is_sufficient_def Let_def split: if_splits)

lemma per_protocol_dispatch:
  "is_sufficient (PerProtocolCredentialPolicy protocols dflt) protocol =
     is_sufficient (case protocols protocol of Some q \<Rightarrow> q | None \<Rightarrow> dflt) protocol"
  by (simp split: option.splits)

lemma is_sufficient_contract: "credential_policy (is_sufficient p)"
proof (induction p)
  case (AnySingleCredentialPolicy supported)
  then show ?case using any_single_contract by simp
next
  case (AllCredentialsPolicy required supported)
  then show ?case using all_contract by simp
next
  case (PerProtocolCredentialPolicy protocols dflt)
  let ?q = "\<lambda>protocol. case protocols protocol of Some q \<Rightarrow> q | None \<Rightarrow> dflt"
  have "credential_policy (is_sufficient (?q protocol))" for protocol
  proof (cases "protocols protocol")
    case None
    with PerProtocolCredentialPolicy(2) show ?thesis by simp
  next
    case (Some q)
    with PerProtocolCredentialPolicy(1) [of "Some q" q] show ?thesis
      by (metis option.set_intros option.simps(5) rangeI)
  qed
  then show ?case
    unfolding credential_policy_def per_protocol_dispatch by blast
qed

interpretation pol: credential_policy "is_sufficient p" for p
  by (rule is_sufficient_contract)

section \<open>Login selectors (selector.rs)\<close>

datatype AuthSelector =
    User (username: string) (target_name: string) (account: "string option")
  | Ticket (secret: string)

definition TICKET_SELECTOR_PREFIX :: string where
  "TICKET_SELECTOR_PREFIX = ''ticket-''"

text \<open>\<open>parts.next().unwrap_or("")\<close> on the parts of the split.\<close>

definition part :: "string list \<Rightarrow> nat \<Rightarrow> string" where
  "part ps i = (if i < length ps then ps ! i else [])"

definition selector_from :: "string \<Rightarrow> AuthSelector" where
  "selector_from s =
     (case strip_prefix TICKET_SELECTOR_PREFIX s of
        Some sec \<Rightarrow> Ticket sec
      | None \<Rightarrow>
          (let separator = (if CHR ''#'' \<in> set s then CHR ''#'' else CHR '':'');
               parts = splitn 3 separator s
           in User (part parts 0) (part parts 1)
                (if 2 < length parts \<and> parts ! 2 \<noteq> [] then Some (parts ! 2) else None)))"

fun selector_debug :: "AuthSelector \<Rightarrow> string" where
  "selector_debug (User u t None) = ''<'' @ u @ '' for '' @ t @ ''>''"
| "selector_debug (User u t (Some a)) = ''<'' @ u @ '' for '' @ t @ '' as '' @ a @ ''>''"
| "selector_debug (Ticket _) = ''<ticket>''"

section \<open>Authentication state (state.rs)\<close>

record AuthStateUserInfo =
  ui_id :: uuid
  ui_username :: string

datatype AuthResult =
    Accepted AuthStateUserInfo
  | Need "CredentialKind set"
  | Rejected

text \<open>
  The broadcast channel of the state change signal is the list of the results sent
  on it, oldest first. Time and randomness are arguments.
\<close>

record AuthState =
  as_id :: uuid
  as_user_info :: AuthStateUserInfo
  as_session_id :: "uuid option"
  as_protocol :: string
  force_rejected :: bool
  policy :: CredentialPolicy
  valid_credentials :: "AuthCredential list"
  started :: nat
  identification_string :: string
  last_result :: "AuthResult option"
  state_change_signal :: "AuthResult list"

definition hex_digit :: "nat \<Rightarrow> char" where
  "hex_digit n = char_of (if n < 10 then 48 + n else 55 + n)"

text \<open>The four draws of \<open>rng.gen_range(0..16)\<close> are the argument.\<close>

definition generate_identification_string :: "nat \<Rightarrow> nat \<Rightarrow> nat \<Rightarrow> nat \<Rightarrow> string" where
  "generate_identification_string a b c d = map hex_digit [a, b, c, d]"

definition current_verification_state :: "AuthState \<Rightarrow> AuthResult" where
  "current_verification_state st =
     (if force_rejected st then Rejected
      else (case is_sufficient (policy st) (as_protocol st) (valid_credentials st) of
              Ok \<Rightarrow> Accepted (as_user_info st)
            | CredentialPolicyResponse.Need kinds \<Rightarrow> AuthResult.Need kinds))"

definition verify :: "AuthState \<Rightarrow> AuthResult" where
  "verify st = current_verification_state st"

definition maybe_update_verification_state :: "AuthState \<Rightarrow> AuthState" where
  "maybe_update_verification_state st =
     (let new_result = current_verification_state st;
          st' = (if Some new_result \<noteq> last_result st
                 then st\<lparr>state_change_signal := state_change_signal st @ [new_result]\<rparr>
                 else st)
      in st'\<lparr>last_result := Some new_result\<rparr>)"

definition auth_state_new ::
  "uuid \<Rightarrow> uuid option \<Rightarrow> AuthStateUserInfo \<Rightarrow> string \<Rightarrow> CredentialPolicy \<Rightarrow> nat \<Rightarrow> string \<Rightarrow> AuthState"
where
  "auth_state_new i session_id user_info protocol pol now ident =
     maybe_update_verification_state
       \<lparr>as_id = i, as_user_info = user_info, as_session_id = session_id,
        as_protocol = protocol, force_rejected = False, policy = pol,
        valid_credentials = [], started = now, identification_string = ident,
        last_result = None, state_change_signal = []\<rparr>"

definition add_valid_credential :: "AuthState \<Rightarrow> AuthCredential \<Rightarrow> AuthState" where
  "add_valid_credential st c =
     maybe_update_verification_state (st\<lparr>valid_credentials := valid_credentials st @ [c]\<rparr>)"

definition reject :: "AuthState \<Rightarrow> AuthState" where
  "reject st = st\<lparr>force_rejected := True\<rparr>"

section \<open>Runs of an authentication state\<close>

datatype auth_event = AddCredential AuthCredential | Reject

fun auth_step :: "AuthState \<Rightarrow> auth_event \<Rightarrow> AuthState" where
  "auth_step st (AddCredential c) = add_valid_credential st c"
| "auth_step st Reject = reject st"

fun added :: "auth_event list \<Rightarrow> AuthCredential list" where
  "added [] = []"
| "added (AddCredential c # es) = c # added es"
| "added (Reject # es) = added es"

lemma added_append [simp]: "added (es @ fs) = added es @ added fs"
  by (induction es rule: added.induct) auto

lemma maybe_update_frame [simp]:
  "as_user_info (maybe_update_verification_state st) = as_user_info st"
  "as_protocol (maybe_update_verification_state st) = as_protocol st"
  "policy (maybe_update_verification_state st) = policy st"
  "force_rejected (maybe_update_verification_state st) = force_rejected st"
  "valid_credentials (maybe_update_verification_state st) = valid_credentials st"
  by (simp_all add: maybe_update_verification_state_def Let_def)

lemma auth_step_frame [simp]:
  "as_user_info (auth_step st e) = as_user_info st"
  "as_protocol (auth_step st e) = as_protocol st"
  "policy (auth_step st e) = policy st"
  by (cases e; simp add: add_valid_credential_def reject_def)+

lemma auth_run_frame [simp]:
  "as_user_info (foldl auth_step st es) = as_user_info st"
  "as_protocol (foldl auth_step st es) = as_protocol st"
  "policy (foldl auth_step st es) = policy st"
  by (induction es arbitrary: st) simp_all

lemma auth_run_state [simp]:
  "valid_credentials (foldl auth_step st es) = valid_credentials st @ added es"
  "force_rejected (foldl auth_step st es) \<longleftrightarrow> force_rejected st \<or> Reject \<in> set es"
  by (induction es arbitrary: st rule: added.induct)
    (auto simp: add_valid_credential_def reject_def)

lemma auth_state_new_fields [simp]:
  "as_user_info (auth_state_new i s ui pr p now ident) = ui"
  "as_protocol (auth_state_new i s ui pr p now ident) = pr"
  "policy (auth_state_new i s ui pr p now ident) = p"
  "force_rejected (auth_state_new i s ui pr p now ident) = False"
  "valid_credentials (auth_state_new i s ui pr p now ident) = []"
  by (simp_all add: auth_state_new_def)

lemma verify_Accepted:
  "verify st = Accepted ui \<longleftrightarrow>
     \<not> force_rejected st \<and> ui = as_user_info st \<and>
     is_sufficient (policy st) (as_protocol st) (valid_credentials st) = Ok"
  by (auto simp: verify_def current_verification_state_def split: CredentialPolicyResponse.splits)

text \<open>
  The results seen at the points where the state looks at its policy again: these
  are the ones the change signal reports.
\<close>

fun observed :: "AuthState \<Rightarrow> auth_event list \<Rightarrow> AuthResult list" where
  "observed st [] = []"
| "observed st (AddCredential c # es) =
     (let st' = auth_step st (AddCredential c) in verify st' # observed st' es)"
| "observed st (Reject # es) = observed (auth_step st Reject) es"

lemma remdups_adj_snoc:
  "remdups_adj (xs @ [x]) =
     (if xs \<noteq> [] \<and> last xs = x then remdups_adj xs else remdups_adj xs @ [x])"
  by (induction xs rule: remdups_adj.induct) auto

definition signal_log :: "AuthState \<Rightarrow> AuthResult list \<Rightarrow> bool" where
  "signal_log st xs \<longleftrightarrow>
     xs \<noteq> [] \<and> state_change_signal st = remdups_adj xs \<and> last_result st = Some (last xs)"

lemma verify_update_cong:
  "verify (maybe_update_verification_state st) = verify st"
  by (simp add: verify_def current_verification_state_def split: CredentialPolicyResponse.split)

lemma signal_log_update:
  "signal_log st xs \<Longrightarrow> st' = st\<lparr>valid_credentials := cs\<rparr> \<Longrightarrow>
     signal_log (maybe_update_verification_state st') (xs @ [verify st'])"
  by (auto simp: signal_log_def maybe_update_verification_state_def Let_def verify_def
      remdups_adj_snoc)

lemma signal_log_run:
  "signal_log st xs \<Longrightarrow> signal_log (foldl auth_step st es) (xs @ observed st es)"
proof (induction st es arbitrary: xs rule: observed.induct)
  case (1 st)
  then show ?case by simp
next
  case (2 st c es)
  from signal_log_update [OF 2(2) refl]
  have "signal_log (auth_step st (AddCredential c)) (xs @ [verify (auth_step st (AddCredential c))])"
    by (simp add: add_valid_credential_def verify_update_cong)
  from 2(1) [OF refl this] show ?case by (simp add: Let_def)
next
  case (3 st es)
  then have "signal_log (auth_step st Reject) xs"
    by (simp add: signal_log_def reject_def)
  from 3(1) [OF this] show ?case by simp
qed

lemma signal_log_new:
  "signal_log (auth_state_new i s ui pr p now ident) [verify (auth_state_new i s ui pr p now ident)]"
  by (simp add: signal_log_def auth_state_new_def verify_update_cong)
    (simp add: maybe_update_verification_state_def verify_def Let_def)

section \<open>Selectors\<close>

fun render_selector :: "char \<Rightarrow> string \<Rightarrow> string \<Rightarrow> string option \<Rightarrow> string" where
  "render_selector sep u t None = u @ sep # t"
| "render_selector sep u t (Some a) = u @ sep # t @ sep # a"

lemma takeWhile_neq_append: "c \<notin> set u \<Longrightarrow> takeWhile (\<lambda>x. x \<noteq> c) (u @ c # r) = u"
  by (induction u) auto

lemma dropWhile_neq_append: "c \<notin> set u \<Longrightarrow> dropWhile (\<lambda>x. x \<noteq> c) (u @ c # r) = c # r"
  by (induction u) auto

lemma splitn_step:
  "c \<notin> set u \<Longrightarrow> splitn (Suc (Suc n)) c (u @ c # r) = u # splitn (Suc n) c r"
  by (simp add: takeWhile_neq_append dropWhile_neq_append)

lemma splitn3_render:
  assumes "sep \<notin> set u" and "sep \<notin> set t"
  shows "splitn 3 sep (render_selector sep u t a) =
           (case a of None \<Rightarrow> [u, t] | Some x \<Rightarrow> [u, t, x])"
  using assms by (cases a) (simp_all add: eval_nat_numeral splitn_step del: splitn.simps(3),
      simp_all add: eval_nat_numeral)

section \<open>Properties\<close>

text \<open>
  C1. What a login has to bring. From a fresh authentication state, after any
  sequence of validated credentials and rejections, the state is accepted for a user
  exactly when that user is the one the state was made for, nobody rejected it and
  its policy finds the credentials presented so far sufficient for its protocol.
\<close>

theorem auth_accept_iff:
  "verify (foldl auth_step (auth_state_new i s ui pr p now ident) es) = Accepted ui' \<longleftrightarrow>
     ui' = ui \<and> Reject \<notin> set es \<and> is_sufficient p pr (added es) = Ok"
  by (auto simp: verify_Accepted)

text \<open>
  C3. Multi-factor policies hold: where the user's policy requires a set of
  credential kinds for the protocol, a login over that protocol is accepted only
  after a credential of every required kind was validated, and never when the
  required set is empty.
\<close>

theorem auth_mfa:
  assumes "ps pr = Some (AllCredentialsPolicy required supported)"
  shows "verify (foldl auth_step
           (auth_state_new i s ui pr (PerProtocolCredentialPolicy ps dflt) now ident) es) = Accepted ui'
         \<longleftrightarrow> ui' = ui \<and> Reject \<notin> set es \<and> required \<noteq> {} \<and> required \<subseteq> kind ` set (added es)"
  using assms by (auto simp: verify_Accepted all_is_sufficient_def Let_def split: if_splits)

theorem auth_mfa_witness:
  "verify (foldl auth_step
     (auth_state_new 1 None \<lparr>ui_id = 7, ui_username = ''bob''\<rparr> ''SSH''
        (PerProtocolCredentialPolicy
          [''SSH'' \<mapsto> AllCredentialsPolicy {CredentialKind.Password, CredentialKind.Totp} {}]
          (AnySingleCredentialPolicy {CredentialKind.Password})) 0 ''00FF'')
     [AddCredential (Password ''pw''), AddCredential (Otp ''123456'')]) =
   Accepted \<lparr>ui_id = 7, ui_username = ''bob''\<rparr>"
  using auth_mfa [of "[''SSH'' \<mapsto> AllCredentialsPolicy {CredentialKind.Password, CredentialKind.Totp} {}]"
      "''SSH''" "{CredentialKind.Password, CredentialKind.Totp}" "{}" 1 None
      "\<lparr>ui_id = 7, ui_username = ''bob''\<rparr>" "AnySingleCredentialPolicy {CredentialKind.Password}" 0
      "''00FF''" "[AddCredential (Password ''pw''), AddCredential (Otp ''123456'')]"
      "\<lparr>ui_id = 7, ui_username = ''bob''\<rparr>"]
  by simp

text \<open>
  Acceptance is final until a rejection: once some prefix of the events makes the
  state accepted, it stays accepted after further events exactly when none of them
  is a rejection.
\<close>

lemma auth_accept_stable:
  assumes "verify (foldl auth_step (auth_state_new i s ui pr p now ident) es) = Accepted ui"
  shows "verify (foldl auth_step (auth_state_new i s ui pr p now ident) (es @ fs)) = Accepted ui
         \<longleftrightarrow> Reject \<notin> set fs"
  using assms by (auto simp: verify_Accepted intro: pol.ok_append)

lemma auth_accept_stable_witness:
  "verify (foldl auth_step
     (auth_state_new 1 None \<lparr>ui_id = 7, ui_username = ''bob''\<rparr> ''SSH''
        (AnySingleCredentialPolicy {CredentialKind.Password}) 0 ''00FF'')
     ([AddCredential (Password ''pw'')] @ [AddCredential WebUserApproval, Reject])) \<noteq>
   Accepted \<lparr>ui_id = 7, ui_username = ''bob''\<rparr>"
proof -
  let ?s0 = "auth_state_new 1 None \<lparr>ui_id = 7, ui_username = ''bob''\<rparr> ''SSH''
        (AnySingleCredentialPolicy {CredentialKind.Password}) 0 ''00FF''"
  have "verify (foldl auth_step ?s0 [AddCredential (Password ''pw'')]) =
      Accepted \<lparr>ui_id = 7, ui_username = ''bob''\<rparr>"
    by (simp add: verify_Accepted any_single_is_sufficient_def add_valid_credential_def)
  from auth_accept_stable [OF this, of "[AddCredential WebUserApproval, Reject]"]
  show ?thesis by simp
qed

text \<open>
  The change signal is exact. The results broadcast over the life of an
  authentication state are the results at its creation and after each validated
  credential, in order, with adjacent repetitions removed: a listener never sees the
  same result twice in a row, and misses no change of the result.
\<close>

lemma auth_signals_exact:
  "let s0 = auth_state_new i s ui pr p now ident;
       sent = state_change_signal (foldl auth_step s0 es)
   in sent = remdups_adj (verify s0 # observed s0 es) \<and> distinct_adj sent"
  using signal_log_run [OF signal_log_new [of i s ui pr p now ident], of es]
  by (simp add: signal_log_def Let_def distinct_adj_remdups_adj)

text \<open>
  Selectors read back. A user selector written with either separator, a user name
  and a target name without that separator and an optional non-empty account is
  parsed into exactly these parts, unless the text starts with the ticket prefix;
  with the colon no part may hold a hash sign.
\<close>

lemma selector_roundtrip:
  assumes "sep = CHR ''#'' \<or> sep = CHR '':'' \<and> CHR ''#'' \<notin> set (render_selector sep u t a)"
    and "sep \<notin> set u" and "sep \<notin> set t" and "a \<noteq> Some []"
    and "\<not> prefix TICKET_SELECTOR_PREFIX (render_selector sep u t a)"
  shows "selector_from (render_selector sep u t a) = User u t a"
proof -
  have "sep \<in> set (render_selector sep u t a)"
    by (cases a) auto
  with assms(1) have "(if CHR ''#'' \<in> set (render_selector sep u t a) then CHR ''#'' else CHR '':'') = sep"
    by auto
  with assms(2-5) show ?thesis
    by (auto simp: selector_from_def strip_prefix_def Let_def part_def splitn3_render
        split: option.splits)
qed

lemma selector_roundtrip_witness:
  "selector_from ''alice:web:deploy:1'' = User ''alice'' ''web'' (Some ''deploy:1'')"
  using selector_roundtrip [of "CHR '':''" "''alice''" "''web''" "Some ''deploy:1''"]
  by (simp add: TICKET_SELECTOR_PREFIX_def)

end
