(* ===== verification/Otp.thy ===== *)
theory Otp
  imports Rust_Std
begin

text \<open>
  One-time passwords (\<open>gated-common/src/helpers/otp.rs\<close>): the check of a code against
  a secret and the replay table \<open>CONSUMED_TOTP\<close>. The code generator and the
  acceptance test of the third-party \<open>TOTP\<close> type and the standard library's hasher
  are arguments; the clock is the argument \<open>now\<close>, in seconds.
\<close>

definition STEP :: nat where "STEP = 30"
definition SKEW :: nat where "SKEW = 1"

definition CONSUMED_TTL_SECS :: nat where
  "CONSUMED_TTL_SECS = STEP * (2 * SKEW + 1) + STEP"

type_synonym consumed = "nat \<times> nat \<Rightarrow> nat option"

datatype TotpCheck = Valid | Invalid | Reused

definition matched_counter ::
  "(bytes \<Rightarrow> nat \<Rightarrow> string) \<Rightarrow> bytes \<Rightarrow> string \<Rightarrow> nat \<Rightarrow> nat option" where
  "matched_counter generate key code now =
     (let basestep = now div STEP - SKEW
      in find (\<lambda>counter. generate key (counter * STEP) = code)
           [basestep ..< basestep + (SKEW * 2 + 1)])"

definition prune_consumed :: "consumed \<Rightarrow> nat \<Rightarrow> consumed" where
  "prune_consumed m now =
     (\<lambda>k. case m k of None \<Rightarrow> None
          | Some ts \<Rightarrow> if now - ts < CONSUMED_TTL_SECS then Some ts else None)"

definition check_totp ::
  "(bytes \<Rightarrow> nat \<Rightarrow> string) \<Rightarrow> (bytes \<Rightarrow> string \<Rightarrow> nat \<Rightarrow> bool) \<Rightarrow> (bytes \<Rightarrow> nat)
     \<Rightarrow> consumed \<Rightarrow> string \<Rightarrow> bytes \<Rightarrow> nat \<Rightarrow> TotpCheck \<times> consumed" where
  "check_totp generate check fingerprint m code key now =
     (if \<not> check key code now then (Invalid, m)
      else (case matched_counter generate key code now of
              None \<Rightarrow> (Invalid, m)
            | Some counter \<Rightarrow>
                (let k = (fingerprint key, counter); pruned = prune_consumed m now
                 in (case pruned k of
                       Some _ \<Rightarrow> (Reused, pruned(k \<mapsto> now))
                     | None \<Rightarrow> (Valid, pruned(k \<mapsto> now))))))"

definition verify_totp ::
  "(bytes \<Rightarrow> nat \<Rightarrow> string) \<Rightarrow> (bytes \<Rightarrow> string \<Rightarrow> nat \<Rightarrow> bool) \<Rightarrow> (bytes \<Rightarrow> nat)
     \<Rightarrow> consumed \<Rightarrow> string \<Rightarrow> bytes \<Rightarrow> nat \<Rightarrow> bool \<times> consumed" where
  "verify_totp generate check fingerprint m code key now =
     (let (r, m') = check_totp generate check fingerprint m code key now in (r = Valid, m'))"

section \<open>Runs of checks\<close>

text \<open>
  A run checks a list of (code, secret, time) requests and collects, for every code
  found valid, the replay key it was bound to.
\<close>

fun totp_run where
  "totp_run generate check fingerprint m [] = []"
| "totp_run generate check fingerprint m ((code, key, now) # rs) =
     (let (r, m') = check_totp generate check fingerprint m code key now
      in (if r = Valid
          then [(fingerprint key, the (matched_counter generate key code now))] else [])
         @ totp_run generate check fingerprint m' rs)"

lemma matched_counter_window:
  assumes "matched_counter generate key code now = Some c"
  shows "STEP * c \<le> now + 2 * STEP \<and> now < STEP * (c + 2)"
proof -
  from assms have "now div STEP - SKEW \<le> c" and "c < now div STEP - SKEW + 3"
    by (auto simp: matched_counter_def SKEW_def Let_def dest: find_Some_in)
  then show ?thesis
    by (cases "now div 30") (auto simp: STEP_def SKEW_def)
qed

text \<open>
  Every stored entry was made inside the window of its counter, and an accepted
  counter is either still stored or can no longer be matched.
\<close>

definition totp_inv :: "consumed \<Rightarrow> (nat \<times> nat) set \<Rightarrow> nat \<Rightarrow> bool" where
  "totp_inv m A now \<longleftrightarrow>
     (\<forall>k c ts. m (k, c) = Some ts \<longrightarrow> STEP * c \<le> ts + 2 * STEP) \<and>
     (\<forall>(k, c) \<in> A. (k, c) \<in> dom m \<or> STEP * (c + 2) \<le> now)"

lemma prune_inv:
  assumes "totp_inv m A t" and "t \<le> now"
  shows "totp_inv (prune_consumed m now) A now"
proof -
  have "(k, c) \<in> dom (prune_consumed m now) \<or> STEP * (c + 2) \<le> now" if "(k, c) \<in> A" for k c
  proof (cases "m (k, c)")
    case None
    with assms that show ?thesis by (force simp: totp_inv_def)
  next
    case (Some ts)
    with assms have "STEP * c \<le> ts + 2 * STEP" by (simp add: totp_inv_def)
    with Some show ?thesis
      by (auto simp: prune_consumed_def dom_def CONSUMED_TTL_SECS_def STEP_def SKEW_def)
  qed
  moreover have "STEP * c \<le> ts + 2 * STEP" if "prune_consumed m now (k, c) = Some ts" for k c ts
    using that assms by (auto simp: prune_consumed_def totp_inv_def split: option.splits if_splits)
  ultimately show ?thesis by (auto simp: totp_inv_def)
qed

lemma totp_inv_mono: "totp_inv m A t \<Longrightarrow> t \<le> now \<Longrightarrow> totp_inv m A now"
  by (fastforce simp: totp_inv_def)

lemma check_totp_inv:
  assumes inv: "totp_inv m A t" and "t \<le> now"
    and chk: "check_totp generate check fingerprint m code key now = (r, m')"
  defines "k \<equiv> (fingerprint key, the (matched_counter generate key code now))"
  shows "totp_inv m' (if r = Valid then insert k A else A) now \<and> (r = Valid \<longrightarrow> k \<notin> A)"
proof (cases "check key code now \<and> (\<exists>c. matched_counter generate key code now = Some c)")
  case False
  with chk have "r = Invalid \<and> m' = m"
    by (auto simp: check_totp_def split: if_splits option.splits)
  with totp_inv_mono [OF inv \<open>t \<le> now\<close>] show ?thesis by simp
next
  case True
  then obtain c where c: "matched_counter generate key code now = Some c" by blast
  then have k: "k = (fingerprint key, c)" by (simp add: k_def)
  let ?p = "prune_consumed m now"
  have p: "totp_inv ?p A now" by (rule prune_inv [OF inv \<open>t \<le> now\<close>])
  have m': "m' = ?p(k \<mapsto> now)" and r: "r = Valid \<longleftrightarrow> ?p k = None"
    using True chk c k by (auto simp: check_totp_def Let_def split: option.splits)
  from matched_counter_window [OF c]
  have w: "STEP * c \<le> now + 2 * STEP" "\<not> STEP * (c + 2) \<le> now" by auto
  have "totp_inv m' (insert k A) now"
    using p w(1) by (auto simp: totp_inv_def m' k)
  moreover have "k \<notin> A" if "r = Valid"
    using that p w(2) r by (auto simp: totp_inv_def k)
  ultimately show ?thesis by (auto simp: totp_inv_def)
qed

lemma totp_run_distinct:
  assumes "totp_inv m A t" and "sorted (map (\<lambda>(code, key, now). now) rs)"
    and "\<forall>(code, key, now) \<in> set rs. t \<le> now"
  shows "distinct (totp_run generate check fingerprint m rs) \<and>
         set (totp_run generate check fingerprint m rs) \<inter> A = {}"
  using assms
proof (induction rs arbitrary: m A t)
  case Nil
  then show ?case by simp
next
  case (Cons q rs)
  obtain code key now where q: "q = (code, key, now)" by (cases q) auto
  obtain r m' where chk: "check_totp generate check fingerprint m code key now = (r, m')"
    by (cases "check_totp generate check fingerprint m code key now") auto
  let ?k = "(fingerprint key, the (matched_counter generate key code now))"
  let ?A = "if r = Valid then insert ?k A else A"
  from Cons.prems q have "t \<le> now" by simp
  from check_totp_inv [OF Cons.prems(1) this chk]
  have "totp_inv m' ?A now" and fresh: "r = Valid \<longrightarrow> ?k \<notin> A" by auto
  moreover have "sorted (map (\<lambda>(code, key, now). now) rs)" and "\<forall>(code, key, n) \<in> set rs. now \<le> n"
    using Cons.prems(2) q by auto
  ultimately have "distinct (totp_run generate check fingerprint m' rs) \<and>
      set (totp_run generate check fingerprint m' rs) \<inter> ?A = {}"
    by (intro Cons.IH)
  with fresh chk q show ?case by (auto split: if_splits)
qed

text \<open>
  C2. A one-time password is single use. Whatever codes are checked against whatever
  secrets, as long as the clock does not run backwards, no two of the accepted checks
  are bound to the same secret fingerprint and time step, starting from an empty
  replay table: a captured code is never accepted a second time.
\<close>

theorem totp_single_use:
  assumes "sorted (map (\<lambda>(code, key, now). now) rs)"
  shows "distinct (totp_run generate check fingerprint Map.empty rs)"
  using totp_run_distinct [of Map.empty "{}" 0 rs] assms by (simp add: totp_inv_def)

theorem totp_single_use_witness:
  "distinct (totp_run (\<lambda>key t. if t = 60 then ''123456'' else ''000000'')
     (\<lambda>key code now. code = ''123456'') (\<lambda>key. 7) Map.empty
     [(''123456'', [1], 65), (''123456'', [1], 80), (''123456'', [1], 119)]) \<and>
   totp_run (\<lambda>key t. if t = 60 then ''123456'' else ''000000'')
     (\<lambda>key code now. code = ''123456'') (\<lambda>key. 7) Map.empty
     [(''123456'', [1], 65), (''123456'', [1], 80), (''123456'', [1], 119)] = [(7, 2)]"
proof
  show "distinct (totp_run (\<lambda>key t. if t = 60 then ''123456'' else ''000000'')
     (\<lambda>key code now. code = ''123456'') (\<lambda>key. 7) Map.empty
     [(''123456'', [1], 65), (''123456'', [1], 80), (''123456'', [1], 119)])"
    by (rule totp_single_use) simp
  show "totp_run (\<lambda>key t. if t = 60 then ''123456'' else ''000000'')
     (\<lambda>key code now. code = ''123456'') (\<lambda>key. 7) Map.empty
     [(''123456'', [1], 65), (''123456'', [1], 80), (''123456'', [1], 119)] = [(7, 2)]"
    by code_simp
qed

end
