(* ===== verification/Errors.thy ===== *)
theory Errors
  imports Prelude
begin

text \<open>
  The error type of the gateway (\<open>gated-common/src/error.rs\<close>) and the HTTP status
  each variant is answered with. Payloads that are errors of third-party crates are
  left out; the variant is what the code branches on.
\<close>

datatype GatedError =
    DatabaseError
  | InvalidTicket uuid
  | InvalidCredentialType
  | Other
  | UserNotFound string
  | RoleNotFound string
  | NotFound
  | UrlParse
  | DeserializeJson
  | ExternalHostUnknown
  | ExternalHostNotWhitelisted string "string list"
  | NoHostInUrl
  | InconsistentState
  | Anyhow
  | SsoError
  | Ca
  | RusshKeys
  | Io
  | RateLimiterInsufficientCapacity
  | RateLimiterInvalidQuota u32
  | SessionEnd
  | RcGen
  | TlsSetup
  | Reqwest

fun status_code :: "GatedError \<Rightarrow> nat" where
  "status_code (InvalidTicket _) = 404"
| "status_code (UserNotFound _) = 404"
| "status_code (RoleNotFound _) = 404"
| "status_code NotFound = 404"
| "status_code InvalidCredentialType = 400"
| "status_code UrlParse = 400"
| "status_code DeserializeJson = 400"
| "status_code (ExternalHostNotWhitelisted _ _) = 400"
| "status_code NoHostInUrl = 400"
| "status_code (RateLimiterInvalidQuota _) = 400"
| "status_code RusshKeys = 400"
| "status_code SessionEnd = 410"
| "status_code Reqwest = 502"
| "status_code _ = 500"

lemma status_code_is_error: "400 \<le> status_code e \<and> status_code e < 600"
  by (cases e) simp_all

end
