(* ===== verification/Target_Config.thy ===== *)
theory Target_Config
  imports Prelude Rust_Std
begin

text \<open>
  The connection options of a target and the credentials of an account, as
  \<open>gated-common/src/config/target.rs\<close> and \<open>gated-common/src/types/account.rs\<close>
  declare them. A \<open>Secret\<close> is its content; a hash map of headers is a partial map.
\<close>

section \<open>Target options (target.rs)\<close>

datatype TlsMode = Disabled | Preferred | Required

record Tls =
  tls_mode :: TlsMode
  tls_verify :: bool

definition tls_default :: Tls where
  "tls_default = \<lparr>tls_mode = Required, tls_verify = True\<rparr>"

record SshTargetPublicKeyAuth =
  spk_private_key_pem :: "string option"
  spk_passphrase :: "string option"

datatype SSHTargetAuth =
    SshAuthPassword string
  | SshAuthPublicKey SshTargetPublicKeyAuth

definition ssh_target_auth_default :: SSHTargetAuth where
  "ssh_target_auth_default =
     SshAuthPublicKey \<lparr>spk_private_key_pem = None, spk_passphrase = None\<rparr>"

record TargetSSHOptions =
  ssh_host :: string
  ssh_port :: u16
  ssh_username :: string
  allow_insecure_algos :: "bool option"
  ssh_auth :: SSHTargetAuth

record TargetMySqlOptions =
  my_host :: string
  my_port :: u16
  my_username :: string
  my_password :: "string option"
  my_tls :: Tls
  my_default_database_name :: "string option"
  my_readonly :: bool

record TargetPostgresOptions =
  pg_host :: string
  pg_port :: u16
  pg_username :: string
  pg_password :: "string option"
  pg_tls :: Tls
  pg_idle_timeout :: "string option"
  pg_default_database_name :: "string option"
  pg_readonly :: bool

datatype UpstreamAuth =
    NoUpstreamAuth
  | HeadersUpstreamAuth "string \<rightharpoonup> string"
  | BearerTokenUpstreamAuth string
  | ClientCertificateUpstreamAuth string string

datatype HttpProxyFlavor = Generic | Kubernetes

record TargetHttpOptions =
  http_url :: string
  http_tls :: Tls
  http_ca_certificate :: "string option"
  http_upstream_auth :: UpstreamAuth
  http_flavor :: HttpProxyFlavor

datatype TargetOptions =
    SshOptions TargetSSHOptions
  | HttpOptions TargetHttpOptions
  | MySqlOptions TargetMySqlOptions
  | PostgresOptions TargetPostgresOptions

datatype TargetKind = HttpKind | MySqlKind | SshKind | PostgresKind

fun target_kind :: "TargetOptions \<Rightarrow> TargetKind" where
  "target_kind (HttpOptions _) = HttpKind"
| "target_kind (MySqlOptions _) = MySqlKind"
| "target_kind (PostgresOptions _) = PostgresKind"
| "target_kind (SshOptions _) = SshKind"

datatype TargetAccountRole = Primary | Fallback | Readonly

fun target_account_role_str :: "TargetAccountRole \<Rightarrow> string" where
  "target_account_role_str Primary = ''primary''"
| "target_account_role_str Fallback = ''fallback''"
| "target_account_role_str Readonly = ''readonly''"

section \<open>Account credentials (account.rs)\<close>

datatype DbPasswordEngine = Mysql | Postgres

record SshPasswordAccountCredentials =
  sp_username :: string
  sp_password :: string

record SshKeyAccountCredentials =
  sk_username :: string
  sk_private_key_pem :: string
  sk_passphrase :: "string option"

record DbPasswordAccountCredentials =
  dp_engine :: DbPasswordEngine
  dp_username :: string
  dp_password :: string

record K8sTokenAccountCredentials =
  kt_token :: string
  kt_ca_pem :: "string option"
  kt_namespace :: "string option"

record K8sClientCertAccountCredentials =
  kc_certificate_pem :: string
  kc_private_key_pem :: string
  kc_passphrase :: "string option"
  kc_ca_pem :: "string option"
  kc_namespace :: "string option"

record HttpHeaderAccountCredential =
  hh_name :: string
  hh_value :: string
  hh_sensitive :: "bool option"

datatype AccountCredentials =
    SshPassword SshPasswordAccountCredentials
  | SshKey SshKeyAccountCredentials
  | DbPassword DbPasswordAccountCredentials
  | K8sToken K8sTokenAccountCredentials
  | K8sClientCert K8sClientCertAccountCredentials
  | HttpHeaders "HttpHeaderAccountCredential list"

fun account_credentials_kind :: "AccountCredentials \<Rightarrow> string" where
  "account_credentials_kind (SshPassword _) = ''ssh-password''"
| "account_credentials_kind (SshKey _) = ''ssh-key''"
| "account_credentials_kind (DbPassword _) = ''db-password''"
| "account_credentials_kind (K8sToken _) = ''k8s-token''"
| "account_credentials_kind (K8sClientCert _) = ''k8s-client-cert''"
| "account_credentials_kind (HttpHeaders _) = ''http-headers''"

end
