(* ===== verification/Access.thy ===== *)
theory Access
  imports Auth Otp Errors Target_Config "HOL-Library.List_Lexorder" "HOL-Library.Char_ord"
begin

text \<open>
  Access decisions taken from the database (\<open>gated-core/src/config_providers\<close>,
  \<open>gated-common/src/config/mod.rs\<close>, \<open>gated-common/src/helpers/hash.rs\<close> and the entity
  conversions of \<open>gated-db-entities\<close>): the user's credential policy, credential
  validation, role based authorisation, single sign-on accounts and role mappings,
  API tokens and tickets.
  A table is the list of its rows; \<open>one\<close> is the first row that matches; the shared
  connection is \<open>None\<close> while the database is locked. The unique indexes of the schema
  (user names, target names, primary keys) are checked on insertion. Hashes, the
  base64 encoding and the TOTP functions of third-party crates are the fields of
  the record \<open>crypto\<close>.
\<close>

section \<open>Third-party primitives\<close>

datatype argon_error = PasswordMismatch | OtherArgonError

record crypto =
  sha256_hex :: "string \<Rightarrow> string"
  password_hash_new :: "string \<Rightarrow> bool"
  argon2_verify :: "string \<Rightarrow> string \<Rightarrow> argon_error + unit"
  totp_generate :: "bytes \<Rightarrow> nat \<Rightarrow> string"
  totp_check :: "bytes \<Rightarrow> string \<Rightarrow> nat \<Rightarrow> bool"
  fingerprint :: "bytes \<Rightarrow> nat"
  base64 :: "bytes \<Rightarrow> string"

definition hash_secret :: "crypto \<Rightarrow> string \<Rightarrow> string" where
  "hash_secret cr s = sha256_hex cr s"

definition verify_password_hash :: "crypto \<Rightarrow> string \<Rightarrow> string \<Rightarrow> GatedError + bool" where
  "verify_password_hash cr password hash =
     (if \<not> password_hash_new cr hash then Inl Anyhow
      else (case argon2_verify cr password hash of
              Inr _ \<Rightarrow> Inr True
            | Inl PasswordMismatch \<Rightarrow> Inr False
            | Inl OtherArgonError \<Rightarrow> Inl Anyhow))"

section \<open>Users and their credentials (config/mod.rs)\<close>

record UserRequireCredentialsPolicy =
  http :: "CredentialKind list option"
  kubernetes :: "CredentialKind list option"
  ssh :: "CredentialKind list option"
  mysql :: "CredentialKind list option"
  postgres :: "CredentialKind list option"

datatype UserAuthCredential =
    UserPasswordCredential string
  | UserPublicKeyCredential string
  | UserCertificateCredential string
  | UserTotpCredential bytes
  | UserSsoCredential (usc_provider: "string option") (usc_email: string)
      (usc_iss: "string option") (usc_sub: "string option")

fun user_credential_kind :: "UserAuthCredential \<Rightarrow> CredentialKind" where
  "user_credential_kind (UserPasswordCredential _) = CredentialKind.Password"
| "user_credential_kind (UserPublicKeyCredential _) = CredentialKind.PublicKey"
| "user_credential_kind (UserCertificateCredential _) = CredentialKind.Certificate"
| "user_credential_kind (UserTotpCredential _) = CredentialKind.Totp"
| "user_credential_kind (UserSsoCredential _ _ _ _) = CredentialKind.Sso"

definition upgrade_to_otp ::
  "UserRequireCredentialsPolicy \<Rightarrow> UserAuthCredential list \<Rightarrow> UserRequireCredentialsPolicy" where
  "upgrade_to_otp p creds =
     (let p1 = (case http p of
                  Some ks \<Rightarrow> p\<lparr>http := Some (ks @ [Totp])\<rparr>
                | None \<Rightarrow>
                    (let kinds = (if \<exists>c \<in> set creds. user_credential_kind c = CredentialKind.Password
                                  then [CredentialKind.Password] else [])
                     in if kinds \<noteq> [] then p\<lparr>http := Some (kinds @ [Totp])\<rparr> else p))
      in (case ssh p1 of
            Some ks \<Rightarrow> p1\<lparr>ssh := Some (ks @ [Totp])\<rparr>
          | None \<Rightarrow>
              (let kinds = (if \<exists>c \<in> set creds. user_credential_kind c = CredentialKind.Password
                                 \<or> user_credential_kind c = CredentialKind.PublicKey
                            then [CredentialKind.Password] else [])
               in if kinds \<noteq> [] then p1\<lparr>ssh := Some (kinds @ [Totp])\<rparr> else p1)))"

definition remove_otp :: "CredentialKind list option \<Rightarrow> CredentialKind list option" where
  "remove_otp k =
     (case k of None \<Rightarrow> None
      | Some ks \<Rightarrow> (let ks' = filter (\<lambda>x. x \<noteq> Totp) ks in if ks' = [] then None else Some ks'))"

definition downgrade_from_otp ::
  "UserRequireCredentialsPolicy \<Rightarrow> UserRequireCredentialsPolicy option" where
  "downgrade_from_otp p =
     (let q = p\<lparr>http := remove_otp (http p), ssh := remove_otp (ssh p),
                kubernetes := remove_otp (kubernetes p), mysql := remove_otp (mysql p),
                postgres := remove_otp (postgres p)\<rparr>
      in if http q = None \<and> ssh q = None \<and> kubernetes q = None \<and> mysql q = None \<and> postgres q = None
         then None else Some q)"

definition default_require_policy :: UserRequireCredentialsPolicy where
  "default_require_policy =
     \<lparr>http = None, kubernetes = None, ssh = None, mysql = None, postgres = None\<rparr>"

section \<open>Tables\<close>

text \<open>
  \<open>ur_policy\<close>, \<open>tr_options\<close> and \<open>acc_credentials\<close> are the stored JSON after
  deserialisation: the outer \<open>None\<close> is a value that does not deserialise.
\<close>

record user_row =
  ur_id :: uuid
  ur_username :: string
  ur_description :: string
  ur_policy :: "UserRequireCredentialsPolicy option option"
  ur_rate_limit :: "int option"

record UserRec =
  user_id :: uuid
  user_name :: string
  user_description :: string
  credential_policy :: "UserRequireCredentialsPolicy option"
  user_rate_limit :: "int option"

record target_row =
  tr_id :: uuid
  tr_name :: string
  tr_description :: string
  tr_kind :: TargetKind
  tr_options :: "TargetOptions option"
  tr_rate_limit :: "int option"
  tr_group_id :: "uuid option"

record role_row =
  role_id :: uuid
  role_name :: string
  allow_file_transfer :: bool

record user_role_row =
  ura_id :: int
  ura_user :: uuid
  ura_role :: uuid

record target_role_row =
  tra_id :: int
  tra_target :: uuid
  tra_role :: uuid
  tra_account :: "int option"

record account_row =
  acc_id :: int
  acc_kind :: string
  acc_name :: string
  acc_credentials :: "AccountCredentials option"
  acc_last_used :: "nat option"

record target_account_row =
  tac_target :: uuid
  tac_account :: int
  tac_role :: string

record sso_row =
  sso_id :: uuid
  sso_user :: uuid
  sso_cred :: UserAuthCredential

record public_key_row =
  pk_id :: uuid
  pk_user :: uuid
  openssh_public_key :: string
  last_used :: "nat option"

record ticket_row =
  ticket_id :: uuid
  ticket_secret :: string
  ticket_username :: string
  ticket_target :: string
  uses_left :: "int option"
  ticket_expiry :: "nat option"

record token_row =
  token_id :: uuid
  token_user :: uuid
  token_secret :: string
  token_expiry :: nat

record Db =
  users :: "user_row list"
  targets :: "target_row list"
  roles :: "role_row list"
  user_roles :: "user_role_row list"
  target_roles :: "target_role_row list"
  otp_credentials :: "(uuid \<times> bytes) list"
  password_credentials :: "(uuid \<times> string) list"
  sso_credentials :: "sso_row list"
  public_keys :: "public_key_row list"
  certificates :: "(uuid \<times> string) list"
  tickets :: "ticket_row list"
  api_tokens :: "token_row list"
  accounts :: "account_row list"
  target_accounts :: "target_account_row list"

definition db_required :: "Db option \<Rightarrow> GatedError + Db" where
  "db_required db = ok_or Other db"

text \<open>The operations that write: the connection is required first, and the writes made
  before an error stay.\<close>

definition with_db ::
  "Db option \<Rightarrow> (Db \<Rightarrow> (GatedError + 'a) \<times> Db) \<Rightarrow> (GatedError + 'a) \<times> Db option" where
  "with_db db f =
     (case db_required db of
        Inl e \<Rightarrow> (Inl e, db)
      | Inr d \<Rightarrow> (let (r, d') = f d in (r, Some d')))"

definition user_try_from :: "user_row \<Rightarrow> GatedError + UserRec" where
  "user_try_from u =
     (case ur_policy u of
        None \<Rightarrow> Inl DeserializeJson
      | Some p \<Rightarrow> Inr \<lparr>user_id = ur_id u, user_name = ur_username u,
                       user_description = ur_description u, credential_policy = p,
                       user_rate_limit = ur_rate_limit u\<rparr>)"

text \<open>\<open>user.find_related(Role)\<close> and \<open>target.find_related(Role)\<close>: the join through the
  assignment table.\<close>

definition user_role_rows :: "Db \<Rightarrow> uuid \<Rightarrow> role_row list" where
  "user_role_rows db u =
     concat (map (\<lambda>a. filter (\<lambda>r. role_id r = ura_role a) (roles db))
       (filter (\<lambda>a. ura_user a = u) (user_roles db)))"

definition target_role_rows :: "Db \<Rightarrow> uuid \<Rightarrow> role_row list" where
  "target_role_rows db t =
     concat (map (\<lambda>a. filter (\<lambda>r. role_id r = tra_role a) (roles db))
       (filter (\<lambda>a. tra_target a = t) (target_roles db)))"

record UserDetails =
  ud_inner :: UserRec
  ud_credentials :: "UserAuthCredential list"
  ud_roles :: "string list"

definition load_details :: "Db \<Rightarrow> user_row \<Rightarrow> GatedError + UserDetails" where
  "load_details db u =
     (let rs = map role_name (user_role_rows db (ur_id u));
          creds = map (\<lambda>(_, k). UserTotpCredential k)
                      (filter (\<lambda>(i, _). i = ur_id u) (otp_credentials db)) @
                  map (\<lambda>(_, h). UserPasswordCredential h)
                      (filter (\<lambda>(i, _). i = ur_id u) (password_credentials db)) @
                  map sso_cred (filter (\<lambda>r. sso_user r = ur_id u) (sso_credentials db)) @
                  map (\<lambda>r. UserPublicKeyCredential (openssh_public_key r))
                      (filter (\<lambda>r. pk_user r = ur_id u) (public_keys db)) @
                  map (\<lambda>(_, c). UserCertificateCredential c)
                      (filter (\<lambda>(i, _). i = ur_id u) (certificates db))
      in rbind (user_try_from u)
           (\<lambda>inner. Inr \<lparr>ud_inner = inner, ud_credentials = creds, ud_roles = rs\<rparr>))"

definition user_by_name :: "Db \<Rightarrow> string \<Rightarrow> user_row option" where
  "user_by_name db n = find (\<lambda>u. ur_username u = n) (users db)"

definition target_by_name :: "Db \<Rightarrow> string \<Rightarrow> target_row option" where
  "target_by_name db n = find (\<lambda>t. tr_name t = n) (targets db)"

text \<open>\<open>collect::<Result<Vec<_>, _>>()\<close>: the first error, or all the values.\<close>

fun collect_results :: "('e + 'a) list \<Rightarrow> 'e + 'a list" where
  "collect_results [] = Inr []"
| "collect_results (r # rs) = rbind r (\<lambda>x. rbind (collect_results rs) (\<lambda>xs. Inr (x # xs)))"

definition list_users :: "Db option \<Rightarrow> GatedError + UserRec list" where
  "list_users db =
     rbind (db_required db) (\<lambda>db. collect_results (map user_try_from (sort_key ur_username (users db))))"

text \<open>The conversion of a target row keeps the columns; the stored limit is cut to 32 bits by
  the cast. A converted target is a row whose options deserialised.\<close>

definition target_try_from :: "target_row \<Rightarrow> GatedError + target_row" where
  "target_try_from t =
     (case tr_options t of
        None \<Rightarrow> Inl DeserializeJson
      | Some _ \<Rightarrow> Inr (t\<lparr>tr_rate_limit := map_option (\<lambda>v. v mod 2 ^ 32) (tr_rate_limit t)\<rparr>))"

definition list_targets :: "Db option \<Rightarrow> GatedError + target_row list" where
  "list_targets db =
     rbind (db_required db) (\<lambda>db. collect_results (map target_try_from (sort_key tr_name (targets db))))"

section \<open>Credential policy and validation (db.rs)\<close>

definition default_policy :: "CredentialKind set \<Rightarrow> CredentialPolicy" where
  "default_policy supported =
     AnySingleCredentialPolicy
       (if card supported > 1 then supported - {CredentialKind.WebUserApproval} else supported)"

definition protocol_insert ::
  "string \<Rightarrow> CredentialKind list option \<Rightarrow> CredentialKind set
     \<Rightarrow> (string \<Rightarrow> CredentialPolicy option) \<Rightarrow> string \<Rightarrow> CredentialPolicy option" where
  "protocol_insert name req supported m =
     (case req of None \<Rightarrow> m
      | Some p \<Rightarrow> m(name \<mapsto> AllCredentialsPolicy (set p) supported))"

definition requirement_policy ::
  "CredentialKind set \<Rightarrow> UserRequireCredentialsPolicy option \<Rightarrow> CredentialPolicy" where
  "requirement_policy supported requirements =
     (case requirements of
        None \<Rightarrow> default_policy supported
      | Some req \<Rightarrow>
          PerProtocolCredentialPolicy
            (protocol_insert ''SSH'' (ssh req) supported
              (protocol_insert ''PostgreSQL'' (postgres req) supported
                (protocol_insert ''MySQL'' (mysql req) supported
                  (protocol_insert ''HTTP'' (http req) supported Map.empty))))
            (default_policy supported))"

definition get_credential_policy ::
  "Db option \<Rightarrow> string \<Rightarrow> CredentialKind list \<Rightarrow> GatedError + CredentialPolicy option" where
  "get_credential_policy db uname supported_types =
     rbind (db_required db) (\<lambda>db.
       case user_by_name db uname of
         None \<Rightarrow> Inr None
       | Some user_model \<Rightarrow>
           rbind (load_details db user_model) (\<lambda>user.
             let available = insert CredentialKind.WebUserApproval
                               (set (map user_credential_kind (ud_credentials user)));
                 supported = set supported_types \<inter> available
             in Inr (Some (requirement_policy supported (credential_policy (ud_inner user))))))"

text \<open>\<open>any\<close> over the one-time password credentials stops at the first success and
  threads the replay cache.\<close>

fun any_totp ::
  "crypto \<Rightarrow> nat \<Rightarrow> consumed \<Rightarrow> string \<Rightarrow> UserAuthCredential list \<Rightarrow> bool \<times> consumed" where
  "any_totp cr now m code [] = (False, m)"
| "any_totp cr now m code (UserTotpCredential k # cs) =
     (let (ok, m') = verify_totp (totp_generate cr) (totp_check cr) (fingerprint cr) m code k now
      in if ok then (True, m') else any_totp cr now m' code cs)"
| "any_totp cr now m code (c # cs) = any_totp cr now m code cs"

fun password_matches :: "crypto \<Rightarrow> string \<Rightarrow> UserAuthCredential \<Rightarrow> bool" where
  "password_matches cr pw (UserPasswordCredential h) =
     (case verify_password_hash cr pw h of Inr b \<Rightarrow> b | Inl _ \<Rightarrow> False)"
| "password_matches cr pw _ = False"

fun sso_matches :: "string \<Rightarrow> string \<Rightarrow> UserAuthCredential \<Rightarrow> bool" where
  "sso_matches client_iss client_sub (UserSsoCredential _ _ i s) =
     (i = Some client_iss \<and> s = Some client_sub)"
| "sso_matches client_iss client_sub _ = False"

definition openssh_key :: "crypto \<Rightarrow> string \<Rightarrow> bytes \<Rightarrow> string" where
  "openssh_key cr k b = k @ '' '' @ base64 cr b"

definition validate_credential ::
  "crypto \<Rightarrow> nat \<Rightarrow> consumed \<Rightarrow> Db option \<Rightarrow> string \<Rightarrow> AuthCredential
     \<Rightarrow> (GatedError + bool) \<times> consumed" where
  "validate_credential cr now m db uname client_credential =
     (case db_required db of
        Inl e \<Rightarrow> (Inl e, m)
      | Inr db \<Rightarrow>
          (case user_by_name db uname of
             None \<Rightarrow> (Inr False, m)
           | Some user_model \<Rightarrow>
               (case load_details db user_model of
                  Inl e \<Rightarrow> (Inl e, m)
                | Inr details \<Rightarrow>
                    (case client_credential of
                       PublicKey k b \<Rightarrow>
                         (Inr (UserPublicKeyCredential (openssh_key cr k b)
                                 \<in> set (ud_credentials details)), m)
                     | Password pw \<Rightarrow>
                         (Inr (list_ex (password_matches cr pw) (ud_credentials details)), m)
                     | Otp code \<Rightarrow>
                         (let (ok, m') = any_totp cr now m code (ud_credentials details)
                          in (Inr ok, m'))
                     | Sso _ _ i s \<Rightarrow>
                         (Inr (list_ex (sso_matches i s) (ud_credentials details)), m)
                     | _ \<Rightarrow> (Inl InvalidCredentialType, m)))))"

section \<open>Role based authorisation (db.rs)\<close>

definition authorize_target :: "Db option \<Rightarrow> string \<Rightarrow> string \<Rightarrow> GatedError + bool" where
  "authorize_target db uname target =
     rbind (db_required db) (\<lambda>db.
       let target_model = target_by_name db target
       in (case user_by_name db uname of
             None \<Rightarrow> Inr False
           | Some u \<Rightarrow>
               (case target_model of
                  None \<Rightarrow> Inr False
                | Some t \<Rightarrow>
                    (let target_names = set (map role_name (target_role_rows db (tr_id t)));
                         user_names = set (map role_name (user_role_rows db (ur_id u)))
                     in Inr (card (user_names \<inter> target_names) > 0)))))"

definition authorize_file_transfer :: "Db option \<Rightarrow> string \<Rightarrow> string \<Rightarrow> GatedError + bool" where
  "authorize_file_transfer db uname target =
     rbind (db_required db) (\<lambda>db.
       case target_by_name db target of
         None \<Rightarrow> Inr False
       | Some t \<Rightarrow>
           (case user_by_name db uname of
              None \<Rightarrow> Inr False
            | Some u \<Rightarrow>
                (let target_ids = set (map role_id (target_role_rows db (tr_id t)))
                 in Inr (list_ex (\<lambda>r. allow_file_transfer r \<and> role_id r \<in> target_ids)
                           (user_role_rows db (ur_id u))))))"

section \<open>Single sign-on (db.rs)\<close>

text \<open>Insertions check the primary key and the unique user name; the new identifiers are
  arguments.\<close>

definition insert_user :: "user_row \<Rightarrow> Db \<Rightarrow> GatedError + Db" where
  "insert_user u db =
     (if ur_id u \<in> set (map ur_id (users db)) \<or> ur_username u \<in> set (map ur_username (users db))
      then Inl DatabaseError else Inr (db\<lparr>users := users db @ [u]\<rparr>))"

definition insert_sso :: "sso_row \<Rightarrow> Db \<Rightarrow> GatedError + Db" where
  "insert_sso r db =
     (if sso_id r \<in> set (map sso_id (sso_credentials db))
      then Inl DatabaseError else Inr (db\<lparr>sso_credentials := sso_credentials db @ [r]\<rparr>))"

definition maybe_autocreate_sso_user ::
  "uuid \<Rightarrow> uuid \<Rightarrow> UserAuthCredential \<Rightarrow> string \<Rightarrow> Db \<Rightarrow> (GatedError + string option) \<times> Db" where
  "maybe_autocreate_sso_user new_user new_cred credential preferred_username db =
     (case insert_user \<lparr>ur_id = new_user, ur_username = preferred_username, ur_description = [],
                        ur_policy = Some (Some default_require_policy), ur_rate_limit = None\<rparr> db of
        Inl e \<Rightarrow> (Inl e, db)
      | Inr db1 \<Rightarrow>
          (case insert_sso \<lparr>sso_id = new_cred, sso_user = new_user, sso_cred = credential\<rparr> db1 of
             Inl e \<Rightarrow> (Inl e, db1)
           | Inr db2 \<Rightarrow> (Inr (Some preferred_username), db2)))"

definition username_for_sso_credential ::
  "uuid \<Rightarrow> uuid \<Rightarrow> bool \<Rightarrow> AuthCredential \<Rightarrow> string option \<Rightarrow> Db option
     \<Rightarrow> (GatedError + string option) \<times> Db option" where
  "username_for_sso_credential new_user new_cred auto_create_users client_credential
       preferred_username db =
     with_db db (\<lambda>db. case client_credential of
        Sso p em i s \<Rightarrow>
          (let found = (case find (\<lambda>r. sso_matches i s (sso_cred r)) (sso_credentials db) of
                          None \<Rightarrow> None
                        | Some r \<Rightarrow> find (\<lambda>u. ur_id u = sso_user r) (users db))
           in (case found of
                 Some u \<Rightarrow> (Inr (Some (ur_username u)), db)
               | None \<Rightarrow>
                   if auto_create_users
                   then (case preferred_username of
                           None \<Rightarrow> (Inr None, db)
                         | Some n \<Rightarrow>
                             maybe_autocreate_sso_user new_user new_cred
                               (UserSsoCredential (Some p) em (Some i) (Some s)) n db)
                   else (Inr None, db)))
      | _ \<Rightarrow> (Inr None, db))"

definition next_assignment_id :: "Db \<Rightarrow> int" where
  "next_assignment_id db = fold max (map ura_id (user_roles db)) 0 + 1"

definition apply_role_mapping ::
  "uuid \<Rightarrow> string list \<Rightarrow> string \<Rightarrow> Db \<Rightarrow> (GatedError + unit) \<times> Db" where
  "apply_role_mapping user assigned name db =
     (case find (\<lambda>r. role_name r = name) (roles db) of
        None \<Rightarrow> (Inl (RoleNotFound name), db)
      | Some role \<Rightarrow>
          (case (find (\<lambda>a. ura_user a = user \<and> ura_role a = role_id role) (user_roles db),
                 name \<in> set assigned) of
             (None, True) \<Rightarrow>
               (Inr (), db\<lparr>user_roles := user_roles db @
                  [\<lparr>ura_id = next_assignment_id db, ura_user = user, ura_role = role_id role\<rparr>]\<rparr>)
           | (Some assignment, False) \<Rightarrow>
               (Inr (), db\<lparr>user_roles :=
                  filter (\<lambda>a. ura_id a \<noteq> ura_id assignment) (user_roles db)\<rparr>)
           | _ \<Rightarrow> (Inr (), db)))"

fun apply_role_mapping_list ::
  "uuid \<Rightarrow> string list \<Rightarrow> string list \<Rightarrow> Db \<Rightarrow> (GatedError + unit) \<times> Db" where
  "apply_role_mapping_list user assigned [] db = (Inr (), db)"
| "apply_role_mapping_list user assigned (name # names) db =
     (case apply_role_mapping user assigned name db of
        (Inl e, db') \<Rightarrow> (Inl e, db')
      | (Inr _, db') \<Rightarrow> apply_role_mapping_list user assigned names db')"

definition apply_sso_role_mappings ::
  "Db option \<Rightarrow> string \<Rightarrow> string list option \<Rightarrow> string list \<Rightarrow> (GatedError + unit) \<times> Db option" where
  "apply_sso_role_mappings db uname managed assigned =
     with_db db (\<lambda>db.
       case user_by_name db uname of
         None \<Rightarrow> (Inl (UserNotFound uname), db)
       | Some u \<Rightarrow>
           apply_role_mapping_list (ur_id u) assigned
             (case managed of None \<Rightarrow> [] | Some ns \<Rightarrow> ns) db)"

section \<open>Public keys, API tokens and tickets (db.rs, config_providers/mod.rs)\<close>

definition update_public_key_last_used ::
  "crypto \<Rightarrow> nat \<Rightarrow> AuthCredential option \<Rightarrow> Db option \<Rightarrow> (GatedError + unit) \<times> Db option" where
  "update_public_key_last_used cr now cred db =
     with_db db (\<lambda>db.
       case cred of
         Some (PublicKey k b) \<Rightarrow>
           (case find (\<lambda>r. openssh_public_key r = openssh_key cr k b) (public_keys db) of
              None \<Rightarrow> (Inr (), db)
            | Some row \<Rightarrow>
                (Inr (), db\<lparr>public_keys :=
                   map (\<lambda>r. if pk_id r = pk_id row then r\<lparr>last_used := Some now\<rparr> else r)
                     (public_keys db)\<rparr>))
       | _ \<Rightarrow> (Inl InvalidCredentialType, db))"

definition validate_api_token ::
  "crypto \<Rightarrow> nat \<Rightarrow> Db option \<Rightarrow> string \<Rightarrow> GatedError + UserRec option" where
  "validate_api_token cr now db token =
     rbind (db_required db) (\<lambda>db.
       case find (\<lambda>t. token_secret t = hash_secret cr token \<and> token_expiry t > now) (api_tokens db) of
         None \<Rightarrow> Inr None
       | Some t \<Rightarrow>
           (case find (\<lambda>u. ur_id u = token_user t) (users db) of
              None \<Rightarrow> Inl InconsistentState
            | Some u \<Rightarrow> rbind (user_try_from u) (\<lambda>u. Inr (Some u))))"

text \<open>The \<open>before_save\<close> hooks of tickets and API tokens hash the secret on insertion.\<close>

definition insert_ticket :: "crypto \<Rightarrow> ticket_row \<Rightarrow> Db \<Rightarrow> GatedError + Db" where
  "insert_ticket cr t db =
     (if ticket_id t \<in> set (map ticket_id (tickets db)) then Inl DatabaseError
      else Inr (db\<lparr>tickets := tickets db @ [t\<lparr>ticket_secret := hash_secret cr (ticket_secret t)\<rparr>]\<rparr>))"

definition insert_api_token :: "crypto \<Rightarrow> token_row \<Rightarrow> Db \<Rightarrow> GatedError + Db" where
  "insert_api_token cr t db =
     (if token_id t \<in> set (map token_id (api_tokens db)) then Inl DatabaseError
      else Inr (db\<lparr>api_tokens := api_tokens db @ [t\<lparr>token_secret := hash_secret cr (token_secret t)\<rparr>]\<rparr>))"

definition authorize_ticket ::
  "crypto \<Rightarrow> nat \<Rightarrow> Db option \<Rightarrow> string \<Rightarrow> GatedError + (ticket_row \<times> AuthStateUserInfo) option" where
  "authorize_ticket cr now db sec =
     rbind (db_required db) (\<lambda>db.
       case find (\<lambda>t. ticket_secret t = hash_secret cr sec) (tickets db) of
         None \<Rightarrow> Inr None
       | Some t \<Rightarrow>
           (if uses_left t = Some 0 then Inr None
            else if (case ticket_expiry t of None \<Rightarrow> False | Some d \<Rightarrow> d < now) then Inr None
            else (case user_by_name db (ticket_username t) of
                    None \<Rightarrow> Inl (UserNotFound (ticket_username t))
                  | Some u \<Rightarrow>
                      rbind (user_try_from u) (\<lambda>u.
                        Inr (Some (t, \<lparr>ui_id = user_id u, ui_username = user_name u\<rparr>))))))"

text \<open>The conditional decrement is one \<open>UPDATE\<close> statement; its row count is the number of
  rows that match.\<close>

definition ticket_consumable :: "uuid \<Rightarrow> ticket_row \<Rightarrow> bool" where
  "ticket_consumable i t \<longleftrightarrow>
     ticket_id t = i \<and> (case uses_left t of None \<Rightarrow> False | Some n \<Rightarrow> n > 0)"

definition consume_ticket :: "uuid \<Rightarrow> Db option \<Rightarrow> (GatedError + unit) \<times> Db option" where
  "consume_ticket i db =
     with_db db (\<lambda>db.
       let rows_affected = length (filter (ticket_consumable i) (tickets db));
           db' = db\<lparr>tickets := map (\<lambda>t. if ticket_consumable i t
                     then t\<lparr>uses_left := map_option (\<lambda>n. n - 1) (uses_left t)\<rparr> else t) (tickets db)\<rparr>
       in if rows_affected > 0 then (Inr (), db')
          else (case find (\<lambda>t. ticket_id t = i) (tickets db') of
                  Some t \<Rightarrow> (if uses_left t = None then (Inr (), db') else (Inl (InvalidTicket i), db'))
                | None \<Rightarrow> (Inl (InvalidTicket i), db')))"

end
