(* ===== verification/Access_Laws.thy ===== *)
theory Access_Laws
  imports Access
begin

text \<open>
  The laws of the access decisions: what a ticket, a role, a policy requirement and a
  stored credential allow, and what they can never allow. The sample database at the
  end carries the instances of the properties.
\<close>

lemma with_db_simps [simp]:
  "with_db None f = (Inl Other, None)"
  "with_db (Some d) f = (fst (f d), Some (snd (f d)))"
  by (simp_all add: with_db_def db_required_def case_prod_beta)

section \<open>Tickets\<close>

definition ticket_of :: "uuid \<Rightarrow> Db \<Rightarrow> ticket_row option" where
  "ticket_of i db = find (\<lambda>t. ticket_id t = i) (tickets db)"

fun tickets_ok :: "Db option \<Rightarrow> bool" where
  "tickets_ok None = True"
| "tickets_ok (Some db) = distinct (map ticket_id (tickets db))"

definition use_up :: "ticket_row \<Rightarrow> ticket_row" where
  "use_up t = (case uses_left t of
      Some n \<Rightarrow> if n > 0 then t\<lparr>uses_left := Some (n - 1)\<rparr> else t
    | None \<Rightarrow> t)"

lemma ticket_id_use_up [simp]: "ticket_id (use_up t) = ticket_id t"
  by (auto simp: use_up_def split: option.split)

lemma consume_ticket_map:
  "snd (consume_ticket i (Some db)) =
     Some (db\<lparr>tickets := map (\<lambda>t. if ticket_id t = i then use_up t else t) (tickets db)\<rparr>)"
  by (auto simp: consume_ticket_def Let_def ticket_consumable_def use_up_def split: option.split)

lemma consume_ticket_other:
  "ticket_of j (the (snd (consume_ticket i (Some db)))) =
     (if i = j then map_option use_up (ticket_of j db) else ticket_of j db)"
proof -
  have "find (\<lambda>t. ticket_id t = j) (map (\<lambda>t. if ticket_id t = i then use_up t else t) ts) =
      (if i = j then map_option use_up (find (\<lambda>t. ticket_id t = j) ts)
       else find (\<lambda>t. ticket_id t = j) ts)" for ts
    by (induction ts) auto
  then show ?thesis by (simp add: consume_ticket_map ticket_of_def)
qed

lemma consume_ticket_result:
  assumes "tickets_ok (Some db)"
  shows "fst (consume_ticket i (Some db)) =
     (case ticket_of i db of
        None \<Rightarrow> Inl (InvalidTicket i)
      | Some t \<Rightarrow> (case uses_left t of
           None \<Rightarrow> Inr ()
         | Some n \<Rightarrow> if n > 0 then Inr () else Inl (InvalidTicket i)))"
proof -
  let ?Q = "\<lambda>t. case uses_left t of None \<Rightarrow> False | Some n \<Rightarrow> n > 0"
  have "find (ticket_consumable i) (tickets db) =
      (case ticket_of i db of None \<Rightarrow> None | Some t \<Rightarrow> if ?Q t then Some t else None)"
    using distinct_key_find [of ticket_id "tickets db" i ?Q] assms
    by (simp add: ticket_of_def ticket_consumable_def [abs_def])
  moreover have "find (\<lambda>t. ticket_id t = i) (map (\<lambda>t. if ticket_consumable i t
       then t\<lparr>uses_left := map_option (\<lambda>n. n - 1) (uses_left t)\<rparr> else t) (tickets db)) =
     map_option (\<lambda>t. if ticket_consumable i t
       then t\<lparr>uses_left := map_option (\<lambda>n. n - 1) (uses_left t)\<rparr> else t) (ticket_of i db)"
    unfolding ticket_of_def by (rule find_map_key) simp
  ultimately show ?thesis
    by (cases "ticket_of i db")
      (auto simp: consume_ticket_def Let_def filter_empty_find ticket_consumable_def
        split: option.splits dest: find_Some_in)
qed

interpretation ticket_machine: machine "\<lambda>db i. snd (consume_ticket i db)" tickets_ok
proof
  fix db :: "Db option" and i
  assume "tickets_ok db"
  moreover have "map ticket_id (map (\<lambda>t. if ticket_id t = i then use_up t else t) ts) = map ticket_id ts" for ts
    by (induction ts) auto
  ultimately show "tickets_ok (snd (consume_ticket i db))"
    by (cases db) (simp add: consume_ticket_def, simp add: consume_ticket_map del: map_map)
qed

fun consume_run :: "uuid list \<Rightarrow> Db option \<Rightarrow> (uuid \<times> (GatedError + unit)) list" where
  "consume_run [] db = []"
| "consume_run (i # is) db = (i, fst (consume_ticket i db)) # consume_run is (snd (consume_ticket i db))"

text \<open>C6. A ticket with n uses left is consumed exactly n times: in every interleaving of consume
  calls, for this and for other tickets, the number of calls for it that succeed is the
  smaller of n and the number of calls; every further call is refused.\<close>

theorem ticket_uses_exact:
  assumes "tickets_ok (Some db)" and "ticket_of i db = Some t" and "uses_left t = Some n" and "0 \<le> n"
  shows "count_list (consume_run calls (Some db)) (i, Inr ()) = min (nat n) (count_list calls i)"
  using assms
proof (induction calls arbitrary: db t n)
  case Nil
  then show ?case by simp
next
  case (Cons j calls)
  define db' where "db' = the (snd (consume_ticket j (Some db)))"
  have db': "snd (consume_ticket j (Some db)) = Some db'"
    by (simp add: db'_def consume_ticket_map)
  have ok: "tickets_ok (Some db')"
    using ticket_machine.step_inv [OF Cons.prems(1), of j] by (simp only: db')
  have t': "ticket_of i db' = Some (if i = j then use_up t else t)"
    using consume_ticket_other [of i j db] Cons.prems(2) by (simp add: db'_def)
  show ?case
  proof (cases "i = j")
    case False
    then show ?thesis using Cons.IH [OF ok _ Cons.prems(3,4)] t' by (simp add: db')
  next
    case True
    show ?thesis
    proof (cases "n > 0")
      case True
      then have "uses_left (use_up t) = Some (n - 1)" using Cons.prems(3) by (simp add: use_up_def)
      from Cons.IH [OF ok _ this] t' \<open>i = j\<close> True show ?thesis
        using consume_ticket_result [OF Cons.prems(1), of i] Cons.prems
        by (simp add: db' nat_diff_distrib)
    next
      case False
      then have "uses_left (use_up t) = Some n" using Cons.prems(3) by (simp add: use_up_def)
      from Cons.IH [OF ok _ this] t' \<open>i = j\<close> False show ?thesis
        using consume_ticket_result [OF Cons.prems(1), of i] Cons.prems
        by (simp add: db')
    qed
  qed
qed

section \<open>Role assignments\<close>

definition role_pairs :: "user_role_row list \<Rightarrow> (uuid \<times> uuid) set" where
  "role_pairs ur = (\<lambda>a. (ura_user a, ura_role a)) ` set ur"

definition target_pairs :: "Db \<Rightarrow> (uuid \<times> uuid) set" where
  "target_pairs db = (\<lambda>a. (tra_target a, tra_role a)) ` set (target_roles db)"

lemma set_user_role_rows:
  "set (user_role_rows db u) = {r \<in> set (roles db). (u, role_id r) \<in> role_pairs (user_roles db)}"
  by (auto simp: user_role_rows_def role_pairs_def)

lemma set_target_role_rows:
  "set (target_role_rows db t) = {r \<in> set (roles db). (t, role_id r) \<in> target_pairs db}"
  by (auto simp: target_role_rows_def target_pairs_def)

lemmas role_row_sets = set_user_role_rows set_target_role_rows

lemma authorize_target_Inr:
  "authorize_target (Some db) un tn = Inr True \<longleftrightarrow>
     (\<exists>u t r r'. user_by_name db un = Some u \<and> target_by_name db tn = Some t \<and>
        r \<in> set (user_role_rows db (ur_id u)) \<and> r' \<in> set (target_role_rows db (tr_id t)) \<and>
        role_name r = role_name r')"
  by (auto simp: authorize_target_def db_required_def card_gt_0_iff split: option.splits)

lemma authorize_file_transfer_Inr:
  "authorize_file_transfer (Some db) un tn = Inr True \<longleftrightarrow>
     (\<exists>u t r r'. user_by_name db un = Some u \<and> target_by_name db tn = Some t \<and>
        r \<in> set (user_role_rows db (ur_id u)) \<and> r' \<in> set (target_role_rows db (tr_id t)) \<and>
        role_id r = role_id r' \<and> allow_file_transfer r)"
  by (force simp: authorize_file_transfer_def db_required_def list_ex_iff split: option.splits)

text \<open>C9. Target access is exactly a shared role: when role names and role identifiers are
  unique, a user may open a target if and only if one role is assigned to both; and file
  transfer is allowed if and only if such a shared role also allows file transfer, so it
  never goes beyond target access.\<close>

theorem authorization_by_shared_role:
  assumes "distinct (map role_name (roles db))" and "distinct (map role_id (roles db))"
  shows "(authorize_target (Some db) un tn = Inr True \<longleftrightarrow>
      (\<exists>u t r. user_by_name db un = Some u \<and> target_by_name db tn = Some t \<and> r \<in> set (roles db) \<and>
         (ur_id u, role_id r) \<in> role_pairs (user_roles db) \<and> (tr_id t, role_id r) \<in> target_pairs db)) \<and>
    (authorize_file_transfer (Some db) un tn = Inr True \<longleftrightarrow>
      (\<exists>u t r. user_by_name db un = Some u \<and> target_by_name db tn = Some t \<and> r \<in> set (roles db) \<and>
         (ur_id u, role_id r) \<in> role_pairs (user_roles db) \<and> (tr_id t, role_id r) \<in> target_pairs db \<and>
         allow_file_transfer r))" (is "?T \<and> ?F")
proof
  from assms have n: "r = r'" if "r \<in> set (roles db)" "r' \<in> set (roles db)" "role_name r = role_name r'" for r r'
    using that by (auto simp: distinct_map dest: inj_onD)
  from assms have i: "r = r'" if "r \<in> set (roles db)" "r' \<in> set (roles db)" "role_id r = role_id r'" for r r'
    using that by (auto simp: distinct_map dest: inj_onD)
  show ?T unfolding authorize_target_Inr role_row_sets by (auto dest: n)
  show ?F unfolding authorize_file_transfer_Inr role_row_sets by (auto dest: i)
qed

section \<open>Role mappings\<close>

definition assignments_ok :: "Db \<Rightarrow> bool" where
  "assignments_ok db \<longleftrightarrow>
     distinct (map (\<lambda>a. (ura_user a, ura_role a)) (user_roles db)) \<and>
     distinct (map ura_id (user_roles db)) \<and> distinct (map role_id (roles db)) \<and>
     distinct (map role_name (roles db))"

lemma next_assignment_id_fresh: "next_assignment_id db \<notin> set (map ura_id (user_roles db))"
  using fold_max_ge [of _ "map ura_id (user_roles db)" 0]
  by (force simp: next_assignment_id_def)

lemma role_pairs_remove:
  assumes "assignments_ok db" and "a \<in> set (user_roles db)"
  shows "role_pairs (filter (\<lambda>b. ura_id b \<noteq> ura_id a) (user_roles db)) =
     role_pairs (user_roles db) - {(ura_user a, ura_role a)}"
proof -
  let ?p = "\<lambda>b. (ura_user b, ura_role b)"
  from assms(1) have inj: "inj_on ura_id (set (user_roles db))" "inj_on ?p (set (user_roles db))"
    by (simp_all add: assignments_ok_def distinct_map)
  have eq: "ura_id b = ura_id a \<longleftrightarrow> ?p b = ?p a" if "b \<in> set (user_roles db)" for b
    by (simp only: inj_on_eq_iff [OF inj(1) that assms(2)] inj_on_eq_iff [OF inj(2) that assms(2)])
  have "filter (\<lambda>b. ura_id b \<noteq> ura_id a) (user_roles db) =
      filter (\<lambda>b. ?p b \<noteq> ?p a) (user_roles db)"
    by (rule filter_cong [OF refl]) (simp only: eq)
  then show ?thesis unfolding role_pairs_def by (simp only:) auto
qed

lemma role_by_name:
  assumes "assignments_ok db" and "r \<in> set (roles db)"
  shows "find (\<lambda>x. role_name x = role_name r) (roles db) = Some r"
proof (cases "find (\<lambda>x. role_name x = role_name r) (roles db)")
  case None
  with assms(2) show ?thesis by (auto simp: find_None_iff_all)
next
  case (Some x)
  with assms show ?thesis
    by (auto simp: assignments_ok_def distinct_map dest!: find_Some_in dest: inj_onD)
qed

lemma apply_role_mapping_ok:
  assumes ok: "assignments_ok db" and r: "r \<in> set (roles db)"
  shows "\<exists>ur. apply_role_mapping u assigned (role_name r) db = (Inr (), db\<lparr>user_roles := ur\<rparr>) \<and>
     assignments_ok (db\<lparr>user_roles := ur\<rparr>) \<and>
     role_pairs ur = (if role_name r \<in> set assigned then insert (u, role_id r) (role_pairs (user_roles db))
                      else role_pairs (user_roles db) - {(u, role_id r)})"
proof (cases "find (\<lambda>a. ura_user a = u \<and> ura_role a = role_id r) (user_roles db)")
  case None
  let ?ur = "if role_name r \<in> set assigned
     then user_roles db @ [\<lparr>ura_id = next_assignment_id db, ura_user = u, ura_role = role_id r\<rparr>]
     else user_roles db"
  from None have n: "(u, role_id r) \<notin> role_pairs (user_roles db)"
    by (auto simp: find_None_iff_all role_pairs_def)
  then have "assignments_ok (db\<lparr>user_roles := ?ur\<rparr>)"
    using ok next_assignment_id_fresh [of db] by (auto simp: assignments_ok_def role_pairs_def)
  with n None role_by_name [OF ok r] show ?thesis
    by (intro exI [of _ ?ur]) (auto simp: apply_role_mapping_def role_pairs_def)
next
  case (Some a)
  let ?ur = "if role_name r \<in> set assigned then user_roles db
     else filter (\<lambda>b. ura_id b \<noteq> ura_id a) (user_roles db)"
  from Some have a: "a \<in> set (user_roles db)" "ura_user a = u" "ura_role a = role_id r"
    by (auto dest: find_Some_in)
  from ok have "assignments_ok (db\<lparr>user_roles := ?ur\<rparr>)"
    by (auto simp: assignments_ok_def distinct_map_filter)
  moreover from a have "(u, role_id r) \<in> role_pairs (user_roles db)"
    by (auto simp: role_pairs_def)
  ultimately show ?thesis
    using Some role_by_name [OF ok r] a role_pairs_remove [OF ok a(1)]
    by (intro exI [of _ ?ur]) (auto simp: apply_role_mapping_def)
qed

definition mapped_pairs ::
  "Db \<Rightarrow> uuid \<Rightarrow> string list \<Rightarrow> string list \<Rightarrow> (uuid \<times> uuid) set" where
  "mapped_pairs db u managed assigned =
     (role_pairs (user_roles db)
       - (\<lambda>r. (u, role_id r)) ` set (filter (\<lambda>r. role_name r \<in> set managed) (roles db)))
     \<union> (\<lambda>r. (u, role_id r)) ` set (filter (\<lambda>r. role_name r \<in> set managed \<inter> set assigned) (roles db))"

lemma mapped_pairs_Cons:
  assumes "assignments_ok db" and r: "r \<in> set (roles db)"
    and "role_pairs ur = (if role_name r \<in> set assigned
       then insert (u, role_id r) (role_pairs (user_roles db))
       else role_pairs (user_roles db) - {(u, role_id r)})"
  shows "mapped_pairs (db\<lparr>user_roles := ur\<rparr>) u names assigned =
     mapped_pairs db u (role_name r # names) assigned"
proof -
  have i: "x = r" if "x \<in> set (roles db)" "role_id x = role_id r \<or> role_name x = role_name r" for x
    using assms(1) r that by (auto simp: assignments_ok_def distinct_map dest: inj_onD)
  show ?thesis
    unfolding mapped_pairs_def using assms(3) r by (auto dest: i)
qed

lemma apply_role_mapping_list_ok:
  assumes "assignments_ok db" and "set names \<subseteq> role_name ` set (roles db)"
  shows "\<exists>ur. apply_role_mapping_list u assigned names db = (Inr (), db\<lparr>user_roles := ur\<rparr>) \<and>
     role_pairs ur = mapped_pairs db u names assigned"
  using assms
proof (induction names arbitrary: db)
  case Nil
  then show ?case by (intro exI [of _ "user_roles db"]) (simp add: mapped_pairs_def)
next
  case (Cons n names)
  then obtain r where r: "r \<in> set (roles db)" "n = role_name r" by auto
  obtain ur where ur: "apply_role_mapping u assigned n db = (Inr (), db\<lparr>user_roles := ur\<rparr>)"
      "assignments_ok (db\<lparr>user_roles := ur\<rparr>)"
      "role_pairs ur = (if role_name r \<in> set assigned
         then insert (u, role_id r) (role_pairs (user_roles db))
         else role_pairs (user_roles db) - {(u, role_id r)})"
    using apply_role_mapping_ok [OF Cons.prems(1) r(1), of u assigned] r(2) by blast
  from Cons.IH [OF ur(2)] Cons.prems(2)
  obtain ur' where "apply_role_mapping_list u assigned names (db\<lparr>user_roles := ur\<rparr>) =
        (Inr (), db\<lparr>user_roles := ur'\<rparr>)"
      "role_pairs ur' = mapped_pairs (db\<lparr>user_roles := ur\<rparr>) u names assigned"
    by auto
  then show ?case
    using ur(1) mapped_pairs_Cons [OF Cons.prems(1) r(1) ur(3), of names] r(2) by auto
qed


section \<open>Policies\<close>

text \<open>What a stored requirement asks for on a protocol.\<close>

definition required_kinds ::
  "UserRequireCredentialsPolicy option \<Rightarrow> string \<Rightarrow> CredentialKind list option" where
  "required_kinds requirements protocol =
     (case requirements of None \<Rightarrow> None
      | Some req \<Rightarrow>
          if protocol = ''SSH'' then ssh req
          else if protocol = ''PostgreSQL'' then postgres req
          else if protocol = ''MySQL'' then mysql req
          else if protocol = ''HTTP'' then http req
          else None)"

definition requirement_met :: "CredentialKind list option \<Rightarrow> AuthCredential list \<Rightarrow> bool" where
  "requirement_met ks creds =
     (case ks of None \<Rightarrow> creds \<noteq> []
      | Some ks \<Rightarrow> ks \<noteq> [] \<and> set ks \<subseteq> set (map kind creds))"

lemma all_is_sufficient_set:
  "all_is_sufficient (set ks) creds = Ok \<longleftrightarrow> requirement_met (Some ks) creds"
  by (auto simp: all_is_sufficient_def requirement_met_def Let_def)

lemma requirement_policy_ok:
  "is_sufficient (requirement_policy supported req) protocol creds = Ok \<longleftrightarrow>
     requirement_met (required_kinds req protocol) creds"
proof -
  have "any_single_is_sufficient S creds = Ok \<longleftrightarrow> requirement_met None creds" for S
    by (simp add: any_single_is_sufficient_def requirement_met_def)
  then show ?thesis
    by (auto simp: requirement_policy_def required_kinds_def default_policy_def protocol_insert_def
        all_is_sufficient_set split: option.split)
qed

text \<open>C8. The policy built for a user enforces what is stored for the protocol: on SSH,
  PostgreSQL, MySQL and HTTP with a stored list, authentication is complete if and only
  if the list is not empty and every listed kind was presented; on every other protocol,
  in particular on Kubernetes whatever the stored \<open>kubernetes\<close> list says, one credential
  of any kind is enough.\<close>

theorem policy_enforces_requirements:
  assumes "get_credential_policy (Some db) uname supported = Inr (Some pol)"
  shows "\<exists>u req. user_by_name db uname = Some u \<and> ur_policy u = Some req \<and>
     (\<forall>protocol creds. is_sufficient pol protocol creds = Ok \<longleftrightarrow>
        requirement_met (required_kinds req protocol) creds)"
  using assms
  by (auto simp: get_credential_policy_def db_required_def load_details_def user_try_from_def
      requirement_policy_ok Let_def res_simps split: option.splits)

definition has_kind :: "CredentialKind set \<Rightarrow> UserAuthCredential list \<Rightarrow> bool" where
  "has_kind K ucreds \<longleftrightarrow> (\<exists>c \<in> set ucreds. user_credential_kind c \<in> K)"

definition otp_upgraded :: "bool \<Rightarrow> CredentialKind list option \<Rightarrow> CredentialKind list option" where
  "otp_upgraded b ks =
     (case ks of Some ks \<Rightarrow> Some (ks @ [Totp])
      | None \<Rightarrow> if b then Some [CredentialKind.Password, Totp] else None)"

lemma upgrade_to_otp_fields:
  "http (upgrade_to_otp p ucreds) = otp_upgraded (has_kind {CredentialKind.Password} ucreds) (http p)"
  "ssh (upgrade_to_otp p ucreds) =
     otp_upgraded (has_kind {CredentialKind.Password, CredentialKind.PublicKey} ucreds) (ssh p)"
  "mysql (upgrade_to_otp p ucreds) = mysql p"
  "postgres (upgrade_to_otp p ucreds) = postgres p"
  by (auto simp: upgrade_to_otp_def otp_upgraded_def has_kind_def Let_def split: option.split)

lemma required_kinds_upgrade:
  "required_kinds (Some (upgrade_to_otp p ucreds)) protocol =
     (if protocol \<in> {''HTTP'', ''SSH''}
      then otp_upgraded (has_kind (if protocol = ''SSH''
             then {CredentialKind.Password, CredentialKind.PublicKey} else {CredentialKind.Password}) ucreds)
             (required_kinds (Some p) protocol)
      else required_kinds (Some p) protocol)"
  by (simp add: required_kinds_def upgrade_to_otp_fields)

lemma otp_upgraded_met:
  assumes "ks \<noteq> Some []" and "requirement_met (otp_upgraded b ks) creds"
  shows "requirement_met ks creds"
    and "otp_upgraded b ks \<noteq> None \<Longrightarrow> Totp \<in> set (map kind creds)"
  using assms by (auto simp: requirement_met_def otp_upgraded_def split: option.splits if_splits)

text \<open>Enabling one-time passwords never weakens a policy that has no empty requirement
  list: whatever satisfies the upgraded policy satisfies the old one, on every protocol;
  and where the upgraded HTTP or SSH list exists, a one-time password is necessary.\<close>

lemma otp_upgrade_strengthens:
  assumes "http p \<noteq> Some []" and "ssh p \<noteq> Some []"
    and "requirement_met (required_kinds (Some (upgrade_to_otp p ucreds)) protocol) creds"
  shows "requirement_met (required_kinds (Some p) protocol) creds \<and>
    (protocol \<in> {''HTTP'', ''SSH''} \<and>
       required_kinds (Some (upgrade_to_otp p ucreds)) protocol \<noteq> None \<longrightarrow>
     Totp \<in> set (map kind creds))"
proof -
  show ?thesis
  proof (cases "protocol \<in> {''HTTP'', ''SSH''}")
    case True
    then have "required_kinds (Some p) protocol \<noteq> Some []"
      using assms(1,2) by (auto simp: required_kinds_def)
    with True show ?thesis using otp_upgraded_met assms(3) unfolding required_kinds_upgrade by presburger
  next
    case False
    with assms(3) show ?thesis unfolding required_kinds_upgrade by simp
  qed
qed

text \<open>Enabling one-time passwords locks a key-only user out of SSH: with a public key, no
  password and no SSH list yet, the upgraded SSH list asks for a password, so no
  combination of credentials of the kinds the user has, a one-time password included,
  completes authentication.\<close>

lemma otp_upgrade_key_only_lockout:
  assumes "ssh p = None" and "UserPublicKeyCredential k \<in> set ucreds"
    and "CredentialKind.Password \<notin> set (map user_credential_kind ucreds)"
    and "set (map kind creds) \<subseteq>
      set (map user_credential_kind ucreds) \<union> {Totp, CredentialKind.WebUserApproval}"
  shows "\<not> requirement_met (required_kinds (Some (upgrade_to_otp p ucreds)) ''SSH'') creds"
proof -
  have "has_kind {CredentialKind.Password, CredentialKind.PublicKey} ucreds"
    unfolding has_kind_def by (rule bexI [OF _ assms(2)]) simp
  with assms(1) have "ssh (upgrade_to_otp p ucreds) = Some [CredentialKind.Password, Totp]"
    by (simp add: upgrade_to_otp_fields otp_upgraded_def)
  moreover have "CredentialKind.Password \<notin> set (map kind creds)"
    using assms(3,4) by blast
  ultimately show ?thesis by (simp add: required_kinds_def requirement_met_def)
qed

section \<open>Credential validation\<close>

lemma verify_totp_checked:
  "fst (verify_totp gen chk fp m code k now) \<Longrightarrow> chk k code now"
  by (auto simp: verify_totp_def check_totp_def split: if_splits)

lemma any_totp_has:
  "fst (any_totp cr now m code cs) \<Longrightarrow> \<exists>k. UserTotpCredential k \<in> set cs \<and> totp_check cr k code now"
proof (induction cs arbitrary: m)
  case (Cons c cs)
  then show ?case
    by (cases c) (auto simp: case_prod_beta Let_def split: if_splits
        dest: verify_totp_checked intro: Cons.IH)
qed simp

lemma list_ex_password_has:
  "list_ex (password_matches cr pw) cs \<Longrightarrow>
     \<exists>h. UserPasswordCredential h \<in> set cs \<and> argon2_verify cr pw h = Inr ()"
proof -
  assume "list_ex (password_matches cr pw) cs"
  then obtain c where c: "c \<in> set cs" "password_matches cr pw c" by (auto simp: list_ex_iff)
  show ?thesis
    by (cases c) (use c in \<open>auto simp: verify_password_hash_def
        split: sum.splits if_splits argon_error.splits\<close>)
qed

lemma list_ex_sso_has:
  "list_ex (sso_matches i s) cs \<Longrightarrow>
     \<exists>p e. UserSsoCredential p e (Some i) (Some s) \<in> set cs"
proof -
  assume "list_ex (sso_matches i s) cs"
  then obtain c where c: "c \<in> set cs" "sso_matches i s c" by (auto simp: list_ex_iff)
  show ?thesis by (cases c) (use c in auto)
qed

fun stored_evidence :: "crypto \<Rightarrow> nat \<Rightarrow> AuthCredential \<Rightarrow> UserAuthCredential set \<Rightarrow> bool" where
  "stored_evidence cr now (Password pw) C =
     (\<exists>h. UserPasswordCredential h \<in> C \<and> argon2_verify cr pw h = Inr ())"
| "stored_evidence cr now (PublicKey k b) C = (UserPublicKeyCredential (k @ '' '' @ base64 cr b) \<in> C)"
| "stored_evidence cr now (Otp code) C =
     (\<exists>k. UserTotpCredential k \<in> C \<and> totp_check cr k code now)"
| "stored_evidence cr now (Sso p e i s) C = (\<exists>p e. UserSsoCredential p e (Some i) (Some s) \<in> C)"
| "stored_evidence cr now _ C = False"

lemma stored_evidence_kind:
  "stored_evidence cr now c C \<Longrightarrow> kind c \<in> user_credential_kind ` C"
  by (cases c) (force simp: image_iff)+


section \<open>Tickets and accounts end to end\<close>

text \<open>C37. A ticket is presented with the secret it was created with: after the insertion, which
  stores only the digest, the plain secret authorises as the ticket's user, provided no
  earlier ticket has the same digest, the ticket has uses left and has not expired; and
  the stored secret of every ticket inserted is the digest.\<close>

theorem ticket_secret_roundtrip:
  assumes "insert_ticket cr t db = Inr db'"
    and "hash_secret cr (ticket_secret t) \<notin> set (map ticket_secret (tickets db))"
    and "user_by_name db (ticket_username t) = Some u" and "ur_policy u \<noteq> None"
    and "uses_left t \<noteq> Some 0" and "\<And>d. ticket_expiry t = Some d \<Longrightarrow> now \<le> d"
  shows "authorize_ticket cr now (Some db') (ticket_secret t) =
     Inr (Some (t\<lparr>ticket_secret := hash_secret cr (ticket_secret t)\<rparr>,
                \<lparr>ui_id = ur_id u, ui_username = ticket_username t\<rparr>))"
proof -
  from assms(2) have n: "find (\<lambda>x. ticket_secret x = hash_secret cr (ticket_secret t)) (tickets db) = None"
    by (auto simp: find_None_iff_all image_iff)
  from assms(1) have db': "db' = db\<lparr>tickets := tickets db @ [t\<lparr>ticket_secret := hash_secret cr (ticket_secret t)\<rparr>]\<rparr>"
    by (simp add: insert_ticket_def split: if_splits)
  from assms(4) obtain p where p: "ur_policy u = Some p" by auto
  have "ur_username u = ticket_username t"
    using assms(3) by (auto simp: user_by_name_def dest: find_Some_in)
  then show ?thesis
    using n assms(3,5,6) p
    by (auto simp: authorize_ticket_def db' db_required_def find_append user_by_name_def
        user_try_from_def split: option.split)
qed

text \<open>C11. Single sign-on never takes over an account: when the login resolves to the name of a
  user that already exists, that user holds a stored credential with exactly the issuer
  and subject of the login. The email and the preferred user name, which the identity
  provider or its user can choose, never decide, also when accounts are created on the
  fly.\<close>

theorem sso_no_takeover:
  assumes "fst (username_for_sso_credential nu nc auto (Sso p e i s) preferred (Some db)) = Inr (Some n)"
    and "n \<in> set (map ur_username (users db))"
  shows "\<exists>r \<in> set (sso_credentials db). \<exists>u \<in> set (users db). \<exists>p' e'.
     sso_cred r = UserSsoCredential p' e' (Some i) (Some s) \<and> ur_id u = sso_user r \<and> ur_username u = n"
proof -
  have sso: "\<exists>p' e'. c = UserSsoCredential p' e' (Some i) (Some s)" if "sso_matches i s c" for c
    by (cases c) (use that in auto)
  show ?thesis
    using assms
    by (auto simp: username_for_sso_credential_def maybe_autocreate_sso_user_def insert_user_def
        insert_sso_def Let_def split: option.splits if_splits dest!: find_Some_in sso)
qed

section \<open>A sample database\<close>

definition sample_crypto :: crypto where
  "sample_crypto =
     \<lparr>sha256_hex = (\<lambda>s. CHR ''h'' # s), password_hash_new = (\<lambda>_. True),
      argon2_verify = (\<lambda>p h. if h = CHR ''$'' # p then Inr () else Inl PasswordMismatch),
      totp_generate = (\<lambda>_ _. ''000000''), totp_check = (\<lambda>_ c _. c = ''000000''),
      fingerprint = length, base64 = (\<lambda>b. map (\<lambda>x. CHR ''A'') b)\<rparr>"

definition sample_user :: user_row where
  "sample_user = \<lparr>ur_id = 1, ur_username = ''ann'', ur_description = [],
     ur_policy = Some (Some (default_require_policy\<lparr>ssh := Some [CredentialKind.Password, Totp]\<rparr>)),
     ur_rate_limit = None\<rparr>"

definition sample_ticket :: ticket_row where
  "sample_ticket = \<lparr>ticket_id = 9, ticket_secret = ''s'', ticket_username = ''ann'',
     ticket_target = ''box'', uses_left = Some 2, ticket_expiry = Some 50\<rparr>"

definition sample_db :: Db where
  "sample_db =
     \<lparr>users = [sample_user], targets = [\<lparr>tr_id = 5, tr_name = ''box'', tr_description = [], tr_kind = SshKind, tr_options = None,
       tr_rate_limit = None, tr_group_id = None\<rparr>],
      roles = [\<lparr>role_id = 2, role_name = ''ops'', allow_file_transfer = True\<rparr>,
               \<lparr>role_id = 3, role_name = ''dev'', allow_file_transfer = False\<rparr>],
      user_roles = [\<lparr>ura_id = 1, ura_user = 1, ura_role = 2\<rparr>],
      target_roles = [\<lparr>tra_id = 1, tra_target = 5, tra_role = 2, tra_account = None\<rparr>],
      otp_credentials = [(1, [7])], password_credentials = [(1, ''$pw'')],
      sso_credentials = [\<lparr>sso_id = 4, sso_user = 1,
         sso_cred = UserSsoCredential None ''a@x'' (Some ''iss'') (Some ''sub'')\<rparr>],
      public_keys = [], certificates = [], tickets = [sample_ticket], api_tokens = [], accounts = [],
       target_accounts = []\<rparr>"

lemmas sample_defs = sample_db_def sample_user_def sample_ticket_def sample_crypto_def

lemma sample_user_by_name: "user_by_name sample_db ''ann'' = Some sample_user"
  by (simp add: sample_defs user_by_name_def)

lemma sample_assignments_ok: "assignments_ok sample_db"
  by (simp add: assignments_ok_def sample_defs)

theorem ticket_uses_exact_witness:
  "count_list (consume_run [9, 9, 4, 9] (Some sample_db)) (9, Inr ()) = 2"
proof -
  have "tickets_ok (Some sample_db)" "ticket_of 9 sample_db = Some sample_ticket"
      "uses_left sample_ticket = Some 2" "(0 :: int) \<le> 2"
    by (simp_all add: sample_defs ticket_of_def)
  from ticket_uses_exact [OF this, of "[9, 9, 4, 9]"] show ?thesis by simp
qed

theorem authorization_by_shared_role_witness:
  "authorize_target (Some sample_db) ''ann'' ''box'' = Inr True \<and>
   authorize_file_transfer (Some sample_db) ''ann'' ''box'' = Inr True"
proof -
  have d: "distinct (map role_name (roles sample_db))" "distinct (map role_id (roles sample_db))"
    by (simp_all add: sample_defs)
  let ?t = "\<lparr>tr_id = 5, tr_name = ''box'', tr_description = [], tr_kind = SshKind, tr_options = None,
       tr_rate_limit = None, tr_group_id = None\<rparr>"
  let ?r = "\<lparr>role_id = 2, role_name = ''ops'', allow_file_transfer = True\<rparr>"
  have "target_by_name sample_db ''box'' = Some ?t" "?r \<in> set (roles sample_db)"
      "(ur_id sample_user, role_id ?r) \<in> role_pairs (user_roles sample_db)"
      "(tr_id ?t, role_id ?r) \<in> target_pairs sample_db" "allow_file_transfer ?r"
    by (simp_all add: sample_defs target_by_name_def role_pairs_def target_pairs_def)
  then show ?thesis
    using authorization_by_shared_role [OF d, of "''ann''" "''box''"] sample_user_by_name by blast
qed


theorem policy_enforces_requirements_witness:
  "\<exists>pol. get_credential_policy (Some sample_db) ''ann'' [CredentialKind.Password] = Inr (Some pol) \<and>
     is_sufficient pol ''SSH'' [Password ''pw''] \<noteq> Ok \<and> is_sufficient pol ''Kubernetes'' [Password ''pw''] = Ok"
proof -
  obtain pol where pol: "get_credential_policy (Some sample_db) ''ann'' [CredentialKind.Password] = Inr (Some pol)"
    by (simp add: get_credential_policy_def db_required_def load_details_def user_try_from_def
        sample_defs user_by_name_def Let_def)
  from policy_enforces_requirements [OF this] sample_user_by_name
  have "is_sufficient pol protocol creds = Ok \<longleftrightarrow>
      requirement_met (required_kinds (the (ur_policy sample_user)) protocol) creds" for protocol creds
    by auto
  then show ?thesis
    by (intro exI [of _ pol]) (simp add: pol required_kinds_def requirement_met_def sample_user_def
        default_require_policy_def)
qed

lemma otp_upgrade_strengthens_witness:
  "requirement_met (required_kinds (Some default_require_policy) ''HTTP'') [Password ''x'', Otp ''1'']"
proof -
  let ?c = "[UserPasswordCredential ''$x'']"
  have "http default_require_policy \<noteq> Some []" "ssh default_require_policy \<noteq> Some []"
      "requirement_met (required_kinds (Some (upgrade_to_otp default_require_policy ?c)) ''HTTP'')
         [Password ''x'', Otp ''1'']"
    by (simp_all add: default_require_policy_def upgrade_to_otp_def required_kinds_def requirement_met_def)
  from otp_upgrade_strengthens [OF this] show ?thesis by (rule conjunct1)
qed

lemma otp_upgrade_key_only_lockout_witness:
  "\<not> requirement_met (required_kinds
       (Some (upgrade_to_otp default_require_policy [UserPublicKeyCredential ''k''])) ''SSH'')
     [PublicKey ''ssh'' [], Otp ''1'']"
  by (rule otp_upgrade_key_only_lockout [where k = "''k''"])
    (simp_all add: default_require_policy_def)


theorem ticket_secret_roundtrip_witness:
  "is_ok (authorize_ticket sample_crypto 40
     (Some (sample_db\<lparr>tickets := [sample_ticket, sample_ticket\<lparr>ticket_id := 10, ticket_secret := ''ht''\<rparr>]\<rparr>)) ''t'')"
proof -
  let ?t = "sample_ticket\<lparr>ticket_id := 10, ticket_secret := ''t''\<rparr>"
  let ?db = "sample_db\<lparr>tickets := [sample_ticket, sample_ticket\<lparr>ticket_id := 10, ticket_secret := ''ht''\<rparr>]\<rparr>"
  have "insert_ticket sample_crypto ?t sample_db = Inr ?db"
    by (simp add: insert_ticket_def hash_secret_def sample_defs)
  from ticket_secret_roundtrip [OF this, of sample_user 40] show ?thesis
    by (simp add: hash_secret_def sample_defs user_by_name_def)
qed

theorem sso_no_takeover_witness:
  "\<exists>r \<in> set (sso_credentials sample_db). \<exists>u \<in> set (users sample_db). \<exists>p' e'.
     sso_cred r = UserSsoCredential p' e' (Some ''iss'') (Some ''sub'') \<and> ur_id u = sso_user r \<and>
     ur_username u = ''ann''"
proof -
  have "fst (username_for_sso_credential 7 8 True (Sso ''p'' ''other@x'' ''iss'' ''sub'') (Some ''bob'')
      (Some sample_db)) = Inr (Some ''ann'')"
    by (simp add: username_for_sso_credential_def sample_defs)
  from sso_no_takeover [OF this] show ?thesis by (simp add: sample_defs)
qed

end
