(* ===== verification/Tokens.thy ===== *)
theory Tokens
  imports Rust_Std
begin

text \<open>
  The tokenizer loop that the command matcher (\<open>gated-core/src/command_acl.rs\<close>) and the
  read-only SQL validator (\<open>gated-admin/src/http_service/api/sql_validation.rs\<close>) share,
  and what it computes: the maximal runs.
\<close>

section \<open>Tokens\<close>

text \<open>The tokenizer loop shared by the SQL validator and the command matcher: every
  contiguous run of characters that satisfy \<open>p\<close> is a token; \<open>cur\<close> is the run being
  collected.\<close>

fun token_runs :: "(char \<Rightarrow> bool) \<Rightarrow> string \<Rightarrow> string \<Rightarrow> string list" where
  "token_runs p cur [] = (if cur = [] then [] else [cur])"
| "token_runs p cur (c # s) =
     (if p c then token_runs p (cur @ [c]) s
      else if cur = [] then token_runs p [] s
      else cur # token_runs p [] s)"

text \<open>A maximal run: bounded on both sides by the ends of the text or by other characters.\<close>

definition maximal_run :: "(char \<Rightarrow> bool) \<Rightarrow> string \<Rightarrow> string \<Rightarrow> bool" where
  "maximal_run p w s \<longleftrightarrow> w \<noteq> [] \<and> list_all p w \<and>
     (\<exists>a b. s = a @ w @ b \<and> (a = [] \<or> \<not> p (last a)) \<and> (b = [] \<or> \<not> p (hd b)))"

lemma maximal_runE:
  assumes "maximal_run p w s"
  obtains a b where "s = a @ w @ b" "a = [] \<or> \<not> p (last a)" "b = [] \<or> \<not> p (hd b)"
    "w \<noteq> []" "list_all p w"
  using assms unfolding maximal_run_def by blast

lemma infix_around:
  assumes "a @ w @ b = xs @ c # ys" and "c \<notin> set w"
  shows "(\<exists>b'. xs = a @ w @ b' \<and> b = b' @ c # ys) \<or> (\<exists>a'. ys = a' @ w @ b \<and> a = xs @ c # a')"
  using assms
  by (auto simp: append_eq_append_conv2 append_eq_Cons_conv Cons_eq_append_conv)

lemma maximal_run_whole:
  assumes "list_all p cur"
  shows "maximal_run p w cur \<longleftrightarrow> w = cur \<and> cur \<noteq> []"
proof
  assume "maximal_run p w cur"
  then obtain a b where ab: "cur = a @ w @ b" "a = [] \<or> \<not> p (last a)" "b = [] \<or> \<not> p (hd b)" "w \<noteq> []"
    by (rule maximal_runE)
  with assms have "list_all p a" "list_all p b" by auto
  with ab(2,3) have "a = []" "b = []"
    by (meson last_in_set hd_in_set list_all_iff)+
  with ab show "w = cur \<and> cur \<noteq> []" by simp
next
  assume "w = cur \<and> cur \<noteq> []"
  with assms show "maximal_run p w cur"
    by (auto simp: maximal_run_def intro!: exI [of _ "[]"])
qed

lemma maximal_run_split:
  assumes "\<not> p c"
  shows "maximal_run p w (xs @ c # ys) \<longleftrightarrow> maximal_run p w xs \<or> maximal_run p w ys"
proof
  assume "maximal_run p w (xs @ c # ys)"
  then obtain a b where ab: "xs @ c # ys = a @ w @ b" "a = [] \<or> \<not> p (last a)"
      "b = [] \<or> \<not> p (hd b)" and w: "w \<noteq> []" "list_all p w"
    by (rule maximal_runE)
  from assms w have "c \<notin> set w" by (auto simp: list_all_iff)
  from infix_around [OF ab(1) [symmetric] this] show "maximal_run p w xs \<or> maximal_run p w ys"
  proof (elim disjE exE conjE)
    fix b' assume "xs = a @ w @ b'" "b = b' @ c # ys"
    with ab w have "maximal_run p w xs"
      unfolding maximal_run_def by (intro conjI exI [of _ a] exI [of _ b']) (auto simp: hd_append)
    then show ?thesis ..
  next
    fix a' assume "ys = a' @ w @ b" "a = xs @ c # a'"
    with ab w have "maximal_run p w ys"
      unfolding maximal_run_def by (intro conjI exI [of _ a'] exI [of _ b]) (auto split: if_splits)
    then show ?thesis ..
  qed
next
  assume "maximal_run p w xs \<or> maximal_run p w ys"
  then show "maximal_run p w (xs @ c # ys)"
  proof
    assume "maximal_run p w xs"
    then obtain a b where "xs = a @ w @ b" "a = [] \<or> \<not> p (last a)" "b = [] \<or> \<not> p (hd b)"
        "w \<noteq> []" "list_all p w"
      by (rule maximal_runE)
    with assms show ?thesis
      unfolding maximal_run_def by (intro conjI exI [of _ a] exI [of _ "b @ c # ys"]) (auto simp: hd_append)
  next
    assume "maximal_run p w ys"
    then obtain a b where "ys = a @ w @ b" "a = [] \<or> \<not> p (last a)" "b = [] \<or> \<not> p (hd b)"
        "w \<noteq> []" "list_all p w"
      by (rule maximal_runE)
    with assms show ?thesis
      unfolding maximal_run_def by (intro conjI exI [of _ "xs @ c # a"] exI [of _ b]) auto
  qed
qed

lemma token_runs_iff:
  "list_all p cur \<Longrightarrow> w \<in> set (token_runs p cur s) \<longleftrightarrow> maximal_run p w (cur @ s)"
proof (induction s arbitrary: cur)
  case Nil
  then show ?case by (auto simp: maximal_run_whole)
next
  case (Cons c s)
  show ?case
  proof (cases "p c")
    case True
    with Cons show ?thesis by simp
  next
    case False
    with Cons show ?thesis
      by (auto simp: maximal_run_split maximal_run_whole)
  qed
qed

end
