(* ===== verification/Command_ACL.thy ===== *)
theory Command_ACL
  imports Access Tokens "HOL-Library.Product_Lexorder" "HOL-Library.Multiset"
begin

text \<open>
  The command filter (\<open>gated-core/src/command_acl.rs\<close>) and the loader of its rules
  (\<open>gated-core/src/command_acl_loader.rs\<close>). The regular expression engine is the
  parameter \<open>regex\<close>: \<open>regex pattern\<close> is \<open>None\<close> for an invalid pattern and otherwise the
  match predicate.
\<close>

section \<open>Rules and contexts\<close>

datatype AclAction = Allow | Deny | Review

record AclDecision =
  ad_action :: AclAction
  ad_rule_id :: "int option"
  ad_rule_name :: "string option"

record AclContext =
  ac_protocol :: string
  ac_command :: string
  ac_target_id :: "uuid option"
  ac_role_ids :: "uuid list"

record CommandAclRuleView =
  rule_id :: int
  rule_name :: string
  enabled :: bool
  priority :: int
  rule_protocol :: string
  match_type :: string
  pattern :: string
  rule_action :: string
  rule_target_id :: "uuid option"
  rule_role_id :: "uuid option"

type_synonym regex = "string \<Rightarrow> (string \<Rightarrow> bool) option"

section \<open>Matching\<close>

definition word_char :: "char \<Rightarrow> bool" where
  "word_char c \<longleftrightarrow> is_ascii_alphanumeric c \<or> c = CHR ''_''"

definition tokenize :: "string \<Rightarrow> string list" where
  "tokenize s = token_runs word_char [] s"

definition keyword_matches :: "string \<Rightarrow> string \<Rightarrow> bool" where
  "keyword_matches pat command =
     (let pat = to_ascii_lowercase (trim pat)
      in if pat = [] then False
         else (let cmd = to_ascii_lowercase command
               in if list_all word_char pat then pat \<in> set (tokenize cmd)
                  else contains_str cmd pat))"

definition pattern_matches :: "regex \<Rightarrow> CommandAclRuleView \<Rightarrow> string \<Rightarrow> bool" where
  "pattern_matches regex rule command =
     (if match_type rule = ''regex''
      then (case regex (pattern rule) of None \<Rightarrow> False | Some is_match \<Rightarrow> is_match command)
      else if match_type rule = ''keyword'' then keyword_matches (pattern rule) command
      else False)"

definition parse_action :: "string \<Rightarrow> AclAction" where
  "parse_action action =
     (if action = ''deny'' then Deny else if action = ''review'' then Review else Allow)"

definition rule_applies :: "CommandAclRuleView \<Rightarrow> AclContext \<Rightarrow> bool" where
  "rule_applies rule ctx =
     (if \<not> enabled rule then False
      else if rule_protocol rule \<noteq> ''any'' \<and> rule_protocol rule \<noteq> ac_protocol ctx then False
      else if \<not> (case rule_target_id rule of None \<Rightarrow> True | Some t \<Rightarrow> ac_target_id ctx = Some t)
      then False
      else (case rule_role_id rule of None \<Rightarrow> True | Some r \<Rightarrow> r \<in> set (ac_role_ids ctx)))"

definition rule_key :: "CommandAclRuleView \<Rightarrow> int \<times> int" where
  "rule_key r = (priority r, rule_id r)"

definition decide :: "CommandAclRuleView \<Rightarrow> AclDecision" where
  "decide rule = \<lparr>ad_action = parse_action (rule_action rule), ad_rule_id = Some (rule_id rule),
                  ad_rule_name = Some (rule_name rule)\<rparr>"

definition default_allow :: AclDecision where
  "default_allow = \<lparr>ad_action = Allow, ad_rule_id = None, ad_rule_name = None\<rparr>"

definition evaluate :: "regex \<Rightarrow> CommandAclRuleView list \<Rightarrow> AclContext \<Rightarrow> AclDecision" where
  "evaluate regex rules ctx =
     (let candidates = sort_key rule_key (filter (\<lambda>r. rule_applies r ctx) rules)
      in case find (\<lambda>r. pattern_matches regex r (ac_command ctx)) candidates of
           Some rule \<Rightarrow> decide rule
         | None \<Rightarrow> default_allow)"

section \<open>Loading\<close>

text \<open>A row of the table has the fields of the view; its 32-bit identifier widens.\<close>

definition to_rule_view :: "CommandAclRuleView \<Rightarrow> CommandAclRuleView" where
  "to_rule_view model =
     \<lparr>rule_id = rule_id model, rule_name = rule_name model, enabled = enabled model,
      priority = priority model, rule_protocol = rule_protocol model,
      match_type = match_type model, pattern = pattern model, rule_action = rule_action model,
      rule_target_id = rule_target_id model, rule_role_id = rule_role_id model\<rparr>"

definition load_enabled_rules :: "CommandAclRuleView list \<Rightarrow> CommandAclRuleView list" where
  "load_enabled_rules table = map to_rule_view (sort_key rule_key (filter enabled table))"

definition load_user_role_ids :: "Db \<Rightarrow> uuid \<Rightarrow> uuid list" where
  "load_user_role_ids db user =
     map ura_role (filter (\<lambda>a. ura_user a = user) (user_roles db))"

record DbCommandAclEnforcer =
  enf_target_id :: uuid
  enf_role_ids :: "uuid list"

definition enforcer_new :: "Db \<Rightarrow> uuid \<Rightarrow> uuid \<Rightarrow> DbCommandAclEnforcer" where
  "enforcer_new db target user =
     \<lparr>enf_target_id = target, enf_role_ids = load_user_role_ids db user\<rparr>"

definition enforcer_evaluate ::
  "regex \<Rightarrow> CommandAclRuleView list \<Rightarrow> DbCommandAclEnforcer \<Rightarrow> string \<Rightarrow> string \<Rightarrow> AclDecision" where
  "enforcer_evaluate regex table enf protocol command =
     evaluate regex (load_enabled_rules table)
       \<lparr>ac_protocol = protocol, ac_command = command,
        ac_target_id = Some (enf_target_id enf), ac_role_ids = enf_role_ids enf\<rparr>"

section \<open>The first match decides\<close>

lemma find_sorted_least:
  assumes "find P (sort_key k xs) = Some x"
  shows "x \<in> set xs \<and> P x \<and> (\<forall>y \<in> set xs. P y \<longrightarrow> k x \<le> k y)"
proof -
  from find_first_split [OF assms] obtain us vs where
    s: "sort_key k xs = us @ x # vs" "P x" "\<forall>u \<in> set us. \<not> P u" by blast
  have set: "set xs = set us \<union> {x} \<union> set vs"
    using s(1) by (metis Un_insert_right set_append set_simps(2) set_sort sup_bot_right Un_insert_left)
  have "sorted (map k (us @ x # vs))"
    unfolding s(1) [symmetric] by (rule sorted_sort_key)
  then have "\<forall>v \<in> set vs. k x \<le> k v" by (simp add: sorted_append)
  with s set show ?thesis by auto
qed

lemma find_sorted_unique:
  assumes "inj_on k {y \<in> set xs. P y}" and "x \<in> set xs" and "P x"
    and "\<forall>y \<in> set xs. P y \<longrightarrow> k x \<le> k y"
  shows "find P (sort_key k xs) = Some x"
proof (cases "find P (sort_key k xs)")
  case None
  with assms(2,3) show ?thesis by (auto simp: find_None_iff_all)
next
  case (Some y)
  from find_sorted_least [OF Some] assms have "k x = k y" "y \<in> set xs" "P y"
    by (auto intro: antisym)
  with assms have "x = y" by (auto dest: inj_onD)
  with Some show ?thesis by simp
qed

definition acl_matches :: "regex \<Rightarrow> AclContext \<Rightarrow> CommandAclRuleView \<Rightarrow> bool" where
  "acl_matches regex ctx r \<longleftrightarrow> rule_applies r ctx \<and> pattern_matches regex r (ac_command ctx)"

lemma find_filter: "find P (filter Q xs) = find (\<lambda>x. Q x \<and> P x) xs"
  by (induction xs) auto

lemma evaluate_find:
  "evaluate regex rules ctx =
     (case find (acl_matches regex ctx) (sort_key rule_key rules) of
        Some r \<Rightarrow> decide r | None \<Rightarrow> default_allow)"
  by (simp add: evaluate_def acl_matches_def [abs_def] filter_sort [symmetric] find_filter)

text \<open>C12. The command filter follows the documented order. Either no enabled rule in scope
  matches the command, and it is allowed by no rule; or the decision is the action of a
  rule that is in scope (enabled, of the protocol, target and a role of the session),
  matches, and has the least priority number, then the least identifier, among all
  rules in scope that match.\<close>

theorem acl_first_match:
  "((\<forall>r \<in> set rules. \<not> acl_matches regex ctx r) \<and> evaluate regex rules ctx = default_allow) \<or>
   (\<exists>r \<in> set rules. acl_matches regex ctx r \<and> evaluate regex rules ctx = decide r \<and>
      (\<forall>r' \<in> set rules. acl_matches regex ctx r' \<longrightarrow>
         priority r < priority r' \<or> priority r = priority r' \<and> rule_id r \<le> rule_id r'))"
proof (cases "find (acl_matches regex ctx) (sort_key rule_key rules)")
  case None
  then have "\<forall>r \<in> set rules. \<not> acl_matches regex ctx r" by (simp add: find_None_iff_all)
  with None show ?thesis by (simp add: evaluate_find)
next
  case (Some r)
  from find_sorted_least [OF this] have "r \<in> set rules" "acl_matches regex ctx r"
      "\<forall>r' \<in> set rules. acl_matches regex ctx r' \<longrightarrow> rule_key r \<le> rule_key r'"
    by auto
  with Some show ?thesis
    by (auto simp: evaluate_find rule_key_def less_eq_prod_def intro!: bexI [of _ r])
qed

lemma evaluate_set_cong:
  assumes "inj_on rule_id (set rules)" and "set rules' = {r \<in> set rules. Q r}"
    and "\<And>r. r \<in> set rules \<Longrightarrow> acl_matches regex ctx r \<Longrightarrow> Q r"
  shows "evaluate regex rules' ctx = evaluate regex rules ctx"
proof (cases "find (acl_matches regex ctx) (sort_key rule_key rules)")
  case None
  with assms(2) have "find (acl_matches regex ctx) (sort_key rule_key rules') = None"
    by (auto simp: find_None_iff_all)
  with None show ?thesis by (simp add: evaluate_find)
next
  case (Some r)
  have "inj_on rule_key {y \<in> set rules'. acl_matches regex ctx y}"
    using assms(1,2) by (auto simp: inj_on_def rule_key_def)
  moreover from find_sorted_least [OF Some] have "r \<in> set rules'" "acl_matches regex ctx r"
      "\<forall>y \<in> set rules'. acl_matches regex ctx y \<longrightarrow> rule_key r \<le> rule_key y"
    using assms(2,3) by auto
  ultimately have "find (acl_matches regex ctx) (sort_key rule_key rules') = Some r"
    by (rule find_sorted_unique)
  with Some show ?thesis by (simp add: evaluate_find)
qed

lemma to_rule_view_id [simp]: "to_rule_view r = r"
  by (simp add: to_rule_view_def)

text \<open>C38. The enforcer of the database proxies, which filters and orders the rules in the
  database before it evaluates them, decides as the matcher does on the whole table in
  any order of its rows, with the roles the user had when the session was authorised:
  rule identifiers being unique, neither the storage order nor the two sorts can change
  a decision.\<close>

theorem acl_enforcer_refines:
  assumes "distinct (map rule_id table)" and "mset table' = mset table"
  shows "enforcer_evaluate regex table (enforcer_new db target user) protocol command =
     evaluate regex table'
       \<lparr>ac_protocol = protocol, ac_command = command, ac_target_id = Some target,
        ac_role_ids = load_user_role_ids db user\<rparr>"
proof -
  let ?ctx = "\<lparr>ac_protocol = protocol, ac_command = command, ac_target_id = Some target,
        ac_role_ids = load_user_role_ids db user\<rparr>"
  have "set table' = set table" using assms(2) by (metis set_mset_mset)
  then have inj: "inj_on rule_id (set table')" using assms(1) by (simp add: distinct_map)
  have "evaluate regex (load_enabled_rules table) ?ctx = evaluate regex table' ?ctx"
  proof (rule evaluate_set_cong [OF inj, where Q = enabled])
    show "set (load_enabled_rules table) = {r \<in> set table'. enabled r}"
      using \<open>set table' = set table\<close> by (auto simp: load_enabled_rules_def)
    show "enabled r" if "acl_matches regex ?ctx r" for r
      using that by (auto simp: acl_matches_def rule_applies_def split: if_splits)
  qed
  then show ?thesis by (simp add: enforcer_evaluate_def enforcer_new_def)
qed

text \<open>A single-word keyword matches whole words only: with the keyword trimmed and both
  sides lower-cased, it matches exactly when the command has it between two boundaries,
  each of which is an end of the command or a character other than a letter, a digit or
  an underscore.\<close>

lemma keyword_whole_word:
  assumes "pat = to_ascii_lowercase (trim p)" and "pat \<noteq> []" and "list_all word_char pat"
  shows "keyword_matches p command \<longleftrightarrow>
     (\<exists>a b. to_ascii_lowercase command = a @ pat @ b \<and>
        (a = [] \<or> \<not> word_char (last a)) \<and> (b = [] \<or> \<not> word_char (hd b)))"
  using assms token_runs_iff [of word_char "[]" pat]
  by (simp add: keyword_matches_def tokenize_def maximal_run_def Let_def)

section \<open>Instances\<close>

definition sample_rule :: CommandAclRuleView where
  "sample_rule = \<lparr>rule_id = 1, rule_name = ''no drop'', enabled = True, priority = 10,
     rule_protocol = ''any'', match_type = ''keyword'', pattern = ''drop'', rule_action = ''deny'',
     rule_target_id = None, rule_role_id = None\<rparr>"

definition sample_rules :: "CommandAclRuleView list" where
  "sample_rules = [sample_rule\<lparr>rule_id := 2, priority := 20, rule_action := ''allow''\<rparr>, sample_rule]"

definition sample_ctx :: AclContext where
  "sample_ctx = \<lparr>ac_protocol = ''mysql'', ac_command = ''DROP t'', ac_target_id = Some 5,
     ac_role_ids = []\<rparr>"

lemma sample_rules_match: "list_all (acl_matches (\<lambda>_. None) sample_ctx) sample_rules"
  by code_simp

theorem acl_first_match_witness: "ad_action (evaluate (\<lambda>_. None) sample_rules sample_ctx) = Deny"
proof -
  have "acl_matches (\<lambda>_. None) sample_ctx sample_rule" "sample_rule \<in> set sample_rules"
    using sample_rules_match by (simp_all add: sample_rules_def)
  with acl_first_match [of sample_rules "\<lambda>_. None" sample_ctx]
  obtain r where "r \<in> set sample_rules" "evaluate (\<lambda>_. None) sample_rules sample_ctx = decide r"
      "priority r \<le> priority sample_rule"
    by fastforce
  then show ?thesis by (auto simp: sample_rules_def sample_rule_def decide_def parse_action_def)
qed

theorem acl_enforcer_refines_witness:
  "enforcer_evaluate (\<lambda>_. None) sample_rules \<lparr>enf_target_id = 5, enf_role_ids = []\<rparr> ''mysql'' ''DROP t'' =
   evaluate (\<lambda>_. None) (rev sample_rules) sample_ctx"
proof -
  let ?db = "\<lparr>users = [], targets = [], roles = [], user_roles = [], target_roles = [],
    otp_credentials = [], password_credentials = [], sso_credentials = [], public_keys = [],
    certificates = [], tickets = [], api_tokens = [], accounts = [],
       target_accounts = []\<rparr>"
  have "distinct (map rule_id sample_rules)" "mset (rev sample_rules) = mset sample_rules"
    by (simp_all add: sample_rules_def sample_rule_def)
  from acl_enforcer_refines [OF this, of "\<lambda>_. None" ?db 5 0 "''mysql''" "''DROP t''"] show ?thesis
    by (simp add: enforcer_new_def load_user_role_ids_def sample_ctx_def)
qed

lemma keyword_whole_word_witness:
  "keyword_matches '' Drop '' ''x;DROP t'' \<and> \<not> keyword_matches ''drop'' ''eavesdrop''"
proof -
  have t: "''drop'' = to_ascii_lowercase (trim '' Drop '')" "''drop'' = to_ascii_lowercase (trim ''drop'')"
      "''drop'' \<noteq> []" "list_all word_char ''drop''"
    by code_simp+
  have "to_ascii_lowercase ''x;DROP t'' = ''x;'' @ ''drop'' @ '' t''" "\<not> word_char (last ''x;'')"
      "\<not> word_char (hd '' t'')"
    by code_simp+
  then have "keyword_matches '' Drop '' ''x;DROP t''"
    unfolding keyword_whole_word [OF t(1,3,4)] by blast
  moreover have "\<not> keyword_matches ''drop'' ''eavesdrop''" by code_simp
  ultimately show ?thesis ..
qed

end
