(* ===== verification/Sql_Readonly.thy ===== *)
theory Sql_Readonly
  imports Tokens
begin

text \<open>
  The read-only check of the SQL console
  (\<open>gated-admin/src/http_service/api/sql_validation.rs\<close>). The source works on the bytes
  of the text and pushes each byte as the character with that code; so the stripped
  text is a list of characters below 256, and \<open>trim\<close> on it removes the white space
  among these.
\<close>

section \<open>Violations and lists\<close>

datatype ReadonlyViolation =
    Empty
  | NotReadOnly
  | MultipleStatements
  | WriteKeyword string
  | DangerousFunction string

fun violation_text :: "ReadonlyViolation \<Rightarrow> string" where
  "violation_text Empty = ''SQL is empty''"
| "violation_text NotReadOnly =
     ''Target is read-only: only SELECT / SHOW / EXPLAIN / WITH / DESC are allowed''"
| "violation_text MultipleStatements = ''Target is read-only: multiple statements are not allowed''"
| "violation_text (WriteKeyword k) =
     ''Target is read-only: '' @ [char_of (39::nat)] @ k @ [char_of (39::nat)] @ '' is a write statement''"
| "violation_text (DangerousFunction k) =
     ''Target is read-only: function '' @ [char_of (39::nat)] @ k @ [char_of (39::nat)] @ '' is not allowed''"

definition WRITE_KEYWORDS :: "string list" where
  "WRITE_KEYWORDS =
     [''INSERT'', ''UPDATE'', ''DELETE'', ''MERGE'', ''REPLACE'', ''CREATE'', ''DROP'', ''ALTER'',
      ''TRUNCATE'', ''GRANT'', ''REVOKE'', ''CALL'', ''EXEC'', ''EXECUTE'', ''COPY'', ''VACUUM'',
      ''LOCK'', ''RENAME'', ''COMMENT'', ''REINDEX'', ''CLUSTER'', ''REFRESH'', ''ATTACH'',
      ''DETACH'', ''UPSERT'', ''OUTFILE'', ''DUMPFILE'']"

definition DANGEROUS_FUNCTIONS :: "string list" where
  "DANGEROUS_FUNCTIONS =
     [''pg_read_server_files'', ''pg_read_binary_file'', ''pg_write_server_files'', ''pg_ls_dir'',
      ''pg_read_file'', ''pg_sleep'', ''pg_sleep_for'', ''pg_sleep_until'', ''pg_exec'',
      ''lo_import'', ''lo_export'', ''xp_cmdshell'', ''sys_exec'', ''sys_eval'', ''load_file'',
      ''sleep'', ''benchmark'']"

definition ALLOWED_FIRST_KEYWORDS :: "string list" where
  "ALLOWED_FIRST_KEYWORDS = [''SELECT'', ''SHOW'', ''EXPLAIN'', ''DESCRIBE'', ''DESC'', ''WITH'']"

section \<open>Stripping comments and strings\<close>

text \<open>The apostrophe, the quotation mark, the backslash and the newline by their codes.\<close>

abbreviation apos :: char where "apos \<equiv> CHR 0x27"
abbreviation quot :: char where "quot \<equiv> CHR 0x22"
abbreviation bslash :: char where "bslash \<equiv> CHR 0x5C"
abbreviation backtick :: char where "backtick \<equiv> CHR 0x60"
abbreviation newline :: char where "newline \<equiv> CHR 0x0A"
abbreviation blank :: char where "blank \<equiv> CHR '' ''"

datatype StripState =
  Normal | Single | Double | Backtick | LineComment | BlockComment | DollarQuote string

definition tag_char :: "char \<Rightarrow> bool" where
  "tag_char c \<longleftrightarrow> is_ascii_alphanumeric c \<or> c = CHR ''_''"

fun dollar_scan :: "string \<Rightarrow> string \<Rightarrow> string option" where
  "dollar_scan acc [] = None"
| "dollar_scan acc (c # s) =
     (if c = CHR ''$'' then Some (acc @ [c])
      else if \<not> tag_char c then None
      else dollar_scan (acc @ [c]) s)"

fun parse_dollar_tag :: "string \<Rightarrow> string option" where
  "parse_dollar_tag [] = None"
| "parse_dollar_tag (c # s) = (if c \<noteq> CHR ''$'' then None else dollar_scan [c] s)"

lemma dollar_scan_length: "dollar_scan acc s = Some t \<Longrightarrow> length acc < length t"
  by (induction acc s rule: dollar_scan.induct) (auto split: if_splits)

lemma parse_dollar_tag_length: "parse_dollar_tag s = Some t \<Longrightarrow> 1 < length t"
  by (cases s) (auto split: if_splits dest: dollar_scan_length)

text \<open>The loop from a position on: the state and the rest of the text. A dollar tag is never
  empty, so the test \<open>tag \<noteq> []\<close> only serves termination.\<close>

function (sequential) strip_from :: "bool \<Rightarrow> StripState \<Rightarrow> string \<Rightarrow> string" where
  "strip_from ids st [] = []"
| "strip_from ids Normal (c # s) =
     (if c \<in> {CHR ''U'', CHR ''u''} \<and> prefix [CHR ''&'', quot] s then '' EXECUTE '' else []) @
     (if c = CHR ''-'' \<and> prefix ''-'' s then blank # strip_from ids LineComment (drop 1 s)
      else if c = CHR ''/'' \<and> prefix ''*'' s
      then (if prefix ''!'' (drop 1 s) \<or> prefix ''M!'' (drop 1 s) then '' EXECUTE '' else []) @
           blank # strip_from ids BlockComment (drop 1 s)
      else (case (if c = CHR ''$'' then parse_dollar_tag (c # s) else None) of
              Some tag \<Rightarrow> blank # strip_from ids (DollarQuote tag) (drop (length tag) (c # s))
            | None \<Rightarrow>
                if c = apos then blank # strip_from ids Single s
                else if c = quot then blank # strip_from ids Double s
                else if c = backtick then blank # strip_from ids Backtick s
                else c # strip_from ids Normal s))"
| "strip_from ids Single (c # s) =
     (if c = apos \<and> prefix [apos] s then strip_from ids Single (drop 1 s)
      else if c = bslash \<and> s \<noteq> [] then strip_from ids Single (drop 1 s)
      else if c = apos then blank # strip_from ids Normal s
      else strip_from ids Single s)"
| "strip_from ids Double (c # s) =
     (if c = quot \<and> prefix [quot] s then strip_from ids Double (drop 1 s)
      else (let kept = (if ids then [c] else [])
            in if c = quot then blank # kept @ strip_from ids Normal s
               else kept @ strip_from ids Double s))"
| "strip_from ids Backtick (c # s) =
     (let kept = (if ids then [c] else [])
      in if c = backtick then blank # kept @ strip_from ids Normal s
         else kept @ strip_from ids Backtick s)"
| "strip_from ids LineComment (c # s) =
     (if c = newline then newline # strip_from ids Normal s else strip_from ids LineComment s)"
| "strip_from ids BlockComment (c # s) =
     (if c = CHR ''*'' \<and> prefix ''/'' s then blank # strip_from ids Normal (drop 1 s)
      else strip_from ids BlockComment s)"
| "strip_from ids (DollarQuote tag) (c # s) =
     (if c = CHR ''$'' \<and> prefix tag (c # s) \<and> tag \<noteq> []
      then strip_from ids Normal (drop (length tag) (c # s))
      else strip_from ids (DollarQuote tag) s)"
  by pat_completeness auto
termination
  by (relation "measure (\<lambda>(_, _, s). length s)")
    (auto split: if_splits dest!: dollar_scan_length)

definition strip_comments_and_strings :: "string \<Rightarrow> bool \<Rightarrow> string" where
  "strip_comments_and_strings sql preserve_identifiers = strip_from preserve_identifiers Normal sql"

section \<open>Validation\<close>

definition latin1_space :: "char \<Rightarrow> bool" where
  "latin1_space c \<longleftrightarrow>
     9 \<le> char_code c \<and> char_code c \<le> 13 \<or> char_code c \<in> {32, 0x85, 0xA0}"

definition latin1_trim :: "string \<Rightarrow> string" where
  "latin1_trim s = rev (dropWhile latin1_space (rev (dropWhile latin1_space s)))"

definition sql_char :: "char \<Rightarrow> bool" where
  "sql_char c \<longleftrightarrow> is_ascii_alphabetic c \<or> c = CHR ''_''"

definition tokenize :: "string \<Rightarrow> string list" where
  "tokenize stripped = map to_ascii_uppercase (token_runs sql_char [] stripped)"

definition statement_count :: "string \<Rightarrow> nat" where
  "statement_count stripped =
     length (filter (\<lambda>s. s \<noteq> []) (map latin1_trim (split_on (CHR '';'') stripped)))"

definition validate_readonly_sql :: "string \<Rightarrow> ReadonlyViolation + unit" where
  "validate_readonly_sql sql =
     (let stripped = strip_comments_and_strings sql False
      in if latin1_trim stripped = [] then Inl Empty
         else if statement_count stripped > 1 then Inl MultipleStatements
         else (let tokens = tokenize stripped
               in case tokens of
                    [] \<Rightarrow> Inl Empty
                  | first # _ \<Rightarrow>
                      if first \<notin> set ALLOWED_FIRST_KEYWORDS then Inl NotReadOnly
                      else (case find (\<lambda>t. t \<in> set WRITE_KEYWORDS) tokens of
                              Some t \<Rightarrow> Inl (WriteKeyword t)
                            | None \<Rightarrow>
                                if list_ex (\<lambda>t. t = ''INTO'') tokens then Inl (WriteKeyword ''INTO'')
                                else (let identifiers = tokenize (strip_comments_and_strings sql True)
                                      in case find (\<lambda>l. l \<in> set DANGEROUS_FUNCTIONS)
                                                (map to_ascii_lowercase identifiers) of
                                           Some l \<Rightarrow> Inl (DangerousFunction l)
                                         | None \<Rightarrow> Inr ()))))"

declare strip_from.simps [simp del]

section \<open>A lexical reference\<close>

text \<open>
  Texts built from lexical segments, with the skeleton each segment should leave: code
  stays, the content of literals, comments and quoted identifiers goes, except that
  quoted identifiers are kept when the check looks for function names.
\<close>

datatype segment =
    Text string
  | Literal string
  | QuotedIdent string
  | TickedIdent string
  | Line string
  | Block string
  | Dollar string string

definition doubled :: "char \<Rightarrow> string \<Rightarrow> string" where
  "doubled q b = concat (map (\<lambda>c. if c = q then [q, q] else [c]) b)"

fun render_segment :: "segment \<Rightarrow> string" where
  "render_segment (Text t) = t"
| "render_segment (Literal b) = apos # doubled apos b @ [apos]"
| "render_segment (QuotedIdent b) = quot # doubled quot b @ [quot]"
| "render_segment (TickedIdent b) = backtick # b @ [backtick]"
| "render_segment (Line b) = ''--'' @ b @ [newline]"
| "render_segment (Block b) = ''/*'' @ b @ ''*/''"
| "render_segment (Dollar t b) = CHR ''$'' # t @ CHR ''$'' # b @ CHR ''$'' # t @ ''$''"

definition render :: "segment list \<Rightarrow> string" where
  "render segs = concat (map render_segment segs)"

fun skeleton :: "bool \<Rightarrow> segment \<Rightarrow> string" where
  "skeleton ids (Text t) = t"
| "skeleton ids (Literal b) = [blank, blank]"
| "skeleton ids (QuotedIdent b) =
     blank # (if ids then filter (\<lambda>c. c \<noteq> quot) b @ [blank, quot] else [blank])"
| "skeleton ids (TickedIdent b) = blank # (if ids then b @ [blank, backtick] else [blank])"
| "skeleton ids (Line b) = [blank, newline]"
| "skeleton ids (Block b) = [blank, blank]"
| "skeleton ids (Dollar t b) = [blank]"

definition code_part :: "bool \<Rightarrow> segment list \<Rightarrow> string" where
  "code_part ids segs = concat (map (skeleton ids) segs)"

definition text_char :: "char \<Rightarrow> bool" where
  "text_char c \<longleftrightarrow> c \<notin> {apos, quot, backtick, CHR ''-'', CHR ''/'', CHR ''$'', CHR ''&''}"

fun wf_segment :: "segment \<Rightarrow> bool" where
  "wf_segment (Text t) \<longleftrightarrow> list_all text_char t"
| "wf_segment (Literal b) \<longleftrightarrow> bslash \<notin> set b"
| "wf_segment (QuotedIdent b) \<longleftrightarrow> True"
| "wf_segment (TickedIdent b) \<longleftrightarrow> backtick \<notin> set b"
| "wf_segment (Line b) \<longleftrightarrow> newline \<notin> set b"
| "wf_segment (Block b) \<longleftrightarrow> \<not> sublist ''*/'' b \<and> \<not> prefix ''!'' b \<and> \<not> prefix ''M!'' b"
| "wf_segment (Dollar t b) \<longleftrightarrow> list_all tag_char t \<and> CHR ''$'' \<notin> set b"

fun may_follow :: "segment \<Rightarrow> string \<Rightarrow> bool" where
  "may_follow (Literal _) rest \<longleftrightarrow> \<not> prefix [apos] rest"
| "may_follow (QuotedIdent _) rest \<longleftrightarrow> \<not> prefix [quot] rest"
| "may_follow _ rest \<longleftrightarrow> True"

fun wf_segments :: "segment list \<Rightarrow> bool" where
  "wf_segments [] \<longleftrightarrow> True"
| "wf_segments (x # xs) \<longleftrightarrow> wf_segment x \<and> may_follow x (render xs) \<and> wf_segments xs"

section \<open>Each segment\<close>

lemma strip_text:
  "list_all text_char t \<Longrightarrow> \<not> prefix ''&'' rest \<Longrightarrow>
     strip_from ids Normal (t @ rest) = t @ strip_from ids Normal rest"
proof (induction t)
  case (Cons c t)
  have "\<not> prefix [CHR ''&'', quot] (t @ rest)"
    using Cons.prems by (cases t; cases rest) (auto simp: text_char_def)
  with Cons show ?case
    by (simp add: strip_from.simps(2) text_char_def)
qed simp

lemma strip_single:
  "bslash \<notin> set b \<Longrightarrow> \<not> prefix [apos] rest \<Longrightarrow>
     strip_from ids Single (doubled apos b @ apos # rest) = blank # strip_from ids Normal rest"
proof (induction b)
  case Nil
  then show ?case by (simp add: doubled_def strip_from.simps)
next
  case (Cons c b)
  then show ?case by (auto simp: doubled_def strip_from.simps(3))
qed

lemma strip_double:
  "\<not> prefix [quot] rest \<Longrightarrow>
     strip_from ids Double (doubled quot b @ quot # rest) =
     (if ids then filter (\<lambda>c. c \<noteq> quot) b @ [blank, quot] else [blank]) @ strip_from ids Normal rest"
proof (induction b)
  case Nil
  then show ?case by (simp add: doubled_def strip_from.simps)
next
  case (Cons c b)
  then show ?case by (auto simp: doubled_def strip_from.simps(4) Let_def)
qed

lemma strip_ticked:
  "backtick \<notin> set b \<Longrightarrow>
     strip_from ids Backtick (b @ backtick # rest) =
     (if ids then b @ [blank, backtick] else [blank]) @ strip_from ids Normal rest"
  by (induction b) (auto simp: strip_from.simps(5) Let_def)

lemma strip_line:
  "newline \<notin> set b \<Longrightarrow>
     strip_from ids LineComment (b @ newline # rest) = newline # strip_from ids Normal rest"
  by (induction b) (auto simp: strip_from.simps(6))

lemma strip_block:
  "\<not> sublist ''*/'' b \<Longrightarrow>
     strip_from ids BlockComment (b @ ''*/'' @ rest) = blank # strip_from ids Normal rest"
proof (induction b)
  case Nil
  then show ?case by (simp add: strip_from.simps(7))
next
  case (Cons c b)
  then have "\<not> sublist ''*/'' b" "\<not> prefix ''*/'' (c # b)"
    by (auto simp: sublist_Cons_right)
  with Cons.IH show ?case by (cases b) (auto simp: strip_from.simps(7) [of _ c])
qed

lemma strip_dollar_body:
  "CHR ''$'' \<notin> set b \<Longrightarrow> tag = CHR ''$'' # t \<Longrightarrow>
     strip_from ids (DollarQuote tag) (b @ tag @ rest) = strip_from ids Normal rest"
  by (induction b) (auto simp: strip_from.simps(8))

lemma dollar_scan_tag:
  "list_all tag_char t \<Longrightarrow> dollar_scan acc (t @ CHR ''$'' # rest) = Some (acc @ t @ ''$'')"
proof (induction t arbitrary: acc)
  case (Cons c t)
  then have "c \<noteq> CHR ''$''" by (auto simp: tag_char_def ascii_defs)
  with Cons show ?case by simp
qed simp

lemma strip_segment:
  assumes "wf_segment x" and "may_follow x rest" and "\<not> prefix ''&'' rest"
  shows "strip_from ids Normal (render_segment x @ rest) = skeleton ids x @ strip_from ids Normal rest"
proof (cases x)
  case (Text t)
  with assms show ?thesis by (simp add: strip_text)
next
  case (Literal b)
  with assms strip_single [of b rest ids] show ?thesis by (simp add: strip_from.simps(2))
next
  case (QuotedIdent b)
  with assms strip_double [of rest ids b] show ?thesis by (simp add: strip_from.simps(2))
next
  case (TickedIdent b)
  with assms strip_ticked [of b ids rest] show ?thesis by (simp add: strip_from.simps(2))
next
  case (Line b)
  with assms strip_line [of b ids rest] show ?thesis by (simp add: strip_from.simps(2))
next
  case (Block b)
  with assms have "\<not> prefix ''!'' (b @ ''*/'' @ rest)" "\<not> prefix ''M!'' (b @ ''*/'' @ rest)"
    by (cases b; cases "tl b"; auto)+
  with Block assms strip_block [of b ids rest] show ?thesis by (simp add: strip_from.simps(2))
next
  case (Dollar t b)
  with assms dollar_scan_tag [of t "''$''" "b @ CHR ''$'' # t @ CHR ''$'' # rest"]
    strip_dollar_body [of b "CHR ''$'' # t @ ''$''" "t @ ''$''" ids rest]
  show ?thesis by (simp add: strip_from.simps(2))
qed

lemma render_no_amp: "wf_segments segs \<Longrightarrow> \<not> prefix ''&'' (render segs)"
proof (induction segs)
  case (Cons x xs)
  then have "\<not> prefix ''&'' (render xs)" by simp
  with Cons.prems show ?case
    by (cases x; cases "render_segment x") (auto simp: render_def text_char_def)
qed (simp add: render_def)

lemma strip_segments:
  "wf_segments segs \<Longrightarrow> strip_comments_and_strings (render segs) ids = code_part ids segs"
proof (induction segs)
  case Nil
  then show ?case by (simp add: render_def code_part_def strip_comments_and_strings_def strip_from.simps)
next
  case (Cons x xs)
  then have "strip_from ids Normal (render_segment x @ render xs) =
      skeleton ids x @ strip_from ids Normal (render xs)"
    by (intro strip_segment) (simp_all add: render_no_amp)
  with Cons show ?case
    by (simp add: render_def code_part_def strip_comments_and_strings_def)
qed

section \<open>What is accepted\<close>

definition words :: "string \<Rightarrow> string set" where
  "words s = to_ascii_uppercase ` {w. maximal_run sql_char w s}"

lemma set_tokenize: "set (tokenize s) = words s"
  by (auto simp: tokenize_def words_def token_runs_iff)

lemma latin1_trim_Nil: "latin1_trim s = [] \<longleftrightarrow> list_all latin1_space s"
proof
  assume "latin1_trim s = []"
  then have "\<forall>x \<in> set (dropWhile latin1_space s). latin1_space x"
    by (simp add: latin1_trim_def dropWhile_eq_Nil_conv)
  then show "list_all latin1_space s"
    by (metis (full_types) dropWhile_eq_Nil_conv hd_dropWhile list.set_sel(1) list_all_iff)
next
  assume "list_all latin1_space s"
  then show "latin1_trim s = []"
    by (auto simp: latin1_trim_def list_all_iff dest: set_dropWhileD)
qed

lemma words_not_blank: "words s \<noteq> {} \<Longrightarrow> latin1_trim s \<noteq> []"
proof -
  assume "words s \<noteq> {}"
  then obtain w where "maximal_run sql_char w s" by (auto simp: words_def)
  then obtain a b where ab: "s = a @ w @ b" "w \<noteq> []" "list_all sql_char w" by (rule maximal_runE)
  then have "sql_char (hd w)" "hd w \<in> set s" by (auto simp: list_all_iff)
  moreover from this(1) have "\<not> latin1_space (hd w)"
    by (auto simp: sql_char_def ascii_defs latin1_space_def)
  ultimately show ?thesis by (auto simp: latin1_trim_Nil list_all_iff)
qed

lemma validate_accepts:
  "validate_readonly_sql sql = Inr () \<longleftrightarrow>
     latin1_trim (strip_comments_and_strings sql False) \<noteq> [] \<and>
     statement_count (strip_comments_and_strings sql False) \<le> 1 \<and>
     tokenize (strip_comments_and_strings sql False) \<noteq> [] \<and>
     hd (tokenize (strip_comments_and_strings sql False)) \<in> set ALLOWED_FIRST_KEYWORDS \<and>
     find (\<lambda>t. t \<in> set WRITE_KEYWORDS) (tokenize (strip_comments_and_strings sql False)) = None \<and>
     \<not> list_ex (\<lambda>t. t = ''INTO'') (tokenize (strip_comments_and_strings sql False)) \<and>
     find (\<lambda>l. l \<in> set DANGEROUS_FUNCTIONS)
       (map to_ascii_lowercase (tokenize (strip_comments_and_strings sql True))) = None"
  unfolding validate_readonly_sql_def Let_def
  by (simp add: not_less split: list.split option.split)



text \<open>
  Texts the check accepts although a database reads a write statement in them: a
  backslash before a closing quote (a plain character in standard PostgreSQL strings), a
  nested block comment (PostgreSQL), a hash comment (MySQL), two hyphens without a
  following blank (MySQL subtracts), and a backslash inside a double-quoted string (MySQL).
\<close>

definition bypass_queries :: "string list" where
  "bypass_queries =
     [''SELECT '' @ [apos, bslash, apos] @ ''; DELETE FROM t; --'' @ [apos],
      ''SELECT 1 /* /* */ '' @ [apos] @ '' */ ; DELETE FROM t; -- '' @ [apos],
      ''SELECT 1 #'' @ [apos, newline] @ ''INTO OUTFILE '' @ [apos] @ ''/tmp/x'' @ [apos],
      ''SELECT 1 --1 INTO OUTFILE '' @ [apos] @ ''/tmp/x'' @ [apos],
      ''SELECT '' @ [quot, bslash, quot] @ '','' @ [quot] @ '' INTO OUTFILE '' @ [apos] @ ''/x''
        @ [apos] @ '' -- '' @ [quot]]"



end
