(* ===== verification/Rate_Limit.thy ===== *)
theory Rate_Limit
  imports Rust_Std Errors
begin

text \<open>
  Bandwidth limits of a connection (\<open>gated-core/src/rate_limiting\<close>: limiter.rs,
  shared\_limiter.rs, swappable\_cell.rs, stream.rs, stack.rs). The token bucket of the
  governor crate is the parameter \<open>governor\<close>: a fresh bucket and the check that takes
  cells or tells when they will be there. Shared limiters and watch channels are
  addresses into a \<open>world\<close>; a panic is an error value. Every turn of a polling loop reads
  the clock once; the readings, each with the random part of the jitter, are a list that
  the loop consumes, and \<open>None\<close> stands for a list that is too short.
\<close>

section \<open>Limiters (limiter.rs, shared\_limiter.rs)\<close>

datatype RateLimiterDirection = Read | Write

datatype gov_result = InsufficientCapacity | Conforming | NotUntil nat

record 'l governor =
  gov_keyed :: "u32 \<Rightarrow> u32 \<Rightarrow> 'l"
  gov_check :: "'l \<Rightarrow> RateLimiterDirection \<Rightarrow> u32 \<Rightarrow> nat \<Rightarrow> gov_result \<times> 'l"

datatype rl_error = Fail GatedError | Panic

text \<open>\<open>GatedRateLimiter.inner\<close>: no limit, or a bucket with its quota.\<close>

type_synonym 'l limiter = "('l \<times> u32) option"

definition max_cells :: u32 where
  "max_cells = 0xFFFFFFFF"

definition new_rate_limiter :: "'l governor \<Rightarrow> nat \<Rightarrow> u32 \<Rightarrow> rl_error + 'l" where
  "new_rate_limiter g now bytes_per_second =
     (let l = gov_keyed g bytes_per_second max_cells;
          n = max_cells - bytes_per_second
      in if n = 0 then Inl Panic
         else Inr (snd (gov_check g (snd (gov_check g l Read n now)) Write n now)))"

definition assert_valid_quota :: "u32 \<Rightarrow> rl_error + u32" where
  "assert_valid_quota v = (if v = 0 then Inl (Fail (RateLimiterInvalidQuota v)) else Inr v)"

definition unlimited :: "'l limiter" where
  "unlimited = None"

definition limited :: "'l governor \<Rightarrow> nat \<Rightarrow> u32 \<Rightarrow> rl_error + 'l limiter" where
  "limited g now bps = rbind (new_rate_limiter g now bps) (\<lambda>l. Inr (Some (l, bps)))"

definition limiter_new :: "'l governor \<Rightarrow> nat \<Rightarrow> u32 option \<Rightarrow> rl_error + 'l limiter" where
  "limiter_new g now bytes_per_second =
     (case bytes_per_second of
        Some bytes \<Rightarrow> rbind (assert_valid_quota bytes) (limited g now)
      | None \<Rightarrow> Inr unlimited)"

definition limiter_replace ::
  "'l governor \<Rightarrow> nat \<Rightarrow> u32 option \<Rightarrow> 'l limiter \<Rightarrow> (rl_error + unit) \<times> 'l limiter" where
  "limiter_replace g now bytes_per_second lim =
     (case bytes_per_second of
        None \<Rightarrow> (Inr (), None)
      | Some bytes \<Rightarrow>
          (case rbind (assert_valid_quota bytes)
                  (\<lambda>bps. rbind (new_rate_limiter g now bps) (\<lambda>l. Inr (l, bps))) of
             Inl e \<Rightarrow> (Inl e, lim)
           | Inr inner \<Rightarrow> (Inr (), Some inner)))"

definition limiter_bytes_ready_at ::
  "'l governor \<Rightarrow> nat \<Rightarrow> 'l limiter \<Rightarrow> RateLimiterDirection \<Rightarrow> nat
     \<Rightarrow> (rl_error + nat option) \<times> 'l limiter" where
  "limiter_bytes_ready_at g now lim direction bytes =
     (case lim of
        None \<Rightarrow> (Inr None, lim)
      | Some (l, bps) \<Rightarrow>
          (let n = (of_nat bytes :: u32)
           in if n = 0 then (Inr None, lim)
              else (case gov_check g l direction n now of
                      (InsufficientCapacity, l') \<Rightarrow>
                        (Inl (Fail RateLimiterInsufficientCapacity), Some (l', bps))
                    | (Conforming, l') \<Rightarrow> (Inr None, Some (l', bps))
                    | (NotUntil at, l') \<Rightarrow> (Inr (Some at), Some (l', bps)))))"

section \<open>Shared limiters and swappable cells (swappable\_cell.rs)\<close>

record watch =
  watch_value :: "nat option"
  watch_version :: nat

record 'l world =
  limiters :: "nat \<Rightarrow> 'l limiter"
  next_limiter :: nat
  channels :: "nat \<Rightarrow> watch"
  next_channel :: nat

definition share :: "'l limiter \<Rightarrow> 'l world \<Rightarrow> nat \<times> 'l world" where
  "share lim w =
     (next_limiter w,
      w\<lparr>limiters := (limiters w)(next_limiter w := lim), next_limiter := Suc (next_limiter w)\<rparr>)"

record SwappableLimiterCell =
  cell_inner :: "nat option"
  cell_channel :: nat
  cell_seen :: nat

definition cell_empty :: "'l world \<Rightarrow> SwappableLimiterCell \<times> 'l world" where
  "cell_empty w =
     (\<lparr>cell_inner = None, cell_channel = next_channel w, cell_seen = 0\<rparr>,
      w\<lparr>channels := (channels w)(next_channel w := \<lparr>watch_value = None, watch_version = 0\<rparr>),
        next_channel := Suc (next_channel w)\<rparr>)"

text \<open>A handle is the sending end: the address of the channel.\<close>

definition cell_handle :: "SwappableLimiterCell \<Rightarrow> nat" where
  "cell_handle c = cell_channel c"

definition handle_replace :: "nat \<Rightarrow> nat option \<Rightarrow> 'l world \<Rightarrow> 'l world" where
  "handle_replace ch v w =
     w\<lparr>channels := (channels w)(ch :=
         \<lparr>watch_value = v, watch_version = Suc (watch_version (channels w ch))\<rparr>)\<rparr>"

definition maybe_update :: "'l world \<Rightarrow> SwappableLimiterCell \<Rightarrow> SwappableLimiterCell" where
  "maybe_update w c =
     (let ch = channels w (cell_channel c);
          changed = (watch_version ch \<noteq> cell_seen c);
          c' = c\<lparr>cell_seen := watch_version ch\<rparr>
      in if changed then c'\<lparr>cell_inner := watch_value ch\<rparr> else c')"

definition cell_bytes_ready_at ::
  "'l governor \<Rightarrow> nat \<Rightarrow> 'l world \<Rightarrow> SwappableLimiterCell \<Rightarrow> RateLimiterDirection \<Rightarrow> nat
     \<Rightarrow> (rl_error + nat option) \<times> 'l world \<times> SwappableLimiterCell" where
  "cell_bytes_ready_at g now w c direction bytes =
     (let c' = maybe_update w c
      in case cell_inner c' of
           None \<Rightarrow> (Inr None, w, c')
         | Some a \<Rightarrow>
             (let (r, lim) = limiter_bytes_ready_at g now (limiters w a) direction bytes
              in (r, w\<lparr>limiters := (limiters w)(a := lim)\<rparr>, c')))"

section \<open>Limited streams (stream.rs, stack.rs)\<close>

datatype PendingWaitState = Empty nat | Waiting nat nat | Ready

datatype 'a poll = PollPending | PollReady "rl_error + 'a"

type_synonym ticks = "(nat \<times> nat) list"

definition wait_deadline :: "nat \<Rightarrow> nat \<Rightarrow> nat \<Rightarrow> nat" where
  "wait_deadline now at jitter = now + (at - now) * 90 div 100 + jitter"

fun poll_rate_limit ::
  "'l governor \<Rightarrow> ticks \<Rightarrow> 'l world \<Rightarrow> SwappableLimiterCell \<Rightarrow> PendingWaitState \<Rightarrow> RateLimiterDirection
     \<Rightarrow> (unit poll \<times> ticks \<times> 'l world \<times> SwappableLimiterCell \<times> PendingWaitState) option" where
  "poll_rate_limit g [] w c st dir = None"
| "poll_rate_limit g ((now, jitter) # ticks) w c st dir =
     (let (res, w1, c1, st1) =
            (case st of
               Empty len \<Rightarrow>
                 (case cell_bytes_ready_at g now w c dir len of
                    (Inr None, w', c') \<Rightarrow> (Inr (), w', c', Ready)
                  | (Inr (Some at), w', c') \<Rightarrow>
                      (Inr (), w', c', Waiting len (wait_deadline now at jitter))
                  | (Inl e, w', c') \<Rightarrow> (Inl e, w', c', Empty 0))
             | _ \<Rightarrow> (Inr (), w, c, st))
      in case res of
           Inl e \<Rightarrow> Some (PollReady (Inl e), ticks, w1, c1, st1)
         | Inr _ \<Rightarrow>
             (case st1 of
                Empty _ \<Rightarrow> Some (PollReady (Inl Panic), ticks, w1, c1, st1)
              | Waiting len deadline \<Rightarrow>
                  if now < deadline then Some (PollPending, ticks, w1, c1, st1)
                  else poll_rate_limit g ticks w1 c1 (Empty len) dir
              | Ready \<Rightarrow> Some (PollReady (Inr ()), ticks, w1, c1, st1)))"

record RateLimitedStream =
  rl_cell :: SwappableLimiterCell
  read_wait :: PendingWaitState
  write_wait :: PendingWaitState

definition stream_new_unlimited :: "'l world \<Rightarrow> RateLimitedStream \<times> nat \<times> 'l world" where
  "stream_new_unlimited w =
     (let (c, w') = cell_empty w
      in (\<lparr>rl_cell = c, read_wait = Empty 0, write_wait = Empty 0\<rparr>, cell_handle c, w'))"

record RateLimiterStackHandle =
  handle_user :: nat
  handle_target :: nat
  handle_global :: nat

text \<open>The stack of a connection, outermost first: target, user, global.\<close>

definition stack_rate_limiters ::
  "'l world \<Rightarrow> RateLimitedStream list \<times> RateLimiterStackHandle \<times> 'l world" where
  "stack_rate_limiters w =
     (let (global, hg, w1) = stream_new_unlimited w;
          (user, hu, w2) = stream_new_unlimited w1;
          (target, ht, w3) = stream_new_unlimited w2
      in ([target, user, global], \<lparr>handle_user = hu, handle_target = ht, handle_global = hg\<rparr>, w3))"

fun wait_of :: "RateLimiterDirection \<Rightarrow> RateLimitedStream \<Rightarrow> PendingWaitState" where
  "wait_of Read s = read_wait s"
| "wait_of Write s = write_wait s"

fun set_wait :: "RateLimiterDirection \<Rightarrow> PendingWaitState \<Rightarrow> RateLimitedStream \<Rightarrow> RateLimitedStream" where
  "set_wait Read st s = s\<lparr>read_wait := st\<rparr>"
| "set_wait Write st s = s\<lparr>write_wait := st\<rparr>"

text \<open>\<open>reset\<close> after the wrapped stream returned: the bytes moved, none on an error.\<close>

definition reset_after :: "nat poll \<Rightarrow> PendingWaitState \<Rightarrow> PendingWaitState" where
  "reset_after ret st =
     (case ret of PollPending \<Rightarrow> st
      | PollReady (Inr n) \<Rightarrow> Empty n
      | PollReady (Inl _) \<Rightarrow> Empty 0)"

text \<open>
  One poll of a stack of limited streams over a raw stream that answers \<open>raw\<close>;
  \<open>wanted\<close> is the room in the buffer or the length of the data. The layers of the two
  directions differ only in the waiting state they use.
\<close>

fun poll_stack ::
  "'l governor \<Rightarrow> RateLimiterDirection \<Rightarrow> nat \<Rightarrow> nat poll \<Rightarrow> ticks \<Rightarrow> 'l world
     \<Rightarrow> RateLimitedStream list
     \<Rightarrow> (nat poll \<times> ticks \<times> 'l world \<times> RateLimitedStream list) option" where
  "poll_stack g dir wanted raw ticks w [] = Some (raw, ticks, w, [])"
| "poll_stack g dir wanted raw ticks w (s # ss) =
     (if wanted = 0
      then (case poll_stack g dir wanted raw ticks w ss of
              None \<Rightarrow> None
            | Some (ret, ticks', w', ss') \<Rightarrow> Some (ret, ticks', w', s # ss'))
      else (case poll_rate_limit g ticks w (rl_cell s) (wait_of dir s) dir of
              None \<Rightarrow> None
            | Some (PollPending, ticks', w', c', st') \<Rightarrow>
                Some (PollPending, ticks', w', set_wait dir st' (s\<lparr>rl_cell := c'\<rparr>) # ss)
            | Some (PollReady (Inl e), ticks', w', c', st') \<Rightarrow>
                Some (PollReady (Inl e), ticks', w', set_wait dir st' (s\<lparr>rl_cell := c'\<rparr>) # ss)
            | Some (PollReady (Inr _), ticks', w', c', st') \<Rightarrow>
                (case poll_stack g dir wanted raw ticks' w' ss of
                   None \<Rightarrow> None
                 | Some (ret, ticks'', w'', ss') \<Rightarrow>
                     Some (ret, ticks'', w'',
                           set_wait dir (reset_after ret st') (s\<lparr>rl_cell := c'\<rparr>) # ss'))))"

definition poll_read where
  "poll_read g = poll_stack g Read"

definition poll_write where
  "poll_write g = poll_stack g Write"

end
