(* ===== verification/Rate_Registry.thy ===== *)
theory Rate_Registry
  imports Rate_Limit Access
begin

text \<open>
  The registry of limiters (\<open>gated-core/src/rate_limiting/registry.rs\<close>), the session
  state it reads (\<open>gated-core/src/state.rs\<close>) and the request limits of the SQL console
  (\<open>gated-core/src/sql_console_rate_limit.rs\<close>). The iteration order of a hash map is the
  order of its association list. The column type of the quotas is a 64-bit integer that
  the code casts to 32 bits.
\<close>

section \<open>Registry\<close>

record Parameters =
  param_rate_limit :: "int option"
  sql_console_rate_limit_per_user :: "int option"
  sql_console_rate_limit_per_target :: "int option"

type_synonym rl_db = "(Db \<times> Parameters) option"

record RateLimiterRegistry =
  global_rate_limiter :: nat
  user_rate_limiters :: "(uuid \<times> nat) list"
  target_rate_limiters :: "(uuid \<times> nat) list"

record SessionState =
  ss_remote_address :: "string option"
  ss_user_info :: "AuthStateUserInfo option"
  ss_target :: "target_row option"
  ss_close_requested :: bool
  ss_rate_limiter_handles :: "RateLimiterStackHandle list"
  ss_protocol :: string
  ss_connected_targets :: "uuid set"
  ss_started :: nat
  ss_persisted :: bool

definition registry_new :: "'l world \<Rightarrow> RateLimiterRegistry \<times> 'l world" where
  "registry_new w =
     (let (a, w') = share unlimited w
      in (\<lparr>global_rate_limiter = a, user_rate_limiters = [], target_rate_limiters = []\<rparr>, w'))"

definition as_u32 :: "int \<Rightarrow> u32" where
  "as_u32 x = word_of_int x"

definition rl_db_required :: "rl_db \<Rightarrow> rl_error + Db \<times> Parameters" where
  "rl_db_required db = ok_or (Fail Other) db"

definition global_quota :: "rl_db \<Rightarrow> rl_error + u32 option" where
  "global_quota db =
     rbind (rl_db_required db) (\<lambda>(_, p). Inr (map_option as_u32 (param_rate_limit p)))"

definition quota_for_user :: "rl_db \<Rightarrow> uuid \<Rightarrow> rl_error + u32 option" where
  "quota_for_user db user =
     rbind (rl_db_required db) (\<lambda>(d, _).
       Inr (map_option as_u32
         (Option.bind (find (\<lambda>u. ur_id u = user) (users d)) ur_rate_limit)))"

definition quota_for_target :: "rl_db \<Rightarrow> uuid \<Rightarrow> rl_error + u32 option" where
  "quota_for_target db target =
     rbind (rl_db_required db) (\<lambda>(d, _).
       Inr (map_option as_u32
         (Option.bind (find (\<lambda>t. tr_id t = target) (targets d)) tr_rate_limit)))"

definition replace_at ::
  "'l governor \<Rightarrow> nat \<Rightarrow> u32 option \<Rightarrow> nat \<Rightarrow> 'l world \<Rightarrow> (rl_error + unit) \<times> 'l world" where
  "replace_at g now quota a w =
     (let (r, lim) = limiter_replace g now quota (limiters w a)
      in (r, w\<lparr>limiters := (limiters w)(a := lim)\<rparr>))"

fun refresh_list ::
  "'l governor \<Rightarrow> nat \<Rightarrow> (uuid \<Rightarrow> rl_error + u32 option) \<Rightarrow> (uuid \<times> nat) list \<Rightarrow> 'l world
     \<Rightarrow> (rl_error + unit) \<times> 'l world" where
  "refresh_list g now quota [] w = (Inr (), w)"
| "refresh_list g now quota ((i, a) # ls) w =
     (case quota i of
        Inl e \<Rightarrow> (Inl e, w)
      | Inr q \<Rightarrow>
          (case replace_at g now q a w of
             (Inl e, w') \<Rightarrow> (Inl e, w')
           | (Inr _, w') \<Rightarrow> refresh_list g now quota ls w'))"

definition refresh ::
  "'l governor \<Rightarrow> nat \<Rightarrow> rl_db \<Rightarrow> RateLimiterRegistry \<Rightarrow> 'l world \<Rightarrow> (rl_error + unit) \<times> 'l world" where
  "refresh g now db reg w =
     (case global_quota db of
        Inl e \<Rightarrow> (Inl e, w)
      | Inr q \<Rightarrow>
          (case replace_at g now q (global_rate_limiter reg) w of
             (Inl e, w1) \<Rightarrow> (Inl e, w1)
           | (Inr _, w1) \<Rightarrow>
               (case refresh_list g now (quota_for_user db) (user_rate_limiters reg) w1 of
                  (Inl e, w2) \<Rightarrow> (Inl e, w2)
                | (Inr _, w2) \<Rightarrow>
                    refresh_list g now (quota_for_target db) (target_rate_limiters reg) w2)))"

text \<open>\<open>user\<close> and \<open>target\<close>: look the limiter up, or make it with the stored quota.\<close>

definition limiter_for ::
  "'l governor \<Rightarrow> nat \<Rightarrow> (uuid \<Rightarrow> rl_error + u32 option) \<Rightarrow> uuid \<Rightarrow> (uuid \<times> nat) list \<Rightarrow> 'l world
     \<Rightarrow> (rl_error + nat) \<times> (uuid \<times> nat) list \<times> 'l world" where
  "limiter_for g now quota i ls w =
     (case map_of ls i of
        Some a \<Rightarrow> (Inr a, ls, w)
      | None \<Rightarrow>
          (case rbind (quota i) (limiter_new g now) of
             Inl e \<Rightarrow> (Inl e, ls, w)
           | Inr lim \<Rightarrow> (let (a, w') = share lim w in (Inr a, (i, a) # ls, w'))))"

definition update_user_limiter ::
  "'l governor \<Rightarrow> nat \<Rightarrow> rl_db \<Rightarrow> SessionState \<Rightarrow> RateLimiterStackHandle \<Rightarrow> RateLimiterRegistry
     \<Rightarrow> 'l world \<Rightarrow> (rl_error + unit) \<times> RateLimiterRegistry \<times> 'l world" where
  "update_user_limiter g now db state h reg w =
     (case ss_user_info state of
        None \<Rightarrow> (Inr (), reg, handle_replace (handle_user h) None w)
      | Some ui \<Rightarrow>
          (case limiter_for g now (quota_for_user db) (ui_id ui) (user_rate_limiters reg) w of
             (Inl e, ls, w') \<Rightarrow> (Inl e, reg\<lparr>user_rate_limiters := ls\<rparr>, w')
           | (Inr a, ls, w') \<Rightarrow>
               (Inr (), reg\<lparr>user_rate_limiters := ls\<rparr>, handle_replace (handle_user h) (Some a) w')))"

definition update_target_limiter ::
  "'l governor \<Rightarrow> nat \<Rightarrow> rl_db \<Rightarrow> SessionState \<Rightarrow> RateLimiterStackHandle \<Rightarrow> RateLimiterRegistry
     \<Rightarrow> 'l world \<Rightarrow> (rl_error + unit) \<times> RateLimiterRegistry \<times> 'l world" where
  "update_target_limiter g now db state h reg w =
     (case ss_target state of
        None \<Rightarrow> (Inr (), reg, handle_replace (handle_target h) None w)
      | Some t \<Rightarrow>
          (case limiter_for g now (quota_for_target db) (tr_id t) (target_rate_limiters reg) w of
             (Inl e, ls, w') \<Rightarrow> (Inl e, reg\<lparr>target_rate_limiters := ls\<rparr>, w')
           | (Inr a, ls, w') \<Rightarrow>
               (Inr (), reg\<lparr>target_rate_limiters := ls\<rparr>,
                handle_replace (handle_target h) (Some a) w')))"

definition update_rate_limiters ::
  "'l governor \<Rightarrow> nat \<Rightarrow> rl_db \<Rightarrow> SessionState \<Rightarrow> RateLimiterStackHandle \<Rightarrow> RateLimiterRegistry
     \<Rightarrow> 'l world \<Rightarrow> (rl_error + unit) \<times> RateLimiterRegistry \<times> 'l world" where
  "update_rate_limiters g now db state h reg w =
     (case update_user_limiter g now db state h reg w of
        (Inl e, reg1, w1) \<Rightarrow> (Inl e, reg1, w1)
      | (Inr _, reg1, w1) \<Rightarrow>
          (case update_target_limiter g now db state h reg1 w1 of
             (Inl e, reg2, w2) \<Rightarrow> (Inl e, reg2, w2)
           | (Inr _, reg2, w2) \<Rightarrow>
               (Inr (), reg2,
                handle_replace (handle_global h) (Some (global_rate_limiter reg2)) w2)))"

fun update_handles ::
  "'l governor \<Rightarrow> nat \<Rightarrow> rl_db \<Rightarrow> SessionState \<Rightarrow> RateLimiterStackHandle list \<Rightarrow> RateLimiterRegistry
     \<Rightarrow> 'l world \<Rightarrow> (rl_error + unit) \<times> RateLimiterRegistry \<times> 'l world" where
  "update_handles g now db state [] reg w = (Inr (), reg, w)"
| "update_handles g now db state (h # hs) reg w =
     (case update_rate_limiters g now db state h reg w of
        (Inl e, reg', w') \<Rightarrow> (Inl e, reg', w')
      | (Inr _, reg', w') \<Rightarrow> update_handles g now db state hs reg' w')"

text \<open>The handles are taken out of the session for the update and put back whatever its
  result, so the session itself does not change.\<close>

definition update_all_rate_limiters ::
  "'l governor \<Rightarrow> nat \<Rightarrow> rl_db \<Rightarrow> SessionState \<Rightarrow> RateLimiterRegistry \<Rightarrow> 'l world
     \<Rightarrow> (rl_error + unit) \<times> RateLimiterRegistry \<times> 'l world" where
  "update_all_rate_limiters g now db state reg w =
     update_handles g now db (state\<lparr>ss_rate_limiter_handles := []\<rparr>)
       (ss_rate_limiter_handles state) reg w"

fun update_sessions ::
  "'l governor \<Rightarrow> nat \<Rightarrow> rl_db \<Rightarrow> SessionState list \<Rightarrow> RateLimiterRegistry \<Rightarrow> 'l world
     \<Rightarrow> (rl_error + unit) \<times> RateLimiterRegistry \<times> 'l world" where
  "update_sessions g now db [] reg w = (Inr (), reg, w)"
| "update_sessions g now db (s # ss) reg w =
     (case update_all_rate_limiters g now db s reg w of
        (Inl e, reg', w') \<Rightarrow> (Inl e, reg', w')
      | (Inr _, reg', w') \<Rightarrow> update_sessions g now db ss reg' w')"

definition apply_new_rate_limits ::
  "'l governor \<Rightarrow> nat \<Rightarrow> rl_db \<Rightarrow> SessionState list \<Rightarrow> RateLimiterRegistry \<Rightarrow> 'l world
     \<Rightarrow> (rl_error + unit) \<times> RateLimiterRegistry \<times> 'l world" where
  "apply_new_rate_limits g now db sessions reg w =
     (case refresh g now db reg w of
        (Inl e, w') \<Rightarrow> (Inl e, reg, w')
      | (Inr _, w') \<Rightarrow> update_sessions g now db sessions reg w')"

section \<open>Request limits of the SQL console\<close>

datatype SqlConsoleRateLimitError = PerUser | PerTarget

definition DEFAULT_RETRY_AFTER_SECONDS :: nat where
  "DEFAULT_RETRY_AFTER_SECONDS = 60"

definition retry_after_seconds :: "SqlConsoleRateLimitError \<Rightarrow> nat" where
  "retry_after_seconds e = DEFAULT_RETRY_AFTER_SECONDS"

fun scope :: "SqlConsoleRateLimitError \<Rightarrow> string" where
  "scope PerUser = ''per_user''"
| "scope PerTarget = ''per_target''"

text \<open>The keyed limiter of the governor crate: a fresh one for a quota per minute, and the
  check of one cell of a key.\<close>

record 'k keyed_governor =
  per_minute :: "u32 \<Rightarrow> 'k"
  check_key :: "'k \<Rightarrow> uuid \<Rightarrow> bool \<times> 'k"

record 'k SqlConsoleRateLimiter =
  per_user :: "'k option"
  per_target :: "'k option"

definition console_new :: "'k SqlConsoleRateLimiter" where
  "console_new = \<lparr>per_user = None, per_target = None\<rparr>"

definition build_keyed_limiter :: "'k keyed_governor \<Rightarrow> int option \<Rightarrow> 'k option" where
  "build_keyed_limiter g rpm =
     (case rpm of None \<Rightarrow> None
      | Some v \<Rightarrow> if \<not> v > 0 then None
                  else if \<not> v < 2 ^ 32 then None
                  else Some (per_minute g (word_of_int v)))"

definition console_refresh ::
  "'k keyed_governor \<Rightarrow> rl_db \<Rightarrow> 'k SqlConsoleRateLimiter
     \<Rightarrow> (rl_error + unit) \<times> 'k SqlConsoleRateLimiter" where
  "console_refresh g db lim =
     (case rl_db_required db of
        Inl e \<Rightarrow> (Inl e, lim)
      | Inr (_, p) \<Rightarrow>
          (Inr (), \<lparr>per_user = build_keyed_limiter g (sql_console_rate_limit_per_user p),
                    per_target = build_keyed_limiter g (sql_console_rate_limit_per_target p)\<rparr>))"

definition console_check ::
  "'k keyed_governor \<Rightarrow> uuid \<Rightarrow> uuid \<Rightarrow> 'k SqlConsoleRateLimiter
     \<Rightarrow> (SqlConsoleRateLimitError + unit) \<times> 'k SqlConsoleRateLimiter" where
  "console_check g user target lim =
     (let (user_ok, lim1) =
            (case per_user lim of None \<Rightarrow> (True, lim)
             | Some k \<Rightarrow> (let (ok, k') = check_key g k user in (ok, lim\<lparr>per_user := Some k'\<rparr>)))
      in if \<not> user_ok then (Inl PerUser, lim1)
         else (let (target_ok, lim2) =
                     (case per_target lim1 of None \<Rightarrow> (True, lim1)
                      | Some k \<Rightarrow> (let (ok, k') = check_key g k target
                                   in (ok, lim1\<lparr>per_target := Some k'\<rparr>)))
               in if \<not> target_ok then (Inl PerTarget, lim2) else (Inr (), lim2)))"

end
