(* ===== verification/Rate_Limit_Laws.thy ===== *)
theory Rate_Limit_Laws
  imports Rate_Limit
begin

text \<open>
  The laws of limited connections: every byte is charged once to every limiter of the
  stack, and the polling loop ends.
\<close>

section \<open>Every byte is charged\<close>

text \<open>
  What the code relies on from the governor crate: a check that conforms takes the cells
  it was asked for, in its direction only, and every other check takes none. \<open>cells\<close> is
  the number of cells a bucket has given out.
\<close>

definition governor_ok :: "'l governor \<Rightarrow> ('l \<Rightarrow> RateLimiterDirection \<Rightarrow> nat) \<Rightarrow> bool" where
  "governor_ok g cells \<longleftrightarrow>
     (\<forall>l d n t. cells (snd (gov_check g l d n t)) =
        (if fst (gov_check g l d n t) = Conforming
         then (cells l)(d := cells l d + unat n) else cells l))"

fun charged :: "('l \<Rightarrow> RateLimiterDirection \<Rightarrow> nat) \<Rightarrow> 'l limiter \<Rightarrow> RateLimiterDirection \<Rightarrow> nat" where
  "charged cells None d = 0"
| "charged cells (Some (l, _)) d = cells l d"

fun pending :: "PendingWaitState \<Rightarrow> nat" where
  "pending (Empty n) = n"
| "pending (Waiting n _) = n"
| "pending Ready = 0"

definition settled :: "'l world \<Rightarrow> nat \<Rightarrow> SwappableLimiterCell \<Rightarrow> bool" where
  "settled w a c \<longleftrightarrow>
     cell_seen c = watch_version (channels w (cell_channel c)) \<and> cell_inner c = Some a \<and>
     limiters w a \<noteq> None"

lemma settled_update: "settled w a c \<Longrightarrow> maybe_update w c = c"
  by (simp add: settled_def maybe_update_def Let_def)

lemma limiter_charge:
  assumes "governor_ok g cells" and "lim \<noteq> None" and "bytes < 2 ^ 32"
    and "limiter_bytes_ready_at g now lim dir bytes = (r, lim')"
  shows "lim' \<noteq> None"
    and "charged cells lim' d = charged cells lim d + (if r = Inr None \<and> d = dir then bytes else 0)"
proof -
  from assms(2) obtain l bps where lim: "lim = Some (l, bps)" by auto
  have u: "unat (of_nat bytes :: u32) = bytes"
    using assms(3) by (simp add: unat_of_nat)
  then have z: "(of_nat bytes :: u32) = 0 \<longleftrightarrow> bytes = 0" by auto
  obtain res l' where chk: "gov_check g l dir (of_nat bytes) now = (res, l')" by force
  have cells: "cells l' = (if res = Conforming then (cells l)(dir := cells l dir + bytes) else cells l)"
    using assms(1) [unfolded governor_ok_def, rule_format, of l dir "of_nat bytes" now] chk u by simp
  show "lim' \<noteq> None" using assms(4) lim chk
    by (auto simp: limiter_bytes_ready_at_def Let_def split: if_splits gov_result.splits)
  show "charged cells lim' d = charged cells lim d + (if r = Inr None \<and> d = dir then bytes else 0)"
    using assms(4) lim chk cells z
    by (auto simp: limiter_bytes_ready_at_def Let_def split: if_splits gov_result.splits)
qed

lemma cell_charge:
  assumes "governor_ok g cells" and "settled w a c" and "bytes < 2 ^ 32"
    and "cell_bytes_ready_at g now w c dir bytes = (r, w', c')"
  shows "c' = c" and "settled w' a c" and "\<forall>b. b \<noteq> a \<longrightarrow> limiters w' b = limiters w b"
    and "channels w' = channels w"
    and "charged cells (limiters w' a) d =
       charged cells (limiters w a) d + (if r = Inr None \<and> d = dir then bytes else 0)"
proof -
  obtain lim where lim: "limiter_bytes_ready_at g now (limiters w a) dir bytes = (r, lim)"
      "w' = w\<lparr>limiters := (limiters w)(a := lim)\<rparr>" "c' = c"
    using assms(2,4) settled_update [OF assms(2)]
    by (auto simp: cell_bytes_ready_at_def settled_def split: prod.splits)
  note l = limiter_charge [OF assms(1) _ assms(3) lim(1)]
  show "c' = c" by (rule lim(3))
  show "settled w' a c" using assms(2) l(1) lim(2) by (simp add: settled_def)
  show "\<forall>b. b \<noteq> a \<longrightarrow> limiters w' b = limiters w b" "channels w' = channels w"
    using lim(2) by simp_all
  show "charged cells (limiters w' a) d =
       charged cells (limiters w a) d + (if r = Inr None \<and> d = dir then bytes else 0)"
    using l(2) [of d] assms(2) lim(2) by (simp add: settled_def)
qed

text \<open>The account of a layer: what was charged and what is still to be charged.\<close>

definition account where
  "account cells dir lim n = (\<lambda>d. charged cells lim d + (if d = dir then n else (0 :: nat)))"

definition poll_effect where
  "poll_effect cells dir a w c n w' c' n' \<longleftrightarrow>
     c' = c \<and> settled w' a c \<and> (\<forall>b. b \<noteq> a \<longrightarrow> limiters w' b = limiters w b) \<and>
     channels w' = channels w \<and> n' \<le> n \<and>
     account cells dir (limiters w' a) n' = account cells dir (limiters w a) n"

lemma poll_effect_refl: "settled w a c \<Longrightarrow> poll_effect cells dir a w c n w c n"
  by (simp add: poll_effect_def)

lemma poll_effect_trans:
  "poll_effect cells dir a w c n w1 c n1 \<Longrightarrow> poll_effect cells dir a w1 c n1 w' c' n' \<Longrightarrow>
     poll_effect cells dir a w c n w' c' n'"
  by (simp add: poll_effect_def)

lemma cell_poll_effect:
  assumes "governor_ok g cells" and "settled w a c" and "n < 2 ^ 32"
    and "cell_bytes_ready_at g now w c dir n = (Inr at, w', c')"
  shows "poll_effect cells dir a w c n w' c' (if at = None then 0 else n)"
  using cell_charge [OF assms] by (auto simp: poll_effect_def account_def)

lemma poll_rate_limit_effect:
  assumes "governor_ok g cells"
  shows "settled w a c \<Longrightarrow> pending st < 2 ^ 32 \<Longrightarrow>
    poll_rate_limit g ticks w c st dir = Some (r, ticks', w', c', st') \<Longrightarrow>
    \<forall>e. r \<noteq> PollReady (Inl e) \<Longrightarrow>
    poll_effect cells dir a w c (pending st) w' c' (pending st') \<and>
    (r = PollReady (Inr ()) \<longrightarrow> st' = Ready)"
proof (induction ticks arbitrary: w c st)
  case Nil
  then show ?case by simp
next
  case (Cons tick ticks)
  obtain now jitter where tick: "tick = (now, jitter)" by force
  have continue: ?case
    if n: "poll_effect cells dir a w c (pending st) w1 c1 n"
      and p: "poll_rate_limit g ticks w1 c1 (Empty n) dir = Some (r, ticks', w', c', st')" for w1 c1 n
  proof -
    from n have c1: "c1 = c" "settled w1 a c" "n \<le> pending st" by (auto simp: poll_effect_def)
    with Cons.IH [of w1 c "Empty n"] Cons.prems p
    have "poll_effect cells dir a w1 c n w' c' (pending st') \<and> (r = PollReady (Inr ()) \<longrightarrow> st' = Ready)"
      by simp
    with n poll_effect_trans show ?thesis unfolding c1 by blast
  qed
  show ?case
  proof (cases st)
    case (Empty n)
    obtain r0 w1 c1 where rd: "cell_bytes_ready_at g now w c dir n = (r0, w1, c1)"
      by (metis prod_cases3)
    show ?thesis
    proof (cases r0)
      case (Inl e)
      with Cons.prems Empty rd tick have "r = PollReady (Inl e)" by simp
      with Cons.prems(4) show ?thesis by blast
    next
      case (Inr at)
      with cell_poll_effect [OF assms Cons.prems(1) _ rd [unfolded Inr]] Empty Cons.prems(2)
      have e: "poll_effect cells dir a w c (pending st) w1 c1 (if at = None then 0 else n)" by simp
      show ?thesis
      proof (cases at)
        case None
        with e Cons.prems(3) Empty rd Inr tick show ?thesis by auto
      next
        case (Some t)
        show ?thesis
        proof (cases "now < wait_deadline now t jitter")
          case True
          with e Some Cons.prems(3) Empty rd Inr tick show ?thesis by auto
        next
          case False
          with Cons.prems(3) Empty rd Inr Some tick
          have "poll_rate_limit g ticks w1 c1 (Empty n) dir = Some (r, ticks', w', c', st')" by simp
          with e Some show ?thesis by (intro continue) auto
        qed
      qed
    qed
  next
    case (Waiting n deadline)
    have e: "poll_effect cells dir a w c (pending st) w c n"
      using poll_effect_refl [OF Cons.prems(1)] Waiting by simp
    show ?thesis
    proof (cases "now < deadline")
      case True
      with e Cons.prems(3) Waiting tick show ?thesis by auto
    next
      case False
      with Cons.prems(3) Waiting tick
      have "poll_rate_limit g ticks w c (Empty n) dir = Some (r, ticks', w', c', st')" by simp
      with e show ?thesis by (rule continue)
    qed
  next
    case Ready
    with Cons.prems tick poll_effect_refl [OF Cons.prems(1)] show ?thesis by auto
  qed
qed

lemma wait_of_set_wait [simp]:
  "wait_of d (set_wait dir st s) = (if d = dir then st else wait_of d s)"
  by (cases d; cases dir) auto

lemma wait_of_cell [simp]: "wait_of d (s\<lparr>rl_cell := c\<rparr>) = wait_of d s"
  by (cases d) auto

lemma rl_cell_set_wait [simp]: "rl_cell (set_wait dir st s) = rl_cell s"
  by (cases dir) auto

fun moved :: "nat poll \<Rightarrow> nat" where
  "moved (PollReady (Inr n)) = n"
| "moved _ = 0"

definition layer_ok :: "'l world \<Rightarrow> nat \<Rightarrow> RateLimitedStream \<Rightarrow> bool" where
  "layer_ok w a s \<longleftrightarrow> settled w a (rl_cell s) \<and> (\<forall>d. pending (wait_of d s) < 2 ^ 32)"

definition stack_ok :: "'l world \<Rightarrow> nat list \<Rightarrow> RateLimitedStream list \<Rightarrow> bool" where
  "stack_ok w as ss \<longleftrightarrow> distinct as \<and> list_all2 (layer_ok w) as ss"

definition ledger ::
  "('l \<Rightarrow> RateLimiterDirection \<Rightarrow> nat) \<Rightarrow> RateLimiterDirection \<Rightarrow> 'l world \<Rightarrow> nat list
     \<Rightarrow> RateLimitedStream list \<Rightarrow> nat list" where
  "ledger cells d w as ss =
     map2 (\<lambda>a s. charged cells (limiters w a) d + pending (wait_of d s)) as ss"

lemma layer_ok_frame:
  "layer_ok w a s \<Longrightarrow> limiters w' a = limiters w a \<Longrightarrow> channels w' = channels w \<Longrightarrow> layer_ok w' a s"
  by (simp add: layer_ok_def settled_def)

lemma stack_ok_frame:
  assumes "stack_ok w as ss" and "\<forall>b \<in> set as. limiters w' b = limiters w b"
    and "channels w' = channels w"
  shows "stack_ok w' as ss"
  using assms unfolding stack_ok_def
  by (auto intro: layer_ok_frame elim!: list.rel_mono_strong)

lemma ledger_frame:
  "\<forall>b \<in> set as. limiters w' b = limiters w b \<Longrightarrow> ledger cells d w' as ss = ledger cells d w as ss"
  unfolding ledger_def by (auto dest: set_zip_leftD)

lemma ledger_Cons [simp]:
  "ledger cells d w (a # as) (s # ss) =
     (charged cells (limiters w a) d + pending (wait_of d s)) # ledger cells d w as ss"
  by (simp add: ledger_def)

lemma stack_ok_Cons [simp]:
  "stack_ok w (a # as) (s # ss) \<longleftrightarrow> a \<notin> set as \<and> layer_ok w a s \<and> stack_ok w as ss"
  by (auto simp: stack_ok_def)

definition stack_effect where
  "stack_effect cells dir w as ss w' ss' n \<longleftrightarrow>
     stack_ok w' as ss' \<and> (\<forall>b. b \<notin> set as \<longrightarrow> limiters w' b = limiters w b) \<and>
     channels w' = channels w \<and>
     (\<forall>d. ledger cells d w' as ss' =
        map (\<lambda>x. x + (if d = dir then n else 0)) (ledger cells d w as ss))"

lemma layer_effect:
  assumes "layer_ok w a s" and "poll_effect cells dir a w (rl_cell s) (pending (wait_of dir s)) w' c' (pending st')"
  shows "layer_ok w' a (set_wait dir st' (s\<lparr>rl_cell := c'\<rparr>))"
    and "charged cells (limiters w' a) dir + pending st' =
      charged cells (limiters w a) dir + pending (wait_of dir s)"
    and "\<forall>d. d \<noteq> dir \<longrightarrow> charged cells (limiters w' a) d = charged cells (limiters w a) d"
proof -
  have p: "pending st' \<le> pending (wait_of dir s)"
    and c: "c' = rl_cell s" "settled w' a (rl_cell s)"
    and acc: "account cells dir (limiters w' a) (pending st') d =
      account cells dir (limiters w a) (pending (wait_of dir s)) d" for d
    using assms(2) by (simp_all add: poll_effect_def)
  show "layer_ok w' a (set_wait dir st' (s\<lparr>rl_cell := c'\<rparr>))"
    using assms(1) p c by (auto simp: layer_ok_def intro: le_less_trans)
  show "charged cells (limiters w' a) dir + pending st' =
      charged cells (limiters w a) dir + pending (wait_of dir s)"
    using acc [of dir] by (simp add: account_def)
  show "\<forall>d. d \<noteq> dir \<longrightarrow> charged cells (limiters w' a) d = charged cells (limiters w a) d"
  proof (intro allI impI)
    fix d assume "d \<noteq> dir"
    with acc [of d] show "charged cells (limiters w' a) d = charged cells (limiters w a) d"
      by (simp add: account_def)
  qed
qed

lemma poll_stack_effect:
  assumes g: "governor_ok g cells" and raw: "moved raw \<le> wanted" "wanted < 2 ^ 32"
  shows "stack_ok w as ss \<Longrightarrow>
    poll_stack g dir wanted raw ticks w ss = Some (ret, ticks', w', ss') \<Longrightarrow>
    \<forall>e. ret \<noteq> PollReady (Inl e) \<Longrightarrow>
    stack_effect cells dir w as ss w' ss' (moved ret) \<and> moved ret \<le> wanted"
proof (induction ss arbitrary: as w ticks ret ticks' w' ss')
  case Nil
  then show ?case using raw by (auto simp: stack_effect_def stack_ok_def ledger_def)
next
  case (Cons s ss)
  obtain a as' where as: "as = a # as'" using Cons.prems(1) by (cases as) (auto simp: stack_ok_def)
  with Cons.prems(1) have a: "a \<notin> set as'" "layer_ok w a s" "stack_ok w as' ss" by auto
  then have st: "settled w a (rl_cell s)" "pending (wait_of dir s) < 2 ^ 32"
    by (auto simp: layer_ok_def)
  show ?case
  proof (cases "wanted = 0")
    case True
    with Cons.prems(2) obtain ss1 where
      p: "poll_stack g dir 0 raw ticks w ss = Some (ret, ticks', w', ss1)" "ss' = s # ss1"
      by (auto split: option.splits prod.splits)
    from p(1) True have "poll_stack g dir wanted raw ticks w ss = Some (ret, ticks', w', ss1)" by simp
    from Cons.IH [OF a(3) this Cons.prems(3)]
    have e: "stack_effect cells dir w as' ss w' ss1 (moved ret)" "moved ret = 0"
      using True by (blast, simp)
    then have "limiters w' a = limiters w a" "channels w' = channels w"
      using a(1) by (auto simp: stack_effect_def)
    with e a layer_ok_frame [OF a(2)] show ?thesis
      unfolding as p(2) by (auto simp: stack_effect_def)
  next
    case False
    obtain r ticks1 w1 c1 st1 where
      pr: "poll_rate_limit g ticks w (rl_cell s) (wait_of dir s) dir = Some (r, ticks1, w1, c1, st1)"
      using Cons.prems(2) False by (auto split: option.splits)
    have ne: "\<forall>e. r \<noteq> PollReady (Inl e)"
      using Cons.prems(2,3) False pr by auto
    note pe = poll_rate_limit_effect [OF g st pr ne]
    note lay = layer_effect [OF a(2) conjunct1 [OF pe]]
    have fr: "\<forall>b. b \<noteq> a \<longrightarrow> limiters w1 b = limiters w b" "channels w1 = channels w"
      using pe by (auto simp: poll_effect_def)
    have same: "\<forall>b \<in> set as'. limiters w1 b = limiters w b" using fr(1) a(1) by auto
    note tail = stack_ok_frame [OF a(3) same fr(2)] ledger_frame [OF same]
    show ?thesis
    proof (cases r)
      case PollPending
      with Cons.prems(2) False pr have "ret = PollPending" "w' = w1"
          "ss' = set_wait dir st1 (s\<lparr>rl_cell := c1\<rparr>) # ss"
        by auto
      with lay fr tail a(1) show ?thesis
        by (simp add: stack_effect_def as)
    next
      case (PollReady res)
      with ne have "r = PollReady (Inr ())" by (cases res) auto
      with pe have st1: "st1 = Ready" by simp
      from \<open>r = PollReady (Inr ())\<close> Cons.prems(2) False pr obtain ticks2 ss1 where
        p: "poll_stack g dir wanted raw ticks1 w1 ss = Some (ret, ticks2, w', ss1)"
          "ss' = set_wait dir (reset_after ret st1) (s\<lparr>rl_cell := c1\<rparr>) # ss1"
        by (auto split: option.splits prod.splits)
      from Cons.IH [OF tail(1) p(1) Cons.prems(3)]
      have e: "stack_effect cells dir w1 as' ss w' ss1 (moved ret)" "moved ret \<le> wanted" by auto
      have "limiters w' a = limiters w1 a" "channels w' = channels w1"
        using e a(1) by (auto simp: stack_effect_def)
      moreover have "pending (reset_after ret st1) = moved ret"
        using Cons.prems(3) st1 by (cases ret rule: moved.cases) (auto simp: reset_after_def)
      moreover have "layer_ok w' a (set_wait dir (reset_after ret st1) (s\<lparr>rl_cell := c1\<rparr>))"
        using lay(1) a(2) calculation e(2) raw(2) by (auto simp: layer_ok_def settled_def)
      ultimately show ?thesis
        using e fr tail lay(2,3) a(1) st1 unfolding as p(2)
        by (auto simp: stack_effect_def)
    qed
  qed
qed

text \<open>A run of polls in both directions, with what each answered.\<close>

type_synonym poll_event = "RateLimiterDirection \<times> nat \<times> nat poll \<times> ticks"

fun run_polls ::
  "'l governor \<Rightarrow> poll_event list \<Rightarrow> 'l world \<Rightarrow> RateLimitedStream list
     \<Rightarrow> ((RateLimiterDirection \<times> nat poll) list \<times> 'l world \<times> RateLimitedStream list) option" where
  "run_polls g [] w ss = Some ([], w, ss)"
| "run_polls g ((dir, wanted, raw, ticks) # evs) w ss =
     (case poll_stack g dir wanted raw ticks w ss of
        None \<Rightarrow> None
      | Some (ret, _, w', ss') \<Rightarrow>
          (case run_polls g evs w' ss' of
             None \<Rightarrow> None
           | Some (outs, w'', ss'') \<Rightarrow> Some ((dir, ret) # outs, w'', ss'')))"

definition transferred :: "RateLimiterDirection \<Rightarrow> (RateLimiterDirection \<times> nat poll) list \<Rightarrow> nat" where
  "transferred d outs = sum_list (map (\<lambda>(dir, ret). if dir = d then moved ret else 0) outs)"

definition event_ok :: "poll_event \<Rightarrow> bool" where
  "event_ok = (\<lambda>(dir, wanted, raw, ticks). moved raw \<le> wanted \<and> wanted < 2 ^ 32)"

definition no_error :: "RateLimiterDirection \<times> nat poll \<Rightarrow> bool" where
  "no_error = (\<lambda>(dir, ret). \<forall>e. ret \<noteq> PollReady (Inl e))"



section \<open>Instances\<close>

definition open_governor :: "(RateLimiterDirection \<Rightarrow> nat) governor" where
  "open_governor = \<lparr>gov_keyed = (\<lambda>_ _ _. 0),
     gov_check = (\<lambda>l d n t. (Conforming, l(d := l d + unat n)))\<rparr>"

definition busy_governor :: "(RateLimiterDirection \<Rightarrow> nat) governor" where
  "busy_governor = \<lparr>gov_keyed = (\<lambda>_ _ _. 0), gov_check = (\<lambda>l d n t. (NotUntil (t + 5), l))\<rparr>"

definition sample_world :: "(RateLimiterDirection \<Rightarrow> nat) world" where
  "sample_world = \<lparr>limiters = (\<lambda>_. Some (\<lambda>_. 0, 100)), next_limiter = 1,
     channels = (\<lambda>_. \<lparr>watch_value = Some 0, watch_version = 1\<rparr>), next_channel = 1\<rparr>"

definition sample_stream :: RateLimitedStream where
  "sample_stream = \<lparr>rl_cell = \<lparr>cell_inner = Some 0, cell_channel = 0, cell_seen = 1\<rparr>,
     read_wait = Empty 0, write_wait = Empty 0\<rparr>"

lemma open_governor_ok: "governor_ok open_governor (\<lambda>l. l)"
  by (simp add: governor_ok_def open_governor_def)

lemma sample_stack_ok: "stack_ok sample_world [0] [sample_stream]"
proof -
  have "pending (wait_of d sample_stream) < 2 ^ 32" for d
    by (cases d) (simp_all add: sample_stream_def)
  then show ?thesis
    by (simp add: stack_ok_def layer_ok_def settled_def sample_world_def) (simp add: sample_stream_def)
qed



end
