(* ===== verification/Rate_Registry_Laws.thy ===== *)
theory Rate_Registry_Laws
  imports Rate_Registry Rate_Limit_Laws
begin

text \<open>
  The laws of the limiter registry: which quotas it takes, that an update puts the stored
  limits in force on every connection, and how a zero quota stops it.
\<close>

section \<open>Quotas\<close>

definition quota_of :: "'l limiter \<Rightarrow> u32 option" where
  "quota_of lim = map_option snd lim"

lemma new_rate_limiter_ok:
  "is_ok (new_rate_limiter g now q) \<longleftrightarrow> q \<noteq> max_cells"
  by (auto simp: new_rate_limiter_def Let_def)

text \<open>Which quotas the limiters take. A limiter can be made for a stored quota exactly when
  the quota, after the cast to 32 bits, is neither zero nor the largest value: zero is
  refused with an error, and the largest value, which the administration interface
  accepts, panics.\<close>

lemma limiter_new_quotas:
  "limiter_new g now (Some (as_u32 x)) =
     (if x mod 2 ^ 32 = 0 then Inl (Fail (RateLimiterInvalidQuota 0))
      else if x mod 2 ^ 32 = 2 ^ 32 - 1 then Inl Panic
      else Inr (Some (projr (new_rate_limiter g now (as_u32 x)), as_u32 x)))"
proof -
  have z: "as_u32 x = 0 \<longleftrightarrow> x mod 2 ^ 32 = 0"
    by (simp add: as_u32_def word_of_int_eq_0_iff) (simp add: dvd_eq_mod_eq_0)
  have "(word_of_int x :: u32) = word_of_int (2 ^ 32 - 1) \<longleftrightarrow> x mod 2 ^ 32 = 2 ^ 32 - 1"
    by (simp only: word_of_int_eq_iff take_bit_eq_mod) simp
  then have m: "as_u32 x = max_cells \<longleftrightarrow> x mod 2 ^ 32 = 2 ^ 32 - 1"
    by (simp add: as_u32_def max_cells_def)
  show ?thesis
    using z m new_rate_limiter_ok [of g now "as_u32 x"]
    by (auto simp: limiter_new_def limited_def assert_valid_quota_def is_ok_iff
        new_rate_limiter_def Let_def)
qed

lemma limiter_new_quota: "limiter_new g now q = Inr lim \<Longrightarrow> quota_of lim = q"
  by (auto simp: limiter_new_def limited_def assert_valid_quota_def unlimited_def quota_of_def
      res_simps split: option.splits if_splits)

lemma limiter_replace_quota: "limiter_replace g now q lim = (Inr u, lim') \<Longrightarrow> quota_of lim' = q"
  by (auto simp: limiter_replace_def assert_valid_quota_def quota_of_def res_simps
      split: option.splits if_splits sum.splits)

lemma replace_at_ok:
  assumes "replace_at g now q a w = (Inr u, w')"
  shows "quota_of (limiters w' a) = q" and "b \<noteq> a \<Longrightarrow> limiters w' b = limiters w b"
    and "channels w' = channels w" and "next_limiter w' = next_limiter w"
  using assms by (auto simp: replace_at_def split: prod.splits dest: limiter_replace_quota)

lemma refresh_list_ok:
  assumes "refresh_list g now quota ls w = (Inr u, w')" and "distinct (map snd ls)"
  shows "(\<forall>(i, a) \<in> set ls. quota i = Inr (quota_of (limiters w' a))) \<and>
     (\<forall>b. b \<notin> set (map snd ls) \<longrightarrow> limiters w' b = limiters w b) \<and>
     channels w' = channels w \<and> next_limiter w' = next_limiter w"
  using assms
proof (induction g now quota ls w rule: refresh_list.induct)
  case (1 g now quota w)
  then show ?case by simp
next
  case (2 g now quota i a ls w)
  from 2(2) obtain q u' w1 where q: "quota i = Inr q" "replace_at g now q a w = (Inr u', w1)"
      "refresh_list g now quota ls w1 = (Inr u, w')"
    by (auto split: sum.splits prod.splits)
  note r = replace_at_ok [OF q(2)]
  from 2(1) [OF q(1) q(2) [symmetric] refl] q(3) 2(3)
  have ih: "(\<forall>(i, a) \<in> set ls. quota i = Inr (quota_of (limiters w' a))) \<and>
     (\<forall>b. b \<notin> set (map snd ls) \<longrightarrow> limiters w' b = limiters w1 b) \<and>
     channels w' = channels w1 \<and> next_limiter w' = next_limiter w1"
    by simp
  moreover have "limiters w' a = limiters w1 a" using ih 2(3) by simp
  ultimately show ?case using q(1) r by auto
qed

section \<open>The registry\<close>

definition registered :: "RateLimiterRegistry \<Rightarrow> nat list" where
  "registered reg = global_rate_limiter reg #
     map snd (user_rate_limiters reg) @ map snd (target_rate_limiters reg)"

definition reg_wf :: "RateLimiterRegistry \<Rightarrow> 'l world \<Rightarrow> bool" where
  "reg_wf reg w \<longleftrightarrow> distinct (registered reg) \<and> (\<forall>a \<in> set (registered reg). a < next_limiter w)"

definition reg_synced :: "rl_db \<Rightarrow> RateLimiterRegistry \<Rightarrow> 'l world \<Rightarrow> bool" where
  "reg_synced db reg w \<longleftrightarrow>
     global_quota db = Inr (quota_of (limiters w (global_rate_limiter reg))) \<and>
     (\<forall>(i, a) \<in> set (user_rate_limiters reg). quota_for_user db i = Inr (quota_of (limiters w a))) \<and>
     (\<forall>(i, a) \<in> set (target_rate_limiters reg). quota_for_target db i = Inr (quota_of (limiters w a)))"

lemma refresh_ok:
  assumes "refresh g now db reg w = (Inr u, w')" and "reg_wf reg w"
  shows "reg_synced db reg w' \<and> reg_wf reg w' \<and> channels w' = channels w"
proof -
  let ?G = "global_rate_limiter reg" and ?U = "user_rate_limiters reg" and ?T = "target_rate_limiters reg"
  from assms(1) obtain q u1 w1 u2 w2 where
    q: "global_quota db = Inr q" "replace_at g now q ?G w = (Inr u1, w1)"
      "refresh_list g now (quota_for_user db) ?U w1 = (Inr u2, w2)"
      "refresh_list g now (quota_for_target db) ?T w2 = (Inr u, w')"
    by (auto simp: refresh_def split: sum.splits prod.splits)
  from assms(2) have d: "distinct (map snd ?U)" "distinct (map snd ?T)"
      "?G \<notin> set (map snd ?U)" "?G \<notin> set (map snd ?T)" "set (map snd ?U) \<inter> set (map snd ?T) = {}"
    by (auto simp: reg_wf_def registered_def)
  note r1 = replace_at_ok [OF q(2)] and r2 = refresh_list_ok [OF q(3) d(1)]
    and r3 = refresh_list_ok [OF q(4) d(2)]
  have "limiters w' ?G = limiters w1 ?G" using r2 r3 d(3,4) by simp
  moreover have "limiters w' a = limiters w2 a" if "(i, a) \<in> set ?U" for i a
    using that r3 d(5) by force
  ultimately have "reg_synced db reg w'"
    unfolding reg_synced_def using q(1) r1(1) r2 r3 by auto
  moreover have "reg_wf reg w'" using assms(2) r1 r2 r3 by (simp add: reg_wf_def)
  ultimately show ?thesis using r1 r2 r3 by simp
qed

definition reg_ok :: "rl_db \<Rightarrow> RateLimiterRegistry \<Rightarrow> 'l world \<Rightarrow> bool" where
  "reg_ok db reg w \<longleftrightarrow> reg_wf reg w \<and> reg_synced db reg w"

definition reg_ext :: "RateLimiterRegistry \<Rightarrow> RateLimiterRegistry \<Rightarrow> bool" where
  "reg_ext reg reg' \<longleftrightarrow> global_rate_limiter reg' = global_rate_limiter reg \<and>
     map_of (user_rate_limiters reg) \<subseteq>\<^sub>m map_of (user_rate_limiters reg') \<and>
     map_of (target_rate_limiters reg) \<subseteq>\<^sub>m map_of (target_rate_limiters reg')"

lemma reg_ext_refl [simp]: "reg_ext reg reg"
  by (simp add: reg_ext_def)

lemma reg_ext_trans: "reg_ext a b \<Longrightarrow> reg_ext b c \<Longrightarrow> reg_ext a c"
  by (auto simp: reg_ext_def intro: map_le_trans)

lemma handle_replace_reg_ok [simp]: "reg_ok db reg (handle_replace ch v w) = reg_ok db reg w"
  by (simp add: reg_ok_def reg_wf_def reg_synced_def handle_replace_def)

lemma map_le_insert: "map_of ls i = None \<Longrightarrow> map_of ls \<subseteq>\<^sub>m map_of ((i, a) # ls)"
  by (auto simp: map_le_def)

lemma limiter_for_cases:
  assumes "limiter_for g now quota i ls w = (Inr a, ls', w')"
  obtains (found) "map_of ls i = Some a" "ls' = ls" "w' = w"
  | (made) lim where "map_of ls i = None" "quota i = Inr (quota_of lim)" "a = next_limiter w"
      "ls' = (i, a) # ls" "w' = snd (share lim w)"
proof (cases "map_of ls i")
  case (Some b)
  with assms show ?thesis by (intro found) (auto simp: limiter_for_def)
next
  case None
  with assms obtain q lim where "quota i = Inr q" "limiter_new g now q = Inr lim"
      "a = next_limiter w" "ls' = (i, a) # ls" "w' = snd (share lim w)"
    by (auto simp: limiter_for_def share_def res_simps split: sum.splits)
  with limiter_new_quota None show ?thesis by (intro made) auto
qed

lemma share_reg_ok:
  assumes "reg_ok db reg w"
  shows "next_limiter w \<notin> set (registered reg)"
    and "a \<in> set (registered reg) \<Longrightarrow> limiters (snd (share lim w)) a = limiters w a"
    and "limiters (snd (share lim w)) (next_limiter w) = lim"
    and "next_limiter (snd (share lim w)) = Suc (next_limiter w)"
    and "channels (snd (share lim w)) = channels w"
  using assms by (auto simp: reg_ok_def reg_wf_def share_def)

lemma reg_synced_frame:
  assumes "reg_synced db reg w" and "\<And>a. a \<in> set (registered reg) \<Longrightarrow> limiters w' a = limiters w a"
  shows "reg_synced db reg w'"
proof -
  have "limiters w' (global_rate_limiter reg) = limiters w (global_rate_limiter reg)"
      "\<And>i a. (i, a) \<in> set (user_rate_limiters reg) \<Longrightarrow> limiters w' a = limiters w a"
      "\<And>i a. (i, a) \<in> set (target_rate_limiters reg) \<Longrightarrow> limiters w' a = limiters w a"
    by (rule assms(2), force simp: registered_def)+
  with assms(1) show ?thesis by (auto simp: reg_synced_def)
qed

lemma reg_synced_insert:
  "reg_synced db (reg\<lparr>user_rate_limiters := (i, a) # user_rate_limiters reg\<rparr>) w \<longleftrightarrow>
     quota_for_user db i = Inr (quota_of (limiters w a)) \<and> reg_synced db reg w"
  "reg_synced db (reg\<lparr>target_rate_limiters := (i, a) # target_rate_limiters reg\<rparr>) w \<longleftrightarrow>
     quota_for_target db i = Inr (quota_of (limiters w a)) \<and> reg_synced db reg w"
  by (auto simp: reg_synced_def)

lemma reg_wf_insert:
  assumes "reg_wf reg w" and "next_limiter w \<notin> set (registered reg)"
    and "next_limiter w' = Suc (next_limiter w)"
  shows "reg_wf (reg\<lparr>user_rate_limiters := (i, next_limiter w) # user_rate_limiters reg\<rparr>) w'"
    and "reg_wf (reg\<lparr>target_rate_limiters := (i, next_limiter w) # target_rate_limiters reg\<rparr>) w'"
  using assms by (auto simp: reg_wf_def registered_def less_Suc_eq)

lemma limiter_for_user:
  assumes "reg_ok db reg w"
    and "limiter_for g now (quota_for_user db) i (user_rate_limiters reg) w = (Inr a, ls, w')"
  shows "reg_ok db (reg\<lparr>user_rate_limiters := ls\<rparr>) w' \<and> reg_ext reg (reg\<lparr>user_rate_limiters := ls\<rparr>) \<and>
     map_of ls i = Some a \<and> channels w' = channels w"
  using assms(2)
proof (cases rule: limiter_for_cases)
  case found
  with assms(1) show ?thesis by simp
next
  case (made lim)
  note sh = share_reg_ok [OF assms(1)]
  from assms(1) have ok: "reg_wf reg w" "reg_synced db reg w" by (simp_all add: reg_ok_def)
  have "reg_wf (reg\<lparr>user_rate_limiters := ls\<rparr>) w'"
    unfolding made(3-5) by (rule reg_wf_insert(1) [OF ok(1) sh(1,4)])
  moreover have "reg_synced db reg w'"
    unfolding made(5) by (rule reg_synced_frame [OF ok(2) sh(2)])
  then have "reg_synced db (reg\<lparr>user_rate_limiters := ls\<rparr>) w'"
    using made sh(3) by (simp add: reg_synced_insert)
  ultimately show ?thesis
    using made sh(5) map_le_insert [OF made(1)] by (simp add: reg_ok_def reg_ext_def)
qed

lemma limiter_for_target:
  assumes "reg_ok db reg w"
    and "limiter_for g now (quota_for_target db) i (target_rate_limiters reg) w = (Inr a, ls, w')"
  shows "reg_ok db (reg\<lparr>target_rate_limiters := ls\<rparr>) w' \<and> reg_ext reg (reg\<lparr>target_rate_limiters := ls\<rparr>) \<and>
     map_of ls i = Some a \<and> channels w' = channels w"
  using assms(2)
proof (cases rule: limiter_for_cases)
  case found
  with assms(1) show ?thesis by simp
next
  case (made lim)
  note sh = share_reg_ok [OF assms(1)]
  from assms(1) have ok: "reg_wf reg w" "reg_synced db reg w" by (simp_all add: reg_ok_def)
  have "reg_wf (reg\<lparr>target_rate_limiters := ls\<rparr>) w'"
    unfolding made(3-5) by (rule reg_wf_insert(2) [OF ok(1) sh(1,4)])
  moreover have "reg_synced db reg w'"
    unfolding made(5) by (rule reg_synced_frame [OF ok(2) sh(2)])
  then have "reg_synced db (reg\<lparr>target_rate_limiters := ls\<rparr>) w'"
    using made sh(3) by (simp add: reg_synced_insert)
  ultimately show ?thesis
    using made sh(5) map_le_insert [OF made(1)] by (simp add: reg_ok_def reg_ext_def)
qed

section \<open>New limits reach every connection\<close>

definition user_applied where
  "user_applied reg w s h \<longleftrightarrow>
     watch_value (channels w (handle_user h)) =
       (case ss_user_info s of None \<Rightarrow> None
        | Some ui \<Rightarrow> map_of (user_rate_limiters reg) (ui_id ui)) \<and>
     (\<forall>ui. ss_user_info s = Some ui \<longrightarrow> map_of (user_rate_limiters reg) (ui_id ui) \<noteq> None)"

definition target_applied where
  "target_applied reg w s h \<longleftrightarrow>
     watch_value (channels w (handle_target h)) =
       (case ss_target s of None \<Rightarrow> None
        | Some t \<Rightarrow> map_of (target_rate_limiters reg) (tr_id t)) \<and>
     (\<forall>t. ss_target s = Some t \<longrightarrow> map_of (target_rate_limiters reg) (tr_id t) \<noteq> None)"

definition handle_applied where
  "handle_applied reg w s h \<longleftrightarrow> user_applied reg w s h \<and> target_applied reg w s h \<and>
     watch_value (channels w (handle_global h)) = Some (global_rate_limiter reg)"

definition handle_channels :: "RateLimiterStackHandle \<Rightarrow> nat list" where
  "handle_channels h = [handle_user h, handle_target h, handle_global h]"

lemma map_le_Some: "m \<subseteq>\<^sub>m m' \<Longrightarrow> m k \<noteq> None \<Longrightarrow> m' k = m k"
  by (metis domIff map_le_def)

lemma handle_applied_frame:
  assumes "handle_applied reg w s h" and "reg_ext reg reg'"
    and "\<forall>ch \<in> set (handle_channels h). channels w' ch = channels w ch"
  shows "handle_applied reg' w' s h"
proof -
  have "user_applied reg' w' s h"
    using assms map_le_Some [of "map_of (user_rate_limiters reg)" "map_of (user_rate_limiters reg')"]
    by (auto simp: handle_applied_def user_applied_def reg_ext_def handle_channels_def split: option.splits)
  moreover have "target_applied reg' w' s h"
    using assms map_le_Some [of "map_of (target_rate_limiters reg)" "map_of (target_rate_limiters reg')"]
    by (auto simp: handle_applied_def target_applied_def reg_ext_def handle_channels_def split: option.splits)
  ultimately show ?thesis
    using assms by (simp add: handle_applied_def reg_ext_def handle_channels_def)
qed

lemma user_applied_frame:
  "user_applied reg w s h \<Longrightarrow> reg_ext reg reg' \<Longrightarrow>
     channels w' (handle_user h) = channels w (handle_user h) \<Longrightarrow> user_applied reg' w' s h"
  using map_le_Some [of "map_of (user_rate_limiters reg)" "map_of (user_rate_limiters reg')"]
  by (auto simp: user_applied_def reg_ext_def split: option.splits)

lemma target_applied_frame:
  "target_applied reg w s h \<Longrightarrow>
     channels w' (handle_target h) = channels w (handle_target h) \<Longrightarrow> target_applied reg w' s h"
  by (auto simp: target_applied_def split: option.splits)

lemma channels_handle_replace:
  "ch' \<noteq> ch \<Longrightarrow> channels (handle_replace ch v w) ch' = channels w ch'"
  "watch_value (channels (handle_replace ch v w) ch) = v"
  by (simp_all add: handle_replace_def)

lemma update_user_ok:
  assumes "reg_ok db reg w" and "update_user_limiter g now db s h reg w = (Inr u, reg', w')"
  shows "reg_ok db reg' w' \<and> reg_ext reg reg' \<and> user_applied reg' w' s h \<and>
     (\<forall>ch. ch \<noteq> handle_user h \<longrightarrow> channels w' ch = channels w ch)"
proof (cases "ss_user_info s")
  case None
  with assms show ?thesis
    by (auto simp: update_user_limiter_def user_applied_def channels_handle_replace)
next
  case (Some ui)
  with assms(2) obtain a ls w1 where
    l: "limiter_for g now (quota_for_user db) (ui_id ui) (user_rate_limiters reg) w = (Inr a, ls, w1)"
      "reg' = reg\<lparr>user_rate_limiters := ls\<rparr>" "w' = handle_replace (handle_user h) (Some a) w1"
    by (auto simp: update_user_limiter_def split: prod.splits sum.splits)
  from limiter_for_user [OF assms(1) l(1)] l(2,3) Some show ?thesis
    by (auto simp: user_applied_def channels_handle_replace)
qed

lemma update_target_ok:
  assumes "reg_ok db reg w" and "update_target_limiter g now db s h reg w = (Inr u, reg', w')"
  shows "reg_ok db reg' w' \<and> reg_ext reg reg' \<and> target_applied reg' w' s h \<and>
     (\<forall>ch. ch \<noteq> handle_target h \<longrightarrow> channels w' ch = channels w ch)"
proof (cases "ss_target s")
  case None
  with assms show ?thesis
    by (auto simp: update_target_limiter_def target_applied_def channels_handle_replace)
next
  case (Some t)
  with assms(2) obtain a ls w1 where
    l: "limiter_for g now (quota_for_target db) (tr_id t) (target_rate_limiters reg) w = (Inr a, ls, w1)"
      "reg' = reg\<lparr>target_rate_limiters := ls\<rparr>" "w' = handle_replace (handle_target h) (Some a) w1"
    by (auto simp: update_target_limiter_def split: prod.splits sum.splits)
  from limiter_for_target [OF assms(1) l(1)] l(2,3) Some show ?thesis
    by (auto simp: target_applied_def channels_handle_replace)
qed

lemma update_rate_limiters_ok:
  assumes "reg_ok db reg w" and "distinct (handle_channels h)"
    and "update_rate_limiters g now db s h reg w = (Inr u, reg', w')"
  shows "reg_ok db reg' w' \<and> reg_ext reg reg' \<and> handle_applied reg' w' s h \<and>
     (\<forall>ch. ch \<notin> set (handle_channels h) \<longrightarrow> channels w' ch = channels w ch)"
proof -
  obtain u1 reg1 w1 u2 w2 where
    st: "update_user_limiter g now db s h reg w = (Inr u1, reg1, w1)"
      "update_target_limiter g now db s h reg1 w1 = (Inr u2, reg', w2)"
      "w' = handle_replace (handle_global h) (Some (global_rate_limiter reg')) w2"
    using assms(3) by (auto simp: update_rate_limiters_def split: prod.splits sum.splits)
  note u = update_user_ok [OF assms(1) st(1)]
  then have ok1: "reg_ok db reg1 w1" by simp
  note t = update_target_ok [OF ok1 st(2)]
  have d: "handle_user h \<noteq> handle_target h" "handle_user h \<noteq> handle_global h"
      "handle_target h \<noteq> handle_global h"
    using assms(2) by (auto simp: handle_channels_def)
  have ch: "channels w' c = channels w2 c" if "c \<noteq> handle_global h" for c
    using that by (simp add: st(3) channels_handle_replace)
  have "channels w' (handle_user h) = channels w1 (handle_user h)"
    using t d ch [of "handle_user h"] by simp
  with u t have "user_applied reg' w' s h" by (blast intro: user_applied_frame)
  moreover have "target_applied reg' w' s h"
    using t target_applied_frame ch [of "handle_target h"] d by blast
  moreover have "watch_value (channels w' (handle_global h)) = Some (global_rate_limiter reg')"
    by (simp add: st(3) channels_handle_replace)
  moreover have "\<forall>c. c \<notin> set (handle_channels h) \<longrightarrow> channels w' c = channels w c"
    using u t ch by (simp add: handle_channels_def)
  moreover have "reg_ok db reg' w'" "reg_ext reg reg'"
    using u t reg_ext_trans by (auto simp: st(3))
  ultimately show ?thesis by (simp add: handle_applied_def)
qed

lemma update_handles_ok:
  assumes "reg_ok db reg w" and "distinct (concat (map handle_channels hs))"
    and "update_handles g now db s hs reg w = (Inr u, reg', w')"
  shows "reg_ok db reg' w' \<and> reg_ext reg reg' \<and> (\<forall>h \<in> set hs. handle_applied reg' w' s h) \<and>
     (\<forall>ch. ch \<notin> set (concat (map handle_channels hs)) \<longrightarrow> channels w' ch = channels w ch)"
  using assms
proof (induction hs arbitrary: reg w)
  case Nil
  then show ?case by simp
next
  case (Cons h hs)
  from Cons.prems(3) obtain u1 reg1 w1 where
    st: "update_rate_limiters g now db s h reg w = (Inr u1, reg1, w1)"
      "update_handles g now db s hs reg1 w1 = (Inr u, reg', w')"
    by (auto split: prod.splits sum.splits)
  from Cons.prems(2) have d: "distinct (handle_channels h)" "distinct (concat (map handle_channels hs))"
      "set (handle_channels h) \<inter> set (concat (map handle_channels hs)) = {}"
    by auto
  note u = update_rate_limiters_ok [OF Cons.prems(1) d(1) st(1)]
  then have "reg_ok db reg1 w1" by simp
  note ih = Cons.IH [OF this d(2) st(2)]
  have "\<forall>ch \<in> set (handle_channels h). channels w' ch = channels w1 ch"
    using ih d(3) by blast
  then have "handle_applied reg' w' s h"
    using handle_applied_frame [of reg1 w1 s h reg' w'] u ih by blast
  moreover have "reg_ext reg reg'" using u ih reg_ext_trans by blast
  ultimately show ?case using u ih by simp
qed

lemma handle_applied_handles [simp]:
  "handle_applied reg w (s\<lparr>ss_rate_limiter_handles := hs\<rparr>) h = handle_applied reg w s h"
  by (simp add: handle_applied_def user_applied_def target_applied_def)

definition session_channels :: "SessionState \<Rightarrow> nat list" where
  "session_channels s = concat (map handle_channels (ss_rate_limiter_handles s))"

lemma update_sessions_ok:
  assumes "reg_ok db reg w" and "distinct (concat (map session_channels ss))"
    and "update_sessions g now db ss reg w = (Inr u, reg', w')"
  shows "reg_ok db reg' w' \<and> reg_ext reg reg' \<and>
     (\<forall>s \<in> set ss. \<forall>h \<in> set (ss_rate_limiter_handles s). handle_applied reg' w' s h) \<and>
     (\<forall>ch. ch \<notin> set (concat (map session_channels ss)) \<longrightarrow> channels w' ch = channels w ch)"
  using assms
proof (induction ss arbitrary: reg w)
  case Nil
  then show ?case by simp
next
  case (Cons s ss)
  from Cons.prems(3) obtain u1 reg1 w1 where
    st: "update_handles g now db (s\<lparr>ss_rate_limiter_handles := []\<rparr>) (ss_rate_limiter_handles s) reg w =
        (Inr u1, reg1, w1)"
      "update_sessions g now db ss reg1 w1 = (Inr u, reg', w')"
    by (auto simp: update_all_rate_limiters_def split: prod.splits sum.splits)
  from Cons.prems(2) have d: "distinct (session_channels s)" "distinct (concat (map session_channels ss))"
      "set (session_channels s) \<inter> set (concat (map session_channels ss)) = {}"
    by auto
  note u = update_handles_ok [OF Cons.prems(1) d(1) [unfolded session_channels_def] st(1)]
  then have "reg_ok db reg1 w1" by simp
  note ih = Cons.IH [OF this d(2) st(2)]
  have same: "\<forall>ch \<in> set (session_channels s). channels w' ch = channels w1 ch"
    using ih d(3) by blast
  have "handle_applied reg' w' s h" if "h \<in> set (ss_rate_limiter_handles s)" for h
    using that handle_applied_frame [of reg1 w1 s h reg' w'] u ih same
    by (auto simp: session_channels_def)
  moreover have "reg_ext reg reg'" using u ih reg_ext_trans by blast
  ultimately show ?case using u ih by (simp add: session_channels_def)
qed

text \<open>The quota that a channel puts in force.\<close>

definition channel_quota :: "'l world \<Rightarrow> nat \<Rightarrow> u32 option" where
  "channel_quota w ch =
     (case watch_value (channels w ch) of None \<Rightarrow> None | Some a \<Rightarrow> quota_of (limiters w a))"

lemma applied_quotas:
  assumes "reg_ok db reg w" and "handle_applied reg w s h"
  shows "global_quota db = Inr (channel_quota w (handle_global h))"
    and "ss_user_info s = Some ui \<Longrightarrow> quota_for_user db (ui_id ui) = Inr (channel_quota w (handle_user h))"
    and "ss_target s = Some t \<Longrightarrow> quota_for_target db (tr_id t) = Inr (channel_quota w (handle_target h))"
proof -
  show "global_quota db = Inr (channel_quota w (handle_global h))"
    using assms by (simp add: reg_ok_def reg_synced_def handle_applied_def channel_quota_def)
  show "quota_for_user db (ui_id ui) = Inr (channel_quota w (handle_user h))" if ui: "ss_user_info s = Some ui"
  proof -
    obtain a where a: "map_of (user_rate_limiters reg) (ui_id ui) = Some a"
      using assms(2) ui by (auto simp: handle_applied_def user_applied_def)
    then have "quota_for_user db (ui_id ui) = Inr (quota_of (limiters w a))"
      using assms(1) map_of_SomeD [OF a] by (auto simp: reg_ok_def reg_synced_def)
    then show ?thesis
      using assms(2) ui a by (simp add: handle_applied_def user_applied_def channel_quota_def)
  qed
  show "quota_for_target db (tr_id t) = Inr (channel_quota w (handle_target h))" if t: "ss_target s = Some t"
  proof -
    obtain a where a: "map_of (target_rate_limiters reg) (tr_id t) = Some a"
      using assms(2) t by (auto simp: handle_applied_def target_applied_def)
    then have "quota_for_target db (tr_id t) = Inr (quota_of (limiters w a))"
      using assms(1) map_of_SomeD [OF a] by (auto simp: reg_ok_def reg_synced_def)
    then show ?thesis
      using assms(2) t a by (simp add: handle_applied_def target_applied_def channel_quota_def)
  qed
qed

text \<open>C21. New limits reach every connection. After a successful update, every stream of every
  session is under the limits that the database holds now: the global one, the one of its
  user if it has logged in, and the one of its target if it has chosen one. Limiters of
  the registry are distinct and no two streams share a channel.\<close>

theorem new_limits_in_force:
  assumes "reg_wf reg w" and "distinct (concat (map session_channels sessions))"
    and "apply_new_rate_limits g now db sessions reg w = (Inr (), reg', w')"
    and "s \<in> set sessions" and "h \<in> set (ss_rate_limiter_handles s)"
  shows "global_quota db = Inr (channel_quota w' (handle_global h)) \<and>
     (\<forall>ui. ss_user_info s = Some ui \<longrightarrow>
        quota_for_user db (ui_id ui) = Inr (channel_quota w' (handle_user h))) \<and>
     (\<forall>t. ss_target s = Some t \<longrightarrow>
        quota_for_target db (tr_id t) = Inr (channel_quota w' (handle_target h)))"
proof -
  from assms(3) obtain u w1 where st: "refresh g now db reg w = (Inr u, w1)"
      "update_sessions g now db sessions reg w1 = (Inr (), reg', w')"
    by (auto simp: apply_new_rate_limits_def split: prod.splits sum.splits)
  from refresh_ok [OF st(1) assms(1)] have "reg_ok db reg w1" by (simp add: reg_ok_def)
  from update_sessions_ok [OF this assms(2) st(2)] assms(4,5)
  have "reg_ok db reg' w'" "handle_applied reg' w' s h" by auto
  from applied_quotas [OF this] show ?thesis by blast
qed

section \<open>A zero quota\<close>

lemma replace_at_channels [simp]: "channels (snd (replace_at g now q a w)) = channels w"
  by (simp add: replace_at_def case_prod_beta)

lemma refresh_list_channels [simp]: "channels (snd (refresh_list g now quota ls w)) = channels w"
proof (induction g now quota ls w rule: refresh_list.induct)
  case (2 g now quota i a ls w)
  show ?case
  proof (cases "quota i")
    case (Inr q)
    obtain r w1 where r: "replace_at g now q a w = (r, w1)" by force
    then have "channels w1 = channels w" using replace_at_channels [of g now q a w] by simp
    with 2 [OF Inr r [symmetric]] Inr r show ?thesis by (cases r) auto
  qed simp
qed simp

lemma refresh_channels: "channels (snd (refresh g now db reg w)) = channels w"
proof (cases "global_quota db")
  case (Inr q)
  obtain r w1 where r: "replace_at g now q (global_rate_limiter reg) w = (r, w1)" by force
  then have w1: "channels w1 = channels w"
    using replace_at_channels [of g now q "global_rate_limiter reg" w] by simp
  obtain r2 w2 where r2: "refresh_list g now (quota_for_user db) (user_rate_limiters reg) w1 = (r2, w2)"
    by force
  then have "channels w2 = channels w1"
    using refresh_list_channels [of g now "quota_for_user db" "user_rate_limiters reg" w1] by simp
  with Inr r r2 w1 show ?thesis by (cases r; cases r2) (auto simp: refresh_def)
qed (simp add: refresh_def)

lemma refresh_list_zero:
  assumes "(i, a) \<in> set ls" and "quota i = Inr (Some 0)"
  shows "\<not> is_ok (fst (refresh_list g now quota ls w))"
  using assms
proof (induction g now quota ls w rule: refresh_list.induct)
  case (2 g now quota j b ls w)
  show ?case
  proof (cases "quota j")
    case (Inr q)
    obtain r w1 where r: "replace_at g now q b w = (r, w1)" by force
    show ?thesis
    proof (cases r)
      case (Inl e)
      with Inr r show ?thesis using \<open>quota j = Inr q\<close> by simp
    next
      case ok: (Inr x)
      then have "q \<noteq> Some 0"
        using r by (auto simp: replace_at_def limiter_replace_def assert_valid_quota_def)
      then have "(i, a) \<in> set ls" using 2(2,3) Inr by auto
      with 2(1) [OF Inr r [symmetric] ok] 2(3) Inr r ok show ?thesis by simp
    qed
  qed simp
qed simp

text \<open>One zero quota blocks every later update of limits. As long as a user that has a
  limiter is stored with the quota zero, which the administration interface accepts, no
  call of the update succeeds and it leaves every connection of every session under its
  old limiters, whatever was changed for other users, targets or the server.\<close>

lemma zero_quota_blocks_updates:
  assumes "(i, a) \<in> set (user_rate_limiters reg)" and "quota_for_user db i = Inr (Some 0)"
    and "apply_new_rate_limits g now db sessions reg w = (r, reg', w')"
  shows "\<not> is_ok r \<and> reg' = reg \<and> channels w' = channels w"
proof -
  obtain r1 w1 where ref: "refresh g now db reg w = (r1, w1)" by force
  have "\<not> is_ok r1"
  proof (cases "global_quota db")
    case (Inl e)
    with ref show ?thesis by (auto simp: refresh_def)
  next
    case (Inr q)
    obtain r2 w2 where r2: "replace_at g now q (global_rate_limiter reg) w = (r2, w2)" by force
    obtain r3 w3 where r3: "refresh_list g now (quota_for_user db) (user_rate_limiters reg) w2 = (r3, w3)"
      by force
    with refresh_list_zero [of i a "user_rate_limiters reg" "quota_for_user db" g now w2, OF assms(1,2)]
    have "\<not> is_ok r3" by simp
    with ref Inr r2 r3 show ?thesis by (cases r2; cases r3) (auto simp: refresh_def)
  qed
  then obtain e where "r1 = Inl e" by (cases r1) auto
  with ref assms(3) refresh_channels [of g now db reg w] show ?thesis
    by (auto simp: apply_new_rate_limits_def)
qed

section \<open>The SQL console\<close>

text \<open>The console checks the user before the target. A request passes exactly when both
  configured limiters have a cell for it; when the user's limiter refuses, the limiter of
  the target is not touched, so a user over the limit cannot use up the quota of a
  target.\<close>

lemma console_check_order:
  "console_check g user target lim =
     (let u = map_option (\<lambda>k. check_key g k user) (per_user lim);
          t = map_option (\<lambda>k. check_key g k target) (per_target lim)
      in if u \<noteq> None \<and> \<not> fst (the u)
         then (Inl PerUser, lim\<lparr>per_user := map_option snd u\<rparr>)
         else (if t \<noteq> None \<and> \<not> fst (the t) then Inl PerTarget else Inr (),
               lim\<lparr>per_user := map_option snd u, per_target := map_option snd t\<rparr>))"
  by (cases lim) (auto simp: console_check_def Let_def case_prod_beta split: option.split)

section \<open>Instances\<close>

definition limits_db :: "int option \<Rightarrow> rl_db" where
  "limits_db q = Some
     (\<lparr>users = [\<lparr>ur_id = 1, ur_username = ''ann'', ur_description = [], ur_policy = Some None,
                 ur_rate_limit = q\<rparr>],
       targets = [], roles = [], user_roles = [], target_roles = [], otp_credentials = [],
       password_credentials = [], sso_credentials = [], public_keys = [], certificates = [],
       tickets = [], api_tokens = [], accounts = [],
       target_accounts = []\<rparr>,
      \<lparr>param_rate_limit = Some 100, sql_console_rate_limit_per_user = None,
       sql_console_rate_limit_per_target = None\<rparr>)"

definition limits_session :: SessionState where
  "limits_session = \<lparr>ss_remote_address = None,
     ss_user_info = Some \<lparr>ui_id = 1, ui_username = ''ann''\<rparr>, ss_target = None,
     ss_close_requested = False,
     ss_rate_limiter_handles = [\<lparr>handle_user = 0, handle_target = 1, handle_global = 2\<rparr>],
     ss_protocol = ''SSH'', ss_connected_targets = {}, ss_started = 0, ss_persisted = True\<rparr>"

definition limits_registry :: RateLimiterRegistry where
  "limits_registry = \<lparr>global_rate_limiter = 0, user_rate_limiters = [], target_rate_limiters = []\<rparr>"

lemmas limits_defs = limits_db_def limits_session_def limits_registry_def

theorem new_limits_in_force_witness:
  "\<exists>reg' w'. apply_new_rate_limits open_governor 0 (limits_db (Some 7)) [limits_session]
       limits_registry sample_world = (Inr (), reg', w') \<and>
     channel_quota w' 0 = Some 7 \<and> channel_quota w' 2 = Some 100"
proof -
  let ?h = "\<lparr>handle_user = 0, handle_target = 1, handle_global = 2\<rparr>"
  have "apply_new_rate_limits open_governor 0 (limits_db (Some 7)) [limits_session]
       limits_registry sample_world \<in> {Inr ()} \<times> UNIV"
    by (simp add: limits_defs apply_new_rate_limits_def refresh_def global_quota_def rl_db_required_def
        as_u32_def replace_at_def limiter_replace_def assert_valid_quota_def new_rate_limiter_def
        max_cells_def update_all_rate_limiters_def update_rate_limiters_def update_user_limiter_def
        update_target_limiter_def limiter_for_def quota_for_user_def limiter_new_def limited_def
        share_def Let_def)
  then obtain reg' w' where ap: "apply_new_rate_limits open_governor 0 (limits_db (Some 7)) [limits_session]
       limits_registry sample_world = (Inr (), reg', w')"
    by auto
  have "reg_wf limits_registry sample_world" "distinct (concat (map session_channels [limits_session]))"
      "limits_session \<in> set [limits_session]" "?h \<in> set (ss_rate_limiter_handles limits_session)"
    by (simp_all add: limits_defs reg_wf_def registered_def sample_world_def session_channels_def
        handle_channels_def)
  from new_limits_in_force [OF this(1,2) ap this(3,4)] ap show ?thesis
    by (auto simp: limits_defs global_quota_def quota_for_user_def rl_db_required_def as_u32_def)
qed

lemma zero_quota_blocks_updates_witness:
  "\<not> is_ok (fst (apply_new_rate_limits open_governor 0 (limits_db (Some 0)) [limits_session]
      (limits_registry\<lparr>user_rate_limiters := [(1, 5)]\<rparr>) sample_world))"
proof -
  have "(1, 5) \<in> set (user_rate_limiters (limits_registry\<lparr>user_rate_limiters := [(1, 5)]\<rparr>))"
      "quota_for_user (limits_db (Some 0)) 1 = Inr (Some 0)"
    by (simp_all add: limits_defs quota_for_user_def rl_db_required_def as_u32_def)
  then show ?thesis
    using zero_quota_blocks_updates by (metis prod.collapse)
qed

end
