(* ===== verification/Sessions.thy ===== *)
theory Sessions
  imports Rate_Registry
begin

text \<open>
  The table of live sessions (\<open>gated-core/src/state.rs\<close>) and the handle a protocol server
  holds on its session (\<open>gated-core/src/protocols/handle.rs\<close>). A session state is shared
  between the table and the handle, so it is an entry of a store keyed by the session
  identifier; the broadcast channel of changes is the number of messages sent on it, and
  the gauge of active sessions a map from protocol names. The rendering of the target in
  the session row is the parameter \<open>snapshot\<close>.
\<close>

section \<open>State\<close>

record session_row =
  row_id :: uuid
  row_started :: nat
  row_ended :: "nat option"
  row_remote_address :: string
  row_protocol :: string
  row_username :: "string option"
  row_target_snapshot :: "string option"

record 'l AppState =
  session_ids :: "uuid list"
  session_states :: "uuid \<Rightarrow> SessionState option"
  session_rows :: "session_row list"
  active_gauge :: "string \<Rightarrow> int"
  changes_sent :: nat
  app_db :: rl_db
  app_registry :: RateLimiterRegistry
  app_world :: "'l world"

definition session_state_new :: "string option \<Rightarrow> string \<Rightarrow> nat \<Rightarrow> SessionState" where
  "session_state_new remote_address protocol now =
     \<lparr>ss_remote_address = remote_address, ss_user_info = None, ss_target = None,
      ss_close_requested = False, ss_rate_limiter_handles = [], ss_protocol = protocol,
      ss_connected_targets = {}, ss_started = now, ss_persisted = False\<rparr>"

definition app_state_new :: "rl_db \<Rightarrow> RateLimiterRegistry \<Rightarrow> 'l world \<Rightarrow> 'l AppState" where
  "app_state_new db reg w =
     \<lparr>session_ids = [], session_states = Map.empty, session_rows = [], active_gauge = (\<lambda>_. 0),
      changes_sent = 0, app_db = db, app_registry = reg, app_world = w\<rparr>"

definition emit_change :: "'l AppState \<Rightarrow> 'l AppState" where
  "emit_change st = st\<lparr>changes_sent := Suc (changes_sent st)\<rparr>"

definition set_session :: "uuid \<Rightarrow> SessionState \<Rightarrow> 'l AppState \<Rightarrow> 'l AppState" where
  "set_session i s st = st\<lparr>session_states := (session_states st)(i \<mapsto> s)\<rparr>"

definition gauge_add :: "string \<Rightarrow> int \<Rightarrow> 'l AppState \<Rightarrow> 'l AppState" where
  "gauge_add p n st = st\<lparr>active_gauge := (active_gauge st)(p := active_gauge st p + n)\<rparr>"

section \<open>Operations on the table (state.rs)\<close>

definition register_session ::
  "uuid \<Rightarrow> string \<Rightarrow> string option \<Rightarrow> nat \<Rightarrow> 'l AppState \<Rightarrow> 'l AppState" where
  "register_session i protocol remote_address now st =
     emit_change (gauge_add protocol 1
       (set_session i (session_state_new remote_address protocol now)
         (st\<lparr>session_ids := i # session_ids st\<rparr>)))"

definition mark_session_complete ::
  "uuid \<Rightarrow> nat \<Rightarrow> 'l AppState \<Rightarrow> (GatedError + unit) \<times> 'l AppState" where
  "mark_session_complete i now st =
     (case app_db st of
        None \<Rightarrow> (Inl Other, st)
      | Some _ \<Rightarrow>
          (case find (\<lambda>r. row_id r = i) (session_rows st) of
             None \<Rightarrow> (Inr (), st)
           | Some _ \<Rightarrow>
               (Inr (), st\<lparr>session_rows :=
                  map (\<lambda>r. if row_id r = i then r\<lparr>row_ended := Some now\<rparr> else r)
                    (session_rows st)\<rparr>)))"

definition remove_session :: "uuid \<Rightarrow> nat \<Rightarrow> 'l AppState \<Rightarrow> 'l AppState" where
  "remove_session i now st =
     (let st1 = (if i \<in> set (session_ids st)
                 then (case session_states st i of
                         Some s \<Rightarrow> gauge_add (ss_protocol s) (-1)
                                     (st\<lparr>session_ids := filter (\<lambda>j. j \<noteq> i) (session_ids st)\<rparr>)
                       | None \<Rightarrow> st\<lparr>session_ids := filter (\<lambda>j. j \<noteq> i) (session_ids st)\<rparr>)
                 else st)
      in emit_change (snd (mark_session_complete i now st1)))"

text \<open>\<open>close_all_sessions\<close> asks every session to close; what is left after the wait is what
  the sessions did meanwhile, so only the request is here.\<close>

definition close_all_sessions :: "'l AppState \<Rightarrow> 'l AppState" where
  "close_all_sessions st =
     st\<lparr>session_states := (\<lambda>i. map_option
          (\<lambda>s. if i \<in> set (session_ids st) then s\<lparr>ss_close_requested := True\<rparr> else s)
          (session_states st i))\<rparr>"

section \<open>Operations on the handle (handle.rs)\<close>

definition handle_update_rate_limiters ::
  "'l governor \<Rightarrow> nat \<Rightarrow> SessionState \<Rightarrow> 'l AppState \<Rightarrow> (rl_error + unit) \<times> 'l AppState" where
  "handle_update_rate_limiters g now s st =
     (let (r, reg, w) = update_all_rate_limiters g now (app_db st) s (app_registry st) (app_world st)
      in (r, st\<lparr>app_registry := reg, app_world := w\<rparr>))"

definition insert_session_row ::
  "session_row \<Rightarrow> session_row list \<Rightarrow> GatedError + session_row list" where
  "insert_session_row r rows =
     (if row_id r \<in> set (map row_id rows) then Inl DatabaseError else Inr (rows @ [r]))"

definition target_snapshot ::
  "(target_row \<Rightarrow> GatedError + string) \<Rightarrow> target_row option \<Rightarrow> GatedError + string option" where
  "target_snapshot snapshot t =
     (case t of None \<Rightarrow> Inr None | Some t \<Rightarrow> rbind (snapshot t) (\<lambda>s. Inr (Some s)))"

definition set_user_info ::
  "'l governor \<Rightarrow> (target_row \<Rightarrow> GatedError + string) \<Rightarrow> nat \<Rightarrow> uuid \<Rightarrow> AuthStateUserInfo \<Rightarrow> 'l AppState
     \<Rightarrow> (rl_error + unit) \<times> 'l AppState" where
  "set_user_info g snapshot now i ui st =
     (case session_states st i of
        None \<Rightarrow> (Inr (), st)
      | Some s \<Rightarrow>
          (let s1 = s\<lparr>ss_user_info := Some ui\<rparr>; st1 = set_session i s1 st
           in case app_db st of
                None \<Rightarrow> (Inl (Fail Other), st1)
              | Some _ \<Rightarrow>
                  (if ss_persisted s1
                   then handle_update_rate_limiters g now s1
                          (emit_change (st1\<lparr>session_rows :=
                             map (\<lambda>r. if row_id r = i then r\<lparr>row_username := Some (ui_username ui)\<rparr> else r)
                               (session_rows st1)\<rparr>))
                   else (case rbind (target_snapshot snapshot (ss_target s1)) (\<lambda>snap.
                                insert_session_row
                                  \<lparr>row_id = i, row_started = ss_started s1, row_ended = None,
                                   row_remote_address = (case ss_remote_address s1 of None \<Rightarrow> [] | Some a \<Rightarrow> a),
                                   row_protocol = ss_protocol s1,
                                   row_username = Some (ui_username ui),
                                   row_target_snapshot = snap\<rparr> (session_rows st1)) of
                           Inl e \<Rightarrow> (Inl (Fail e), st1)
                         | Inr rows \<Rightarrow>
                             (let s2 = s1\<lparr>ss_persisted := True\<rparr>
                              in handle_update_rate_limiters g now s2
                                   (emit_change (set_session i s2 (st1\<lparr>session_rows := rows\<rparr>))))))))"

definition set_target ::
  "'l governor \<Rightarrow> (target_row \<Rightarrow> GatedError + string) \<Rightarrow> nat \<Rightarrow> uuid \<Rightarrow> target_row \<Rightarrow> 'l AppState
     \<Rightarrow> (rl_error + unit) \<times> 'l AppState" where
  "set_target g snapshot now i t st =
     (case session_states st i of
        None \<Rightarrow> (Inr (), st)
      | Some s \<Rightarrow>
          (let s1 = s\<lparr>ss_target := Some t\<rparr>; st1 = set_session i s1 st
           in if ss_persisted s1
              then (case app_db st of
                      None \<Rightarrow> (Inl (Fail Other), st1)
                    | Some _ \<Rightarrow>
                        (case target_snapshot snapshot (Some t) of
                           Inl e \<Rightarrow> (Inl (Fail e), st1)
                         | Inr snap \<Rightarrow>
                             handle_update_rate_limiters g now s1
                               (emit_change (st1\<lparr>session_rows :=
                                  map (\<lambda>r. if row_id r = i then r\<lparr>row_target_snapshot := snap\<rparr> else r)
                                    (session_rows st1)\<rparr>))))
              else handle_update_rate_limiters g now s1 (emit_change st1)))"

text \<open>The audit event of a connected target, written once per session and target.\<close>

definition audit_target_connected ::
  "uuid \<Rightarrow> 'l AppState \<Rightarrow> (uuid \<times> string \<times> string) option \<times> 'l AppState" where
  "audit_target_connected i st =
     (case session_states st i of
        None \<Rightarrow> (None, st)
      | Some s \<Rightarrow>
          (case ss_target s of
             None \<Rightarrow> (None, st)
           | Some t \<Rightarrow>
               if tr_id t \<in> ss_connected_targets s then (None, st)
               else (Some (i, (case ss_user_info s of None \<Rightarrow> [] | Some ui \<Rightarrow> ui_username ui), tr_name t),
                     set_session i (s\<lparr>ss_connected_targets := insert (tr_id t) (ss_connected_targets s)\<rparr>) st)))"

definition wrap_stream ::
  "'l governor \<Rightarrow> nat \<Rightarrow> uuid \<Rightarrow> 'l AppState \<Rightarrow> (rl_error + RateLimitedStream list) \<times> 'l AppState" where
  "wrap_stream g now i st =
     (case session_states st i of
        None \<Rightarrow> (Inr [], st)
      | Some s \<Rightarrow>
          (let (stream, h, w) = stack_rate_limiters (app_world st)
           in case update_rate_limiters g now (app_db st) s h (app_registry st) w of
                (Inl e, reg, w') \<Rightarrow> (Inl e, st\<lparr>app_registry := reg, app_world := w'\<rparr>)
              | (Inr _, reg, w') \<Rightarrow>
                  (Inr stream,
                   set_session i (s\<lparr>ss_rate_limiter_handles := ss_rate_limiter_handles s @ [h]\<rparr>)
                     (st\<lparr>app_registry := reg, app_world := w'\<rparr>))))"

end
