(* ===== verification/Session_Laws.thy ===== *)
theory Session_Laws
  imports Sessions Rate_Limit_Laws
begin

text \<open>
  The laws of the session table: its consistency in every reachable state, and the order
  in which its tasks take their locks.
\<close>

section \<open>Reachable states\<close>

text \<open>One step of the server: any operation of the table and of the handles, in any order. A new
  session gets an identifier that was never used (a random UUID); the database can be
  locked, unlocked or changed, and the limits can be updated, at any time.\<close>

inductive app_step ::
  "'l governor \<Rightarrow> (target_row \<Rightarrow> GatedError + string) \<Rightarrow> 'l AppState \<Rightarrow> 'l AppState \<Rightarrow> bool"
  for g snapshot where
  register: "session_states st i = None \<Longrightarrow> app_step g snapshot st (register_session i p a now st)"
| remove: "app_step g snapshot st (remove_session i now st)"
| close_all: "app_step g snapshot st (close_all_sessions st)"
| user: "app_step g snapshot st (snd (set_user_info g snapshot now i ui st))"
| target: "app_step g snapshot st (snd (set_target g snapshot now i t st))"
| connected: "app_step g snapshot st (snd (audit_target_connected i st))"
| wrap: "app_step g snapshot st (snd (wrap_stream g now i st))"
| database: "app_step g snapshot st (st\<lparr>app_db := db\<rparr>)"
| limits: "app_step g snapshot st (st\<lparr>app_registry := reg, app_world := w\<rparr>)"

definition protocol_count :: "'l AppState \<Rightarrow> string \<Rightarrow> int" where
  "protocol_count st p =
     int (length (filter (\<lambda>i. map_option ss_protocol (session_states st i) = Some p) (session_ids st)))"

definition ids_ok :: "'l AppState \<Rightarrow> bool" where
  "ids_ok st \<longleftrightarrow> distinct (session_ids st) \<and> (\<forall>i \<in> set (session_ids st). session_states st i \<noteq> None) \<and>
     (\<forall>p. active_gauge st p = protocol_count st p)"

definition rows_ok :: "'l AppState \<Rightarrow> bool" where
  "rows_ok st \<longleftrightarrow> distinct (map row_id (session_rows st)) \<and>
     (\<forall>i. i \<in> row_id ` set (session_rows st) \<longleftrightarrow>
        (\<exists>s. session_states st i = Some s \<and> ss_persisted s)) \<and>
     (\<forall>i s. session_states st i = Some s \<longrightarrow> ss_persisted s \<longrightarrow> ss_user_info s \<noteq> None) \<and>
     (\<forall>r \<in> set (session_rows st). row_username r \<noteq> None)"

definition app_inv :: "'l AppState \<Rightarrow> bool" where
  "app_inv st \<longleftrightarrow> ids_ok st \<and> rows_ok st"

lemma app_inv_frame [simp]:
  "app_inv (emit_change st) = app_inv st"
  "app_inv (st\<lparr>app_registry := reg, app_world := w\<rparr>) = app_inv st"
  "app_inv (st\<lparr>app_db := db\<rparr>) = app_inv st"
  by (simp_all add: app_inv_def ids_ok_def rows_ok_def protocol_count_def emit_change_def)

lemma handle_update_frame:
  "snd (handle_update_rate_limiters g now s st) =
     st\<lparr>app_registry := app_registry (snd (handle_update_rate_limiters g now s st)),
        app_world := app_world (snd (handle_update_rate_limiters g now s st))\<rparr>"
  by (simp add: handle_update_rate_limiters_def case_prod_beta)

lemma app_inv_handle_update [simp]: "app_inv (snd (handle_update_rate_limiters g now s st)) = app_inv st"
  by (subst handle_update_frame) simp

lemma protocol_count_set:
  assumes "session_states st i = Some s" and "ss_protocol s' = ss_protocol s"
  shows "protocol_count (set_session i s' st) = protocol_count st"
proof -
  have "map_option ss_protocol (((session_states st)(i \<mapsto> s')) j) =
      map_option ss_protocol (session_states st j)" for j
    using assms by simp
  then show ?thesis by (simp add: protocol_count_def set_session_def fun_eq_iff)
qed

lemma ids_ok_set:
  assumes "ids_ok st" and "session_states st i = Some s" and "ss_protocol s' = ss_protocol s"
  shows "ids_ok (set_session i s' st)"
  using assms(1) protocol_count_set [OF assms(2,3)]
  by (auto simp: ids_ok_def) (auto simp: set_session_def)

lemma app_inv_set:
  assumes "app_inv st" and "session_states st i = Some s" and "ss_protocol s' = ss_protocol s"
    and "ss_persisted s' = ss_persisted s" and "ss_persisted s' \<Longrightarrow> ss_user_info s' \<noteq> None"
  shows "app_inv (set_session i s' st)"
proof -
  have "rows_ok (set_session i s' st)"
    using assms by (auto simp: app_inv_def rows_ok_def set_session_def split: if_splits)
  with ids_ok_set [OF _ assms(2,3)] assms(1) show ?thesis by (simp add: app_inv_def)
qed

lemma app_inv_map_rows:
  assumes "app_inv st" and "\<And>r. row_id (f r) = row_id r" and "\<And>r. row_username r \<noteq> None \<Longrightarrow> row_username (f r) \<noteq> None"
  shows "app_inv (st\<lparr>session_rows := map f (session_rows st)\<rparr>)"
proof -
  have "map row_id (map f (session_rows st)) = map row_id (session_rows st)"
    using assms(2) by simp
  then have d: "distinct (map row_id (map f (session_rows st))) = distinct (map row_id (session_rows st))"
    by (simp only:)
  have im: "row_id ` set (map f (session_rows st)) = row_id ` set (session_rows st)"
    using assms(2) by (auto simp: image_image)
  show ?thesis
    using assms(1,3) d im by (auto simp: app_inv_def ids_ok_def rows_ok_def protocol_count_def)
qed

lemma app_inv_register:
  assumes "app_inv st" and "session_states st i = None"
  shows "app_inv (register_session i p a now st)"
proof -
  have i: "i \<notin> set (session_ids st)" using assms by (auto simp: app_inv_def ids_ok_def)
  have "filter (\<lambda>j. map_option ss_protocol (((session_states st)(i \<mapsto> s)) j) = Some q) (session_ids st) =
      filter (\<lambda>j. map_option ss_protocol (session_states st j) = Some q) (session_ids st)" for s q
    using i by (intro filter_cong) auto
  then have "protocol_count (register_session i p a now st) q = protocol_count st q + (if q = p then 1 else 0)" for q
    by (auto simp: protocol_count_def register_session_def emit_change_def gauge_add_def set_session_def
        session_state_new_def)
  with assms i have "ids_ok (register_session i p a now st)"
    by (auto simp: app_inv_def ids_ok_def)
      (auto simp: register_session_def emit_change_def gauge_add_def set_session_def)
  moreover have "rows_ok (register_session i p a now st)"
    using assms
    by (auto simp: app_inv_def rows_ok_def register_session_def emit_change_def gauge_add_def
        set_session_def session_state_new_def)
  ultimately show ?thesis by (simp add: app_inv_def)
qed

lemma filter_remove_count:
  "distinct xs \<Longrightarrow> i \<in> set xs \<Longrightarrow>
     int (length (filter P (filter (\<lambda>j. j \<noteq> i) xs))) = int (length (filter P xs)) - (if P i then 1 else 0)"
proof (induction xs)
  case (Cons x xs)
  show ?case
  proof (cases "x = i")
    case True
    with Cons.prems have "filter (\<lambda>j. j \<noteq> i) xs = xs" by (auto intro: filter_True)
    with True show ?thesis by simp
  next
    case False
    with Cons show ?thesis by (cases "P i") auto
  qed
qed simp

lemma app_inv_remove:
  assumes "app_inv st"
  shows "app_inv (remove_session i now st)"
proof -
  have mark: "app_inv (snd (mark_session_complete i now st'))" if "app_inv st'" for st' :: "'a AppState"
    using that app_inv_map_rows [OF that, of "\<lambda>r. if row_id r = i then r\<lparr>row_ended := Some now\<rparr> else r"]
    by (auto simp: mark_session_complete_def split: option.split)
  show ?thesis
  proof (cases "i \<in> set (session_ids st)")
    case False
    with assms mark show ?thesis by (simp add: remove_session_def)
  next
    case True
    with assms obtain s where s: "session_states st i = Some s"
      by (auto simp: app_inv_def ids_ok_def)
    let ?st = "gauge_add (ss_protocol s) (-1) (st\<lparr>session_ids := filter (\<lambda>j. j \<noteq> i) (session_ids st)\<rparr>)"
    have "protocol_count ?st p = protocol_count st p - (if p = ss_protocol s then 1 else 0)" for p
      using filter_remove_count [of "session_ids st" i "\<lambda>i. map_option ss_protocol (session_states st i) = Some p"]
        assms True s
      by (auto simp: protocol_count_def gauge_add_def app_inv_def ids_ok_def)
    then have "ids_ok ?st"
      using assms by (auto simp: app_inv_def ids_ok_def) (auto simp: gauge_add_def)
    moreover have "rows_ok ?st" using assms by (simp add: app_inv_def rows_ok_def gauge_add_def)
    ultimately have "app_inv ?st" by (simp add: app_inv_def)
    with mark True s show ?thesis by (simp add: remove_session_def)
  qed
qed

lemma app_inv_close_all:
  assumes "app_inv st"
  shows "app_inv (close_all_sessions st)"
proof -
  let ?close = "\<lambda>i s. if i \<in> set (session_ids st) then s\<lparr>ss_close_requested := True\<rparr> else s"
  have st: "session_states (close_all_sessions st) i = map_option (?close i) (session_states st i)" for i
    by (simp add: close_all_sessions_def)
  have c: "ss_protocol (?close i s) = ss_protocol s" "ss_persisted (?close i s) = ss_persisted s"
      "ss_user_info (?close i s) = ss_user_info s" for i s
    by simp_all
  have "(\<exists>s. session_states (close_all_sessions st) i = Some s \<and> ss_persisted s) \<longleftrightarrow>
      (\<exists>s. session_states st i = Some s \<and> ss_persisted s)" for i
    unfolding st using c(2) [of i] by (cases "session_states st i") auto
  moreover have "protocol_count (close_all_sessions st) = protocol_count st"
    unfolding protocol_count_def st by (simp add: option.map_comp comp_def c(1)) (simp add: close_all_sessions_def)
  moreover have "(\<forall>i s. session_states (close_all_sessions st) i = Some s \<longrightarrow> ss_persisted s \<longrightarrow> ss_user_info s \<noteq> None)"
    unfolding st using assms c(2,3) by (auto simp: app_inv_def rows_ok_def)
  ultimately show ?thesis
    using assms unfolding app_inv_def ids_ok_def rows_ok_def
    by (simp add: close_all_sessions_def)
qed

lemma app_inv_user:
  assumes "app_inv st"
  shows "app_inv (snd (set_user_info g snapshot now i ui st))"
proof (cases "session_states st i")
  case None
  with assms show ?thesis by (simp add: set_user_info_def)
next
  case (Some s)
  let ?s = "s\<lparr>ss_user_info := Some ui\<rparr>"
  let ?st = "set_session i ?s st"
  have st: "app_inv ?st" using assms Some by (intro app_inv_set) auto
  show ?thesis
  proof (cases "app_db st")
    case None
    with Some st show ?thesis by (simp add: set_user_info_def)
  next
    case db: (Some d)
    show ?thesis
    proof (cases "ss_persisted s")
      case True
      have "app_inv (?st\<lparr>session_rows := map (\<lambda>r. if row_id r = i then r\<lparr>row_username := Some (ui_username ui)\<rparr> else r)
          (session_rows ?st)\<rparr>)"
        by (rule app_inv_map_rows [OF st]) auto
      with Some db True show ?thesis by (simp add: set_user_info_def Let_def)
    next
      case False
      let ?r = "\<lambda>snap. \<lparr>row_id = i, row_started = ss_started s, row_ended = None,
          row_remote_address = (case ss_remote_address s of None \<Rightarrow> [] | Some a \<Rightarrow> a),
          row_protocol = ss_protocol s, row_username = Some (ui_username ui), row_target_snapshot = snap\<rparr>"
      have "app_inv (set_session i (?s\<lparr>ss_persisted := True\<rparr>) (?st\<lparr>session_rows := session_rows st @ [?r snap]\<rparr>))"
        if "i \<notin> row_id ` set (session_rows st)" for snap
      proof -
        have "rows_ok (set_session i (?s\<lparr>ss_persisted := True\<rparr>) (?st\<lparr>session_rows := session_rows st @ [?r snap]\<rparr>))"
          using assms that by (auto simp: app_inv_def rows_ok_def set_session_def)
        moreover have "ids_ok (?st\<lparr>session_rows := session_rows st @ [?r snap]\<rparr>)"
          using st by (simp add: app_inv_def ids_ok_def protocol_count_def)
        then have "ids_ok (set_session i (?s\<lparr>ss_persisted := True\<rparr>) (?st\<lparr>session_rows := session_rows st @ [?r snap]\<rparr>))"
          by (rule ids_ok_set [where s = ?s]) (simp_all add: set_session_def)
        ultimately show ?thesis by (simp add: app_inv_def)
      qed
      with Some db False st show ?thesis
        by (auto simp: set_user_info_def insert_session_row_def Let_def set_session_def res_simps
            split: sum.split)
    qed
  qed
qed

lemma app_inv_target:
  assumes "app_inv st"
  shows "app_inv (snd (set_target g snapshot now i t st))"
proof (cases "session_states st i")
  case None
  with assms show ?thesis by (simp add: set_target_def)
next
  case (Some s)
  let ?st = "set_session i (s\<lparr>ss_target := Some t\<rparr>) st"
  have st: "app_inv ?st" using assms Some by (intro app_inv_set) (auto simp: app_inv_def rows_ok_def)
  have "app_inv (?st\<lparr>session_rows := map (\<lambda>r. if row_id r = i then r\<lparr>row_target_snapshot := snap\<rparr> else r)
      (session_rows ?st)\<rparr>)" for snap
    by (rule app_inv_map_rows [OF st]) auto
  with Some st show ?thesis by (auto simp: set_target_def Let_def split: option.split sum.split)
qed

lemma app_inv_connected:
  assumes "app_inv st"
  shows "app_inv (snd (audit_target_connected i st))"
proof (cases "session_states st i")
  case (Some s)
  then have "app_inv (set_session i (s\<lparr>ss_connected_targets := T\<rparr>) st)" for T
    using assms by (intro app_inv_set) (auto simp: app_inv_def rows_ok_def)
  with assms Some show ?thesis by (auto simp: audit_target_connected_def split: option.split)
qed (use assms in \<open>simp add: audit_target_connected_def\<close>)

lemma app_inv_wrap:
  assumes "app_inv st"
  shows "app_inv (snd (wrap_stream g now i st))"
proof (cases "session_states st i")
  case (Some s)
  have "app_inv (set_session i (s\<lparr>ss_rate_limiter_handles := hs\<rparr>) (st\<lparr>app_registry := reg, app_world := w\<rparr>))"
    for hs reg w
  proof -
    have "app_inv (st\<lparr>app_registry := reg, app_world := w\<rparr>)" using assms by simp
    then show ?thesis
      by (rule app_inv_set [where s = s]) (use assms Some in \<open>auto simp: app_inv_def rows_ok_def\<close>)
  qed
  with assms Some show ?thesis
    by (auto simp: wrap_stream_def Let_def split: prod.split sum.split)
qed (use assms in \<open>simp add: wrap_stream_def\<close>)

lemma app_step_inv: "app_step g snapshot st st' \<Longrightarrow> app_inv st \<Longrightarrow> app_inv st'"
  by (induction rule: app_step.induct)
    (simp_all add: app_inv_register app_inv_remove app_inv_close_all app_inv_user app_inv_target
      app_inv_connected app_inv_wrap)

lemma app_inv_init: "app_inv (app_state_new db reg w)"
  by (simp add: app_inv_def ids_ok_def rows_ok_def protocol_count_def app_state_new_def)

lemma app_inv_reachable:
  "(app_step g snapshot)\<^sup>*\<^sup>* (app_state_new db reg w) st \<Longrightarrow> app_inv st"
  by (induction rule: rtranclp_induct) (auto intro: app_inv_init app_step_inv)


section \<open>The order of locks\<close>

text \<open>
  The locks that tasks hold across suspension points: the registry, the session table, one lock
  per session, the store of authentication attempts and one lock per attempt. A task is the list of what it still acquires and releases. The
  update at the end of a login or a target choice (\<open>GatedServerHandle\<close>) and the creation
  of a stream take the session first; the administration interface takes the registry,
  then the table, then the sessions one by one.
\<close>

datatype lock = RegistryLock | StateLock | SessionLock uuid | AuthStoreLock | AuthLock uuid

datatype lock_op = Acquire lock | Release lock

definition handle_update_locks :: "uuid \<Rightarrow> lock_op list" where
  "handle_update_locks i =
     [Acquire (SessionLock i), Acquire RegistryLock, Release RegistryLock, Release (SessionLock i)]"

definition wrap_stream_locks :: "uuid \<Rightarrow> lock_op list" where
  "wrap_stream_locks i =
     [Acquire (SessionLock i), Acquire RegistryLock, Release RegistryLock, Release (SessionLock i)]"

definition set_user_info_locks :: "uuid \<Rightarrow> lock_op list" where
  "set_user_info_locks i =
     [Acquire (SessionLock i), Release (SessionLock i)] @ handle_update_locks i"

definition apply_limits_locks :: "uuid list \<Rightarrow> lock_op list" where
  "apply_limits_locks is =
     [Acquire RegistryLock, Acquire StateLock] @
     concat (map (\<lambda>i. [Acquire (SessionLock i), Release (SessionLock i)]) is) @
     [Release StateLock, Release RegistryLock]"

type_synonym lock_state = "(lock \<Rightarrow> nat option) \<times> (nat \<Rightarrow> lock_op list)"

inductive lock_step :: "lock_state \<Rightarrow> lock_state \<Rightarrow> bool" where
  acquire: "tasks t = Acquire l # ops \<Longrightarrow> held l = None \<Longrightarrow>
     lock_step (held, tasks) (held(l \<mapsto> t), tasks(t := ops))"
| release: "tasks t = Release l # ops \<Longrightarrow> held l = Some t \<Longrightarrow>
     lock_step (held, tasks) (held(l := None), tasks(t := ops))"

inductive_cases lock_stepE: "lock_step (held, tasks) s"

definition login_and_limits :: "uuid \<Rightarrow> nat \<Rightarrow> lock_op list" where
  "login_and_limits i =
     (\<lambda>_. [])(0 := set_user_info_locks i, 1 := apply_limits_locks [i])"

text \<open>C24. A login and an update of the limits can block each other for ever. From the state in
  which one session logs in while the administrator saves a rate limit, a state is
  reachable in which neither task is finished and no task can make a step: the session
  holds its own lock and waits for the registry, the update holds the registry (and the
  session table) and waits for the session.\<close>

theorem limit_update_deadlock:
  "\<exists>held tasks. lock_step\<^sup>*\<^sup>* (\<lambda>_. None, login_and_limits i) (held, tasks) \<and>
     tasks 0 \<noteq> [] \<and> tasks 1 \<noteq> [] \<and> held StateLock = Some 1 \<and> (\<forall>s. \<not> lock_step (held, tasks) s)"
proof -
  let ?t0 = "[Acquire RegistryLock, Release RegistryLock, Release (SessionLock i)]"
  let ?t1 = "[Acquire (SessionLock i), Release (SessionLock i), Release StateLock, Release RegistryLock]"
  have s1: "lock_step (\<lambda>_. None, login_and_limits i)
      ((\<lambda>_. None)(SessionLock i \<mapsto> 0), (login_and_limits i)(0 := Release (SessionLock i) # handle_update_locks i))"
    by (rule acquire) (simp_all add: login_and_limits_def set_user_info_locks_def)
  have s2: "lock_step ((\<lambda>_. None)(SessionLock i \<mapsto> 0), (login_and_limits i)(0 := Release (SessionLock i) # handle_update_locks i))
      (((\<lambda>_. None)(SessionLock i \<mapsto> 0))(SessionLock i := None),
       ((login_and_limits i)(0 := Release (SessionLock i) # handle_update_locks i))(0 := handle_update_locks i))"
    by (rule release) simp_all
  let ?h2 = "((\<lambda>_. None)(SessionLock i \<mapsto> 0))(SessionLock i := None)"
  let ?p2 = "((login_and_limits i)(0 := Release (SessionLock i) # handle_update_locks i))(0 := handle_update_locks i)"
  have s3: "lock_step (?h2, ?p2) (?h2(SessionLock i \<mapsto> 0), ?p2(0 := ?t0))"
    by (rule acquire) (simp_all add: handle_update_locks_def)
  have s4: "lock_step (?h2(SessionLock i \<mapsto> 0), ?p2(0 := ?t0))
      ((?h2(SessionLock i \<mapsto> 0))(RegistryLock \<mapsto> 1), (?p2(0 := ?t0))(1 := Acquire StateLock # ?t1))"
    by (rule acquire) (simp_all add: login_and_limits_def apply_limits_locks_def)
  have s5: "lock_step ((?h2(SessionLock i \<mapsto> 0))(RegistryLock \<mapsto> 1), (?p2(0 := ?t0))(1 := Acquire StateLock # ?t1))
      (((?h2(SessionLock i \<mapsto> 0))(RegistryLock \<mapsto> 1))(StateLock \<mapsto> 1),
       ((?p2(0 := ?t0))(1 := Acquire StateLock # ?t1))(1 := ?t1))"
    by (rule acquire) simp_all
  let ?h = "((?h2(SessionLock i \<mapsto> 0))(RegistryLock \<mapsto> 1))(StateLock \<mapsto> 1)"
  let ?p = "((?p2(0 := ?t0))(1 := Acquire StateLock # ?t1))(1 := ?t1)"
  have "lock_step\<^sup>*\<^sup>* (\<lambda>_. None, login_and_limits i) (?h, ?p)"
    using s1 s2 s3 s4 s5 by (meson converse_rtranclp_into_rtranclp rtranclp.rtrancl_refl)
  moreover have "\<not> lock_step (?h, ?p) s" for s
    by (auto simp: login_and_limits_def elim!: lock_stepE split: if_splits)
  ultimately show ?thesis
    by (intro exI [of _ ?h] exI [of _ ?p]) auto
qed


end
