(* ===== verification/Accounts.thy ===== *)
theory Accounts
  imports Access "HOL-Library.Option_ord"
begin

text \<open>
  The upstream login of a connection (\<open>gated-core/src/account_credentials.rs\<close>): which
  account the roles of a user give on a target, how the user picks one of several, and
  how the credentials of the account replace those stored with the target. The error
  texts of the source are the constructors of \<open>account_error\<close>, with the values that
  are formatted into them.
\<close>

section \<open>Types\<close>

datatype TargetLogin = DefaultLogin | AccountLogin int

record LoginChoice =
  lc_account_id :: "int option"
  lc_name :: "string option"

datatype account_error =
    AccountNotFound int
  | InvalidAccountCredentials int
  | AccountKindMismatch int string string
  | TargetNotDatabase
  | AccountNotDbPassword int
  | AccountEngineMismatch int DbPasswordEngine
  | TargetNotSsh
  | AccountNotSsh int
  | TargetNotHttp
  | AccountNotHttp int

datatype LoginSelectionError =
    Ambiguous "string list"
  | NotAllowed string
  | Internal account_error

section \<open>Choice of the login\<close>

definition primary_account_id :: "Db \<Rightarrow> uuid \<Rightarrow> int option" where
  "primary_account_id db t =
     map_option tac_account
       (find (\<lambda>b. tac_target b = t \<and> tac_role b = ''primary'') (target_accounts db))"

definition account_by_id :: "Db \<Rightarrow> int \<Rightarrow> account_row option" where
  "account_by_id db a = find (\<lambda>r. acc_id r = a) (accounts db)"

definition login_grants :: "Db \<Rightarrow> uuid \<Rightarrow> user_row \<Rightarrow> target_role_row list" where
  "login_grants db t u =
     (let role_ids = map role_id (user_role_rows db (ur_id u))
      in filter (\<lambda>g. tra_target g = t \<and> tra_role g \<in> set role_ids) (target_roles db))"

definition granted_login :: "int option \<Rightarrow> target_role_row \<Rightarrow> int option" where
  "granted_login primary g = (case tra_account g of Some a \<Rightarrow> Some a | None \<Rightarrow> primary)"

definition login_choice :: "Db \<Rightarrow> int option \<Rightarrow> account_error + LoginChoice" where
  "login_choice db account_id =
     (case account_id of
        Some i \<Rightarrow>
          rbind (ok_or (AccountNotFound i) (account_by_id db i))
            (\<lambda>a. Inr \<lparr>lc_account_id = Some i, lc_name = Some (acc_name a)\<rparr>)
      | None \<Rightarrow> Inr \<lparr>lc_account_id = None, lc_name = None\<rparr>)"

definition login_choices :: "Db \<Rightarrow> uuid \<Rightarrow> string \<Rightarrow> account_error + LoginChoice list" where
  "login_choices db t uname =
     (case user_by_name db uname of
        None \<Rightarrow> Inr []
      | Some user \<Rightarrow>
          (let grants = login_grants db t user
           in if grants = [] then Inr []
              else let primary = primary_account_id db t;
                       ids = remdups_adj (sort (map (granted_login primary) grants))
                   in rbind (collect_results (map (login_choice db) ids))
                        (\<lambda>choices. Inr (sort_key lc_name choices))))"

definition login_of :: "LoginChoice \<Rightarrow> TargetLogin" where
  "login_of c = (case lc_account_id c of Some i \<Rightarrow> AccountLogin i | None \<Rightarrow> DefaultLogin)"

definition choice_label :: "LoginChoice \<Rightarrow> string" where
  "choice_label c = (case lc_name c of Some n \<Rightarrow> n | None \<Rightarrow> ''(target login)'')"

definition pick_login ::
  "LoginChoice list \<Rightarrow> string option \<Rightarrow> LoginSelectionError + TargetLogin" where
  "pick_login choices requested =
     (case requested of
        Some n \<Rightarrow>
          if n \<noteq> [] then
            ok_or (NotAllowed n) (map_option login_of (find (\<lambda>c. lc_name c = Some n) choices))
          else if length choices \<le> 1 then
            Inr (case choices of [] \<Rightarrow> DefaultLogin | c # _ \<Rightarrow> login_of c)
          else Inl (Ambiguous (map choice_label choices))
      | None \<Rightarrow>
          if length choices \<le> 1 then
            Inr (case choices of [] \<Rightarrow> DefaultLogin | c # _ \<Rightarrow> login_of c)
          else Inl (Ambiguous (map choice_label choices)))"

definition select_login ::
  "Db \<Rightarrow> uuid \<Rightarrow> string \<Rightarrow> string option \<Rightarrow> LoginSelectionError + TargetLogin" where
  "select_login db t uname requested =
     (case login_choices db t uname of
        Inl e \<Rightarrow> Inl (Internal e)
      | Inr choices \<Rightarrow> pick_login choices requested)"

section \<open>Credentials of the login\<close>

definition account_credentials :: "Db \<Rightarrow> int \<Rightarrow> account_error + int \<times> AccountCredentials" where
  "account_credentials db i =
     rbind (ok_or (AccountNotFound i) (account_by_id db i)) (\<lambda>a.
       rbind (ok_or (InvalidAccountCredentials (acc_id a)) (acc_credentials a)) (\<lambda>c.
         if account_credentials_kind c \<noteq> acc_kind a
         then Inl (AccountKindMismatch (acc_id a) (acc_kind a) (account_credentials_kind c))
         else Inr (acc_id a, c)))"

definition primary_account_credentials ::
  "Db \<Rightarrow> uuid \<Rightarrow> account_error + (int \<times> AccountCredentials) option" where
  "primary_account_credentials db t =
     (case primary_account_id db t of
        Some i \<Rightarrow> rbind (account_credentials db i) (\<lambda>c. Inr (Some c))
      | None \<Rightarrow> Inr None)"

definition login_account_credentials ::
  "Db \<Rightarrow> uuid \<Rightarrow> TargetLogin \<Rightarrow> account_error + (int \<times> AccountCredentials) option" where
  "login_account_credentials db t login =
     (case login of
        DefaultLogin \<Rightarrow> primary_account_credentials db t
      | AccountLogin i \<Rightarrow> rbind (account_credentials db i) (\<lambda>c. Inr (Some c)))"

definition update_account_last_used_at ::
  "nat \<Rightarrow> int \<Rightarrow> Db \<Rightarrow> account_error + Db" where
  "update_account_last_used_at now i db =
     (case account_by_id db i of
        None \<Rightarrow> Inl (AccountNotFound i)
      | Some _ \<Rightarrow>
          Inr (db\<lparr>accounts :=
             map (\<lambda>r. if acc_id r = i then r\<lparr>acc_last_used := Some now\<rparr> else r) (accounts db)\<rparr>))"

definition expected_engine :: "TargetOptions \<Rightarrow> account_error + DbPasswordEngine" where
  "expected_engine opts =
     (case opts of
        MySqlOptions _ \<Rightarrow> Inr Mysql
      | PostgresOptions _ \<Rightarrow> Inr Postgres
      | _ \<Rightarrow> Inl TargetNotDatabase)"

definition resolve_db_account ::
  "Db \<Rightarrow> uuid \<Rightarrow> TargetOptions \<Rightarrow> TargetLogin
     \<Rightarrow> account_error + (int \<times> DbPasswordAccountCredentials) option" where
  "resolve_db_account db t opts login =
     rbind (login_account_credentials db t login) (\<lambda>found.
       case found of
         None \<Rightarrow> Inr None
       | Some (i, c) \<Rightarrow>
           rbind (expected_engine opts) (\<lambda>expected.
             case c of
               DbPassword d \<Rightarrow>
                 if dp_engine d \<noteq> expected then Inl (AccountEngineMismatch i (dp_engine d))
                 else Inr (Some (i, d))
             | _ \<Rightarrow> Inl (AccountNotDbPassword i)))"

text \<open>\<open>apply_ssh_account\<close> fails with the unit error, here \<open>None\<close>.\<close>

definition apply_ssh_account ::
  "TargetSSHOptions \<Rightarrow> AccountCredentials \<Rightarrow> TargetSSHOptions option" where
  "apply_ssh_account opts c =
     (case c of
        SshPassword p \<Rightarrow>
          Some (opts\<lparr>ssh_username := sp_username p, ssh_auth := SshAuthPassword (sp_password p)\<rparr>)
      | SshKey k \<Rightarrow>
          (let named = (if sk_username k \<noteq> [] then opts\<lparr>ssh_username := sk_username k\<rparr> else opts)
           in Some (named\<lparr>ssh_auth := SshAuthPublicKey
                \<lparr>spk_private_key_pem = Some (sk_private_key_pem k),
                 spk_passphrase = sk_passphrase k\<rparr>\<rparr>))
      | _ \<Rightarrow> None)"

definition ssh_options_with_account ::
  "Db \<Rightarrow> uuid \<Rightarrow> TargetOptions \<Rightarrow> TargetLogin \<Rightarrow> string option
     \<Rightarrow> account_error + TargetSSHOptions \<times> int option" where
  "ssh_options_with_account db t topts login fallback_username =
     (case topts of
        SshOptions opts \<Rightarrow>
          rbind (rbind (login_account_credentials db t login) (\<lambda>found.
                   case found of
                     Some (i, c) \<Rightarrow>
                       rbind (ok_or (AccountNotSsh i) (apply_ssh_account opts c))
                         (\<lambda>opts'. Inr (opts', Some i))
                   | None \<Rightarrow> Inr (opts, None)))
            (\<lambda>(opts', i).
               case fallback_username of
                 Some u \<Rightarrow>
                   Inr (if ssh_username opts' = [] then opts'\<lparr>ssh_username := u\<rparr> else opts', i)
               | None \<Rightarrow> Inr (opts', i))
      | _ \<Rightarrow> Inl TargetNotSsh)"

definition http_options_with_account ::
  "Db \<Rightarrow> uuid \<Rightarrow> TargetOptions \<Rightarrow> account_error + TargetHttpOptions \<times> int option" where
  "http_options_with_account db t topts =
     (case topts of
        HttpOptions opts \<Rightarrow>
          rbind (primary_account_credentials db t) (\<lambda>found.
            case found of
              None \<Rightarrow> Inr (opts, None)
            | Some (i, c) \<Rightarrow>
                (case c of
                   HttpHeaders hs \<Rightarrow>
                     Inr (opts\<lparr>http_upstream_auth := HeadersUpstreamAuth
                            (map_of (rev (map (\<lambda>h. (hh_name h, hh_value h)) hs)))\<rparr>, Some i)
                 | K8sToken k \<Rightarrow>
                     Inr (opts\<lparr>http_ca_certificate := kt_ca_pem k,
                              http_upstream_auth := BearerTokenUpstreamAuth (kt_token k)\<rparr>, Some i)
                 | K8sClientCert k \<Rightarrow>
                     Inr (opts\<lparr>http_ca_certificate := kc_ca_pem k,
                              http_upstream_auth := ClientCertificateUpstreamAuth
                                (kc_certificate_pem k) (kc_private_key_pem k)\<rparr>, Some i)
                 | _ \<Rightarrow> Inl (AccountNotHttp i)))
      | _ \<Rightarrow> Inl TargetNotHttp)"

section \<open>Laws\<close>

lemma collect_results_Inr [res_simps]: "collect_results rs = Inr xs \<longleftrightarrow> rs = map Inr xs"
  by (induction rs arbitrary: xs) (auto simp: rbind_eq_Inr Cons_eq_map_conv)

lemma distinct_remdups_adj_sorted: "sorted xs \<Longrightarrow> distinct (remdups_adj xs)"
  by (induction xs rule: remdups_adj.induct) (auto simp: order.antisym)

definition grants_of :: "Db \<Rightarrow> uuid \<Rightarrow> string \<Rightarrow> target_role_row list" where
  "grants_of db t uname =
     (case user_by_name db uname of None \<Rightarrow> [] | Some u \<Rightarrow> login_grants db t u)"

lemma login_choice_id: "login_choice db i = Inr c \<Longrightarrow> lc_account_id c = i"
  by (auto simp: login_choice_def res_simps split: option.splits)

lemma login_choice_name:
  "login_choice db i = Inr c \<Longrightarrow>
   lc_name c = (case i of None \<Rightarrow> None | Some a \<Rightarrow> map_option acc_name (account_by_id db a))"
  by (auto simp: login_choice_def res_simps split: option.splits)

lemma login_choices_Inr:
  assumes "login_choices db t uname = Inr cs"
  shows "lc_account_id ` set cs = granted_login (primary_account_id db t) ` set (grants_of db t uname)"
    and "distinct (map lc_account_id cs)"
    and "\<forall>c \<in> set cs. login_choice db (lc_account_id c) = Inr c"
proof -
  let ?g = "grants_of db t uname"
  let ?ids = "remdups_adj (sort (map (granted_login (primary_account_id db t)) ?g))"
  have ids: "set ?ids = granted_login (primary_account_id db t) ` set ?g" "distinct ?ids"
    by (simp_all add: distinct_remdups_adj_sorted)
  show "lc_account_id ` set cs = granted_login (primary_account_id db t) ` set ?g"
      "distinct (map lc_account_id cs)" "\<forall>c \<in> set cs. login_choice db (lc_account_id c) = Inr c"
  proof -
    obtain ds where ds: "map (login_choice db) ?ids = map Inr ds" "cs = sort_key lc_name ds"
      using assms
      by (auto simp: login_choices_def grants_of_def res_simps Let_def split: option.splits if_splits)
    then have own: "i < length ds \<Longrightarrow> login_choice db (?ids ! i) = Inr (ds ! i)" for i
      by (metis length_map nth_map)
    have len: "length ?ids = length ds" using ds(1) by (metis length_map)
    have "map lc_account_id ds = ?ids"
      using len own by (auto intro!: nth_equalityI login_choice_id)
    then have m: "map lc_account_id ds = ?ids" .
    show "lc_account_id ` set cs = granted_login (primary_account_id db t) ` set ?g"
      using ids(1) m ds(2) by (metis list.set_map set_sort)
    show "distinct (map lc_account_id cs)"
      using ids(2) m ds(2) by (metis distinct_map set_sort distinct_sort)
    show "\<forall>c \<in> set cs. login_choice db (lc_account_id c) = Inr c"
      using own len m ds(2) by (auto simp: in_set_conv_nth) (metis nth_map)
  qed
qed

lemma mem_grants_of:
  "g \<in> set (grants_of db t uname) \<longleftrightarrow>
   (\<exists>u r. user_by_name db uname = Some u \<and> r \<in> set (user_role_rows db (ur_id u)) \<and>
      g \<in> set (target_roles db) \<and> tra_target g = t \<and> tra_role g = role_id r)"
  by (cases "user_by_name db uname") (auto simp: grants_of_def login_grants_def)

lemma granted_login_None: "granted_login p g = None \<longleftrightarrow> tra_account g = None \<and> p = None"
  by (simp add: granted_login_def split: option.split)

lemma pick_login_Inr:
  "pick_login cs req = Inr l \<longleftrightarrow>
   (case req of
      Some (x # xs) \<Rightarrow> (\<exists>c. find (\<lambda>c. lc_name c = Some (x # xs)) cs = Some c \<and> l = login_of c)
    | _ \<Rightarrow> cs = [] \<and> l = DefaultLogin \<or> (\<exists>c. cs = [c] \<and> l = login_of c))"
  by (cases cs; cases req; (cases "tl cs")?; (cases "the req")?)
     (auto simp: pick_login_def res_simps split: option.splits list.splits)

end
