(* ===== verification/Admin_Targets.thy ===== *)
theory Admin_Targets
  imports Accounts Sessions
begin

text \<open>
  The administration of targets (\<open>gated-admin/src/api/targets.rs\<close>) and the removal of
  accounts (\<open>gated-admin/src/api/accounts.rs\<close>): creation, update and deletion of a target,
  its accounts, the roles that may use it and the account each role signs in with.
  A handler runs on the state of the gateway, whose database also holds the tables of
  known host keys and target states, and returns its response or the error it propagates. A transaction
  that is not committed leaves the database as it was. The calls that tell the pool of
  database connections and the waiting sessions of a change are recorded in the order
  they are made.
\<close>

section \<open>Requests, responses and state\<close>

record TargetAccountBinding =
  tb_account_id :: int
  tb_role :: TargetAccountRole

record TargetDataRequest =
  rq_name :: string
  rq_description :: "string option"
  rq_options :: TargetOptions
  rq_accounts :: "TargetAccountBinding list option"
  rq_rate_limit :: "u32 option"
  rq_group_id :: "uuid option"

record TargetAccountMetadata =
  tm_account_id :: int
  tm_account_name :: string
  tm_kind :: string
  tm_role :: TargetAccountRole

record TargetConfig =
  tc_id :: uuid
  tc_name :: string
  tc_description :: string
  tc_options :: TargetOptions
  tc_accounts :: "TargetAccountMetadata list"
  tc_rate_limit :: "u32 option"
  tc_group_id :: "uuid option"

datatype target_message =
    Message string
  | UnknownAccount int
  | IncompatibleAccount int string

datatype CreateTargetResponse =
    CreateCreated TargetConfig
  | CreateConflict string
  | CreateBadRequest string
  | CreateUnprocessable target_message

datatype UpdateTargetResponse =
    UpdateOk TargetConfig
  | UpdateBadRequest string
  | UpdateUnprocessable target_message
  | UpdateNotFound

datatype DeleteTargetResponse = TargetDeleted | TargetNotFound

datatype AddTargetRoleResponse = RoleCreated | RoleAlreadyExists

datatype DeleteTargetRoleResponse = RoleDeleted | RoleNotFound

datatype SetTargetRoleAccountResponse =
    RoleAccountUpdated
  | RoleAccountBadRequest string
  | RoleAccountNotFound

datatype DeleteAccountResponse =
    AccountDeleted
  | AccountConflict nat
  | AccountMissing

record known_host =
  kh_id :: uuid
  kh_host :: string
  kh_port :: int

record 'l admin_world =
  aw_app :: "'l AppState"
  aw_known_hosts :: "known_host list"
  aw_target_status :: "uuid list"
  aw_pools_invalidated :: "uuid list"
  aw_authorization_changes :: nat

definition on_db ::
  "(Db \<Rightarrow> (GatedError + 'a) \<times> Db) \<Rightarrow> 'l admin_world \<Rightarrow> (GatedError + 'a) \<times> 'l admin_world" where
  "on_db f w =
     (case app_db (aw_app w) of
        None \<Rightarrow> (Inl Other, w)
      | Some (db, p) \<Rightarrow>
          (let (r, db') = f db
           in (r, w\<lparr>aw_app := (aw_app w)\<lparr>app_db := Some (db', p)\<rparr>\<rparr>)))"

section \<open>Credentials stored with a target\<close>

definition nonblank :: "string option \<Rightarrow> bool" where
  "nonblank x = (case x of Some s \<Rightarrow> s \<noteq> [] | None \<Rightarrow> False)"

fun has_inline_credentials :: "TargetOptions \<Rightarrow> bool" where
  "has_inline_credentials (SshOptions opts) =
     (case ssh_auth opts of
        SshAuthPassword p \<Rightarrow> p \<noteq> []
      | SshAuthPublicKey k \<Rightarrow> nonblank (spk_private_key_pem k) \<or> nonblank (spk_passphrase k))"
| "has_inline_credentials (MySqlOptions opts) = nonblank (my_password opts)"
| "has_inline_credentials (PostgresOptions opts) = nonblank (pg_password opts)"
| "has_inline_credentials (HttpOptions opts) =
     (case http_upstream_auth opts of
        NoUpstreamAuth \<Rightarrow> False
      | HeadersUpstreamAuth hs \<Rightarrow> hs \<noteq> Map.empty
      | BearerTokenUpstreamAuth t \<Rightarrow> t \<noteq> []
      | ClientCertificateUpstreamAuth c k \<Rightarrow> c \<noteq> [] \<or> k \<noteq> [])"

fun missing_ssh_private_key :: "TargetOptions \<Rightarrow> bool" where
  "missing_ssh_private_key (SshOptions opts) =
     (case ssh_auth opts of
        SshAuthPublicKey k \<Rightarrow>
          (case spk_private_key_pem k of None \<Rightarrow> True | Some pem \<Rightarrow> trim pem = [])
      | SshAuthPassword _ \<Rightarrow> False)"
| "missing_ssh_private_key _ = False"

fun clear_inline_credentials :: "TargetOptions \<Rightarrow> TargetOptions" where
  "clear_inline_credentials (SshOptions opts) =
     SshOptions (opts\<lparr>ssh_username := [], ssh_auth := ssh_target_auth_default\<rparr>)"
| "clear_inline_credentials (MySqlOptions opts) =
     MySqlOptions (opts\<lparr>my_username := [], my_password := None\<rparr>)"
| "clear_inline_credentials (PostgresOptions opts) =
     PostgresOptions (opts\<lparr>pg_username := [], pg_password := None\<rparr>)"
| "clear_inline_credentials (HttpOptions opts) =
     HttpOptions (opts\<lparr>http_ca_certificate := None, http_upstream_auth := NoUpstreamAuth\<rparr>)"

fun redact_inline_secrets :: "TargetOptions \<Rightarrow> TargetOptions" where
  "redact_inline_secrets (SshOptions opts) =
     SshOptions (opts\<lparr>ssh_auth :=
       (case ssh_auth opts of
          SshAuthPassword _ \<Rightarrow> SshAuthPassword []
        | SshAuthPublicKey _ \<Rightarrow> ssh_target_auth_default)\<rparr>)"
| "redact_inline_secrets (MySqlOptions opts) = MySqlOptions (opts\<lparr>my_password := None\<rparr>)"
| "redact_inline_secrets (PostgresOptions opts) = PostgresOptions (opts\<lparr>pg_password := None\<rparr>)"
| "redact_inline_secrets (HttpOptions opts) =
     HttpOptions (opts\<lparr>http_upstream_auth :=
       (case http_upstream_auth opts of
          NoUpstreamAuth \<Rightarrow> NoUpstreamAuth
        | HeadersUpstreamAuth hs \<Rightarrow> HeadersUpstreamAuth (\<lambda>n. map_option (\<lambda>_. []) (hs n))
        | BearerTokenUpstreamAuth _ \<Rightarrow> BearerTokenUpstreamAuth []
        | ClientCertificateUpstreamAuth _ _ \<Rightarrow> ClientCertificateUpstreamAuth [] [])\<rparr>)"

definition keep_ssh_auth :: "SSHTargetAuth \<Rightarrow> SSHTargetAuth \<Rightarrow> SSHTargetAuth" where
  "keep_ssh_auth auth stored =
     (case (auth, stored) of
        (SshAuthPassword p, SshAuthPassword q) \<Rightarrow> SshAuthPassword (if p = [] then q else p)
      | (SshAuthPublicKey k, SshAuthPublicKey l) \<Rightarrow>
          SshAuthPublicKey (if \<not> nonblank (spk_private_key_pem k) then l else k)
      | _ \<Rightarrow> auth)"

definition keep_upstream_auth :: "UpstreamAuth \<Rightarrow> UpstreamAuth \<Rightarrow> UpstreamAuth" where
  "keep_upstream_auth auth stored =
     (case (auth, stored) of
        (HeadersUpstreamAuth hs, HeadersUpstreamAuth old) \<Rightarrow>
          HeadersUpstreamAuth (\<lambda>n. case hs n of
              Some [] \<Rightarrow> (case old n of Some v \<Rightarrow> Some v | None \<Rightarrow> Some [])
            | x \<Rightarrow> x)
      | (BearerTokenUpstreamAuth t, BearerTokenUpstreamAuth old) \<Rightarrow>
          BearerTokenUpstreamAuth (if t = [] then old else t)
      | (ClientCertificateUpstreamAuth c k, ClientCertificateUpstreamAuth c' k') \<Rightarrow>
          if c = [] \<and> k = [] then stored else auth
      | _ \<Rightarrow> auth)"

fun keep_stored_secrets :: "TargetOptions \<Rightarrow> TargetOptions \<Rightarrow> TargetOptions" where
  "keep_stored_secrets (SshOptions opts) (SshOptions stored) =
     SshOptions (opts\<lparr>ssh_auth := keep_ssh_auth (ssh_auth opts) (ssh_auth stored)\<rparr>)"
| "keep_stored_secrets (MySqlOptions opts) (MySqlOptions stored) =
     MySqlOptions (if \<not> nonblank (my_password opts)
                   then opts\<lparr>my_password := my_password stored\<rparr> else opts)"
| "keep_stored_secrets (PostgresOptions opts) (PostgresOptions stored) =
     PostgresOptions (if \<not> nonblank (pg_password opts)
                      then opts\<lparr>pg_password := pg_password stored\<rparr> else opts)"
| "keep_stored_secrets (HttpOptions opts) (HttpOptions stored) =
     HttpOptions (opts\<lparr>http_ca_certificate :=
         (case http_ca_certificate opts of None \<Rightarrow> http_ca_certificate stored | Some c \<Rightarrow> Some c),
       http_upstream_auth := keep_upstream_auth (http_upstream_auth opts) (http_upstream_auth stored)\<rparr>)"
| "keep_stored_secrets opts _ = opts"

section \<open>Accounts of a target\<close>

fun account_kind_matches_target :: "string \<Rightarrow> TargetOptions \<Rightarrow> bool" where
  "account_kind_matches_target k (SshOptions _) = (k = ''ssh-password'' \<or> k = ''ssh-key'')"
| "account_kind_matches_target k (MySqlOptions _) = (k = ''db-password'')"
| "account_kind_matches_target k (PostgresOptions _) = (k = ''db-password'')"
| "account_kind_matches_target k (HttpOptions _) =
     (k = ''http-headers'' \<or> k = ''k8s-token'' \<or> k = ''k8s-client-cert'')"

definition parse_target_account_role :: "string \<Rightarrow> TargetAccountRole option" where
  "parse_target_account_role r =
     (if r = ''primary'' then Some Primary
      else if r = ''fallback'' then Some Fallback
      else if r = ''readonly'' then Some Readonly
      else None)"

fun check_bindings ::
  "Db \<Rightarrow> TargetOptions \<Rightarrow> TargetAccountBinding list \<Rightarrow> target_message + unit" where
  "check_bindings db opts [] = Inr ()"
| "check_bindings db opts (b # bs) =
     (case account_by_id db (tb_account_id b) of
        None \<Rightarrow> Inl (UnknownAccount (tb_account_id b))
      | Some row \<Rightarrow>
          if \<not> account_kind_matches_target (acc_kind row) opts
          then Inl (IncompatibleAccount (tb_account_id b) (acc_kind row))
          else check_bindings db opts bs)"

definition validate_target_accounts ::
  "Db \<Rightarrow> TargetOptions \<Rightarrow> TargetAccountBinding list \<Rightarrow> target_message + unit" where
  "validate_target_accounts db opts bs =
     (if \<not> list_ex (\<lambda>b. tb_role b = Primary) bs
      then Inl (Message ''accounts must include a primary binding'')
      else check_bindings db opts bs)"

text \<open>The primary key of the table of bindings has all three columns.\<close>

fun insert_bindings :: "uuid \<Rightarrow> TargetAccountBinding list \<Rightarrow> Db \<Rightarrow> GatedError + Db" where
  "insert_bindings t [] db = Inr db"
| "insert_bindings t (b # bs) db =
     (case account_by_id db (tb_account_id b) of
        None \<Rightarrow> Inl Other
      | Some _ \<Rightarrow>
          (let row = \<lparr>tac_target = t, tac_account = tb_account_id b,
                      tac_role = target_account_role_str (tb_role b)\<rparr>
           in if row \<in> set (target_accounts db) then Inl DatabaseError
              else insert_bindings t bs (db\<lparr>target_accounts := target_accounts db @ [row]\<rparr>)))"

definition replace_target_accounts ::
  "uuid \<Rightarrow> TargetAccountBinding list \<Rightarrow> Db \<Rightarrow> GatedError + Db" where
  "replace_target_accounts t bs db =
     rbind (insert_bindings t bs
              (db\<lparr>target_accounts := filter (\<lambda>b. tac_target b \<noteq> t) (target_accounts db)\<rparr>))
       (\<lambda>db'. let kept = set (map tb_account_id bs)
              in Inr (db'\<lparr>target_roles :=
                   map (\<lambda>g. if tra_target g = t \<and> tra_account g \<noteq> None
                               \<and> the (tra_account g) \<notin> kept
                            then g\<lparr>tra_account := None\<rparr> else g) (target_roles db')\<rparr>))"

definition binding_metadata :: "Db \<Rightarrow> target_account_row \<Rightarrow> TargetAccountMetadata list" where
  "binding_metadata db b =
     (case account_by_id db (tac_account b) of
        None \<Rightarrow> []
      | Some a \<Rightarrow>
          (case parse_target_account_role (tac_role b) of
             None \<Rightarrow> []
           | Some r \<Rightarrow> [\<lparr>tm_account_id = acc_id a, tm_account_name = acc_name a,
                          tm_kind = acc_kind a, tm_role = r\<rparr>]))"

definition target_config_with_accounts :: "Db \<Rightarrow> target_row \<Rightarrow> GatedError + TargetConfig" where
  "target_config_with_accounts db t =
     rbind (ok_or DeserializeJson (tr_options t)) (\<lambda>opts.
       let metas = concat (map (binding_metadata db)
                      (filter (\<lambda>b. tac_target b = tr_id t) (target_accounts db)))
       in Inr \<lparr>tc_id = tr_id t, tc_name = tr_name t, tc_description = tr_description t,
               tc_options = (if metas = [] then redact_inline_secrets opts
                             else clear_inline_credentials opts),
               tc_accounts = metas,
               tc_rate_limit = map_option word_of_int (tr_rate_limit t),
               tc_group_id = tr_group_id t\<rparr>)"

section \<open>Creation, update and deletion of a target\<close>

definition bound_accounts :: "TargetDataRequest \<Rightarrow> TargetAccountBinding list option" where
  "bound_accounts body =
     (case rq_accounts body of Some (b # bs) \<Rightarrow> Some (b # bs) | _ \<Rightarrow> None)"

definition apply_accounts :: "uuid \<Rightarrow> TargetDataRequest \<Rightarrow> Db \<Rightarrow> GatedError + Db" where
  "apply_accounts t body db =
     (case rq_accounts body of
        Some bs \<Rightarrow> replace_target_accounts t bs db
      | None \<Rightarrow> Inr db)"

definition target_by_id :: "Db \<Rightarrow> uuid \<Rightarrow> target_row option" where
  "target_by_id db t = find (\<lambda>r. tr_id r = t) (targets db)"

definition insert_target :: "target_row \<Rightarrow> Db \<Rightarrow> GatedError + Db" where
  "insert_target r db =
     (if tr_id r \<in> set (map tr_id (targets db)) \<or> tr_name r \<in> set (map tr_name (targets db))
      then Inl DatabaseError else Inr (db\<lparr>targets := targets db @ [r]\<rparr>))"

definition new_target_row :: "uuid \<Rightarrow> TargetDataRequest \<Rightarrow> TargetOptions \<Rightarrow> target_row" where
  "new_target_row new_id body opts =
     \<lparr>tr_id = new_id, tr_name = rq_name body,
      tr_description = (case rq_description body of Some d \<Rightarrow> d | None \<Rightarrow> []),
      tr_kind = target_kind opts, tr_options = Some opts,
      tr_rate_limit = map_option uint (rq_rate_limit body),
      tr_group_id = rq_group_id body\<rparr>"

definition create_target_db ::
  "uuid \<Rightarrow> TargetDataRequest \<Rightarrow> TargetOptions \<Rightarrow> Db \<Rightarrow> (GatedError + CreateTargetResponse) \<times> Db" where
  "create_target_db new_id body opts db =
     (if target_by_name db (rq_name body) \<noteq> None
      then (Inr (CreateConflict ''Name already exists''), db)
      else case (case bound_accounts body of
                   Some bs \<Rightarrow> validate_target_accounts db opts bs
                 | None \<Rightarrow> Inr ()) of
             Inl m \<Rightarrow> (Inr (CreateUnprocessable m), db)
           | Inr _ \<Rightarrow>
               (let row = new_target_row new_id body opts
                in case insert_target row db of
                     Inl _ \<Rightarrow> (Inr (CreateConflict ''Target name already exists''), db)
                   | Inr db1 \<Rightarrow>
                       (case apply_accounts new_id body db1 of
                          Inl e \<Rightarrow> (Inl e, db)
                        | Inr db2 \<Rightarrow>
                            (rbind (target_config_with_accounts db2 row)
                               (\<lambda>c. Inr (CreateCreated c)), db2))))"

definition api_create_target ::
  "uuid \<Rightarrow> TargetDataRequest \<Rightarrow> 'l admin_world \<Rightarrow> (GatedError + CreateTargetResponse) \<times> 'l admin_world" where
  "api_create_target new_id body w =
     (if rq_name body = [] then (Inr (CreateBadRequest ''name''), w)
      else if bound_accounts body \<noteq> None \<and> has_inline_credentials (rq_options body) then
        (Inr (CreateUnprocessable (Message ''accounts cannot be mixed with inline credentials'')), w)
      else if bound_accounts body = None \<and> missing_ssh_private_key (rq_options body) then
        (Inr (CreateUnprocessable
           (Message ''SSH public-key auth needs a private key or a bound account'')), w)
      else on_db (create_target_db new_id body
             (if bound_accounts body \<noteq> None then clear_inline_credentials (rq_options body)
              else rq_options body)) w)"

definition updated_options :: "TargetDataRequest \<Rightarrow> target_row \<Rightarrow> TargetOptions" where
  "updated_options body target =
     (if bound_accounts body \<noteq> None then clear_inline_credentials (rq_options body)
      else case tr_options target of
             Some stored \<Rightarrow> keep_stored_secrets (rq_options body) stored
           | None \<Rightarrow> rq_options body)"

definition keeps_bindings :: "TargetDataRequest \<Rightarrow> target_row \<Rightarrow> Db \<Rightarrow> bool" where
  "keeps_bindings body target db =
     (rq_accounts body = None \<and>
      find (\<lambda>b. tac_target b = tr_id target) (target_accounts db) \<noteq> None)"

definition replace_row :: "target_row \<Rightarrow> Db \<Rightarrow> Db" where
  "replace_row r db = db\<lparr>targets := map (\<lambda>s. if tr_id s = tr_id r then r else s) (targets db)\<rparr>"

definition updated_row :: "TargetDataRequest \<Rightarrow> target_row \<Rightarrow> TargetOptions \<Rightarrow> target_row" where
  "updated_row body target opts =
     target\<lparr>tr_name := rq_name body,
       tr_description := (case rq_description body of Some d \<Rightarrow> d | None \<Rightarrow> []),
       tr_options := Some opts,
       tr_rate_limit := map_option uint (rq_rate_limit body),
       tr_group_id := rq_group_id body\<rparr>"

text \<open>Up to the commit; the result is the updated row.\<close>

definition update_target_db ::
  "uuid \<Rightarrow> TargetDataRequest \<Rightarrow> Db
     \<Rightarrow> (GatedError + (UpdateTargetResponse + target_row)) \<times> Db" where
  "update_target_db i body db =
     (case target_by_id db i of
        None \<Rightarrow> (Inr (Inl UpdateNotFound), db)
      | Some target \<Rightarrow>
          if tr_kind target \<noteq> target_kind (rq_options body) then
            (Inr (Inl (UpdateBadRequest ''the target kind cannot be changed'')), db)
          else if rq_name body = [] then (Inr (Inl (UpdateBadRequest ''name is required'')), db)
          else if find (\<lambda>r. tr_name r = rq_name body \<and> tr_id r \<noteq> i) (targets db) \<noteq> None then
            (Inr (Inl (UpdateUnprocessable (Message ''Name already exists''))), db)
          else if bound_accounts body \<noteq> None \<and> has_inline_credentials (rq_options body) then
            (Inr (Inl (UpdateUnprocessable
               (Message ''accounts cannot be mixed with inline credentials''))), db)
          else let opts = updated_options body target
               in if bound_accounts body = None \<and> missing_ssh_private_key opts
                     \<and> \<not> keeps_bindings body target db then
                    (Inr (Inl (UpdateUnprocessable
                       (Message ''SSH public-key auth needs a private key or a bound account''))), db)
                  else case (case bound_accounts body of
                               Some bs \<Rightarrow> validate_target_accounts db opts bs
                             | None \<Rightarrow> Inr ()) of
                         Inl m \<Rightarrow> (Inr (Inl (UpdateUnprocessable m)), db)
                       | Inr _ \<Rightarrow>
                           (let row = updated_row body target opts
                            in case apply_accounts i body (replace_row row db) of
                                 Inl e \<Rightarrow> (Inl e, db)
                               | Inr db' \<Rightarrow> (Inr (Inr row), db')))"

definition live_sessions :: "'l AppState \<Rightarrow> SessionState list" where
  "live_sessions st = List.map_filter (session_states st) (session_ids st)"

definition invalidate_pool :: "uuid \<Rightarrow> 'l admin_world \<Rightarrow> 'l admin_world" where
  "invalidate_pool t w = w\<lparr>aw_pools_invalidated := aw_pools_invalidated w @ [t]\<rparr>"

definition notify_authorization_changed :: "'l admin_world \<Rightarrow> 'l admin_world" where
  "notify_authorization_changed w =
     w\<lparr>aw_authorization_changes := Suc (aw_authorization_changes w)\<rparr>"

definition api_update_target ::
  "'l governor \<Rightarrow> nat \<Rightarrow> uuid \<Rightarrow> TargetDataRequest \<Rightarrow> 'l admin_world
     \<Rightarrow> (rl_error + UpdateTargetResponse) \<times> 'l admin_world" where
  "api_update_target g now i body w =
     (case on_db (update_target_db i body) w of
        (Inl e, w1) \<Rightarrow> (Inl (Fail e), w1)
      | (Inr (Inl resp), w1) \<Rightarrow> (Inr resp, w1)
      | (Inr (Inr row), w1) \<Rightarrow>
          (let app = aw_app w1;
               (r, reg, wd) = apply_new_rate_limits g now (app_db app) (live_sessions app)
                                (app_registry app) (app_world app);
               w2 = w1\<lparr>aw_app := app\<lparr>app_registry := reg, app_world := wd\<rparr>\<rparr>
           in case r of
                Inl e \<Rightarrow> (Inl e, w2)
              | Inr _ \<Rightarrow>
                  (let w3 = invalidate_pool (tr_id row) w2
                   in case app_db (aw_app w3) of
                        None \<Rightarrow> (Inl (Fail Other), w3)
                      | Some (db, _) \<Rightarrow>
                          (case target_config_with_accounts db row of
                             Inl e \<Rightarrow> (Inl (Fail e), w3)
                           | Inr c \<Rightarrow> (Inr (UpdateOk c), w3)))))"

definition ssh_endpoint_still_referenced :: "Db \<Rightarrow> uuid \<Rightarrow> string \<Rightarrow> u16 \<Rightarrow> bool" where
  "ssh_endpoint_still_referenced db t h p =
     list_ex (\<lambda>s. case tr_options s of
                     Some (SshOptions opts) \<Rightarrow> ssh_host opts = h \<and> ssh_port opts = p
                   | _ \<Rightarrow> False)
       (filter (\<lambda>s. tr_kind s = SshKind \<and> tr_id s \<noteq> t) (targets db))"

definition forget_host :: "string \<Rightarrow> u16 \<Rightarrow> known_host list \<Rightarrow> known_host list" where
  "forget_host h p = filter (\<lambda>k. \<not> (kh_host k = h \<and> kh_port k = uint p))"

definition api_delete_target ::
  "uuid \<Rightarrow> 'l admin_world \<Rightarrow> (GatedError + DeleteTargetResponse) \<times> 'l admin_world" where
  "api_delete_target i w =
     (case app_db (aw_app w) of
        None \<Rightarrow> (Inl Other, w)
      | Some (db, p) \<Rightarrow>
          (case target_by_id db i of
             None \<Rightarrow> (Inr TargetNotFound, w)
           | Some target \<Rightarrow>
               (let db1 = db\<lparr>target_roles := filter (\<lambda>g. tra_target g \<noteq> tr_id target) (target_roles db)\<rparr>;
                    set_db = (\<lambda>d w. w\<lparr>aw_app := (aw_app w)\<lparr>app_db := Some (d, p)\<rparr>\<rparr>);
                    hosts =
                      (if tr_kind target = SshKind then
                         (case tr_options target of
                            None \<Rightarrow> Inl DeserializeJson
                          | Some (SshOptions opts) \<Rightarrow>
                              Inr (if ssh_endpoint_still_referenced db1 (tr_id target)
                                        (ssh_host opts) (ssh_port opts)
                                   then aw_known_hosts w
                                   else forget_host (ssh_host opts) (ssh_port opts) (aw_known_hosts w))
                          | Some _ \<Rightarrow> Inr (aw_known_hosts w))
                       else Inr (aw_known_hosts w))
                in case hosts of
                     Inl e \<Rightarrow> (Inl e, set_db db1 w)
                   | Inr kh \<Rightarrow>
                       (Inr TargetDeleted,
                        notify_authorization_changed (invalidate_pool (tr_id target)
                          (set_db (db1\<lparr>targets := filter (\<lambda>r. tr_id r \<noteq> tr_id target) (targets db1),
                                       target_accounts := filter (\<lambda>b. tac_target b \<noteq> tr_id target)
                                                           (target_accounts db1)\<rparr>)
                            (w\<lparr>aw_known_hosts := kh,
                               aw_target_status := filter (\<lambda>s. s \<noteq> tr_id target) (aw_target_status w)\<rparr>)))))))"

section \<open>Roles of a target\<close>

definition find_grant :: "uuid \<Rightarrow> uuid \<Rightarrow> Db \<Rightarrow> target_role_row option" where
  "find_grant t r db = find (\<lambda>g. tra_target g = t \<and> tra_role g = r) (target_roles db)"

definition next_grant_id :: "Db \<Rightarrow> int" where
  "next_grant_id db = fold max (map tra_id (target_roles db)) 0 + 1"

text \<open>The foreign keys of the new row are checked on insertion.\<close>

definition add_target_role_db ::
  "uuid \<Rightarrow> uuid \<Rightarrow> Db \<Rightarrow> (GatedError + AddTargetRoleResponse) \<times> Db" where
  "add_target_role_db t r db =
     (if filter (\<lambda>g. tra_target g = t \<and> tra_role g = r) (target_roles db) \<noteq> []
      then (Inr RoleAlreadyExists, db)
      else if target_by_id db t = None \<or> find (\<lambda>x. role_id x = r) (roles db) = None
      then (Inl DatabaseError, db)
      else (Inr RoleCreated,
            db\<lparr>target_roles := target_roles db @
                 [\<lparr>tra_id = next_grant_id db, tra_target = t, tra_role = r, tra_account = None\<rparr>]\<rparr>))"

definition api_add_target_role ::
  "uuid \<Rightarrow> uuid \<Rightarrow> 'l admin_world \<Rightarrow> (GatedError + AddTargetRoleResponse) \<times> 'l admin_world" where
  "api_add_target_role t r w = on_db (add_target_role_db t r) w"

definition delete_target_role_db ::
  "uuid \<Rightarrow> uuid \<Rightarrow> Db \<Rightarrow> (GatedError + DeleteTargetRoleResponse) \<times> Db" where
  "delete_target_role_db t r db =
     (if target_by_id db t = None then (Inr RoleNotFound, db)
      else if find (\<lambda>x. role_id x = r) (roles db) = None then (Inr RoleNotFound, db)
      else case find_grant t r db of
             None \<Rightarrow> (Inr RoleNotFound, db)
           | Some m \<Rightarrow>
               (Inr RoleDeleted,
                db\<lparr>target_roles := filter (\<lambda>g. tra_id g \<noteq> tra_id m) (target_roles db)\<rparr>))"

definition api_delete_target_role ::
  "uuid \<Rightarrow> uuid \<Rightarrow> 'l admin_world \<Rightarrow> (GatedError + DeleteTargetRoleResponse) \<times> 'l admin_world" where
  "api_delete_target_role t r w =
     (case on_db (delete_target_role_db t r) w of
        (Inr RoleDeleted, w') \<Rightarrow> (Inr RoleDeleted, notify_authorization_changed w')
      | rw \<Rightarrow> rw)"

definition set_target_role_account_db ::
  "uuid \<Rightarrow> uuid \<Rightarrow> int option \<Rightarrow> Db \<Rightarrow> (GatedError + SetTargetRoleAccountResponse) \<times> Db" where
  "set_target_role_account_db t r a db =
     (case find_grant t r db of
        None \<Rightarrow> (Inr RoleAccountNotFound, db)
      | Some m \<Rightarrow>
          if (case a of
                Some i \<Rightarrow> find (\<lambda>b. tac_target b = t \<and> tac_account b = i) (target_accounts db) = None
              | None \<Rightarrow> False)
          then (Inr (RoleAccountBadRequest ''The account is not bound to this target''), db)
          else (Inr RoleAccountUpdated,
                db\<lparr>target_roles :=
                   map (\<lambda>g. if tra_id g = tra_id m then g\<lparr>tra_account := a\<rparr> else g)
                     (target_roles db)\<rparr>))"

definition api_set_target_role_account ::
  "uuid \<Rightarrow> uuid \<Rightarrow> int option \<Rightarrow> 'l admin_world
     \<Rightarrow> (GatedError + SetTargetRoleAccountResponse) \<times> 'l admin_world" where
  "api_set_target_role_account t r a w = on_db (set_target_role_account_db t r a) w"

section \<open>Accounts (accounts.rs)\<close>

definition account_references :: "Db \<Rightarrow> int \<Rightarrow> target_row list" where
  "account_references db i =
     List.map_filter (\<lambda>b. target_by_id db (tac_target b))
       (filter (\<lambda>b. tac_account b = i) (target_accounts db))"

definition next_account_id :: "Db \<Rightarrow> int" where
  "next_account_id db = fold max (map acc_id (accounts db)) 0 + 1"

text \<open>The name is unique; a restricting foreign key protects the bound accounts.\<close>

definition insert_account :: "string \<Rightarrow> AccountCredentials \<Rightarrow> Db \<Rightarrow> GatedError + account_row \<times> Db" where
  "insert_account name c db =
     (if name \<in> set (map acc_name (accounts db)) then Inl DatabaseError
      else let row = \<lparr>acc_id = next_account_id db, acc_kind = account_credentials_kind c,
                      acc_name = name, acc_credentials = Some c, acc_last_used = None\<rparr>
           in Inr (row, db\<lparr>accounts := accounts db @ [row]\<rparr>))"

definition delete_account_db :: "int \<Rightarrow> Db \<Rightarrow> (GatedError + DeleteAccountResponse) \<times> Db" where
  "delete_account_db i db =
     (case account_by_id db i of
        None \<Rightarrow> (Inr AccountMissing, db)
      | Some a \<Rightarrow>
          (let refs = account_references db i
           in if refs \<noteq> [] then (Inr (AccountConflict (length refs)), db)
              else if \<exists>b \<in> set (target_accounts db). tac_account b = acc_id a
              then (Inl DatabaseError, db)
              else (Inr AccountDeleted,
                    db\<lparr>accounts := filter (\<lambda>x. acc_id x \<noteq> acc_id a) (accounts db)\<rparr>)))"

definition api_delete_account ::
  "int \<Rightarrow> 'l admin_world \<Rightarrow> (GatedError + DeleteAccountResponse) \<times> 'l admin_world" where
  "api_delete_account i w = on_db (delete_account_db i) w"

end
