(* ===== verification/Admin_Laws.thy ===== *)
theory Admin_Laws
  imports Admin_Targets Access_Laws Session_Laws
begin

text \<open>
  Laws of the administration of targets: the invariant that ties the accounts of the roles
  to the accounts bound to their target is kept by every handler, so the logins offered to a user
  resolve; secrets are not shown by the reading endpoint and survive a read followed
  by an update.
\<close>

section \<open>The invariant of bindings\<close>

definition account_bound :: "Db \<Rightarrow> uuid \<Rightarrow> int \<Rightarrow> bool" where
  "account_bound db t a \<longleftrightarrow> (\<exists>b \<in> set (target_accounts db). tac_target b = t \<and> tac_account b = a)"

definition primary_bound :: "Db \<Rightarrow> uuid \<Rightarrow> bool" where
  "primary_bound db t \<longleftrightarrow>
     (\<exists>b \<in> set (target_accounts db). tac_target b = t \<and> tac_role b = ''primary'')"

definition account_fits :: "Db \<Rightarrow> TargetOptions \<Rightarrow> int \<Rightarrow> bool" where
  "account_fits db opts a \<longleftrightarrow>
     (\<exists>acc. account_by_id db a = Some acc \<and> account_kind_matches_target (acc_kind acc) opts)"

definition binding_ok :: "Db \<Rightarrow> target_account_row \<Rightarrow> bool" where
  "binding_ok db b \<longleftrightarrow>
     primary_bound db (tac_target b) \<and>
     (\<exists>t opts. target_by_id db (tac_target b) = Some t \<and> tr_options t = Some opts \<and>
        target_kind opts = tr_kind t \<and> account_fits db opts (tac_account b))"

definition account_ok :: "account_row \<Rightarrow> bool" where
  "account_ok a \<longleftrightarrow>
     acc_name a \<noteq> [] \<and> (\<exists>c. acc_credentials a = Some c \<and> account_credentials_kind c = acc_kind a)"

definition accounts_inv :: "Db \<Rightarrow> bool" where
  "accounts_inv db \<longleftrightarrow>
     (\<forall>g \<in> set (target_roles db). \<forall>a. tra_account g = Some a \<longrightarrow> account_bound db (tra_target g) a) \<and>
     (\<forall>b \<in> set (target_accounts db). binding_ok db b) \<and>
     (\<forall>a \<in> set (accounts db). account_ok a) \<and>
     distinct (map acc_id (accounts db)) \<and> distinct (map acc_name (accounts db)) \<and>
     distinct (map tr_id (targets db)) \<and> distinct (map tra_id (target_roles db))"

lemma accounts_invD:
  assumes "accounts_inv db"
  shows "g \<in> set (target_roles db) \<Longrightarrow> tra_account g = Some a \<Longrightarrow> account_bound db (tra_target g) a"
    and "b \<in> set (target_accounts db) \<Longrightarrow> binding_ok db b"
    and "x \<in> set (accounts db) \<Longrightarrow> account_ok x"
    and "distinct (map acc_id (accounts db))" "distinct (map acc_name (accounts db))"
    and "distinct (map tr_id (targets db))" "distinct (map tra_id (target_roles db))"
  using assms by (auto simp: accounts_inv_def)

text \<open>The predicates read only some of the tables.\<close>

lemma bound_tables [simp]:
  "account_bound (db\<lparr>targets := x\<rparr>) = account_bound db"
  "account_bound (db\<lparr>target_roles := y\<rparr>) = account_bound db"
  "account_bound (db\<lparr>accounts := z\<rparr>) = account_bound db"
  "primary_bound (db\<lparr>targets := x\<rparr>) = primary_bound db"
  "primary_bound (db\<lparr>target_roles := y\<rparr>) = primary_bound db"
  "primary_bound (db\<lparr>accounts := z\<rparr>) = primary_bound db"
  "account_by_id (db\<lparr>targets := x\<rparr>) = account_by_id db"
  "account_by_id (db\<lparr>target_roles := y\<rparr>) = account_by_id db"
  "account_by_id (db\<lparr>target_accounts := u\<rparr>) = account_by_id db"
  "account_fits (db\<lparr>targets := x\<rparr>) = account_fits db"
  "account_fits (db\<lparr>target_roles := y\<rparr>) = account_fits db"
  "account_fits (db\<lparr>target_accounts := u\<rparr>) = account_fits db"
  "target_by_id (db\<lparr>target_roles := y\<rparr>) = target_by_id db"
  "target_by_id (db\<lparr>target_accounts := u\<rparr>) = target_by_id db"
  "target_by_id (db\<lparr>accounts := z\<rparr>) = target_by_id db"
  "binding_ok (db\<lparr>target_roles := y\<rparr>) = binding_ok db"
  by (auto simp: fun_eq_iff account_bound_def primary_bound_def account_by_id_def account_fits_def
        target_by_id_def binding_ok_def)

lemma account_kind_matches_kind:
  "target_kind o1 = target_kind o2 \<Longrightarrow>
   account_kind_matches_target k o1 = account_kind_matches_target k o2"
  by (cases o1; cases o2) auto

lemma target_kind_options [simp]:
  "target_kind (clear_inline_credentials opts) = target_kind opts"
  "target_kind (keep_stored_secrets opts stored) = target_kind opts"
  by (cases opts, simp_all) (cases opts; cases stored; simp)+

lemma target_kind_updated [simp]: "target_kind (updated_options body r) = target_kind (rq_options body)"
  by (simp add: updated_options_def split: option.split)

section \<open>Bindings\<close>

definition binding_row :: "uuid \<Rightarrow> TargetAccountBinding \<Rightarrow> target_account_row" where
  "binding_row t b = \<lparr>tac_target = t, tac_account = tb_account_id b,
                      tac_role = target_account_role_str (tb_role b)\<rparr>"

definition unbind_grant :: "uuid \<Rightarrow> int set \<Rightarrow> target_role_row \<Rightarrow> target_role_row" where
  "unbind_grant t kept g =
     (if tra_target g = t \<and> tra_account g \<noteq> None \<and> the (tra_account g) \<notin> kept
      then g\<lparr>tra_account := None\<rparr> else g)"

lemma insert_bindings_Inr:
  "insert_bindings t bs db = Inr db' \<Longrightarrow>
   db' = db\<lparr>target_accounts := target_accounts db @ map (binding_row t) bs\<rparr>"
  by (induction t bs db rule: insert_bindings.induct)
     (auto simp: Let_def binding_row_def split: option.splits if_splits)

lemma replace_target_accounts_Inr:
  assumes "replace_target_accounts t bs db = Inr db'"
  shows "db' = db\<lparr>target_accounts :=
           filter (\<lambda>b. tac_target b \<noteq> t) (target_accounts db) @ map (binding_row t) bs,
         target_roles := map (unbind_grant t (tb_account_id ` set bs)) (target_roles db)\<rparr>"
proof -
  from assms obtain d where d: "insert_bindings t bs
      (db\<lparr>target_accounts := filter (\<lambda>b. tac_target b \<noteq> t) (target_accounts db)\<rparr>) = Inr d"
      "db' = d\<lparr>target_roles := map (unbind_grant t (tb_account_id ` set bs)) (target_roles d)\<rparr>"
    by (auto simp: replace_target_accounts_def res_simps Let_def unbind_grant_def)
  from insert_bindings_Inr [OF d(1)] d(2) show ?thesis by simp
qed

lemma check_bindings_fits:
  "check_bindings db opts bs = Inr () \<Longrightarrow> b \<in> set bs \<Longrightarrow> account_fits db opts (tb_account_id b)"
  by (induction bs) (auto simp: account_fits_def split: option.splits if_splits)

lemma validate_target_accounts_ok:
  assumes "validate_target_accounts db opts bs = Inr ()"
  shows "\<exists>b \<in> set bs. tb_role b = Primary"
    and "b \<in> set bs \<Longrightarrow> account_fits db opts (tb_account_id b)"
  using assms check_bindings_fits
  by (auto simp: validate_target_accounts_def list_ex_iff split: if_splits)

lemma unbind_grant_simps [simp]:
  "tra_target (unbind_grant t kept g) = tra_target g" "tra_id (unbind_grant t kept g) = tra_id g"
  by (simp_all add: unbind_grant_def)

lemma unbind_grant_Some:
  "tra_account (unbind_grant t kept g) = Some a \<longleftrightarrow>
   tra_account g = Some a \<and> (tra_target g = t \<longrightarrow> a \<in> kept)"
  by (auto simp: unbind_grant_def)

lemma replace_target_accounts_inv:
  assumes inv: "accounts_inv db"
    and row: "target_by_id db t = Some r" "tr_options r = Some opts" "target_kind opts = tr_kind r"
    and valid: "bs \<noteq> [] \<Longrightarrow> validate_target_accounts db opts bs = Inr ()"
    and run: "replace_target_accounts t bs db = Inr db'"
  shows "accounts_inv db'"
proof -
  note db' = replace_target_accounts_Inr [OF run]
  have mem: "set (target_accounts db') =
      {b \<in> set (target_accounts db). tac_target b \<noteq> t} \<union> binding_row t ` set bs"
    by (auto simp: db')
  have other: "primary_bound db' u = primary_bound db u" "account_bound db' u a = account_bound db u a"
    if "u \<noteq> t" for u a
    using that by (auto simp: primary_bound_def account_bound_def mem binding_row_def)
  have same: "target_by_id db' = target_by_id db" "account_fits db' = account_fits db"
      "accounts db' = accounts db" "targets db' = targets db"
    by (simp_all add: db')
  have "binding_ok db' b" if b: "b \<in> set (target_accounts db')" for b
  proof (cases "tac_target b = t")
    case False
    then have "b \<in> set (target_accounts db)" using that by (auto simp: mem binding_row_def)
    then have "binding_ok db b" by (rule accounts_invD(2) [OF inv])
    then show ?thesis using False by (simp add: binding_ok_def other same)
  next
    case True
    then obtain x where x: "x \<in> set bs" "b = binding_row t x" using b by (auto simp: mem)
    then have "bs \<noteq> []" by auto
    note v = valid [OF this]
    from validate_target_accounts_ok(1) [OF v] have "primary_bound db' t"
      by (force simp: primary_bound_def mem binding_row_def)
    then show ?thesis using row x validate_target_accounts_ok(2) [OF v x(1)]
      by (auto simp: binding_ok_def binding_row_def same)
  qed
  moreover have "account_bound db' (tra_target g) a"
    if "g \<in> set (target_roles db')" "tra_account g = Some a" for g a
  proof -
    from that obtain h where h: "h \<in> set (target_roles db)" "tra_account h = Some a"
        "tra_target g = tra_target h" "tra_target h = t \<longrightarrow> a \<in> tb_account_id ` set bs"
      by (auto simp: db' unbind_grant_Some)
    show ?thesis
    proof (cases "tra_target h = t")
      case True
      then obtain x where x: "x \<in> set bs" "a = tb_account_id x" using h(4) by auto
      then have "binding_row t x \<in> set (target_accounts db')" by (simp add: mem)
      then show ?thesis unfolding account_bound_def
        by (rule bexI [rotated]) (simp add: binding_row_def x(2) h(3) True)
    next
      case False
      then show ?thesis using h accounts_invD(1) [OF inv h(1,2)] by (simp add: other)
    qed
  qed
  moreover have "distinct (map tra_id (target_roles db'))"
    using accounts_invD(7) [OF inv] by (simp add: db' o_def)
  ultimately show ?thesis using accounts_invD [OF inv] by (simp add: accounts_inv_def same)
qed

section \<open>Every handler keeps the invariant\<close>

lemma target_by_id_append:
  "target_by_id (db\<lparr>targets := targets db @ [row]\<rparr>) t =
   (case target_by_id db t of Some r \<Rightarrow> Some r | None \<Rightarrow> if tr_id row = t then Some row else None)"
  by (simp add: target_by_id_def find_append split: option.split)

lemma target_by_id_replace:
  "target_by_id (replace_row row db) t =
   map_option (\<lambda>s. if tr_id s = tr_id row then row else s) (target_by_id db t)"
proof -
  let ?f = "\<lambda>s. if tr_id s = tr_id row then row else s"
  have "find (\<lambda>r. tr_id r = t) (map ?f xs) = map_option ?f (find (\<lambda>r. tr_id r = t) xs)" for xs
    by (induction xs) auto
  then show ?thesis by (simp add: target_by_id_def replace_row_def)
qed

lemma accounts_inv_insert_target:
  assumes "accounts_inv db" "insert_target row db = Inr db'"
  shows "accounts_inv db'" and "target_by_id db' (tr_id row) = Some row" "accounts db' = accounts db"
proof -
  from assms(2) have db': "db' = db\<lparr>targets := targets db @ [row]\<rparr>"
      and new: "tr_id row \<notin> set (map tr_id (targets db))"
    by (auto simp: insert_target_def split: if_splits)
  have "binding_ok db' b" if "binding_ok db b" for b
    using that by (auto simp: binding_ok_def db' target_by_id_append)
  then show "accounts_inv db'" using accounts_invD [OF assms(1)] new
    by (auto simp: accounts_inv_def db')
  have "target_by_id db (tr_id row) = None"
    using new by (auto simp: target_by_id_def find_None_iff image_iff)
  then show "target_by_id db' (tr_id row) = Some row" by (simp add: db' target_by_id_append)
  show "accounts db' = accounts db" by (simp add: db')
qed

lemma accounts_inv_replace_row:
  assumes inv: "accounts_inv db" and old: "target_by_id db i = Some old"
    and row: "tr_id row = i" "tr_kind row = tr_kind old" "tr_options row = Some opts"
      "target_kind opts = tr_kind old"
  shows "accounts_inv (replace_row row db)" "target_by_id (replace_row row db) i = Some row"
proof -
  have i: "tr_id old = i" using old by (auto simp: target_by_id_def dest: find_Some_in)
  show new: "target_by_id (replace_row row db) i = Some row" using old row(1) i by (simp add: target_by_id_replace)
  have "binding_ok (replace_row row db) b" if ok: "binding_ok db b" for b
  proof (cases "tac_target b = i")
    case True
    then obtain o' where o': "account_fits db o' (tac_account b)" "target_kind o' = tr_kind old"
      using ok old by (auto simp: binding_ok_def)
    then have "account_fits db opts (tac_account b)"
      using row(4) account_kind_matches_kind by (auto simp: account_fits_def) metis
    then show ?thesis using that True new row
      by (simp add: binding_ok_def) (simp add: replace_row_def)
  next
    case False
    then have "target_by_id (replace_row row db) (tac_target b) = target_by_id db (tac_target b)"
    proof (cases "target_by_id db (tac_target b)")
      case (Some s)
      then have "tr_id s = tac_target b" by (auto simp: target_by_id_def dest: find_Some_in)
      then show ?thesis using Some False row(1) by (simp add: target_by_id_replace)
    qed (simp add: target_by_id_replace)
    then show ?thesis using that by (simp add: binding_ok_def) (simp add: replace_row_def)
  qed
  moreover have "map tr_id (targets (replace_row row db)) = map tr_id (targets db)"
      "target_roles (replace_row row db) = target_roles db" "accounts (replace_row row db) = accounts db"
      "target_accounts (replace_row row db) = target_accounts db"
      "account_bound (replace_row row db) = account_bound db"
    by (simp_all add: replace_row_def)
  ultimately show "accounts_inv (replace_row row db)" using accounts_invD [OF inv]
    by (simp add: accounts_inv_def)
qed

lemma validate_cong:
  "accounts db' = accounts db \<Longrightarrow> validate_target_accounts db' = validate_target_accounts db"
proof -
  assume a: "accounts db' = accounts db"
  have "check_bindings db' opts bs = check_bindings db opts bs" for opts bs
    by (induction bs) (simp_all add: account_by_id_def a split: option.split)
  then show ?thesis by (simp add: fun_eq_iff validate_target_accounts_def)
qed

lemma apply_accounts_inv:
  assumes inv: "accounts_inv db"
    and row: "target_by_id db t = Some r" "tr_options r = Some opts" "target_kind opts = tr_kind r"
    and valid: "(case bound_accounts body of Some bs \<Rightarrow> validate_target_accounts db opts bs
                 | None \<Rightarrow> Inr ()) = Inr ()"
    and run: "apply_accounts t body db = Inr db'"
  shows "accounts_inv db'"
proof (cases "rq_accounts body")
  case None
  then show ?thesis using inv run by (simp add: apply_accounts_def)
next
  case (Some bs)
  then have "replace_target_accounts t bs db = Inr db'" using run by (simp add: apply_accounts_def)
  moreover have "bs \<noteq> [] \<Longrightarrow> validate_target_accounts db opts bs = Inr ()"
    using valid Some by (auto simp: bound_accounts_def split: list.splits)
  ultimately show ?thesis using replace_target_accounts_inv [OF inv row] by blast
qed

lemma row_simps [simp]:
  "tr_id (new_target_row i body opts) = i" "tr_kind (new_target_row i body opts) = target_kind opts"
  "tr_options (new_target_row i body opts) = Some opts"
  "tr_id (updated_row body r opts) = tr_id r" "tr_kind (updated_row body r opts) = tr_kind r"
  "tr_options (updated_row body r opts) = Some opts"
  by (simp_all add: new_target_row_def updated_row_def)

lemma create_target_db_inv:
  assumes "accounts_inv db"
  shows "accounts_inv (snd (create_target_db i body opts db))"
proof -
  have "accounts_inv db2"
    if v: "(case bound_accounts body of Some bs \<Rightarrow> validate_target_accounts db opts bs
            | None \<Rightarrow> Inr ()) = Inr ()"
      and ins: "insert_target (new_target_row i body opts) db = Inr db1"
      and run: "apply_accounts i body db1 = Inr db2" for db1 db2
  proof -
    note ins' = accounts_inv_insert_target [OF assms ins, simplified]
    show ?thesis
      by (rule apply_accounts_inv [OF ins'(1,2) _ _ _ run])
         (use v in \<open>simp_all add: validate_cong [OF ins'(3)] split: option.splits\<close>)
  qed
  then show ?thesis using assms
    by (auto simp: create_target_db_def Let_def split: sum.splits)
qed

lemma update_target_db_inv:
  assumes "accounts_inv db"
  shows "accounts_inv (snd (update_target_db i body db))"
proof -
  have step: "accounts_inv db2"
    if v: "(case bound_accounts body of
              Some bs \<Rightarrow> validate_target_accounts db (updated_options body old) bs
            | None \<Rightarrow> Inr ()) = Inr ()"
      and old: "target_by_id db i = Some old" and kind: "tr_kind old = target_kind (rq_options body)"
      and run: "apply_accounts i body
                  (replace_row (updated_row body old (updated_options body old)) db) = Inr db2"
    for old db2
  proof -
    have id: "tr_id old = i" using old by (auto simp: target_by_id_def dest: find_Some_in)
    let ?row = "updated_row body old (updated_options body old)"
    have r: "accounts_inv (replace_row ?row db)" "target_by_id (replace_row ?row db) i = Some ?row"
      using accounts_inv_replace_row [OF assms old, of ?row "updated_options body old"] id kind
      by simp_all
    have "accounts (replace_row ?row db) = accounts db" by (simp add: replace_row_def)
    note cong = validate_cong [OF this]
    show ?thesis
      by (rule apply_accounts_inv [OF r _ _ _ run]) (use v kind in \<open>simp_all add: cong split: option.splits\<close>)
  qed
  show ?thesis
  proof (cases "target_by_id db i")
    case None
    then show ?thesis using assms by (simp add: update_target_db_def)
  next
    case (Some old)
    then show ?thesis using assms step [OF _ Some]
      by (auto simp: update_target_db_def Let_def split: sum.splits)
  qed
qed

lemma on_db_db:
  "app_db (aw_app (snd (on_db f w))) = map_option (\<lambda>(db, p). (snd (f db), p)) (app_db (aw_app w))"
  by (simp add: on_db_def split: option.split prod.split)

lemma find_grant_Some:
  "find_grant t r db = Some m \<Longrightarrow> m \<in> set (target_roles db) \<and> tra_target m = t \<and> tra_role m = r"
  by (auto simp: find_grant_def dest: find_Some_in)

lemma next_grant_id_fresh: "next_grant_id db \<notin> set (map tra_id (target_roles db))"
  using fold_max_ge [of _ "map tra_id (target_roles db)" 0] by (fastforce simp: next_grant_id_def)

lemma next_account_id_fresh: "next_account_id db \<notin> set (map acc_id (accounts db))"
  using fold_max_ge [of _ "map acc_id (accounts db)" 0] by (fastforce simp: next_account_id_def)

lemma add_target_role_db_inv:
  assumes "accounts_inv db" shows "accounts_inv (snd (add_target_role_db t r db))"
  using accounts_invD [OF assms] next_grant_id_fresh [of db]
  by (auto simp: add_target_role_db_def accounts_inv_def)

lemma delete_target_role_db_inv:
  assumes "accounts_inv db" shows "accounts_inv (snd (delete_target_role_db t r db))"
  using accounts_invD [OF assms]
  by (auto simp: delete_target_role_db_def accounts_inv_def distinct_map_filter split: option.split)

lemma set_target_role_account_db_inv:
  assumes "accounts_inv db" shows "accounts_inv (snd (set_target_role_account_db t r a db))"
proof (cases "find_grant t r db")
  case None
  then show ?thesis using assms by (simp add: set_target_role_account_db_def)
next
  case (Some m)
  note inv = accounts_invD [OF assms]
  let ?f = "\<lambda>g. if tra_id g = tra_id m then g\<lparr>tra_account := a\<rparr> else g"
  have m: "m \<in> set (target_roles db)" "tra_target m = t" using find_grant_Some [OF Some] by auto
  have same: "g = m" if "g \<in> set (target_roles db)" "tra_id g = tra_id m" for g
    using that m(1) inv(7) by (auto simp: distinct_map inj_on_def)
  have upd: "accounts_inv (db\<lparr>target_roles := map ?f (target_roles db)\<rparr>)"
    if ok: "\<forall>i. a = Some i \<longrightarrow> account_bound db t i"
  proof -
    have "account_bound db (tra_target (?f g)) b"
      if g: "g \<in> set (target_roles db)" "tra_account (?f g) = Some b" for g b
    proof (cases "tra_id g = tra_id m")
      case True
      then show ?thesis using g ok m(2) same by auto
    next
      case False
      then show ?thesis using g inv(1) by simp
    qed
    moreover have "map tra_id (map ?f (target_roles db)) = map tra_id (target_roles db)" by simp
    moreover have "\<forall>g \<in> set (map ?f (target_roles db)). \<forall>b. tra_account g = Some b \<longrightarrow>
        account_bound db (tra_target g) b"
      unfolding set_map using calculation(1) by blast
    ultimately show ?thesis using inv unfolding accounts_inv_def by (simp del: map_map)
  qed
  have "find (\<lambda>b. tac_target b = t \<and> tac_account b = i) (target_accounts db) = None \<longleftrightarrow>
      \<not> account_bound db t i" for i
    by (auto simp: find_None_iff account_bound_def)
  then show ?thesis using Some upd assms
    by (auto simp: set_target_role_account_db_def split: option.split)
qed

lemma insert_account_inv:
  assumes "accounts_inv db" "insert_account name c db = Inr (row, db')" "name \<noteq> []"
  shows "accounts_inv db'"
proof -
  note inv = accounts_invD [OF assms(1)]
  from assms(2) have db': "db' = db\<lparr>accounts := accounts db @ [row]\<rparr>"
      and row: "acc_id row = next_account_id db" "acc_name row = name" "account_ok row"
      and new: "name \<notin> set (map acc_name (accounts db))"
    using assms(3) by (auto simp: insert_account_def Let_def account_ok_def split: if_splits)
  have "account_by_id db' a = Some x" if "account_by_id db a = Some x" for a x
    using that by (simp add: account_by_id_def db' find_append)
  then have "account_fits db' opts a" if "account_fits db opts a" for opts a
    using that by (auto simp: account_fits_def)
  then have "binding_ok db' b" if "binding_ok db b" for b
    using that by (auto simp: binding_ok_def db')
  then show ?thesis using inv row new next_account_id_fresh [of db]
    by (auto simp: accounts_inv_def db')
qed

lemma delete_account_db_inv:
  assumes "accounts_inv db" shows "accounts_inv (snd (delete_account_db i db))"
proof -
  note inv = accounts_invD [OF assms]
  let ?d = "db\<lparr>accounts := filter (\<lambda>x. acc_id x \<noteq> i) (accounts db)\<rparr>"
  have "accounts_inv ?d" if free: "\<forall>b \<in> set (target_accounts db). tac_account b \<noteq> i"
  proof -
    have "find (\<lambda>r. acc_id r = a) (filter (\<lambda>x. acc_id x \<noteq> i) xs) = find (\<lambda>r. acc_id r = a) xs"
      if "a \<noteq> i" for a and xs :: "account_row list"
      using that by (induction xs) auto
    then have "account_fits ?d opts a" if "account_fits db opts a" "a \<noteq> i" for opts a
      using that by (simp add: account_fits_def account_by_id_def)
    then have "binding_ok ?d b" if "b \<in> set (target_accounts db)" for b
      using inv(2) [OF that] free that by (auto simp: binding_ok_def)
    then show ?thesis using inv by (auto simp: accounts_inv_def distinct_map_filter)
  qed
  moreover have "acc_id a = i" if "account_by_id db i = Some a" for a
    using that by (auto simp: account_by_id_def dest: find_Some_in)
  ultimately show ?thesis using assms
    by (auto simp: delete_account_db_def Let_def split: option.split)
qed
section \<open>Reachable states of the administration\<close>

definition set_app_db :: "Db \<times> Parameters \<Rightarrow> 'l admin_world \<Rightarrow> 'l admin_world" where
  "set_app_db d w = w\<lparr>aw_app := (aw_app w)\<lparr>app_db := Some d\<rparr>\<rparr>"

inductive admin_step :: "'l governor \<Rightarrow> 'l admin_world \<Rightarrow> 'l admin_world \<Rightarrow> bool" for g where
  create_target: "admin_step g w (snd (api_create_target i body w))"
| update_target: "admin_step g w (snd (api_update_target g now i body w))"
| delete_target: "admin_step g w (snd (api_delete_target i w))"
| add_role: "admin_step g w (snd (api_add_target_role t r w))"
| delete_role: "admin_step g w (snd (api_delete_target_role t r w))"
| set_role_account: "admin_step g w (snd (api_set_target_role_account t r a w))"
| create_account: "app_db (aw_app w) = Some (db, p) \<Longrightarrow> insert_account name c db = Inr (row, db') \<Longrightarrow>
    name \<noteq> [] \<Longrightarrow> admin_step g w (set_app_db (db', p) w)"
| delete_account: "admin_step g w (snd (api_delete_account a w))"
| use_account: "app_db (aw_app w) = Some (db, p) \<Longrightarrow> update_account_last_used_at now a db = Inr db' \<Longrightarrow>
    admin_step g w (set_app_db (db', p) w)"
| other_tables: "app_db (aw_app w) = Some (db, p) \<Longrightarrow> app_db (aw_app w') = Some (db', p') \<Longrightarrow>
    targets db' = targets db \<Longrightarrow> target_roles db' = target_roles db \<Longrightarrow>
    target_accounts db' = target_accounts db \<Longrightarrow> accounts db' = accounts db \<Longrightarrow> admin_step g w w'"

definition world_inv :: "'l admin_world \<Rightarrow> bool" where
  "world_inv w \<longleftrightarrow> (\<forall>db p. app_db (aw_app w) = Some (db, p) \<longrightarrow> accounts_inv db)"

lemma on_db_world_inv:
  "world_inv w \<Longrightarrow> (\<And>db. accounts_inv db \<Longrightarrow> accounts_inv (snd (f db))) \<Longrightarrow> world_inv (snd (on_db f w))"
  by (auto simp: world_inv_def on_db_db)

lemma accounts_inv_tables:
  assumes "targets db' = targets db" "target_roles db' = target_roles db"
    "target_accounts db' = target_accounts db" "accounts db' = accounts db"
  shows "accounts_inv db' = accounts_inv db"
proof -
  have "account_bound db' = account_bound db" "binding_ok db' = binding_ok db"
    by (auto simp: fun_eq_iff account_bound_def binding_ok_def primary_bound_def account_fits_def
        account_by_id_def target_by_id_def assms)
  then show ?thesis by (simp add: accounts_inv_def assms)
qed

lemma use_account_inv:
  assumes "accounts_inv db" "update_account_last_used_at now i db = Inr db'"
  shows "accounts_inv db'"
proof -
  let ?f = "\<lambda>r. if acc_id r = i then r\<lparr>acc_last_used := Some now\<rparr> else r"
  have db': "db' = db\<lparr>accounts := map ?f (accounts db)\<rparr>"
    using assms(2) by (auto simp: update_account_last_used_at_def split: option.splits)
  have "find (\<lambda>r. acc_id r = a) (map ?f xs) = map_option ?f (find (\<lambda>r. acc_id r = a) xs)"
    for a and xs :: "account_row list"
    by (induction xs) auto
  then have "account_by_id db' a = map_option ?f (account_by_id db a)" for a
    by (simp add: account_by_id_def db')
  then have "account_fits db' opts a = account_fits db opts a" for opts a
    by (cases "account_by_id db a") (simp_all add: account_fits_def)
  then have "binding_ok db' = binding_ok db"
    by (simp add: fun_eq_iff binding_ok_def db')
  moreover have "account_ok (?f x) = account_ok x" for x by (simp add: account_ok_def)
  moreover have "map acc_id (map ?f (accounts db)) = map acc_id (accounts db)"
      "map acc_name (map ?f (accounts db)) = map acc_name (accounts db)" by simp_all
  moreover have "\<forall>x \<in> set (map ?f (accounts db)). account_ok x"
    unfolding set_map using calculation(2) accounts_invD(3) [OF assms(1)] by blast
  ultimately show ?thesis using accounts_invD [OF assms(1)]
    unfolding accounts_inv_def db' by (simp del: map_map set_map)
qed

lemma delete_target_world_inv:
  assumes "world_inv w" shows "world_inv (snd (api_delete_target i w))"
proof -
  have roles: "accounts_inv (db\<lparr>target_roles := filter (\<lambda>g. tra_target g \<noteq> t) (target_roles db)\<rparr>)"
    if "accounts_inv db" for db t
    using accounts_invD [OF that] by (auto simp: accounts_inv_def distinct_map_filter)
  have gone: "accounts_inv (db\<lparr>target_roles := filter (\<lambda>g. tra_target g \<noteq> t) (target_roles db),
      targets := filter (\<lambda>r. tr_id r \<noteq> t) (targets db),
      target_accounts := filter (\<lambda>b. tac_target b \<noteq> t) (target_accounts db)\<rparr>)" (is "accounts_inv ?d")
    if inv: "accounts_inv db" for db t
  proof -
    have find: "find (\<lambda>r. tr_id r = u) (filter (\<lambda>r. tr_id r \<noteq> t) xs) = find (\<lambda>r. tr_id r = u) xs"
      if "u \<noteq> t" for u and xs :: "target_row list"
      using that by (induction xs) auto
    have other: "binding_ok ?d b" if "binding_ok db b" "tac_target b \<noteq> t" for b
      using that by (auto simp: binding_ok_def primary_bound_def target_by_id_def find account_fits_def
          account_by_id_def)
    have "account_bound ?d u a" if "account_bound db u a" "u \<noteq> t" for u a
      using that by (auto simp: account_bound_def)
    then show ?thesis using accounts_invD [OF inv] other
      by (auto simp: accounts_inv_def distinct_map_filter)
  qed
  show ?thesis using assms roles gone
    by (auto simp: world_inv_def api_delete_target_def Let_def notify_authorization_changed_def
        invalidate_pool_def split: option.splits sum.splits if_splits TargetOptions.splits)
qed

lemma update_target_app_db:
  "app_db (aw_app (snd (api_update_target g now i body w))) =
   app_db (aw_app (snd (on_db (update_target_db i body) w)))"
  by (simp add: api_update_target_def Let_def invalidate_pool_def
      split: prod.split sum.split option.split)

lemma delete_role_app_db:
  "app_db (aw_app (snd (api_delete_target_role t r w))) =
   app_db (aw_app (snd (on_db (delete_target_role_db t r) w)))"
  by (simp add: api_delete_target_role_def notify_authorization_changed_def
      split: prod.split sum.split DeleteTargetRoleResponse.split)

lemma world_inv_app_db:
  "app_db (aw_app w) = app_db (aw_app w') \<Longrightarrow> world_inv w = world_inv w'"
  by (simp add: world_inv_def)

lemma admin_step_inv: "admin_step g w w' \<Longrightarrow> world_inv w \<Longrightarrow> world_inv w'"
proof (induction rule: admin_step.induct)
  case (create_target w i body)
  then show ?case
    by (auto simp: api_create_target_def intro: on_db_world_inv create_target_db_inv)
next
  case (update_target w now i body)
  then show ?case
    unfolding world_inv_app_db [OF update_target_app_db]
    by (intro on_db_world_inv update_target_db_inv)
next
  case (delete_target w i)
  then show ?case by (rule delete_target_world_inv)
next
  case (add_role w t r)
  then show ?case unfolding api_add_target_role_def by (intro on_db_world_inv add_target_role_db_inv)
next
  case (delete_role w t r)
  then show ?case
    unfolding world_inv_app_db [OF delete_role_app_db]
    by (intro on_db_world_inv delete_target_role_db_inv)
next
  case (set_role_account w t r a)
  then show ?case
    unfolding api_set_target_role_account_def by (intro on_db_world_inv set_target_role_account_db_inv)
next
  case (create_account w db p name c row db')
  then show ?case using insert_account_inv [of db name c row db'] by (simp add: world_inv_def set_app_db_def)
next
  case (delete_account w a)
  then show ?case unfolding api_delete_account_def by (intro on_db_world_inv delete_account_db_inv)
next
  case (use_account w db p now a db')
  then show ?case using use_account_inv [of db now a db'] by (simp add: world_inv_def set_app_db_def)
next
  case (other_tables w db p w' db' p')
  then show ?case using accounts_inv_tables [of db' db] by (simp add: world_inv_def)
qed

definition fresh_tables :: "Db \<Rightarrow> bool" where
  "fresh_tables db \<longleftrightarrow>
     targets db = [] \<and> target_roles db = [] \<and> target_accounts db = [] \<and> accounts db = []"

lemma reachable_inv:
  assumes "(admin_step g)\<^sup>*\<^sup>* w w'" "app_db (aw_app w) = Some (db0, p0)" "fresh_tables db0"
    "app_db (aw_app w') = Some (db, p)"
  shows "accounts_inv db"
proof -
  have "world_inv w" using assms(2,3)
    by (auto simp: world_inv_def fresh_tables_def accounts_inv_def)
  with assms(1) have "world_inv w'" by (induction rule: rtranclp_induct) (auto intro: admin_step_inv)
  then show ?thesis using assms(4) by (simp add: world_inv_def)
qed

section \<open>Logins offered to a user\<close>

lemma account_by_id_Some: "account_by_id db a = Some x \<Longrightarrow> x \<in> set (accounts db) \<and> acc_id x = a"
  by (auto simp: account_by_id_def dest: find_Some_in)

lemma primary_account_bound: "primary_account_id db t = Some a \<Longrightarrow> account_bound db t a"
  by (auto simp: primary_account_id_def account_bound_def dest: find_Some_in)

lemma primary_bound_iff: "primary_bound db t \<longleftrightarrow> primary_account_id db t \<noteq> None"
  by (auto simp: primary_account_id_def primary_bound_def find_None_iff)

lemma granted_bound:
  assumes "accounts_inv db" "g \<in> set (grants_of db t uname)"
    "granted_login (primary_account_id db t) g = Some a"
  shows "account_bound db t a"
  using assms accounts_invD(1) [OF assms(1), of g a] primary_account_bound [of db t a]
  by (auto simp: mem_grants_of granted_login_def split: option.splits)

lemma account_bound_facts:
  assumes "accounts_inv db" "account_bound db t a"
  obtains r opts acc where "target_by_id db t = Some r" "tr_options r = Some opts"
    "account_by_id db a = Some acc" "account_kind_matches_target (acc_kind acc) opts"
    "account_ok acc" "primary_account_id db t \<noteq> None"
proof -
  from assms(2) obtain b where b: "b \<in> set (target_accounts db)" "tac_target b = t" "tac_account b = a"
    by (auto simp: account_bound_def)
  from accounts_invD(2) [OF assms(1) b(1)] b(2,3) obtain r opts acc where
    "target_by_id db t = Some r" "tr_options r = Some opts" "account_by_id db a = Some acc"
    "account_kind_matches_target (acc_kind acc) opts" "primary_bound db t"
    by (auto simp: binding_ok_def account_fits_def)
  then show thesis
    using that account_by_id_Some accounts_invD(3) [OF assms(1)] primary_bound_iff by metis
qed

lemma login_choices_total:
  assumes "accounts_inv db" shows "\<exists>cs. login_choices db t uname = Inr cs"
proof -
  have "\<exists>c. login_choice db i = Inr c"
    if "i \<in> granted_login (primary_account_id db t) ` set (grants_of db t uname)" for i
  proof (cases i)
    case None
    then show ?thesis by (simp add: login_choice_def)
  next
    case (Some a)
    then have "account_bound db t a" using that granted_bound [OF assms] by force
    then obtain acc where "account_by_id db a = Some acc" by (rule account_bound_facts [OF assms])
    then show ?thesis using Some by (simp add: login_choice_def)
  qed
  then have "\<exists>ds. collect_results (map (login_choice db) ids) = Inr ds"
    if "set ids \<subseteq> granted_login (primary_account_id db t) ` set (grants_of db t uname)" for ids
    using that by (induction ids) (auto, fastforce)
  then show ?thesis
    by (auto simp: login_choices_def Let_def grants_of_def split: option.split)
      (metis (no_types, lifting) list.set_map order_refl rbind.simps(2) remdups_adj_set set_sort)
qed

lemma choices_named:
  assumes inv: "accounts_inv db" and cs: "login_choices db t uname = Inr cs" and two: "1 < length cs"
    and c: "c \<in> set cs"
  obtains a acc where "lc_account_id c = Some a" "account_by_id db a = Some acc"
    "lc_name c = Some (acc_name acc)" "acc_name acc \<noteq> []"
proof -
  note facts = login_choices_Inr [OF cs]
  have "\<exists>d \<in> set cs. lc_account_id d \<noteq> None"
  proof (rule ccontr)
    assume "\<not> ?thesis"
    then have "set (map lc_account_id cs) \<subseteq> {None}" by auto
    then have "card (set (map lc_account_id cs)) \<le> 1" by (metis card.empty card_insert_le_m1 card_mono finite.emptyI finite.insertI is_singletonI is_singleton_altdef order_refl)
    then show False using distinct_card [OF facts(2)] two by simp
  qed
  then obtain d a where "d \<in> set cs" "lc_account_id d = Some a" by auto
  then obtain g where "g \<in> set (grants_of db t uname)" "granted_login (primary_account_id db t) g = Some a"
    using facts(1) by (metis imageE imageI)
  from granted_bound [OF inv this] have "primary_account_id db t \<noteq> None"
    by (rule account_bound_facts [OF inv])
  moreover obtain h where h: "h \<in> set (grants_of db t uname)"
      "lc_account_id c = granted_login (primary_account_id db t) h"
    using facts(1) c by (metis imageE imageI)
  ultimately obtain b where b: "lc_account_id c = Some b"
    by (metis granted_login_None not_None_eq)
  then have "account_bound db t b" using granted_bound [OF inv h(1)] h(2) by simp
  then obtain acc where acc: "account_by_id db b = Some acc" "account_ok acc"
    by (rule account_bound_facts [OF inv])
  have "login_choice db (Some b) = Inr c" using facts(3) c b by metis
  then have "lc_name c = Some (acc_name acc)" using acc(1) by (auto simp: login_choice_def)
  with that b acc show thesis by (auto simp: account_ok_def)
qed

lemma account_ssh:
  assumes "account_ok acc" "account_kind_matches_target (acc_kind acc) (SshOptions o')"
  obtains c where "acc_credentials acc = Some c" "account_credentials_kind c = acc_kind acc"
    "\<And>opts. apply_ssh_account opts c \<noteq> None"
proof -
  from assms(1) obtain c where c: "acc_credentials acc = Some c" "account_credentials_kind c = acc_kind acc"
    by (auto simp: account_ok_def)
  with assms(2) have "apply_ssh_account opts c \<noteq> None" for opts
    by (cases c) (auto simp: apply_ssh_account_def Let_def)
  with c that show thesis by blast
qed

lemma bound_ssh_credentials:
  assumes "accounts_inv db" "account_bound db t a" "target_by_id db t = Some r"
    "tr_options r = Some (SshOptions o')"
  obtains c where "account_credentials db a = Inr (a, c)" "\<And>opts. apply_ssh_account opts c \<noteq> None"
proof -
  obtain acc where acc: "account_by_id db a = Some acc" "account_ok acc"
      "account_kind_matches_target (acc_kind acc) (SshOptions o')"
    using account_bound_facts [OF assms(1,2)] assms(3,4) by (metis option.inject)
  from account_ssh [OF acc(2,3)] obtain c where c: "acc_credentials acc = Some c"
      "account_credentials_kind c = acc_kind acc" "\<And>opts. apply_ssh_account opts c \<noteq> None"
    by blast
  have "account_credentials db a = Inr (a, c)"
    using acc(1) c(1,2) account_by_id_Some [OF acc(1)] by (simp add: account_credentials_def)
  with c(3) that show thesis by blast
qed

lemma select_login_bound:
  assumes "accounts_inv db" "select_login db t uname req = Inr (AccountLogin a)"
  shows "account_bound db t a"
proof -
  from assms(2) obtain cs where cs: "login_choices db t uname = Inr cs"
      "pick_login cs req = Inr (AccountLogin a)"
    by (auto simp: select_login_def split: sum.splits)
  then obtain c where c: "c \<in> set cs" "login_of c = AccountLogin a"
    by (auto simp: pick_login_Inr split: option.splits list.splits dest!: find_Some_in)
  then have "Some a \<in> lc_account_id ` set cs"
    by (auto simp: login_of_def image_iff split: option.splits) metis
  then obtain g where "g \<in> set (grants_of db t uname)"
      "granted_login (primary_account_id db t) g = Some a"
    unfolding login_choices_Inr(1) [OF cs(1)] by auto
  then show ?thesis by (rule granted_bound [OF assms(1)])
qed

lemma apply_ssh_account_endpoint:
  "apply_ssh_account opts c = Some opts' \<Longrightarrow> ssh_host opts' = ssh_host opts \<and> ssh_port opts' = ssh_port opts"
  by (auto simp: apply_ssh_account_def Let_def split: AccountCredentials.splits)

lemma login_credentials_cases:
  assumes inv: "accounts_inv db" and t: "target_by_id db t = Some r" "tr_options r = Some (SshOptions o')"
    and l: "select_login db t uname req = Inr l"
  obtains "login_account_credentials db t l = Inr None"
  | a c where "login_account_credentials db t l = Inr (Some (a, c))"
      "\<And>opts. apply_ssh_account opts c \<noteq> None"
proof (cases l)
  case (AccountLogin a)
  then obtain c where "account_credentials db a = Inr (a, c)" "\<And>opts. apply_ssh_account opts c \<noteq> None"
    using bound_ssh_credentials [OF inv _ t] select_login_bound [OF inv] l by metis
  then show thesis using that(2) AccountLogin by (simp add: login_account_credentials_def)
next
  case DefaultLogin
  show thesis
  proof (cases "primary_account_id db t")
    case None
    then show thesis using that(1) DefaultLogin
      by (simp add: login_account_credentials_def primary_account_credentials_def)
  next
    case (Some a)
    then obtain c where "account_credentials db a = Inr (a, c)" "\<And>opts. apply_ssh_account opts c \<noteq> None"
      using bound_ssh_credentials [OF inv primary_account_bound t] by metis
    then show thesis using that(2) DefaultLogin Some
      by (simp add: login_account_credentials_def primary_account_credentials_def)
  qed
qed

section \<open>Secrets\<close>

text \<open>Two options with the same public part: the same method of authentication and the
  same values of every field that is not a secret.\<close>

fun same_public :: "TargetOptions \<Rightarrow> TargetOptions \<Rightarrow> bool" where
  "same_public (SshOptions a) (SshOptions b) =
     (b = a\<lparr>ssh_auth := ssh_auth b\<rparr> \<and>
      (case (ssh_auth a, ssh_auth b) of
         (SshAuthPassword _, SshAuthPassword _) \<Rightarrow> True
       | (SshAuthPublicKey _, SshAuthPublicKey _) \<Rightarrow> True
       | _ \<Rightarrow> False))"
| "same_public (MySqlOptions a) (MySqlOptions b) = (b = a\<lparr>my_password := my_password b\<rparr>)"
| "same_public (PostgresOptions a) (PostgresOptions b) = (b = a\<lparr>pg_password := pg_password b\<rparr>)"
| "same_public (HttpOptions a) (HttpOptions b) =
     (b = a\<lparr>http_upstream_auth := http_upstream_auth b\<rparr> \<and>
      (case (http_upstream_auth a, http_upstream_auth b) of
         (NoUpstreamAuth, NoUpstreamAuth) \<Rightarrow> True
       | (HeadersUpstreamAuth h, HeadersUpstreamAuth k) \<Rightarrow> dom h = dom k
       | (BearerTokenUpstreamAuth _, BearerTokenUpstreamAuth _) \<Rightarrow> True
       | (ClientCertificateUpstreamAuth _ _, ClientCertificateUpstreamAuth _ _) \<Rightarrow> True
       | _ \<Rightarrow> False))"
| "same_public _ _ = False"

lemma dom_eq_blank: "dom h = dom k \<Longrightarrow> (\<lambda>n. map_option (\<lambda>_. []) (h n)) = (\<lambda>n. map_option (\<lambda>_. []) (k n))"
proof
  fix n assume "dom h = dom k"
  then show "map_option (\<lambda>_. []) (h n) = map_option (\<lambda>_. []) (k n)"
    by (cases "h n"; cases "k n") auto
qed

lemma same_public_redact: "same_public a b \<Longrightarrow> redact_inline_secrets a = redact_inline_secrets b"
proof (induction a b rule: same_public.induct)
  case (1 a b)
  then show ?case by (cases a; cases b) (auto split: SSHTargetAuth.splits)
next
  case (2 a b)
  then show ?case by (cases a; cases b) auto
next
  case (3 a b)
  then show ?case by (cases a; cases b) auto
next
  case (4 a b)
  then show ?case by (cases a; cases b) (auto split: UpstreamAuth.splits dest: dom_eq_blank)
qed auto

lemma target_kind_redact [simp]: "target_kind (redact_inline_secrets a) = target_kind a"
  by (cases a) auto

lemma clear_redact: "clear_inline_credentials (redact_inline_secrets a) = clear_inline_credentials a"
  by (cases a) auto

lemma keep_redacted: "keep_stored_secrets (redact_inline_secrets a) a = a"
proof (cases a)
  case (SshOptions o')
  then show ?thesis
    by (cases o'; cases "ssh_auth o'")
       (auto simp: keep_ssh_auth_def ssh_target_auth_default_def nonblank_def)
next
  case (HttpOptions o')
  have "(\<lambda>n. case map_option (\<lambda>_. []) (hs n) of
            Some [] \<Rightarrow> (case hs n of Some v \<Rightarrow> Some v | None \<Rightarrow> Some []) | x \<Rightarrow> x) = hs"
    for hs :: "string \<rightharpoonup> string"
    by (rule ext) (auto split: option.split)
  with HttpOptions show ?thesis
    by (cases o'; cases "http_upstream_auth o'")
       (auto simp: keep_upstream_auth_def split: option.split)
qed (auto simp: nonblank_def)

definition edit_request :: "TargetConfig \<Rightarrow> TargetDataRequest" where
  "edit_request c =
     \<lparr>rq_name = tc_name c, rq_description = Some (tc_description c), rq_options = tc_options c,
      rq_accounts = None, rq_rate_limit = tc_rate_limit c, rq_group_id = tc_group_id c\<rparr>"

section \<open>Properties\<close>



text \<open>
  In every reachable state a login selected for an SSH target resolves to connection
  options with the host and port of the target; the credentials stored with the
  target are kept only when no account is used.
\<close>

lemma ssh_login_resolves:
  assumes "(admin_step g)\<^sup>*\<^sup>* w w'" "app_db (aw_app w) = Some (db0, p0)" "fresh_tables db0"
    "app_db (aw_app w') = Some (db, p)"
    and target: "target_by_id db t = Some r" "tr_options r = Some (SshOptions opts)"
    and login: "select_login db t uname req = Inr l"
  shows "\<exists>opts' i. ssh_options_with_account db t (SshOptions opts) l (Some uname) = Inr (opts', i) \<and>
           ssh_host opts' = ssh_host opts \<and> ssh_port opts' = ssh_port opts \<and>
           (i = None \<longrightarrow> ssh_auth opts' = ssh_auth opts)"
proof -
  from reachable_inv [OF assms(1-4)] target login show ?thesis
  proof (cases rule: login_credentials_cases)
    case 1
    then show ?thesis by (simp add: ssh_options_with_account_def)
  next
    case (2 a c)
    then obtain o' where "apply_ssh_account opts c = Some o'" by blast
    with 2(1) apply_ssh_account_endpoint [OF this] show ?thesis
      by (simp add: ssh_options_with_account_def)
  qed
qed

text \<open>
  Reading a target without bound accounts and sending back what was read, secrets left blank as
  they were shown, leaves the database as it was.
\<close>

lemma read_then_update_keeps_target:
  assumes db: "app_db (aw_app w) = Some (db, p)" "distinct (map tr_id (targets db))"
      "distinct (map tr_name (targets db))"
    and target: "target_by_id db i = Some t" "tr_options t = Some opts" "tr_kind t = target_kind opts"
      "tr_name t \<noteq> []" "\<forall>v. tr_rate_limit t = Some v \<longrightarrow> 0 \<le> v \<and> v < 2 ^ 32"
      "\<not> missing_ssh_private_key opts"
    and read: "target_config_with_accounts db t = Inr c" "tc_accounts c = []"
  shows "app_db (aw_app (snd (api_update_target g now i (edit_request c) w))) = Some (db, p)"
proof -
  let ?body = "edit_request c"
  have c: "c = \<lparr>tc_id = tr_id t, tc_name = tr_name t, tc_description = tr_description t,
      tc_options = redact_inline_secrets opts, tc_accounts = [],
      tc_rate_limit = map_option word_of_int (tr_rate_limit t), tc_group_id = tr_group_id t\<rparr>"
    using read target(2) by (auto simp: target_config_with_accounts_def Let_def)
  have body: "rq_name ?body = tr_name t" "rq_options ?body = redact_inline_secrets opts"
      "rq_accounts ?body = None" "bound_accounts ?body = None"
    by (simp_all add: edit_request_def c bound_accounts_def)
  have opts: "updated_options ?body t = opts"
    by (simp add: updated_options_def body target(2) keep_redacted)
  have "map_option uint (map_option word_of_int (tr_rate_limit t) :: u32 option) = tr_rate_limit t"
    using target(5) by (cases "tr_rate_limit t") (auto simp: uint_word_of_int)
  then have row: "updated_row ?body t opts = t"
    using target(2) by (simp add: updated_row_def edit_request_def c)
  have t: "t \<in> set (targets db)" "tr_id t = i"
    using target(1) by (auto simp: target_by_id_def dest: find_Some_in)
  have same: "s = t" if "s \<in> set (targets db)" "tr_id s = tr_id t \<or> tr_name s = tr_name t" for s
    using that t(1) db(2,3) by (auto simp: distinct_map inj_on_def)
  have keep: "replace_row t db = db"
  proof -
    have "map (\<lambda>s. if tr_id s = tr_id t then t else s) (targets db) = targets db"
      using same by (intro map_idI) auto
    then show ?thesis by (simp add: replace_row_def)
  qed
  have "find (\<lambda>r. tr_name r = tr_name t \<and> tr_id r \<noteq> i) (targets db) = None"
    using same t(2) by (auto simp: find_None_iff)
  then have "update_target_db i ?body db = (Inr (Inr t), db)"
    using target row keep
    by (simp add: update_target_db_def body opts Let_def apply_accounts_def)
  then show ?thesis by (simp add: update_target_app_db on_db_def db(1))
qed
section \<open>Instances\<close>

definition admin_params :: Parameters where
  "admin_params = \<lparr>param_rate_limit = None, sql_console_rate_limit_per_user = None,
     sql_console_rate_limit_per_target = None\<rparr>"

definition admin_start :: Db where
  "admin_start = sample_db\<lparr>targets := [], target_roles := [],
     user_roles := [\<lparr>ura_id = 1, ura_user = 1, ura_role = 2\<rparr>, \<lparr>ura_id = 2, ura_user = 1, ura_role = 3\<rparr>]\<rparr>"

definition admin_world0 :: "(RateLimiterDirection \<Rightarrow> nat) admin_world" where
  "admin_world0 = \<lparr>aw_app = app_state_new (Some (admin_start, admin_params))
       \<lparr>global_rate_limiter = 0, user_rate_limiters = [], target_rate_limiters = []\<rparr> sample_world,
     aw_known_hosts = [], aw_target_status = [], aw_pools_invalidated = [], aw_authorization_changes = 0\<rparr>"

definition root_account :: account_row where
  "root_account = \<lparr>acc_id = 1, acc_kind = ''ssh-password'', acc_name = ''root'',
     acc_credentials = Some (SshPassword \<lparr>sp_username = ''root'', sp_password = ''pw''\<rparr>), acc_last_used = None\<rparr>"

definition deploy_account :: account_row where
  "deploy_account = \<lparr>acc_id = 2, acc_kind = ''ssh-password'', acc_name = ''deploy'',
     acc_credentials = Some (SshPassword \<lparr>sp_username = ''deploy'', sp_password = ''pw''\<rparr>), acc_last_used = None\<rparr>"

definition box_options :: TargetSSHOptions where
  "box_options = \<lparr>ssh_host = ''h'', ssh_port = 22, ssh_username = [], allow_insecure_algos = None,
     ssh_auth = ssh_target_auth_default\<rparr>"

definition box_request :: TargetDataRequest where
  "box_request = \<lparr>rq_name = ''box'', rq_description = None, rq_options = SshOptions box_options,
     rq_accounts = Some [\<lparr>tb_account_id = 1, tb_role = Primary\<rparr>, \<lparr>tb_account_id = 2, tb_role = Fallback\<rparr>],
     rq_rate_limit = None, rq_group_id = None\<rparr>"

definition box_db :: Db where
  "box_db = admin_start\<lparr>accounts := [root_account, deploy_account],
     targets := [new_target_row 5 box_request (SshOptions box_options)],
     target_accounts := [\<lparr>tac_target = 5, tac_account = 1, tac_role = ''primary''\<rparr>,
                         \<lparr>tac_target = 5, tac_account = 2, tac_role = ''fallback''\<rparr>],
     target_roles := [\<lparr>tra_id = 1, tra_target = 5, tra_role = 2, tra_account = Some 2\<rparr>,
                      \<lparr>tra_id = 2, tra_target = 5, tra_role = 3, tra_account = None\<rparr>]\<rparr>"

lemmas admin_sample = box_db_def box_request_def box_options_def root_account_def deploy_account_def
  admin_start_def sample_db_def sample_user_def

lemma snd_on_db:
  "snd (on_db f (set_app_db (db, p) w)) = set_app_db (snd (f db), p) w"
  by (simp add: on_db_def set_app_db_def split: prod.split)

lemma admin_world0_db: "admin_world0 = set_app_db (admin_start, admin_params) admin_world0"
  by (simp add: set_app_db_def admin_world0_def app_state_new_def)

lemma box_reachable:
  "(admin_step open_governor)\<^sup>*\<^sup>* admin_world0 (set_app_db (box_db, admin_params) admin_world0)"
proof -
  let ?w = "\<lambda>db. set_app_db (db, admin_params) admin_world0"
  let ?step = "admin_step open_governor"
  let ?d1 = "admin_start\<lparr>accounts := [root_account]\<rparr>"
  let ?d2 = "admin_start\<lparr>accounts := [root_account, deploy_account]\<rparr>"
  let ?d3 = "box_db\<lparr>target_roles := []\<rparr>"
  let ?g1 = "\<lparr>tra_id = 1, tra_target = 5, tra_role = 2, tra_account = None\<rparr>"
  let ?g2 = "\<lparr>tra_id = 2, tra_target = 5, tra_role = 3, tra_account = None\<rparr>"
  have db: "app_db (aw_app (?w d)) = Some (d, admin_params)" "set_app_db (d', p) (?w d) = set_app_db (d', p) admin_world0"
    for d d' p by (simp_all add: set_app_db_def)
  have "insert_account ''root'' (the (acc_credentials root_account)) admin_start = Inr (root_account, ?d1)"
    by (simp add: insert_account_def next_account_id_def Let_def admin_sample)
  from create_account [OF db(1) this, of open_governor] have s1: "?step (?w admin_start) (?w ?d1)"
    by (simp add: db(2))
  have "insert_account ''deploy'' (the (acc_credentials deploy_account)) ?d1 = Inr (deploy_account, ?d2)"
    by (simp add: insert_account_def next_account_id_def Let_def admin_sample)
  from create_account [OF db(1) this, of open_governor] have s2: "?step (?w ?d1) (?w ?d2)"
    by (simp add: db(2))
  have "snd (create_target_db 5 box_request (SshOptions box_options) ?d2) = ?d3"
    by (simp add: create_target_db_def target_by_name_def bound_accounts_def validate_target_accounts_def
        account_by_id_def insert_target_def apply_accounts_def replace_target_accounts_def Let_def
        new_target_row_def admin_sample ssh_target_auth_default_def)
  then have s3: "?step (?w ?d2) (?w ?d3)"
    using create_target [of open_governor "?w ?d2" 5 box_request]
    by (simp add: api_create_target_def snd_on_db bound_accounts_def box_request_def box_options_def
        ssh_target_auth_default_def nonblank_def)
  have s4: "?step (?w ?d3) (?w (?d3\<lparr>target_roles := [?g1]\<rparr>))"
    using add_role [of open_governor "?w ?d3" 5 2]
    by (simp add: api_add_target_role_def snd_on_db add_target_role_db_def target_by_id_def
        next_grant_id_def admin_sample new_target_row_def)
  have s5: "?step (?w (?d3\<lparr>target_roles := [?g1]\<rparr>)) (?w (?d3\<lparr>target_roles := [?g1, ?g2]\<rparr>))"
    using add_role [of open_governor "?w (?d3\<lparr>target_roles := [?g1]\<rparr>)" 5 3]
    by (simp add: api_add_target_role_def snd_on_db add_target_role_db_def target_by_id_def
        next_grant_id_def admin_sample new_target_row_def)
  have s6: "?step (?w (?d3\<lparr>target_roles := [?g1, ?g2]\<rparr>)) (?w box_db)"
    using set_role_account [of open_governor "?w (?d3\<lparr>target_roles := [?g1, ?g2]\<rparr>)" 5 2 "Some 2"]
    by (simp add: api_set_target_role_account_def snd_on_db set_target_role_account_db_def
        find_grant_def admin_sample)
  from s1 s2 s3 s4 s5 s6 show ?thesis
    unfolding admin_world0_db [symmetric] by (meson converse_rtranclp_into_rtranclp rtranclp.rtrancl_refl)
qed

lemma box_facts:
  "app_db (aw_app admin_world0) = Some (admin_start, admin_params)" "fresh_tables admin_start"
  "app_db (aw_app (set_app_db (box_db, admin_params) admin_world0)) = Some (box_db, admin_params)"
  by (simp_all add: admin_world0_def app_state_new_def set_app_db_def fresh_tables_def admin_start_def
      sample_db_def)

lemma box_choices:
  "login_choices box_db 5 ''ann'' =
   Inr [\<lparr>lc_account_id = Some 2, lc_name = Some ''deploy''\<rparr>, \<lparr>lc_account_id = Some 1, lc_name = Some ''root''\<rparr>]"
  by (simp add: login_choices_def user_by_name_def login_grants_def user_role_rows_def Let_def
      primary_account_id_def granted_login_def login_choice_def account_by_id_def admin_sample)



lemma ssh_login_resolves_witness:
  "\<exists>opts' i. ssh_options_with_account box_db 5 (SshOptions box_options) (AccountLogin 1) (Some ''ann'') =
     Inr (opts', i) \<and> ssh_host opts' = ''h'' \<and> ssh_port opts' = 22"
proof -
  have "select_login box_db 5 ''ann'' (Some ''root'') = Inr (AccountLogin 1)"
    by (simp add: select_login_def box_choices pick_login_def login_of_def)
  moreover have "target_by_id box_db 5 = Some (new_target_row 5 box_request (SshOptions box_options))"
    by (simp add: target_by_id_def box_db_def)
  ultimately show ?thesis
    using ssh_login_resolves [OF box_reachable box_facts] by (force simp: box_options_def)
qed


definition password_row :: "string \<Rightarrow> target_row" where
  "password_row pw = (new_target_row 5 box_request (SshOptions box_options))
     \<lparr>tr_options := Some (SshOptions (box_options\<lparr>ssh_auth := SshAuthPassword pw\<rparr>))\<rparr>"


lemma read_then_update_keeps_target_witness:
  "\<exists>c. target_config_with_accounts (box_db\<lparr>target_accounts := [], targets := [password_row ''a'']\<rparr>)
       (password_row ''a'') = Inr c \<and>
     app_db (aw_app (snd (api_update_target open_governor 0 5 (edit_request c)
       (set_app_db (box_db\<lparr>target_accounts := [], targets := [password_row ''a'']\<rparr>, admin_params) admin_world0))))
     = Some (box_db\<lparr>target_accounts := [], targets := [password_row ''a'']\<rparr>, admin_params)"
proof -
  let ?db = "box_db\<lparr>target_accounts := [], targets := [password_row ''a'']\<rparr>"
  obtain c where c: "target_config_with_accounts ?db (password_row ''a'') = Inr c" "tc_accounts c = []"
    by (simp add: target_config_with_accounts_def password_row_def)
  have "app_db (aw_app (set_app_db (?db, admin_params) admin_world0)) = Some (?db, admin_params)"
    by (simp add: set_app_db_def)
  from read_then_update_keeps_target [OF this _ _ _ _ _ _ _ _ c,
      of 5 "SshOptions (box_options\<lparr>ssh_auth := SshAuthPassword ''a''\<rparr>)" open_governor 0] c(1)
  show ?thesis
    by (simp add: target_by_id_def password_row_def new_target_row_def box_request_def box_options_def)
qed
end
