(* ===== verification/Pem.thy ===== *)
theory Pem
  imports Rust_Std
begin

text \<open>
  Repair of pasted PEM blocks (\<open>gated-common/src/helpers/pem.rs\<close>): line endings are made
  uniform and the body between the markers is wrapped anew. Strings are UTF-8 bytes, and slicing
  inside a character panics, here \<open>None\<close>. A block with headers, whose body has a colon, only gets
  its lines trimmed.
\<close>

section \<open>Search and replacement\<close>

text \<open>\<open>str::find(&str)\<close>: the position of the first occurrence.\<close>

fun str_find :: "string \<Rightarrow> string \<Rightarrow> nat option" where
  "str_find p [] = (if p = [] then Some 0 else None)"
| "str_find p (c # s) = (if prefix p (c # s) then Some 0 else map_option Suc (str_find p s))"

text \<open>\<open>str::replace\<close> of a pattern with a first character \<open>p\<close>: occurrences from the left, without
  overlap.\<close>

function str_replace :: "char \<Rightarrow> string \<Rightarrow> string \<Rightarrow> string \<Rightarrow> string" where
  "str_replace p ps r [] = []"
| "str_replace p ps r (c # s) =
     (if prefix (p # ps) (c # s) then r @ str_replace p ps r (drop (length ps) s)
      else c # str_replace p ps r s)"
  by pat_completeness auto
termination by (relation "measure (\<lambda>(_, _, _, s). length s)") auto

definition LF :: char where "LF = CHR 10"
definition CR :: char where "CR = CHR 13"
definition backslash :: char where "backslash = CHR 92"

text \<open>\<open>str::lines\<close> of a text without carriage returns: a line break at the very end opens no line.\<close>

definition str_lines :: "string \<Rightarrow> string list" where
  "str_lines s = (let ls = split_on LF s in if last ls = [] then butlast ls else ls)"

fun join :: "string \<Rightarrow> string list \<Rightarrow> string" where
  "join sep [] = []"
| "join sep [x] = x"
| "join sep (x # y # xs) = x @ sep @ join sep (y # xs)"

text \<open>The characters that are no white space.\<close>

function strip_ws :: "string \<Rightarrow> string" where
  "strip_ws s =
     (case find (\<lambda>w. prefix w s) utf8_whitespace of
        Some w \<Rightarrow> strip_ws (drop (length w) s)
      | None \<Rightarrow> (case s of [] \<Rightarrow> [] | c # cs \<Rightarrow> c # strip_ws cs))"
  by pat_completeness auto
termination
proof (relation "measure length")
  fix s w
  assume "find (\<lambda>w. prefix w s) utf8_whitespace = Some w"
  then have "w \<noteq> []" "prefix w s" using utf8_whitespace_nonempty by (auto dest: find_Some_in)
  then have "w \<noteq> []" "length w \<le> length s" by (simp_all add: prefix_length_le)
  then show "(drop (length w) s, s) \<in> measure length" by (cases w) auto
qed auto

declare strip_ws.simps [simp del]

section \<open>Normalisation (pem.rs)\<close>

text \<open>\<open>split_at\<close> panics inside a character: \<open>None\<close>.\<close>

definition is_char_boundary :: "string \<Rightarrow> nat \<Rightarrow> bool" where
  "is_char_boundary s n \<longleftrightarrow> n = length s \<or> \<not> (128 \<le> char_code (s ! n) \<and> char_code (s ! n) < 192)"

function wrap :: "nat \<Rightarrow> string \<Rightarrow> string option" where
  "wrap k s =
     (if s = [] then Some []
      else let n = min (Suc k) (length s)
           in if is_char_boundary s n
              then map_option (\<lambda>t. take n s @ LF # t) (wrap k (drop n s))
              else None)"
  by pat_completeness auto
termination by (relation "measure (\<lambda>(_, s). length s)") auto

declare wrap.simps [simp del]

definition trimmed_lines :: "string \<Rightarrow> string" where
  "trimmed_lines text = trim (join [LF] (map trim (str_lines text))) @ [LF]"

definition normalize_line_ends :: "string \<Rightarrow> string" where
  "normalize_line_ends input =
     str_replace CR [] [LF] (str_replace CR [LF] [LF] (str_replace backslash ''n'' [LF] input))"

definition normalize_pem :: "string \<Rightarrow> string option" where
  "normalize_pem input =
     (let text = normalize_line_ends input
      in case str_find ''-----BEGIN '' text of
           None \<Rightarrow> Some input
         | Some begin_pos \<Rightarrow>
             (let label_text = drop (begin_pos + 11) text
              in case str_find ''-----'' label_text of
                   None \<Rightarrow> Some input
                 | Some label_len \<Rightarrow>
                     (let label = take label_len label_text;
                          body_text = drop (label_len + 5) label_text;
                          footer = ''-----END '' @ label @ ''-----''
                      in case str_find footer body_text of
                           None \<Rightarrow> Some input
                         | Some body_len \<Rightarrow>
                             (let body = take body_len body_text
                              in if CHR '':'' \<in> set body then Some (trimmed_lines text)
                                 else let width = (if label = ''OPENSSH PRIVATE KEY'' then 69 else 63)
                                      in map_option
                                           (\<lambda>t. ''-----BEGIN '' @ label @ ''-----'' @ LF # t @ footer @ [LF])
                                           (wrap width (strip_ws body))))))"


section \<open>Pasted blocks\<close>

definition blank :: "char \<Rightarrow> bool" where
  "blank c \<longleftrightarrow> char_code c \<in> {9, 10, 13, 32}"

definition data_char :: "char \<Rightarrow> bool" where
  "data_char c \<longleftrightarrow> char_code c < 128 \<and> char_code c \<notin> {9, 10, 11, 12, 13, 32} \<and>
     c \<notin> {CHR ''-'', CHR '':'', backslash}"

text \<open>A body whose line breaks were lost, added or written as the two characters of the
  escape.\<close>

inductive damaged :: "string \<Rightarrow> string \<Rightarrow> bool" where
  damaged_end: "damaged [] []"
| damaged_data: "damaged d t \<Longrightarrow> data_char c \<Longrightarrow> damaged (c # d) (c # t)"
| damaged_blank: "damaged d t \<Longrightarrow> blank c \<Longrightarrow> damaged d (c # t)"
| damaged_escape: "damaged d t \<Longrightarrow> damaged d (backslash # CHR ''n'' # t)"

definition spread :: "string \<Rightarrow> string \<Rightarrow> bool" where
  "spread d t \<longleftrightarrow> (\<forall>c \<in> set t. blank c \<or> data_char c) \<and> filter (\<lambda>c. \<not> blank c) t = d"

lemmas special_defs = LF_def CR_def backslash_def blank_def data_char_def char_code_def

lemma special_facts [simp]:
  "blank LF" "blank CR" "\<not> blank backslash" "\<not> blank (CHR ''-'')" "\<not> data_char (CHR ''-'')"
  "\<not> data_char backslash" "CR \<noteq> LF" "LF \<noteq> CR" "backslash \<noteq> CR" "CHR ''-'' \<noteq> CR" "CHR ''-'' \<noteq> LF" "LF \<noteq> CHR ''-''" "CR \<noteq> CHR ''-''"
  "backslash \<noteq> CHR ''-''"
  "CHR ''-'' \<noteq> backslash" "\<not> data_char (CHR '':'')" "\<not> blank (CHR '':'')"
  by (simp_all add: special_defs)

lemma blank_not_data [simp]: "blank c \<Longrightarrow> \<not> data_char c"
  by (auto simp: blank_def data_char_def)

lemma str_replace_skip: "p \<notin> set a \<Longrightarrow> str_replace p ps r (a @ b) = a @ str_replace p ps r b"
  by (induction a) auto

lemma replace_escape:
  "damaged d t \<Longrightarrow> \<exists>t'. spread d t' \<and>
     str_replace backslash ''n'' [LF] (t @ CHR ''-'' # s) =
     t' @ str_replace backslash ''n'' [LF] (CHR ''-'' # s)"
proof (induction rule: damaged.induct)
  case damaged_end
  then show ?case by (auto simp: spread_def)
next
  case (damaged_data d t c)
  then obtain t' where t': "spread d t'" "str_replace backslash ''n'' [LF] (t @ CHR ''-'' # s) =
     t' @ str_replace backslash ''n'' [LF] (CHR ''-'' # s)" by blast
  moreover have "c \<noteq> backslash" "\<not> blank c" using damaged_data.hyps(2) by auto
  ultimately show ?case using damaged_data.hyps(2)
    by (intro exI [of _ "c # t'"]) (auto simp: spread_def)
next
  case (damaged_blank d t c)
  then obtain t' where t': "spread d t'" "str_replace backslash ''n'' [LF] (t @ CHR ''-'' # s) =
     t' @ str_replace backslash ''n'' [LF] (CHR ''-'' # s)" by blast
  moreover have "c \<noteq> backslash" using damaged_blank.hyps(2) by auto
  ultimately show ?case using damaged_blank.hyps(2)
    by (intro exI [of _ "c # t'"]) (auto simp: spread_def)
next
  case (damaged_escape d t)
  then obtain t' where t': "spread d t'" "str_replace backslash ''n'' [LF] (t @ CHR ''-'' # s) =
     t' @ str_replace backslash ''n'' [LF] (CHR ''-'' # s)" by blast
  then show ?case by (intro exI [of _ "LF # t'"]) (auto simp: spread_def)
qed

lemma replace_breaks:
  assumes "ps = [] \<or> ps = [LF]"
  shows "spread d t \<Longrightarrow> \<exists>t'. spread d t' \<and>
     str_replace CR ps [LF] (t @ CHR ''-'' # s) = t' @ str_replace CR ps [LF] (CHR ''-'' # s)"
proof (induction "length t" arbitrary: d t rule: less_induct)
  case less
  show ?case
  proof (cases t)
    case Nil
    then show ?thesis using less.prems by (auto simp: spread_def)
  next
    case (Cons c u)
    let ?d = "if blank c then d else tl d"
    have u: "spread ?d u" using less.prems Cons by (auto simp: spread_def)
    show ?thesis
    proof (cases "prefix (CR # ps) (t @ CHR ''-'' # s)")
      case True
      obtain v where v: "spread d v" "length v < length t"
          "drop (length ps) (u @ CHR ''-'' # s) = v @ CHR ''-'' # s"
      proof (cases "ps = []")
        case True
        then show thesis using that [of u] u Cons \<open>prefix (CR # ps) _\<close> by auto
      next
        case False
        then obtain w where "u = LF # w" using True Cons assms by (cases u) auto
        then show thesis using that [of w] u Cons True False assms by (auto simp: spread_def)
      qed
      from less.hyps [OF v(2,1)] obtain t' where t': "spread d t'"
        "str_replace CR ps [LF] (v @ CHR ''-'' # s) = t' @ str_replace CR ps [LF] (CHR ''-'' # s)" by blast
      then show ?thesis using True Cons v(3)
        by (intro exI [of _ "LF # t'"]) (auto simp: spread_def)
    next
      case False
      from less.hyps [OF _ u] Cons obtain t' where t': "spread ?d t'"
        "str_replace CR ps [LF] (u @ CHR ''-'' # s) = t' @ str_replace CR ps [LF] (CHR ''-'' # s)" by auto
      then show ?thesis using False Cons less.prems
        by (intro exI [of _ "c # t'"]) (auto simp: spread_def)
    qed
  qed
qed

lemma normalize_line_ends_body:
  assumes "damaged d t"
  shows "\<exists>t'. spread d t' \<and>
     normalize_line_ends (t @ CHR ''-'' # s) = t' @ normalize_line_ends (CHR ''-'' # s)"
proof -
  from replace_escape [OF assms, of s] obtain t1 where t1: "spread d t1"
    "str_replace backslash ''n'' [LF] (t @ CHR ''-'' # s) = t1 @ CHR ''-'' # str_replace backslash ''n'' [LF] s"
    by auto
  from replace_breaks [OF _ t1(1), of "[LF]" "str_replace backslash ''n'' [LF] s"] obtain t2 where t2: "spread d t2"
    "str_replace CR [LF] [LF] (t1 @ CHR ''-'' # str_replace backslash ''n'' [LF] s) =
     t2 @ CHR ''-'' # str_replace CR [LF] [LF] (str_replace backslash ''n'' [LF] s)"
    by auto
  from replace_breaks [OF _ t2(1), of "[]" "str_replace CR [LF] [LF] (str_replace backslash ''n'' [LF] s)"] obtain t3 where t3: "spread d t3"
    "str_replace CR [] [LF] (t2 @ CHR ''-'' # str_replace CR [LF] [LF] (str_replace backslash ''n'' [LF] s)) =
     t3 @ CHR ''-'' # str_replace CR [] [LF] (str_replace CR [LF] [LF] (str_replace backslash ''n'' [LF] s))"
    by auto
  show ?thesis
    by (intro exI [of _ t3] conjI t3(1)) (simp add: normalize_line_ends_def t1(2) t2(2) t3(2))
qed

lemma normalize_line_ends_skip:
  "backslash \<notin> set a \<Longrightarrow> CR \<notin> set a \<Longrightarrow> normalize_line_ends (a @ b) = a @ normalize_line_ends b"
  by (simp add: normalize_line_ends_def str_replace_skip)

lemma str_find_skip:
  assumes "p = c # q" "c \<notin> set a"
  shows "str_find p (a @ p @ s) = Some (length a)"
  using assms by (induction a) auto

lemma utf8_whitespace_cases:
  "w \<in> set utf8_whitespace \<Longrightarrow>
   (\<exists>n \<in> {9, 10, 11, 12, 13, 32}. w = [char_of (n :: nat)]) \<or> 128 \<le> char_code (hd w)"
  by (auto simp: utf8_whitespace_def)

lemma ascii_whitespace_mem: "n \<in> {9, 10, 11, 12, 13, 32} \<Longrightarrow> [char_of (n :: nat)] \<in> set utf8_whitespace"
  by (auto simp: utf8_whitespace_def)

lemma strip_ws_ascii:
  "(\<forall>c \<in> set t. blank c \<or> data_char c) \<Longrightarrow> strip_ws t = filter (\<lambda>c. \<not> blank c) t"
proof (induction t)
  case Nil
  have "find (\<lambda>w. prefix w []) utf8_whitespace = None"
    using utf8_whitespace_nonempty by (auto simp: find_None_iff)
  then show ?case by (simp add: strip_ws.simps [of "[]"])
next
  case (Cons c t)
  have low: "char_code c < 128" using Cons.prems by (auto simp: blank_def data_char_def)
  have ws: "w \<in> set utf8_whitespace \<Longrightarrow> prefix w (c # t) \<Longrightarrow> w = [c] \<and> blank c" for w
  proof -
    assume w: "w \<in> set utf8_whitespace" "prefix w (c # t)"
    obtain x xs where "w = x # xs"
      using utf8_whitespace_nonempty [OF w(1)] by (auto simp: neq_Nil_conv)
    then have "hd w = c" using w(2) by simp
    with utf8_whitespace_cases [OF w(1)] low obtain n :: nat where
      n: "n \<in> {9, 10, 11, 12, 13, 32}" "w = [char_of n]" by auto
    then have "c = char_of n" "char_code c = n" using \<open>hd w = c\<close> by auto
    then show ?thesis using n Cons.prems by (auto simp: blank_def data_char_def)
  qed
  show ?case
  proof (cases "blank c")
    case True
    then have "[c] \<in> set utf8_whitespace"
      using ascii_whitespace_mem [of "char_code c"] by (auto simp: blank_def char_code_def)
    then have "find (\<lambda>w. prefix w (c # t)) utf8_whitespace \<noteq> None"
      by (auto simp: find_None_iff)
    then have "find (\<lambda>w. prefix w (c # t)) utf8_whitespace = Some [c]"
      using ws by (auto dest: find_Some_in)
    then show ?thesis using Cons True by (simp add: strip_ws.simps [of "c # t"])
  next
    case False
    then have "find (\<lambda>w. prefix w (c # t)) utf8_whitespace = None"
      using ws by (auto simp: find_None_iff)
    then show ?thesis using Cons False by (simp add: strip_ws.simps [of "c # t"])
  qed
qed

lemma wrap_ascii:
  assumes "\<forall>c \<in> set d. char_code c < 128"
  shows "\<exists>ls. wrap k d = Some (concat (map (\<lambda>l. l @ [LF]) ls)) \<and> concat ls = d \<and>
     (\<forall>l \<in> set (butlast ls). length l = Suc k) \<and> (\<forall>l \<in> set ls. 0 < length l \<and> length l \<le> Suc k)"
  using assms
proof (induction "length d" arbitrary: d rule: less_induct)
  case less
  show ?case
  proof (cases "d = []")
    case True
    then show ?thesis by (intro exI [of _ "[]"]) (simp add: wrap.simps)
  next
    case False
    let ?n = "min (Suc k) (length d)"
    have "length (drop ?n d) < length d" using False by auto
    moreover have "\<forall>c \<in> set (drop ?n d). char_code c < 128" using less.prems by (meson in_set_dropD)
    ultimately obtain ls where ls: "wrap k (drop ?n d) = Some (concat (map (\<lambda>l. l @ [LF]) ls))"
        "concat ls = drop ?n d" "\<forall>l \<in> set (butlast ls). length l = Suc k"
        "\<forall>l \<in> set ls. 0 < length l \<and> length l \<le> Suc k"
      using less.hyps by blast
    have "is_char_boundary d ?n"
      using less.prems by (auto simp: is_char_boundary_def min_def not_le) 
    then have w: "wrap k d = Some (concat (map (\<lambda>l. l @ [LF]) (take ?n d # ls)))"
      using False ls(1) by (subst wrap.simps) (simp add: Let_def)
    have "length (take ?n d) = Suc k" if "ls \<noteq> []"
    proof -
      have "drop ?n d \<noteq> []" using that ls(2,4) by (metis concat_eq_Nil_conv length_0_conv list.set_sel(1) not_gr_zero)
      then show ?thesis by (auto simp: min_def split: if_splits)
    qed
    then have "\<forall>l \<in> set (butlast (take ?n d # ls)). length l = Suc k" using ls(3) by auto
    moreover have "\<forall>l \<in> set (take ?n d # ls). 0 < length l \<and> length l \<le> Suc k" using ls(4) False by auto
    moreover have "concat (take ?n d # ls) = d" using ls(2) by simp
    ultimately show ?thesis using w by blast
  qed
qed

section \<open>Properties\<close>

text \<open>
  C33. A pasted block is repaired: whatever line breaks, blanks or escaped line breaks
  stand before the block and inside its body, the result is the block with the data of the body in
  lines of the full width, 70 characters for an OpenSSH key and 64 otherwise, the last one shorter.
\<close>

theorem pem_paste_canonical:
  assumes body: "damaged d body" and before: "damaged [] before"
    and label: "\<forall>c \<in> set label. c \<noteq> CHR ''-'' \<and> c \<noteq> backslash \<and> c \<noteq> CR"
  shows "\<exists>ls. concat ls = d \<and>
     (\<forall>l \<in> set (butlast ls). length l = (if label = ''OPENSSH PRIVATE KEY'' then 70 else 64)) \<and>
     (\<forall>l \<in> set ls. 0 < length l \<and> length l \<le> (if label = ''OPENSSH PRIVATE KEY'' then 70 else 64)) \<and>
     normalize_pem (before @ ''-----BEGIN '' @ label @ ''-----'' @ body @ ''-----END '' @ label @ ''-----'' @ after) =
     Some (''-----BEGIN '' @ label @ ''-----'' @ LF # concat (map (\<lambda>l. l @ [LF]) ls) @
           ''-----END '' @ label @ ''-----'' @ [LF])"
proof -
  let ?k = "if label = ''OPENSSH PRIVATE KEY'' then 69 else 63 :: nat"
  let ?footer = "''-----END '' @ label @ ''-----''"
  have lab: "CHR ''-'' \<notin> set label" "backslash \<notin> set label" "CR \<notin> set label" using label by auto
  let ?mid = "label @ ''-----'' @ body @ ?footer @ after"
  from normalize_line_ends_body [OF before, of "''----BEGIN '' @ ?mid"] obtain b0 where b0: "spread [] b0"
      "normalize_line_ends (before @ ''-----BEGIN '' @ ?mid) = b0 @ normalize_line_ends (''-----BEGIN '' @ ?mid)"
    by auto
  from normalize_line_ends_body [OF body, of "''----END '' @ label @ ''-----'' @ after"] obtain b1 where
      b1: "spread d b1" "normalize_line_ends (body @ ?footer @ after) = b1 @ normalize_line_ends (?footer @ after)"
    by auto
  have foot: "normalize_line_ends (?footer @ after) = ?footer @ normalize_line_ends after"
    by (rule normalize_line_ends_skip) (use lab in \<open>auto simp: backslash_def CR_def\<close>)
  have "normalize_line_ends ((''-----BEGIN '' @ label @ ''-----'') @ body @ ?footer @ after) =
      (''-----BEGIN '' @ label @ ''-----'') @ normalize_line_ends (body @ ?footer @ after)"
    by (rule normalize_line_ends_skip) (use lab in \<open>auto simp: backslash_def CR_def\<close>)
  then have whole: "normalize_line_ends (before @ ''-----BEGIN '' @ ?mid) =
      b0 @ ''-----BEGIN '' @ label @ ''-----'' @ b1 @ ?footer @ normalize_line_ends after"
    using b0(2) b1(2) foot by simp
  have dash: "CHR ''-'' \<notin> set b0" "CHR ''-'' \<notin> set b1" "CHR '':'' \<notin> set b1"
    using b0(1) b1(1) by (auto simp: spread_def)
  have f1: "str_find ''-----BEGIN '' (b0 @ ''-----BEGIN '' @ s) = Some (length b0)" for s
    by (rule str_find_skip [of _ "CHR ''-''"]) (simp_all add: dash)
  have f2: "str_find ''-----'' (label @ ''-----'' @ s) = Some (length label)" for s
    by (rule str_find_skip [of _ "CHR ''-''"]) (simp_all add: lab)
  have f3: "str_find ?footer (b1 @ ?footer @ s) = Some (length b1)" for s
    by (rule str_find_skip [of _ "CHR ''-''"]) (simp_all add: dash)
  have strip: "strip_ws b1 = d" using b1(1) strip_ws_ascii by (auto simp: spread_def)
  have "\<forall>c \<in> set d. char_code c < 128" using b1(1) by (auto simp: spread_def data_char_def)
  from wrap_ascii [OF this, of ?k] obtain ls where ls: "wrap ?k d = Some (concat (map (\<lambda>l. l @ [LF]) ls))"
      "concat ls = d" "\<forall>l \<in> set (butlast ls). length l = Suc ?k"
      "\<forall>l \<in> set ls. 0 < length l \<and> length l \<le> Suc ?k" by blast
  have d1: "drop (length b0 + 11) (b0 @ ''-----BEGIN '' @ s) = s" for s by simp
  have d2: "drop (length label + 5) (label @ ''-----'' @ s) = s" "take (length label) (label @ ''-----'' @ s) = label"
      "take (length b1) (b1 @ ?footer @ s) = b1" for s by simp_all
  have "normalize_pem (before @ ''-----BEGIN '' @ ?mid) =
      map_option (\<lambda>t. ''-----BEGIN '' @ label @ ''-----'' @ LF # t @ ?footer @ [LF]) (wrap ?k d)"
    unfolding normalize_pem_def whole Let_def f1 option.case d1 f2 d2 f3 strip
    using dash(3) by (simp only: if_False)
  then have norm: "normalize_pem (before @ ''-----BEGIN '' @ ?mid) =
      Some (''-----BEGIN '' @ label @ ''-----'' @ LF # concat (map (\<lambda>l. l @ [LF]) ls) @ ?footer @ [LF])"
    by (simp add: ls(1))
  show ?thesis
    by (intro exI [of _ ls] conjI) (use ls(2-4) norm in \<open>simp_all split: if_splits\<close>)
qed

theorem pem_paste_canonical_witness:
  "\<exists>ls. concat ls = ''AB'' \<and>
     normalize_pem (''-----BEGIN X-----A B-----END X-----'') =
     Some (''-----BEGIN X-----'' @ LF # concat (map (\<lambda>l. l @ [LF]) ls) @ ''-----END X-----'' @ [LF])"
proof -
  have "damaged ''AB'' ''A B''"
    by (intro damaged.intros) (simp_all add: special_defs)
  from pem_paste_canonical [OF this damaged_end, of "''X''" "[]"] show ?thesis
    by (auto simp: special_defs)
qed

text \<open>
  The line breaks are put at byte positions: a body with a character of several bytes
  across the end of a line makes the normalisation panic.
\<close>

lemma pem_paste_panics:
  "normalize_pem (''-----BEGIN X-----'' @ replicate 63 (CHR ''A'') @ [CHR 0xC3, CHR 0xA9] @ ''-----END X-----'') = None"
  by code_simp
end
