(* ===== verification/Step_Up.thy ===== *)
theory Step_Up
  imports Admin_Targets Pem
begin

text \<open>
  Re-confirmation of the identity of an administrator before the credentials of an account are
  shown or written (\<open>gated-admin/src/api/accounts.rs\<close>, \<open>reveal_guard.rs\<close> and
  \<open>step_up_grace.rs\<close>). A clock reading is a number of nanoseconds; the readings a handler
  makes are the fields of \<open>clock\<close>. The browser session is its entry for the confirmation
  window and whether it was dropped. The JSON of the request and the generation and decoding of
  private keys belong to third-party crates and are the fields of \<open>cred_codec\<close>.
\<close>

section \<open>Throttling of confirmations (reveal_guard.rs)\<close>

record RevealConfirmation =
  rc_reason :: "string option"
  rc_password :: "string option"
  rc_otp :: "string option"

definition confirmation_credential :: "RevealConfirmation \<Rightarrow> AuthCredential option" where
  "confirmation_credential c =
     (if (case rc_reason c of Some r \<Rightarrow> length r > 500 | None \<Rightarrow> False) then None
      else case (rc_password c, rc_otp c) of
             (Some pw, None) \<Rightarrow>
               if pw \<noteq> [] \<and> length pw \<le> 1024 then Some (Password pw) else None
           | (None, Some otp) \<Rightarrow>
               if length otp = 6 \<and> list_all is_ascii_digit otp then Some (Otp otp) else None
           | _ \<Rightarrow> None)"

definition secs :: "nat \<Rightarrow> nat" where
  "secs n = n * 1000000000"

definition WINDOW :: nat where "WINDOW = secs 60"
definition OTP_REUSE_WINDOW :: nat where "OTP_REUSE_WINDOW = secs 120"
definition PER_USER_LIMIT :: nat where "PER_USER_LIMIT = 10"
definition PER_ACCOUNT_LIMIT :: nat where "PER_ACCOUNT_LIMIT = 5"

type_synonym attempt_key = "string \<times> int option"

record RevealGuard =
  attempts :: "(attempt_key \<times> (nat \<times> nat)) list"
  used_otp :: "(string \<times> nat) list"

definition reveal_guard_default :: RevealGuard where
  "reveal_guard_default = \<lparr>attempts = [], used_otp = []\<rparr>"

definition guard_prune :: "nat \<Rightarrow> RevealGuard \<Rightarrow> RevealGuard" where
  "guard_prune now g =
     \<lparr>attempts = filter (\<lambda>(_, start, _). now - start < WINDOW) (attempts g),
      used_otp = filter (\<lambda>(_, start). now - start < OTP_REUSE_WINDOW) (used_otp g)\<rparr>"

definition guard_count :: "attempt_key \<Rightarrow> nat \<Rightarrow> RevealGuard \<Rightarrow> nat \<times> RevealGuard" where
  "guard_count k now g =
     (let (start, n) = (case map_of (attempts g) k of Some e \<Rightarrow> e | None \<Rightarrow> (now, 0));
          n' = min (n + 1) (2 ^ 64 - 1)
      in (n', g\<lparr>attempts := (k, (start, n')) # filter (\<lambda>(k', _). k' \<noteq> k) (attempts g)\<rparr>))"

definition guard_allow :: "string \<Rightarrow> int \<Rightarrow> nat \<Rightarrow> RevealGuard \<Rightarrow> bool \<times> RevealGuard" where
  "guard_allow user acct now g =
     (let g1 = guard_prune now g; (n, g2) = guard_count (user, None) now g1
      in if n > PER_USER_LIMIT then (False, g2)
         else let (m, g3) = guard_count (user, Some acct) now g2
              in (m \<le> PER_ACCOUNT_LIMIT, g3))"

definition otp_available :: "string \<Rightarrow> nat \<Rightarrow> RevealGuard \<Rightarrow> bool \<times> RevealGuard" where
  "otp_available user now g =
     (let g1 = guard_prune now g in (user \<notin> fst ` set (used_otp g1), g1))"

definition try_consume_otp :: "string \<Rightarrow> nat \<Rightarrow> RevealGuard \<Rightarrow> bool \<times> RevealGuard" where
  "try_consume_otp user now g =
     (let g1 = guard_prune now g
      in if user \<in> fst ` set (used_otp g1) then (False, g1)
         else (True, g1\<lparr>used_otp := (user, now) # used_otp g1\<rparr>))"

section \<open>The confirmation window of a session (step_up_grace.rs)\<close>

definition GRACE :: nat where "GRACE = secs (15 * 60)"

record Grace =
  grace_username :: string
  grace_until :: nat

record Session =
  session_purged :: bool
  session_grace :: "Grace option"

definition active_until :: "Session \<Rightarrow> string \<Rightarrow> nat \<Rightarrow> nat option" where
  "active_until s uname now =
     (case session_grace s of
        Some gr \<Rightarrow> if grace_username gr = uname \<and> grace_until gr > now then Some (grace_until gr) else None
      | None \<Rightarrow> None)"

definition grace_extend :: "string \<Rightarrow> nat \<Rightarrow> Session \<Rightarrow> Session" where
  "grace_extend uname now s =
     (if session_purged s then s
      else s\<lparr>session_grace := Some \<lparr>grace_username = uname, grace_until = now + GRACE\<rparr>\<rparr>)"

section \<open>Step-up (accounts.rs)\<close>

datatype SessionAuthorization = SessionUser string | SessionTicket string string

fun session_username :: "SessionAuthorization \<Rightarrow> string" where
  "session_username (SessionUser u) = u"
| "session_username (SessionTicket u _) = u"

datatype RequestAuthorization =
    SessionAuth SessionAuthorization
  | UserToken string
  | AdminToken

fun request_username :: "RequestAuthorization \<Rightarrow> string option" where
  "request_username (SessionAuth a) = Some (session_username a)"
| "request_username (UserToken u) = Some u"
| "request_username AdminToken = None"

record StepUp =
  su_username :: string
  su_reason :: string
  su_factor :: string

datatype StepUpFailure = StepBadRequest | StepUnauthorized | StepRateLimited

record audit_row =
  ar_event :: string
  ar_account_id :: int
  ar_account_name :: string
  ar_account_kind :: string
  ar_confirmation :: string
  ar_reason :: string
  ar_actor :: string
  ar_timestamp :: nat
  ar_username :: "string option"

record clock =
  at_confirm :: nat
  at_guard :: nat
  at_totp :: nat
  at_recent :: nat
  at_consume :: nat
  at_audit :: nat

record step_world =
  sw_db :: "Db option"
  sw_consumed :: consumed
  sw_guard :: RevealGuard
  sw_audit :: "audit_row list"
  sw_session :: Session

text \<open>\<open>at_totp\<close> is the reading of the one-time password check, in seconds.\<close>

definition confirmation_reason :: "RevealConfirmation option \<Rightarrow> string" where
  "confirmation_reason c =
     trim (case c of None \<Rightarrow> [] | Some c \<Rightarrow> (case rc_reason c of Some r \<Rightarrow> r | None \<Rightarrow> []))"

definition otp_recently_confirmed :: "string \<Rightarrow> nat \<Rightarrow> audit_row list \<Rightarrow> bool" where
  "otp_recently_confirmed uname now rows =
     list_ex (\<lambda>r. ar_username r = Some uname \<and> ar_timestamp r > now - secs 120 \<and> ar_confirmation r = ''otp'')
       rows"

definition verify_step_up ::
  "crypto \<Rightarrow> clock \<Rightarrow> string \<Rightarrow> int \<Rightarrow> RevealConfirmation \<Rightarrow> step_world
     \<Rightarrow> (GatedError + (StepUpFailure + StepUp)) \<times> step_world" where
  "verify_step_up cr clk uname acct body w =
     (case confirmation_credential body of
        None \<Rightarrow> (Inr (Inl StepBadRequest), w)
      | Some cred \<Rightarrow>
          (let (allowed, g1) = guard_allow uname acct (at_guard clk) (sw_guard w);
               w1 = w\<lparr>sw_guard := g1\<rparr>
           in if \<not> allowed then (Inr (Inl StepRateLimited), w1)
              else let (free, g2) = (if rc_otp body \<noteq> None then otp_available uname (at_guard clk) g1
                                     else (True, g1));
                       w2 = w1\<lparr>sw_guard := g2\<rparr>
                   in if \<not> free then (Inr (Inl StepUnauthorized), w2)
                      else let (valid, m) = validate_credential cr (at_totp clk) (sw_consumed w2) (sw_db w2) uname cred;
                               w3 = w2\<lparr>sw_consumed := m\<rparr>
                           in case valid of
                                Inl e \<Rightarrow> (Inl e, w3)
                              | Inr False \<Rightarrow> (Inr (Inl StepUnauthorized), w3)
                              | Inr True \<Rightarrow>
                                  if rc_otp body \<noteq> None \<and> otp_recently_confirmed uname (at_recent clk) (sw_audit w3)
                                  then (Inr (Inl StepUnauthorized), w3)
                                  else let (fresh, g3) = (if rc_otp body \<noteq> None
                                             then try_consume_otp uname (at_consume clk) (sw_guard w3)
                                             else (True, sw_guard w3));
                                           w4 = w3\<lparr>sw_guard := g3\<rparr>
                                       in if \<not> fresh then (Inr (Inl StepUnauthorized), w4)
                                          else (Inr (Inr \<lparr>su_username = uname,
                                                  su_reason = confirmation_reason (Some body),
                                                  su_factor = (if rc_otp body \<noteq> None then ''otp'' else ''password'')\<rparr>), w4)))"

definition supplied :: "RevealConfirmation option \<Rightarrow> RevealConfirmation option" where
  "supplied c =
     (case c of Some b \<Rightarrow> if rc_password b \<noteq> None \<or> rc_otp b \<noteq> None then Some b else None
      | None \<Rightarrow> None)"

definition confirm_step_up ::
  "crypto \<Rightarrow> clock \<Rightarrow> string \<Rightarrow> int \<Rightarrow> RevealConfirmation option \<Rightarrow> step_world
     \<Rightarrow> (GatedError + (StepUpFailure + StepUp)) \<times> step_world" where
  "confirm_step_up cr clk uname acct confirmation w =
     (let (r, w1) =
        (case supplied confirmation of
           Some body \<Rightarrow> verify_step_up cr clk uname acct body w
         | None \<Rightarrow>
             if active_until (sw_session w) uname (at_confirm clk) \<noteq> None
             then (Inr (Inr \<lparr>su_username = uname, su_reason = confirmation_reason confirmation,
                             su_factor = ''grace''\<rparr>), w)
             else (Inr (Inl StepBadRequest), w))
      in case r of
           Inr (Inr _) \<Rightarrow> (r, w1\<lparr>sw_session := grace_extend uname (at_confirm clk) (sw_session w1)\<rparr>)
         | _ \<Rightarrow> (r, w1))"

definition require_step_up ::
  "crypto \<Rightarrow> clock \<Rightarrow> RequestAuthorization \<Rightarrow> int \<Rightarrow> RevealConfirmation option \<Rightarrow> step_world
     \<Rightarrow> (GatedError + (StepUpFailure + StepUp option)) \<times> step_world" where
  "require_step_up cr clk auth acct confirmation w =
     (case auth of
        SessionAuth a \<Rightarrow>
          (case confirm_step_up cr clk (session_username a) acct confirmation w of
             (Inr (Inr s), w') \<Rightarrow> (Inr (Inr (Some s)), w')
           | (Inr (Inl f), w') \<Rightarrow> (Inr (Inl f), w')
           | (Inl e, w') \<Rightarrow> (Inl e, w'))
      | _ \<Rightarrow> (Inr (Inr None), w))"

section \<open>Credentials of an account (accounts.rs)\<close>

datatype credentials_error =
    StoredInvalid
  | StoredKindMismatch string string
  | NotAnObject
  | RequestKindMismatch string string
  | RequestInvalid string
  | FieldRequired string
  | InvalidPrivateKey
  | HeaderRequired
  | GenerateOnlySshKey
  | GenerateAlgorithm
  | KeyGeneration

definition stored_credentials :: "account_row \<Rightarrow> credentials_error + AccountCredentials" where
  "stored_credentials a =
     rbind (ok_or StoredInvalid (acc_credentials a)) (\<lambda>c.
       if account_credentials_kind c = acc_kind a then Inr c
       else Inl (StoredKindMismatch (account_credentials_kind c) (acc_kind a)))"

definition keep_secret :: "string \<Rightarrow> string \<Rightarrow> string" where
  "keep_secret new old = (if new = [] then old else new)"

definition keep_opt :: "string option \<Rightarrow> string option \<Rightarrow> string option" where
  "keep_opt new old = (case new of Some v \<Rightarrow> if v \<noteq> [] then Some v else old | None \<Rightarrow> old)"

definition merge_header ::
  "HttpHeaderAccountCredential list \<Rightarrow> HttpHeaderAccountCredential \<Rightarrow> HttpHeaderAccountCredential" where
  "merge_header old h =
     (if hh_value h = []
      then (case find (\<lambda>p. to_ascii_lowercase (hh_name p) = to_ascii_lowercase (hh_name h)) old of
              Some p \<Rightarrow> h\<lparr>hh_value := hh_value p\<rparr>
            | None \<Rightarrow> h)
      else h)"

fun merge_credentials :: "AccountCredentials \<Rightarrow> AccountCredentials \<Rightarrow> AccountCredentials" where
  "merge_credentials (SshPassword old) (SshPassword new) =
     SshPassword (new\<lparr>sp_password := keep_secret (sp_password new) (sp_password old)\<rparr>)"
| "merge_credentials (SshKey old) (SshKey new) =
     SshKey (new\<lparr>sk_private_key_pem := keep_secret (sk_private_key_pem new) (sk_private_key_pem old),
                 sk_passphrase := keep_opt (sk_passphrase new) (sk_passphrase old)\<rparr>)"
| "merge_credentials (DbPassword old) (DbPassword new) =
     DbPassword (new\<lparr>dp_password := keep_secret (dp_password new) (dp_password old)\<rparr>)"
| "merge_credentials (K8sToken old) (K8sToken new) =
     K8sToken (new\<lparr>kt_token := keep_secret (kt_token new) (kt_token old)\<rparr>)"
| "merge_credentials (K8sClientCert old) (K8sClientCert new) =
     K8sClientCert (new\<lparr>kc_private_key_pem := keep_secret (kc_private_key_pem new) (kc_private_key_pem old),
                        kc_passphrase := keep_opt (kc_passphrase new) (kc_passphrase old)\<rparr>)"
| "merge_credentials (HttpHeaders old) (HttpHeaders new) = HttpHeaders (map (merge_header old) new)"
| "merge_credentials _ incoming = incoming"

record 'v cred_codec =
  is_object :: "'v \<Rightarrow> bool"
  generate_field :: "'v \<Rightarrow> string option option"
  drop_generate :: "'v \<Rightarrow> 'v"
  with_key :: "'v \<Rightarrow> string \<Rightarrow> 'v"
  kind_field :: "'v \<Rightarrow> string option"
  from_value :: "string \<Rightarrow> 'v \<Rightarrow> AccountCredentials option"
  random_key :: "string \<Rightarrow> string option"
  decodes :: "string \<Rightarrow> string option \<Rightarrow> bool"

definition generate_requested_key ::
  "'v cred_codec \<Rightarrow> string \<Rightarrow> 'v \<Rightarrow> credentials_error + 'v" where
  "generate_requested_key cc k v =
     (if \<not> is_object cc v then Inr v
      else case generate_field cc v of
             None \<Rightarrow> Inr v
           | Some field \<Rightarrow>
               if k \<noteq> ''ssh-key'' then Inl GenerateOnlySshKey
               else case field of
                      None \<Rightarrow> Inl GenerateAlgorithm
                    | Some algorithm \<Rightarrow>
                        if algorithm \<noteq> ''ed25519'' \<and> algorithm \<noteq> ''rsa'' then Inl GenerateAlgorithm
                        else (case random_key cc algorithm of
                                None \<Rightarrow> Inl KeyGeneration
                              | Some pem \<Rightarrow> Inr (with_key cc (drop_generate cc v) pem)))"

text \<open>A blank key stays blank; the normalisation of another one may panic.\<close>

definition normalized_key :: "AccountCredentials \<Rightarrow> AccountCredentials option" where
  "normalized_key c =
     (case c of
        SshKey k \<Rightarrow>
          if trim (sk_private_key_pem k) \<noteq> []
          then map_option (\<lambda>pem. SshKey (k\<lparr>sk_private_key_pem := pem\<rparr>)) (normalize_pem (sk_private_key_pem k))
          else Some c
      | _ \<Rightarrow> Some c)"

definition parse_credentials_for_kind ::
  "'v cred_codec \<Rightarrow> string \<Rightarrow> 'v \<Rightarrow> (credentials_error + AccountCredentials) option" where
  "parse_credentials_for_kind cc k v =
     (if \<not> is_object cc v then Some (Inl NotAnObject)
      else if kind_field cc v \<noteq> None \<and> kind_field cc v \<noteq> Some k
      then Some (Inl (RequestKindMismatch (the (kind_field cc v)) k))
      else case from_value cc k v of
             None \<Rightarrow> Some (Inl (RequestInvalid k))
           | Some parsed \<Rightarrow>
               map_option (\<lambda>c. if account_credentials_kind c = k then Inr c
                               else Inl (RequestKindMismatch (account_credentials_kind c) k))
                 (normalized_key parsed))"

definition require_field :: "string \<Rightarrow> string \<Rightarrow> credentials_error + unit" where
  "require_field v field = (if trim v = [] then Inl (FieldRequired field) else Inr ())"

fun require_headers :: "HttpHeaderAccountCredential list \<Rightarrow> credentials_error + unit" where
  "require_headers [] = Inr ()"
| "require_headers (h # hs) =
     rbind (require_field (hh_name h) ''header name'') (\<lambda>_.
       rbind (require_field (hh_value h) ''header value'') (\<lambda>_. require_headers hs))"

definition ssh_key_decodes :: "'v cred_codec \<Rightarrow> SshKeyAccountCredentials \<Rightarrow> bool option" where
  "ssh_key_decodes cc k =
     map_option (\<lambda>pem. decodes cc pem (case sk_passphrase k of Some p \<Rightarrow> if p \<noteq> [] then Some p else None
                                       | None \<Rightarrow> None))
       (normalize_pem (sk_private_key_pem k))"

fun validate_required_credentials ::
  "'v cred_codec \<Rightarrow> AccountCredentials \<Rightarrow> (credentials_error + unit) option" where
  "validate_required_credentials cc (SshPassword c) =
     Some (rbind (require_field (sp_username c) ''username'') (\<lambda>_. require_field (sp_password c) ''password''))"
| "validate_required_credentials cc (SshKey c) =
     (case require_field (sk_private_key_pem c) ''private_key_pem'' of
        Inl e \<Rightarrow> Some (Inl e)
      | Inr _ \<Rightarrow> map_option (\<lambda>ok. if ok then Inr () else Inl InvalidPrivateKey) (ssh_key_decodes cc c))"
| "validate_required_credentials cc (DbPassword c) =
     Some (rbind (require_field (dp_username c) ''username'') (\<lambda>_. require_field (dp_password c) ''password''))"
| "validate_required_credentials cc (K8sToken c) = Some (require_field (kt_token c) ''token'')"
| "validate_required_credentials cc (K8sClientCert c) =
     Some (rbind (require_field (kc_certificate_pem c) ''client_certificate_pem'')
             (\<lambda>_. require_field (kc_private_key_pem c) ''client_private_key_pem''))"
| "validate_required_credentials cc (HttpHeaders hs) =
     Some (if hs = [] then Inl HeaderRequired else require_headers hs)"

section \<open>Handlers (accounts.rs)\<close>

datatype CreateAccountResponse =
    AccountCreated account_row
  | CreateAccountBadRequest string
  | CreateAccountUnauthorized string
  | CreateAccountRateLimited
  | CreateAccountConflict string
  | CreateAccountUnprocessable credentials_error

datatype UpdateAccountResponse =
    AccountUpdated account_row
  | UpdateAccountBadRequest string
  | UpdateAccountUnauthorized string
  | UpdateAccountRateLimited
  | UpdateAccountNotFound
  | UpdateAccountConflict string
  | UpdateAccountUnprocessable credentials_error

datatype RevealAccountResponse =
    RevealBadRequest string
  | RevealUnauthorized string
  | RevealRateLimited
  | RevealOk AccountCredentials
  | RevealNotFound
  | RevealUnprocessable credentials_error

definition insert_account_audit_log ::
  "nat \<Rightarrow> account_row \<Rightarrow> StepUp \<Rightarrow> string \<Rightarrow> step_world \<Rightarrow> step_world" where
  "insert_account_audit_log now a s event w =
     w\<lparr>sw_audit := sw_audit w @ [\<lparr>ar_event = event, ar_account_id = acc_id a, ar_account_name = acc_name a,
        ar_account_kind = acc_kind a, ar_confirmation = su_factor s, ar_reason = su_reason s,
        ar_actor = su_username s, ar_timestamp = now, ar_username = Some (su_username s)\<rparr>]\<rparr>"

definition audit_step_up ::
  "nat \<Rightarrow> account_row \<Rightarrow> StepUp option \<Rightarrow> string \<Rightarrow> step_world \<Rightarrow> step_world" where
  "audit_step_up now a s event w =
     (case s of Some s \<Rightarrow> insert_account_audit_log now a s event w | None \<Rightarrow> w)"

definition api_reveal_account ::
  "crypto \<Rightarrow> clock \<Rightarrow> RequestAuthorization \<Rightarrow> int \<Rightarrow> RevealConfirmation \<Rightarrow> step_world
     \<Rightarrow> (GatedError + RevealAccountResponse) \<times> step_world" where
  "api_reveal_account cr clk auth i body w =
     (case request_username auth of
        None \<Rightarrow> (Inr (RevealUnauthorized ''an identified administrator is required''), w)
      | Some uname \<Rightarrow>
          (case sw_db w of
             None \<Rightarrow> (Inl Other, w)
           | Some db \<Rightarrow>
               (let (r, w1) =
                  (case auth of
                     SessionAuth _ \<Rightarrow> confirm_step_up cr clk uname i (Some body) w
                   | _ \<Rightarrow> verify_step_up cr clk uname i body w)
                in case r of
                     Inl e \<Rightarrow> (Inl e, w1)
                   | Inr (Inl StepBadRequest) \<Rightarrow> (Inr (RevealBadRequest ''confirmation is required''), w1)
                   | Inr (Inl StepUnauthorized) \<Rightarrow>
                       (Inr (RevealUnauthorized ''wrong password or OTP code''), w1)
                   | Inr (Inl StepRateLimited) \<Rightarrow> (Inr RevealRateLimited, w1)
                   | Inr (Inr step_up) \<Rightarrow>
                       (case account_by_id db i of
                          None \<Rightarrow> (Inr RevealNotFound, w1)
                        | Some a \<Rightarrow>
                            (case stored_credentials a of
                               Inl m \<Rightarrow> (Inr (RevealUnprocessable m), w1)
                             | Inr c \<Rightarrow>
                                 (Inr (RevealOk c),
                                  insert_account_audit_log (at_audit clk) a step_up
                                    ''account.credentials.reveal'' w1))))))"

definition api_create_account ::
  "crypto \<Rightarrow> 'v cred_codec \<Rightarrow> clock \<Rightarrow> RequestAuthorization \<Rightarrow> string \<Rightarrow> string \<Rightarrow> 'v
     \<Rightarrow> RevealConfirmation option \<Rightarrow> step_world \<Rightarrow> (rl_error + CreateAccountResponse) \<times> step_world" where
  "api_create_account cr cc clk auth acc_kind_text raw_name value confirmation w =
     (let name = trim raw_name
      in if name = [] then (Inr (CreateAccountBadRequest ''name is required''), w)
         else case generate_requested_key cc acc_kind_text value of
                Inl m \<Rightarrow> (Inr (CreateAccountUnprocessable m), w)
              | Inr requested \<Rightarrow>
                  (case parse_credentials_for_kind cc acc_kind_text requested of
                     None \<Rightarrow> (Inl Panic, w)
                   | Some (Inl m) \<Rightarrow> (Inr (CreateAccountUnprocessable m), w)
                   | Some (Inr c) \<Rightarrow>
                       (case validate_required_credentials cc c of
                          None \<Rightarrow> (Inl Panic, w)
                        | Some (Inl m) \<Rightarrow> (Inr (CreateAccountUnprocessable m), w)
                        | Some (Inr _) \<Rightarrow>
                            (case sw_db w of
                               None \<Rightarrow> (Inl (Fail Other), w)
                             | Some db \<Rightarrow>
                                 if find (\<lambda>a. acc_name a = name) (accounts db) \<noteq> None
                                 then (Inr (CreateAccountConflict ''name already exists''), w)
                                 else case require_step_up cr clk auth 0 confirmation w of
                                        (Inl e, w1) \<Rightarrow> (Inl (Fail e), w1)
                                      | (Inr (Inl StepBadRequest), w1) \<Rightarrow>
                                          (Inr (CreateAccountBadRequest ''confirmation is required''), w1)
                                      | (Inr (Inl StepUnauthorized), w1) \<Rightarrow>
                                          (Inr (CreateAccountUnauthorized ''wrong password or OTP code''), w1)
                                      | (Inr (Inl StepRateLimited), w1) \<Rightarrow> (Inr CreateAccountRateLimited, w1)
                                      | (Inr (Inr step_up), w1) \<Rightarrow>
                                          (case insert_account name c db of
                                             Inl e \<Rightarrow> (Inl (Fail e), w1)
                                           | Inr (row, db') \<Rightarrow>
                                               (Inr (AccountCreated row),
                                                audit_step_up (at_audit clk) row step_up ''account.create''
                                                  (w1\<lparr>sw_db := Some db'\<rparr>)))))))"

definition update_account_row :: "account_row \<Rightarrow> Db \<Rightarrow> GatedError + Db" where
  "update_account_row r db =
     (if find (\<lambda>a. acc_name a = acc_name r \<and> acc_id a \<noteq> acc_id r) (accounts db) \<noteq> None
      then Inl DatabaseError
      else Inr (db\<lparr>accounts := map (\<lambda>a. if acc_id a = acc_id r then r else a) (accounts db)\<rparr>))"

text \<open>The credentials the update stores: the outer \<open>None\<close> is a panic, the inner one leaves the
  stored ones.\<close>

definition updated_credentials ::
  "'v cred_codec \<Rightarrow> account_row \<Rightarrow> 'v option \<Rightarrow> (credentials_error + AccountCredentials option) option" where
  "updated_credentials cc a value =
     (case value of
        None \<Rightarrow> Some (Inr None)
      | Some v \<Rightarrow>
          (case generate_requested_key cc (acc_kind a) v of
             Inl m \<Rightarrow> Some (Inl m)
           | Inr requested \<Rightarrow>
               (case parse_credentials_for_kind cc (acc_kind a) requested of
                  None \<Rightarrow> None
                | Some (Inl m) \<Rightarrow> Some (Inl m)
                | Some (Inr incoming) \<Rightarrow>
                    (let merged = (case stored_credentials a of
                                     Inr stored \<Rightarrow> merge_credentials stored incoming
                                   | Inl _ \<Rightarrow> incoming)
                     in map_option (\<lambda>r. rbind r (\<lambda>_. Inr (Some merged)))
                          (validate_required_credentials cc merged)))))"

definition api_update_account ::
  "crypto \<Rightarrow> 'v cred_codec \<Rightarrow> clock \<Rightarrow> RequestAuthorization \<Rightarrow> int \<Rightarrow> string option \<Rightarrow> 'v option
     \<Rightarrow> RevealConfirmation option \<Rightarrow> step_world \<Rightarrow> (rl_error + UpdateAccountResponse) \<times> step_world" where
  "api_update_account cr cc clk auth i raw_name value confirmation w =
     (case sw_db w of
        None \<Rightarrow> (Inl (Fail Other), w)
      | Some db \<Rightarrow>
          (case account_by_id db i of
             None \<Rightarrow> (Inr UpdateAccountNotFound, w)
           | Some a \<Rightarrow>
               (let name = map_option trim raw_name
                in if name = Some [] then (Inr (UpdateAccountBadRequest ''name is required''), w)
                   else if name \<noteq> None \<and>
                           find (\<lambda>b. acc_name b = the name \<and> acc_id b \<noteq> i) (accounts db) \<noteq> None
                   then (Inr (UpdateAccountConflict ''name already exists''), w)
                   else case updated_credentials cc a value of
                          None \<Rightarrow> (Inl Panic, w)
                        | Some (Inl m) \<Rightarrow> (Inr (UpdateAccountUnprocessable m), w)
                        | Some (Inr creds) \<Rightarrow>
                            (case require_step_up cr clk auth (acc_id a) confirmation w of
                               (Inl e, w1) \<Rightarrow> (Inl (Fail e), w1)
                             | (Inr (Inl StepBadRequest), w1) \<Rightarrow>
                                 (Inr (UpdateAccountBadRequest ''confirmation is required''), w1)
                             | (Inr (Inl StepUnauthorized), w1) \<Rightarrow>
                                 (Inr (UpdateAccountUnauthorized ''wrong password or OTP code''), w1)
                             | (Inr (Inl StepRateLimited), w1) \<Rightarrow> (Inr UpdateAccountRateLimited, w1)
                             | (Inr (Inr step_up), w1) \<Rightarrow>
                                 (let row = a\<lparr>acc_name := (case name of Some n \<Rightarrow> n | None \<Rightarrow> acc_name a),
                                      acc_credentials := (case creds of Some c \<Rightarrow> Some c
                                                          | None \<Rightarrow> acc_credentials a)\<rparr>
                                  in case update_account_row row db of
                                       Inl e \<Rightarrow> (Inl (Fail e), w1)
                                     | Inr db' \<Rightarrow>
                                         (Inr (AccountUpdated row),
                                          audit_step_up (at_audit clk) row step_up ''account.update''
                                            (w1\<lparr>sw_db := Some db'\<rparr>)))))))"

end
