(* ===== verification/Step_Up_Laws.thy ===== *)
theory Step_Up_Laws
  imports Step_Up Access_Laws
begin

text \<open>
  Laws of the confirmation before secrets are shown or changed: the size of the table of attempts
  (gated-admin/src/api/reveal_guard.rs) over every sequence of calls, what a successful reveal
  required, and which confirmations a window of step_up_grace.rs goes back to.
\<close>

section \<open>The table of attempts\<close>

datatype guard_op = Attempt string int | OtpCheck string | OtpConsume string

fun guard_step :: "RevealGuard \<Rightarrow> guard_op \<times> nat \<Rightarrow> RevealGuard" where
  "guard_step g (Attempt u a, now) = snd (guard_allow u a now g)"
| "guard_step g (OtpCheck u, now) = snd (otp_available u now g)"
| "guard_step g (OtpConsume u, now) = snd (try_consume_otp u now g)"

definition guard_run :: "(guard_op \<times> nat) list \<Rightarrow> RevealGuard" where
  "guard_run ops = foldl guard_step reveal_guard_default ops"

definition older :: "string \<Rightarrow> nat \<Rightarrow> RevealGuard \<Rightarrow> nat" where
  "older u s g = length (filter (\<lambda>((v, a), start, _). v = u \<and> a \<noteq> None \<and> start < s) (attempts g))"

definition newer :: "string \<Rightarrow> nat \<Rightarrow> RevealGuard \<Rightarrow> nat" where
  "newer u s g = length (filter (\<lambda>((v, a), start, _). v = u \<and> a \<noteq> None \<and> s \<le> start) (attempts g))"

definition user_entries :: "string \<Rightarrow> RevealGuard \<Rightarrow> nat" where
  "user_entries u g = length (filter (\<lambda>((v, _), _). v = u) (attempts g))"

definition user_window :: "string \<Rightarrow> RevealGuard \<Rightarrow> (nat \<times> nat) option" where
  "user_window u g = map_of (attempts g) (u, None)"

text \<open>At the time of the last operation every entry is alive; the entries of accounts were made
  in the window of the user or in the one before.\<close>

definition guard_inv :: "nat \<Rightarrow> RevealGuard \<Rightarrow> bool" where
  "guard_inv now g \<longleftrightarrow>
     distinct (map fst (attempts g)) \<and>
     (\<forall>(k, start, n) \<in> set (attempts g). start \<le> now \<and> now - start < WINDOW) \<and>
     (\<forall>u. case user_window u g of
            None \<Rightarrow> newer u now g = 0 \<and> older u now g \<le> PER_USER_LIMIT
          | Some (s, c) \<Rightarrow> newer u s g \<le> min c PER_USER_LIMIT \<and> older u s g \<le> PER_USER_LIMIT)"

lemma length_filter_upd:
  assumes "distinct (map fst xs)" "map_of xs k = Some v" "P (k, v') = P (k, v)"
  shows "length (filter P ((k, v') # filter (\<lambda>(k', _). k' \<noteq> k) xs)) = length (filter P xs)"
  using assms
proof (induction xs)
  case (Cons x xs)
  obtain j w where x: "x = (j, w)" by fastforce
  show ?case
  proof (cases "j = k")
    case True
    then have "filter (\<lambda>(k', _). k' \<noteq> k) xs = xs"
      using Cons.prems(1) x by (auto intro!: filter_True simp: image_iff) 
    then show ?thesis using Cons.prems True x by (simp add: split_def)
  next
    case False
    then show ?thesis using Cons x by (simp split: if_splits)
  qed
qed simp

lemma filter_other_key: "map_of xs k = None \<Longrightarrow> filter (\<lambda>(k', _). k' \<noteq> k) xs = xs"
  by (induction xs) (auto split: if_splits)

lemma distinct_upd:
  "distinct (map fst xs) \<Longrightarrow> distinct (map fst ((k, v) # filter (\<lambda>(k', _). k' \<noteq> k) xs))"
  by (auto simp: distinct_map_filter)

lemma map_of_upd:
  "map_of ((k, v) # filter (\<lambda>(k', _). k' \<noteq> k) xs) j = (if j = k then Some v else map_of xs j)"
  by (induction xs) auto

lemma length_filter_mono:
  "(\<And>x. x \<in> set xs \<Longrightarrow> P x \<Longrightarrow> Q x) \<Longrightarrow> length (filter P xs) \<le> length (filter Q xs)"
  by (induction xs) auto

lemma length_filter_disj:
  "length (filter P xs) \<le> length (filter Q xs) + length (filter R xs)"
  if "\<And>x. x \<in> set xs \<Longrightarrow> P x \<Longrightarrow> Q x \<or> R x"
  using that by (induction xs) fastforce+

lemma one_entry: "distinct (map fst xs) \<Longrightarrow> length (filter (\<lambda>(k, _). k = j) xs) \<le> 1"
proof (induction xs)
  case (Cons x xs)
  then show ?case
    by (cases "fst x = j") (auto simp: split_def filter_empty_conv image_iff)
qed simp

lemma map_of_filter_alive:
  assumes "distinct (map fst xs)"
  shows "map_of (filter P xs) k =
    (case map_of xs k of Some v \<Rightarrow> if P (k, v) then Some v else None | None \<Rightarrow> None)"
  using assms
proof (induction xs)
  case (Cons x xs)
  then have "map_of xs (fst x) = None" by (simp add: map_of_eq_None_iff)
  with Cons show ?case by (cases x) auto
qed simp

lemma entries_split:
  assumes "distinct (map fst (attempts g))"
  shows "user_entries u g \<le> 1 + (older u s g + newer u s g)"
proof -
  have "user_entries u g \<le> length (filter (\<lambda>(k, _). k = (u, None)) (attempts g)) +
      length (filter (\<lambda>((v, a), _). v = u \<and> a \<noteq> None) (attempts g))"
    unfolding user_entries_def by (rule length_filter_disj) auto
  moreover have "length (filter (\<lambda>((v, a), _). v = u \<and> a \<noteq> None) (attempts g)) \<le>
      older u s g + newer u s g"
    unfolding older_def newer_def by (rule length_filter_disj) auto
  ultimately show ?thesis using one_entry [OF assms, of "(u, None)"] by linarith
qed

lemma guard_inv_bound:
  assumes "guard_inv now g" shows "user_entries u g \<le> 2 * PER_USER_LIMIT + 1"
proof (cases "user_window u g")
  case None
  then have "newer u now g = 0 \<and> older u now g \<le> PER_USER_LIMIT"
    using assms by (auto simp: guard_inv_def dest: spec [of _ u])
  then show ?thesis using entries_split [of g u now] assms by (simp add: guard_inv_def)
next
  case (Some e)
  obtain s c where e: "e = (s, c)" by fastforce
  have "newer u s g \<le> min c PER_USER_LIMIT \<and> older u s g \<le> PER_USER_LIMIT"
    using assms Some e unfolding guard_inv_def by (auto dest!: spec [of _ u])
  then show ?thesis using entries_split [of g u s] assms by (simp add: guard_inv_def)
qed

lemma guard_inv_prune:
  assumes inv: "guard_inv t g" and "t \<le> now" shows "guard_inv now (guard_prune now g)"
proof -
  let ?g = "guard_prune now g"
  let ?P = "\<lambda>(k :: attempt_key, start, n :: nat). now - start < WINDOW"
  have at: "attempts ?g = filter ?P (attempts g)" by (simp add: guard_prune_def)
  have d: "distinct (map fst (attempts g))" using inv by (simp add: guard_inv_def)
  have alive: "start \<le> t \<and> t - start < WINDOW" if "(k, start, n) \<in> set (attempts g)" for k start n
    using inv that by (auto simp: guard_inv_def)
  have le: "newer u s ?g \<le> newer u s g" "older u s ?g \<le> older u s g" for u s
    by (auto simp: newer_def older_def at intro!: length_filter_mono)
  have win: "user_window u ?g = (case user_window u g of
      Some (s, c) \<Rightarrow> if now - s < WINDOW then Some (s, c) else None | None \<Rightarrow> None)" for u
    unfolding user_window_def at map_of_filter_alive [OF d] by (auto split: option.split)
  have "case user_window u ?g of
        None \<Rightarrow> newer u now ?g = 0 \<and> older u now ?g \<le> PER_USER_LIMIT
      | Some (s, c) \<Rightarrow> newer u s ?g \<le> min c PER_USER_LIMIT \<and> older u s ?g \<le> PER_USER_LIMIT" for u
  proof (cases "user_window u g")
    case None
    then have n: "newer u t g = 0" "older u t g \<le> PER_USER_LIMIT"
      using inv unfolding guard_inv_def by (auto dest!: spec [of _ u])
    have "newer u now ?g \<le> newer u t g" unfolding newer_def at filter_filter
      using alive assms(2) by (intro length_filter_mono) fastforce
    moreover have "older u now ?g \<le> older u t g + newer u t g" unfolding older_def newer_def at filter_filter
      by (rule length_filter_disj) auto
    ultimately show ?thesis using n None win [of u] by simp
  next
    case (Some e)
    obtain s c where e: "e = (s, c)" by fastforce
    then have n: "newer u s g \<le> min c PER_USER_LIMIT" "older u s g \<le> PER_USER_LIMIT"
      using inv Some unfolding guard_inv_def by (auto dest!: spec [of _ u])
    show ?thesis
    proof (cases "now - s < WINDOW")
      case True
      then show ?thesis using n le [of u s] win [of u] Some e by simp
    next
      case False
      have ts: "t - s < WINDOW" "s \<le> t"
        using Some e alive map_of_SomeD unfolding user_window_def by fastforce+
      have "newer u now ?g = 0" unfolding newer_def at filter_filter length_0_conv filter_empty_conv
        using alive ts False assms(2) by fastforce
      moreover have "older u now ?g \<le> newer u s g" unfolding older_def newer_def at filter_filter
        using False by (intro length_filter_mono) fastforce
      ultimately show ?thesis using n False win [of u] Some e by simp
    qed
  qed
  then show ?thesis using d assms(2) alive unfolding guard_inv_def at
    by (fastforce simp: distinct_map_filter)
qed

lemma length_filter_skip:
  assumes "\<And>v. \<not> P (k, v)"
  shows "length (filter P ((k, v') # filter (\<lambda>(k', _). k' \<noteq> k) xs)) = length (filter P xs)"
  using assms by (induction xs) auto

lemma guard_count_attempts:
  "attempts (snd (guard_count k now g)) =
     (k, (fst (case map_of (attempts g) k of Some e \<Rightarrow> e | None \<Rightarrow> (now, 0)), fst (guard_count k now g))) #
     filter (\<lambda>(k', _). k' \<noteq> k) (attempts g)"
  "fst (guard_count k now g) = min (snd (case map_of (attempts g) k of Some e \<Rightarrow> e | None \<Rightarrow> (now, 0)) + 1) (2 ^ 64 - 1)"
  by (simp_all add: guard_count_def Let_def split: option.split prod.split)

definition alive_at :: "nat \<Rightarrow> RevealGuard \<Rightarrow> bool" where
  "alive_at now g \<longleftrightarrow> distinct (map fst (attempts g)) \<and>
     (\<forall>(k, start, n) \<in> set (attempts g). start \<le> now \<and> now - start < WINDOW)"

lemma WINDOW_pos [simp]: "0 < WINDOW"
  by (simp add: WINDOW_def secs_def)

lemma guard_count_alive:
  assumes "alive_at now g" shows "alive_at now (snd (guard_count k now g))"
proof -
  have "start \<le> now \<and> now - start < WINDOW" if "map_of (attempts g) k = Some (start, n)" for start n
    using assms map_of_SomeD [OF that] by (auto simp: alive_at_def)
  then show ?thesis using assms
    by (auto simp: alive_at_def guard_count_attempts distinct_map_filter split: option.split)
qed

lemma guard_count_user:
  "user_window v (snd (guard_count (u, x) now g)) =
     (if v = u \<and> x = None then Some (case user_window u g of Some (s, c) \<Rightarrow> (s, min (c + 1) (2 ^ 64 - 1))
                                                | None \<Rightarrow> (now, 1))
      else user_window v g)"
  by (simp add: user_window_def guard_count_attempts(1) map_of_upd guard_count_attempts(2) del: map_of.simps
      split: option.split prod.split)

lemma guard_count_none [simp]:
  "newer v s (snd (guard_count (u, None) now g)) = newer v s g"
  "older v s (snd (guard_count (u, None) now g)) = older v s g"
  by (simp_all add: newer_def older_def guard_count_attempts(1) length_filter_skip del: filter.simps)

lemma guard_count_some:
  assumes "distinct (map fst (attempts g))"
  shows "newer v s (snd (guard_count (u, Some a) now g)) \<le> newer v s g + (if v = u then 1 else 0)"
    and "s \<le> now \<or> v \<noteq> u \<Longrightarrow> older v s (snd (guard_count (u, Some a) now g)) = older v s g"
proof -
  let ?P = "\<lambda>((v', a), start, _). v' = v \<and> a \<noteq> None \<and> s \<le> start"
  let ?Q = "\<lambda>((v', a), start, _). v' = v \<and> a \<noteq> None \<and> start < s"
  let ?k = "(u, Some a)"
  show "newer v s (snd (guard_count ?k now g)) \<le> newer v s g + (if v = u then 1 else 0)"
    unfolding newer_def guard_count_attempts(1)
    by (auto intro!: length_filter_mono le_SucI)
  show "older v s (snd (guard_count ?k now g)) = older v s g" if "s \<le> now \<or> v \<noteq> u"
  proof (cases "map_of (attempts g) ?k")
    case None
    then show ?thesis using that
      by (auto simp: older_def guard_count_attempts(1) filter_other_key)
  next
    case (Some e)
    then show ?thesis unfolding older_def guard_count_attempts(1)
      by (cases e) (simp add: length_filter_upd [OF assms, of ?k] del: filter.simps)
  qed
qed

lemma guard_inv_alive: "guard_inv now g \<Longrightarrow> alive_at now g"
  by (simp add: guard_inv_def alive_at_def)

definition user_ok :: "nat \<Rightarrow> string \<Rightarrow> RevealGuard \<Rightarrow> bool" where
  "user_ok now u g \<longleftrightarrow>
     (case user_window u g of
        None \<Rightarrow> newer u now g = 0 \<and> older u now g \<le> PER_USER_LIMIT
      | Some (s, c) \<Rightarrow> newer u s g \<le> min c PER_USER_LIMIT \<and> older u s g \<le> PER_USER_LIMIT)"

lemma guard_inv_iff: "guard_inv now g \<longleftrightarrow> alive_at now g \<and> (\<forall>u. user_ok now u g)"
  by (simp add: guard_inv_def alive_at_def user_ok_def)

lemma guard_inv_allow:
  assumes inv: "guard_inv now g"
  shows "guard_inv now
    (let (n, g2) = guard_count (u, None) now g
     in if n > PER_USER_LIMIT then g2 else snd (guard_count (u, Some a) now g2))"
proof -
  let ?g2 = "snd (guard_count (u, None) now g)"
  let ?g3 = "snd (guard_count (u, Some a) now ?g2)"
  obtain s c where sc: "(s, c) = (case user_window u g of Some e \<Rightarrow> e | None \<Rightarrow> (now, 0))"
    by (metis surj_pair)
  let ?c = "min (c + 1) (2 ^ 64 - 1) :: nat"
  have n: "fst (guard_count (u, None) now g) = ?c"
    using sc by (auto simp: guard_count_attempts(2) user_window_def split: option.splits)
  have w2: "user_window u ?g2 = Some (s, ?c)"
    using sc by (auto simp: guard_count_user split: option.splits)
  have base: "newer u s g \<le> min c PER_USER_LIMIT" "older u s g \<le> PER_USER_LIMIT"
    using inv sc unfolding guard_inv_def by (auto dest!: spec [of _ u] split: option.splits)
  note alive2 = guard_count_alive [OF guard_inv_alive [OF inv], of "(u, None)"]
  note alive3 = guard_count_alive [OF alive2, of "(u, Some a)"]
  have s: "s \<le> now"
    using sc inv map_of_SomeD unfolding user_window_def guard_inv_def by (fastforce split: option.splits)
  have others: "user_ok now v ?g2" "user_ok now v ?g3" if v: "v \<noteq> u" for v
  proof -
    have ok: "user_ok now v g" using inv by (simp add: guard_inv_iff)
    have w: "user_window v ?g2 = user_window v g" "user_window v ?g3 = user_window v g"
      using v by (simp_all add: guard_count_user)
    have le: "newer v s ?g3 \<le> newer v s g" "older v s ?g3 = older v s g" for s
      using v alive2 guard_count_some [where g = ?g2 and v = v and u = u and a = a and now = now and s = s]
      by (auto simp: alive_at_def)
    show "user_ok now v ?g2" using ok by (auto simp: user_ok_def w split: option.splits)
    show "user_ok now v ?g3"
      using ok le(1) [of now] le(1) [of "fst (the (user_window v g))"]
      by (auto simp: user_ok_def w le(2) split: option.splits)
  qed
  show ?thesis
  proof (cases "?c > PER_USER_LIMIT")
    case True
    then have "user_ok now u ?g2" using w2 base by (simp add: user_ok_def)
    then have "guard_inv now ?g2" using alive2 others(1) unfolding guard_inv_iff by metis
    then show ?thesis using True n by (simp add: split_def Let_def)
  next
    case False
    then have c: "?c = c + 1" by (simp add: PER_USER_LIMIT_def)
    have "user_window u ?g3 = Some (s, c + 1)" using w2 c by (simp add: guard_count_user)
    moreover have "newer u s ?g3 \<le> newer u s g + 1" "older u s ?g3 = older u s g"
      using guard_count_some [where g = ?g2 and v = u and u = u and a = a and now = now and s = s] alive2 s by (auto simp: alive_at_def)
    ultimately have "user_ok now u ?g3" using base False c by (simp add: user_ok_def)
    then have "guard_inv now ?g3" using alive3 others(2) unfolding guard_inv_iff by metis
    then show ?thesis using False n by (simp add: split_def Let_def)
  qed
qed

lemma guard_inv_mono_otp:
  "guard_inv now g \<Longrightarrow> attempts g' = attempts g \<Longrightarrow> guard_inv now g'"
proof -
  assume "guard_inv now g" and a: "attempts g' = attempts g"
  moreover have "user_window u g' = user_window u g" "newer u s g' = newer u s g" "older u s g' = older u s g"
    for u s by (simp_all add: user_window_def newer_def older_def a)
  then have "user_ok now u g' = user_ok now u g" for u
    by (simp add: user_ok_def split: option.split)
  ultimately show ?thesis by (simp add: guard_inv_iff alive_at_def)
qed

lemma guard_step_inv:
  assumes "guard_inv t g" "t \<le> now" shows "guard_inv now (guard_step g (op, now))"
proof (cases op)
  case (Attempt u a)
  have "guard_step g (op, now) =
      (let (n, g2) = guard_count (u, None) now (guard_prune now g)
       in if n > PER_USER_LIMIT then g2 else snd (guard_count (u, Some a) now g2))"
    by (simp add: Attempt guard_allow_def Let_def split_def)
  then show ?thesis using guard_inv_allow [OF guard_inv_prune [OF assms], of u a] by simp
next
  case (OtpCheck u)
  then show ?thesis using guard_inv_prune [OF assms] by (simp add: otp_available_def Let_def)
next
  case (OtpConsume u)
  then show ?thesis using guard_inv_mono_otp [OF guard_inv_prune [OF assms]]
    by (simp add: try_consume_otp_def Let_def)
qed

lemma guard_run_inv:
  "sorted (t # map snd ops) \<Longrightarrow> guard_inv t g \<Longrightarrow>
   guard_inv (last (t # map snd ops)) (foldl guard_step g ops)"
proof (induction ops arbitrary: t g)
  case (Cons x ops)
  obtain op now where x: "x = (op, now)" by fastforce
  have "guard_inv now (guard_step g (op, now))" using Cons.prems x by (intro guard_step_inv) auto
  then have "guard_inv (last (now # map snd ops)) (foldl guard_step (guard_step g (op, now)) ops)"
    using Cons.prems(1) x by (intro Cons.IH) auto
  then show ?case using x by simp
qed simp

lemma guard_inv_default: "guard_inv t reveal_guard_default"
  by (simp add: guard_inv_def reveal_guard_default_def user_window_def newer_def older_def)

text \<open>
  C32. Whatever calls of \<^const>\<open>guard_allow\<close> and of the checks for repeated codes are made in
  the order of time, the table of attempts holds at most 2 * PER_USER_LIMIT + 1 entries of a
  user: a client cannot fill it by naming many accounts.
\<close>
theorem guard_table_bounded:
  assumes "sorted (map snd ops)"
  shows "user_entries u (guard_run ops) \<le> 2 * PER_USER_LIMIT + 1"
proof -
  have "sorted (0 # map snd ops)" using assms by simp
  from guard_inv_bound [OF guard_run_inv [OF this guard_inv_default]] show ?thesis
    by (simp add: guard_run_def)
qed

definition boundary_run :: "(guard_op \<times> nat) list" where
  "boundary_run = (Attempt ''m'' 0, 0) # map (\<lambda>i. (Attempt ''m'' (int i), secs 59)) [1..<10] @
     map (\<lambda>i. (Attempt ''m'' (int i), secs 60)) [10..<20]"

text \<open>The bound of PER_USER_LIMIT + 1 entries that the comment on the type names is exceeded by
  attempts on both sides of the end of a window.\<close>

lemma guard_table_exceeds_documented:
  "sorted (map snd boundary_run) \<and> user_entries ''m'' (guard_run boundary_run) = 2 * PER_USER_LIMIT"
  by code_simp

theorem guard_table_bounded_witness:
  "sorted (map snd boundary_run) \<and> user_entries ''m'' (guard_run boundary_run) \<le> 21"
  using guard_table_bounded [of boundary_run "''m''"] guard_table_exceeds_documented
  by (simp add: PER_USER_LIMIT_def)

section \<open>What a confirmation required\<close>

lemma verify_step_up_ok:
  assumes "verify_step_up cr clk uname acct body w = (Inr (Inr s), w')"
  shows "(\<exists>cred. confirmation_credential body = Some cred \<and>
      fst (validate_credential cr (at_totp clk) (sw_consumed w) (sw_db w) uname cred) = Inr True) \<and>
    fst (guard_allow uname acct (at_guard clk) (sw_guard w)) \<and>
    su_username s = uname \<and> su_factor s = (if rc_otp body \<noteq> None then ''otp'' else ''password'') \<and>
    (rc_otp body \<noteq> None \<longrightarrow> \<not> otp_recently_confirmed uname (at_recent clk) (sw_audit w))"
  using assms unfolding verify_step_up_def Let_def
  by (auto split: option.splits prod.splits if_splits sum.splits bool.splits)

lemma verify_step_up_frame:
  assumes "verify_step_up cr clk uname acct body w = (r, w')"
  shows "sw_db w' = sw_db w \<and> sw_audit w' = sw_audit w \<and> sw_session w' = sw_session w"
  using assms unfolding verify_step_up_def Let_def
  by (auto split: option.splits prod.splits if_splits sum.splits bool.splits)

lemma confirm_step_up_ok:
  assumes "confirm_step_up cr clk uname acct confirmation w = (Inr (Inr s), w')"
  shows "su_username s = uname \<and>
    ((\<exists>body. supplied confirmation = Some body \<and>
        (\<exists>w1. verify_step_up cr clk uname acct body w = (Inr (Inr s), w1))) \<or>
     supplied confirmation = None \<and> su_factor s = ''grace'' \<and>
       active_until (sw_session w) uname (at_confirm clk) \<noteq> None)"
    and "sw_session w' = grace_extend uname (at_confirm clk) (sw_session w)"
    and "sw_db w' = sw_db w" "sw_audit w' = sw_audit w"
  using assms verify_step_up_ok verify_step_up_frame unfolding confirm_step_up_def Let_def
  by (auto split: option.splits prod.splits if_splits sum.splits)

lemma confirm_step_up_fail:
  assumes "confirm_step_up cr clk uname acct confirmation w = (r, w')" "\<nexists>s. r = Inr (Inr s)"
  shows "sw_session w' = sw_session w"
  using assms verify_step_up_frame unfolding confirm_step_up_def Let_def
  by (auto split: option.splits prod.splits if_splits sum.splits)

text \<open>
  C22. The stored credentials of an account are returned only to a signed-in user that either
  confirmed the request with a password or one-time code that is valid for that user and was
  within the limits of attempts, or made it with a browser session with an open confirmation
  window of that user; each release leaves exactly one audit row with the user and account.
\<close>
theorem reveal_requires_confirmation:
  assumes "api_reveal_account cr clk auth i body w = (Inr (RevealOk c), w')"
  shows "\<exists>uname db a row. request_username auth = Some uname \<and> sw_db w = Some db \<and>
    account_by_id db i = Some a \<and> acc_credentials a = Some c \<and>
    ((\<exists>cred. confirmation_credential body = Some cred \<and>
        fst (validate_credential cr (at_totp clk) (sw_consumed w) (sw_db w) uname cred) = Inr True \<and>
        fst (guard_allow uname i (at_guard clk) (sw_guard w))) \<or>
     (\<exists>s. auth = SessionAuth s) \<and> rc_password body = None \<and> rc_otp body = None \<and>
        active_until (sw_session w) uname (at_confirm clk) \<noteq> None) \<and>
    sw_audit w' = sw_audit w @ [row] \<and> ar_username row = Some uname \<and> ar_account_id row = i"
proof -
  obtain uname db where u: "request_username auth = Some uname" "sw_db w = Some db"
    using assms by (auto simp: api_reveal_account_def split: option.splits)
  obtain r w1 where rw: "(case auth of SessionAuth _ \<Rightarrow> confirm_step_up cr clk uname i (Some body) w
      | _ \<Rightarrow> verify_step_up cr clk uname i body w) = (r, w1)" by fastforce
  have run: "api_reveal_account cr clk auth i body w =
     (case r of
        Inl e \<Rightarrow> (Inl e, w1)
      | Inr (Inl StepBadRequest) \<Rightarrow> (Inr (RevealBadRequest ''confirmation is required''), w1)
      | Inr (Inl StepUnauthorized) \<Rightarrow> (Inr (RevealUnauthorized ''wrong password or OTP code''), w1)
      | Inr (Inl StepRateLimited) \<Rightarrow> (Inr RevealRateLimited, w1)
      | Inr (Inr s) \<Rightarrow>
          (case account_by_id db i of
             None \<Rightarrow> (Inr RevealNotFound, w1)
           | Some a \<Rightarrow>
               (case stored_credentials a of
                  Inl m \<Rightarrow> (Inr (RevealUnprocessable m), w1)
                | Inr c \<Rightarrow> (Inr (RevealOk c),
                    insert_account_audit_log (at_audit clk) a s ''account.credentials.reveal'' w1))))"
    unfolding api_reveal_account_def u option.case rw Let_def prod.case by (rule refl)
  from assms obtain s a where s: "r = Inr (Inr s)" and a: "account_by_id db i = Some a"
      "stored_credentials a = Inr c" "w' = insert_account_audit_log (at_audit clk) a s ''account.credentials.reveal'' w1"
    unfolding run by (auto split: sum.splits StepUpFailure.splits option.splits)
  have frame: "sw_audit w1 = sw_audit w" "su_username s = uname"
    using rw s confirm_step_up_ok verify_step_up_ok verify_step_up_frame
    by (auto split: RequestAuthorization.splits)
  have "(\<exists>cred. confirmation_credential body = Some cred \<and>
        fst (validate_credential cr (at_totp clk) (sw_consumed w) (sw_db w) uname cred) = Inr True \<and>
        fst (guard_allow uname i (at_guard clk) (sw_guard w))) \<or>
     (\<exists>s. auth = SessionAuth s) \<and> rc_password body = None \<and> rc_otp body = None \<and>
        active_until (sw_session w) uname (at_confirm clk) \<noteq> None"
  proof (cases "\<exists>w2. verify_step_up cr clk uname i body w = (Inr (Inr s), w2)")
    case True
    then show ?thesis using verify_step_up_ok by fastforce
  next
    case False
    then obtain sa where sa: "auth = SessionAuth sa" "confirm_step_up cr clk uname i (Some body) w = (Inr (Inr s), w1)"
      using rw s by (auto split: RequestAuthorization.splits)
    with confirm_step_up_ok(1) [OF sa(2)] False show ?thesis
      by (auto simp: supplied_def split: if_splits)
  qed
  moreover have "acc_credentials a = Some c" "acc_id a = i"
    using a(1,2) by (auto simp: stored_credentials_def res_simps account_by_id_def dest: find_Some_in split: if_splits)
  ultimately show ?thesis using u a(1,3) frame
    by (auto simp: insert_account_audit_log_def)
qed

section \<open>The confirmation window over a series of requests\<close>

type_synonym confirm_call = "clock \<times> string \<times> int \<times> RevealConfirmation option"
type_synonym confirm_log = "(string \<times> nat \<times> (GatedError + (StepUpFailure + StepUp))) list"

fun confirm_run :: "crypto \<Rightarrow> confirm_call list \<Rightarrow> step_world \<Rightarrow> confirm_log \<times> step_world" where
  "confirm_run cr [] w = ([], w)"
| "confirm_run cr ((clk, uname, acct, c) # calls) w =
     (let (r, w1) = confirm_step_up cr clk uname acct c w; (log, w2) = confirm_run cr calls w1
      in ((uname, at_confirm clk, r) # log, w2))"

definition grace_grounded :: "confirm_log \<Rightarrow> Session \<Rightarrow> bool" where
  "grace_grounded log s \<longleftrightarrow>
     (case session_grace s of
        None \<Rightarrow> True
      | Some gr \<Rightarrow>
          (\<exists>t su. (grace_username gr, t, Inr (Inr su)) \<in> set log \<and> su_factor su \<in> {''password'', ''otp''}) \<and>
          (\<exists>t su. (grace_username gr, t, Inr (Inr su)) \<in> set log \<and> grace_until gr = t + GRACE))"

lemma confirm_grounded:
  assumes g: "grace_grounded log (sw_session w)"
    and run: "confirm_step_up cr clk uname acct c w = (r, w')"
  shows "grace_grounded (log @ [(uname, at_confirm clk, r)]) (sw_session w')"
proof (cases "\<exists>s. r = Inr (Inr s)")
  case False
  then show ?thesis using g confirm_step_up_fail [OF run False]
    by (auto simp: grace_grounded_def split: option.splits)
next
  case True
  then obtain s where s: "r = Inr (Inr s)" by blast
  note ok = confirm_step_up_ok [OF run [unfolded s]]
  have "\<exists>t su. (uname, t, Inr (Inr su)) \<in> set (log @ [(uname, at_confirm clk, r)]) \<and>
      su_factor su \<in> {''password'', ''otp''}"
  proof (cases "su_factor s = ''grace''")
    case True
    then have "active_until (sw_session w) uname (at_confirm clk) \<noteq> None"
      using ok(1) verify_step_up_ok by (fastforce split: if_splits)
    then show ?thesis using g
      by (auto simp: active_until_def grace_grounded_def split: option.splits if_splits)
  next
    case False
    then obtain body w1 where "verify_step_up cr clk uname acct body w = (Inr (Inr s), w1)"
      using ok(1) by blast
    from verify_step_up_ok [OF this] have "su_factor s \<in> {''password'', ''otp''}" by simp
    then show ?thesis using s by auto
  qed
  then show ?thesis using g ok(2) s
    by (auto simp: grace_grounded_def grace_extend_def split: option.splits)
qed

lemma confirm_run_grounded:
  "grace_grounded log (sw_session w) \<Longrightarrow> confirm_run cr calls w = (log', w') \<Longrightarrow>
   grace_grounded (log @ log') (sw_session w')"
proof (induction cr calls w arbitrary: log log' w' rule: confirm_run.induct)
  case (1 cr w)
  then show ?case by simp
next
  case (2 cr clk uname acct c calls w)
  obtain r w1 where r: "confirm_step_up cr clk uname acct c w = (r, w1)" by fastforce
  obtain log2 w2 where l: "confirm_run cr calls w1 = (log2, w2)" by fastforce
  from confirm_grounded [OF "2.prems"(1) r] l have "grace_grounded ((log @ [(uname, at_confirm clk, r)]) @ log2) (sw_session w2)"
    using "2.IH" r by fastforce
  then show ?case using "2.prems"(2) r l by simp
qed

text \<open>
  C30. Starting from a session without a confirmation window, over any series of confirmations an
  open window of a user was opened by a password or one-time code of that same user, and the
  user's last accepted confirmation is less than GRACE old: failed attempts and confirmations of
  other users never open or extend it.
\<close>
theorem step_up_window_grounded:
  assumes "session_grace (sw_session w) = None" "confirm_run cr calls w = (log, w')"
    and "active_until (sw_session w') uname now \<noteq> None"
  shows "(\<exists>t su. (uname, t, Inr (Inr su)) \<in> set log \<and> su_factor su \<in> {''password'', ''otp''}) \<and>
         (\<exists>t su. (uname, t, Inr (Inr su)) \<in> set log \<and> now < t + GRACE)"
proof -
  have "grace_grounded ([] @ log) (sw_session w')"
    by (rule confirm_run_grounded [OF _ assms(2)]) (simp add: grace_grounded_def assms(1))
  then show ?thesis using assms(3)
    by (auto simp: grace_grounded_def active_until_def split: option.splits if_splits)
qed

section \<open>Instances\<close>

definition reveal_db :: Db where
  "reveal_db = sample_db\<lparr>accounts := [\<lparr>acc_id = 1, acc_kind = ''ssh-password'', acc_name = ''root'',
     acc_credentials = Some (SshPassword \<lparr>sp_username = ''root'', sp_password = ''pw''\<rparr>), acc_last_used = None\<rparr>]\<rparr>"

definition reveal_world :: step_world where
  "reveal_world = \<lparr>sw_db = Some reveal_db, sw_consumed = Map.empty, sw_guard = reveal_guard_default,
     sw_audit = [], sw_session = \<lparr>session_purged = False, session_grace = None\<rparr>\<rparr>"

definition noon :: clock where
  "noon = \<lparr>at_confirm = 5, at_guard = 5, at_totp = 0, at_recent = 5, at_consume = 5, at_audit = 5\<rparr>"

definition password_body :: RevealConfirmation where
  "password_body = \<lparr>rc_reason = None, rc_password = Some ''pw'', rc_otp = None\<rparr>"

lemma reveal_validates:
  "validate_credential sample_crypto 0 Map.empty (Some reveal_db) ''ann'' (Password ''pw'') = (Inr True, Map.empty)"
  by (simp add: validate_credential_def db_required_def load_details_def user_try_from_def
      sample_defs user_by_name_def verify_password_hash_def reveal_db_def)

lemma reveal_allowed:
  "guard_allow ''ann'' a 5 reveal_guard_default =
   (True, \<lparr>attempts = [((''ann'', Some a), 5, 1), ((''ann'', None), 5, 1)], used_otp = []\<rparr>)"
  by (simp add: guard_allow_def guard_prune_def guard_count_def reveal_guard_default_def
      PER_USER_LIMIT_def PER_ACCOUNT_LIMIT_def)

lemma reveal_confirms:
  "\<exists>w. confirm_step_up sample_crypto noon ''ann'' a (Some password_body) reveal_world =
     (Inr (Inr \<lparr>su_username = ''ann'', su_reason = confirmation_reason (Some password_body), su_factor = ''password''\<rparr>), w) \<and>
     sw_session w = \<lparr>session_purged = False, session_grace = Some \<lparr>grace_username = ''ann'', grace_until = 5 + GRACE\<rparr>\<rparr>"
  by (simp add: confirm_step_up_def supplied_def password_body_def verify_step_up_def
      confirmation_credential_def reveal_world_def noon_def reveal_allowed reveal_validates grace_extend_def)

theorem reveal_requires_confirmation_witness:
  "fst (api_reveal_account sample_crypto noon (SessionAuth (SessionUser ''ann'')) 1 password_body reveal_world) =
     Inr (RevealOk (SshPassword \<lparr>sp_username = ''root'', sp_password = ''pw''\<rparr>)) \<and>
   (\<exists>row. sw_audit (snd (api_reveal_account sample_crypto noon (SessionAuth (SessionUser ''ann'')) 1
       password_body reveal_world)) = [row] \<and> ar_username row = Some ''ann'')"
proof -
  let ?run = "api_reveal_account sample_crypto noon (SessionAuth (SessionUser ''ann'')) 1 password_body reveal_world"
  have db: "sw_db reveal_world = Some reveal_db" "sw_audit reveal_world = []" by (simp_all add: reveal_world_def)
  have ok: "fst ?run = Inr (RevealOk (SshPassword \<lparr>sp_username = ''root'', sp_password = ''pw''\<rparr>))"
    using reveal_confirms [of 1]
    by (auto simp: api_reveal_account_def db account_by_id_def reveal_db_def stored_credentials_def)
  then have "?run = (Inr (RevealOk (SshPassword \<lparr>sp_username = ''root'', sp_password = ''pw''\<rparr>)), snd ?run)"
    by (metis prod.collapse)
  from reveal_requires_confirmation [OF this] ok show ?thesis by (auto simp: db)
qed

theorem step_up_window_grounded_witness:
  "\<exists>log w. confirm_run sample_crypto [(noon, ''ann'', 1, Some password_body)] reveal_world = (log, w) \<and>
     (\<exists>t su. (''ann'', t, Inr (Inr su)) \<in> set log \<and> 100 < t + GRACE)"
proof -
  obtain log w where run: "confirm_run sample_crypto [(noon, ''ann'', 1, Some password_body)] reveal_world = (log, w)"
    by fastforce
  then have "active_until (sw_session w) ''ann'' 100 \<noteq> None"
    using reveal_confirms [of 1] by (auto simp: active_until_def GRACE_def secs_def)
  moreover have "session_grace (sw_session reveal_world) = None" by (simp add: reveal_world_def)
  ultimately show ?thesis using step_up_window_grounded [OF _ run, of "''ann''" 100] run by blast
qed

end
