(* ===== verification/Mysql_Wire.thy ===== *)
theory Mysql_Wire
  imports Rust_Std
begin

text \<open>
  The wire format of the MySQL connection phase (gated-database-protocols): readers and writers
  of integers and strings (\<open>io/buf.rs\<close>, \<open>io/buf_mut.rs\<close>, \<open>mysql/io/buf.rs\<close>, \<open>mysql/io/buf_mut.rs\<close>),
  the flag sets and the packets of \<open>mysql/protocol\<close>. A reader takes the buffer and returns the value
  with the rest of it, or the error; the texts of the errors are left out. \<open>usize\<close> has 64 bits.
\<close>

unbundle bit_operations_syntax

section \<open>Errors (error.rs)\<close>

datatype SqlxError =
    SqlxConfiguration
  | SqlxDatabase
  | SqlxIo
  | SqlxTls
  | Protocol
  | RowNotFound
  | TypeNotFound
  | ColumnIndexOutOfBounds
  | ColumnNotFound
  | ColumnDecode
  | SqlxDecode
  | PoolTimedOut
  | PoolClosed
  | WorkerCrashed

type_synonym 'a reader = "bytes \<Rightarrow> SqlxError + 'a \<times> bytes"

text \<open>The rest of a decoder after one of its reads.\<close>

definition rd :: "'a reader \<Rightarrow> ('a \<Rightarrow> 'b reader) \<Rightarrow> 'b reader" where
  "rd p f buf = rbind (p buf) (\<lambda>(x, rest). f x rest)"

definition ret :: "'a \<Rightarrow> 'a reader" where
  "ret x buf = Inr (x, buf)"

definition err_protocol :: "'a reader" where
  "err_protocol buf = Inl Protocol"

section \<open>Reading and writing (io/buf.rs, io/buf\_mut.rs)\<close>

text \<open>\<open>Buf::try_get_uint_le\<close> and the fixed-width reads of the \<open>bytes\<close> crate: too few bytes are an
  error, which \<open>From<TryGetError>\<close> turns into a protocol error.\<close>

definition try_get_le :: "nat \<Rightarrow> nat reader" where
  "try_get_le k buf =
     (if length buf < k then Inl Protocol else Inr (le_val (take k buf), drop k buf))"

definition try_get_u8 :: "u8 reader" where
  "try_get_u8 = rd (try_get_le 1) (\<lambda>n. ret (word_of_nat n))"

definition try_get_u16_le :: "u16 reader" where
  "try_get_u16_le = rd (try_get_le 2) (\<lambda>n. ret (word_of_nat n))"

definition try_get_u32_le :: "u32 reader" where
  "try_get_u32_le = rd (try_get_le 4) (\<lambda>n. ret (word_of_nat n))"

definition put_u16_le :: "u16 \<Rightarrow> bytes" where
  "put_u16_le v = le_bytes 2 (unat v)"

definition put_u32_le :: "u32 \<Rightarrow> bytes" where
  "put_u32_le v = le_bytes 4 (unat v)"

definition get_bytes_nul :: "bytes reader" where
  "get_bytes_nul buf =
     (if 0 \<in> set buf
      then Inr (takeWhile (\<lambda>b. b \<noteq> 0) buf, tl (dropWhile (\<lambda>b. b \<noteq> 0) buf))
      else Inl Protocol)"

definition get_bytes :: "nat \<Rightarrow> bytes reader" where
  "get_bytes len buf =
     (if len > length buf then Inl Protocol else Inr (take len buf, drop len buf))"

definition from_utf8 :: "bytes \<Rightarrow> SqlxError + string" where
  "from_utf8 bs = (if valid_utf8 bs then Inr (str_of_bytes bs) else Inl Protocol)"

definition get_str_nul :: "string reader" where
  "get_str_nul buf =
     rbind (get_bytes_nul buf) (\<lambda>(bs, rest). rbind (from_utf8 bs) (\<lambda>s. Inr (s, rest)))"

definition get_str :: "nat \<Rightarrow> string reader" where
  "get_str len buf =
     (if len > length buf then Inl Protocol
      else rbind (from_utf8 (take len buf)) (\<lambda>s. Inr (s, drop len buf)))"

definition skip :: "nat \<Rightarrow> unit reader" where
  "skip len buf = (if len > length buf then Inl Protocol else Inr ((), drop len buf))"

definition put_str_nul :: "string \<Rightarrow> bytes" where
  "put_str_nul s = as_bytes s @ [0]"

section \<open>Length-encoded values (mysql/io/buf.rs, mysql/io/buf\_mut.rs)\<close>

definition get_uint_lenenc :: "u64 reader" where
  "get_uint_lenenc =
     rd try_get_u8 (\<lambda>v.
       if v = 0xfc then rd (try_get_le 2) (\<lambda>n. ret (word_of_nat n))
       else if v = 0xfd then rd (try_get_le 3) (\<lambda>n. ret (word_of_nat n))
       else if v = 0xfe then rd (try_get_le 8) (\<lambda>n. ret (word_of_nat n))
       else ret (ucast v))"

definition lenenc_len :: "nat reader" where
  "lenenc_len = rd get_uint_lenenc (\<lambda>v. ret (unat v))"

definition get_str_lenenc :: "string reader" where
  "get_str_lenenc = rd lenenc_len get_str"

definition get_bytes_lenenc :: "bytes reader" where
  "get_bytes_lenenc = rd lenenc_len get_bytes"

definition put_uint_lenenc :: "u64 \<Rightarrow> bytes" where
  "put_uint_lenenc v =
     (if v < 251 then [ucast v]
      else if v < 0x10000 then 0xfc # le_bytes 2 (unat v)
      else if v < 0x1000000 then 0xfd # take 3 (le_bytes 4 (unat v))
      else 0xfe # le_bytes 8 (unat v))"

definition put_bytes_lenenc :: "bytes \<Rightarrow> bytes" where
  "put_bytes_lenenc v = put_uint_lenenc (word_of_nat (length v)) @ v"

definition put_str_lenenc :: "string \<Rightarrow> bytes" where
  "put_str_lenenc v = put_bytes_lenenc (as_bytes v)"

section \<open>Flag sets (capabilities.rs, status.rs)\<close>

type_synonym Capabilities = u64

definition MYSQL :: Capabilities where "MYSQL = 1"
definition FOUND_ROWS :: Capabilities where "FOUND_ROWS = 2"
definition LONG_FLAG :: Capabilities where "LONG_FLAG = 4"
definition CONNECT_WITH_DB :: Capabilities where "CONNECT_WITH_DB = 8"
definition NO_SCHEMA :: Capabilities where "NO_SCHEMA = 16"
definition COMPRESS :: Capabilities where "COMPRESS = 32"
definition ODBC :: Capabilities where "ODBC = 64"
definition LOCAL_FILES :: Capabilities where "LOCAL_FILES = 128"
definition IGNORE_SPACE :: Capabilities where "IGNORE_SPACE = 256"
definition PROTOCOL_41 :: Capabilities where "PROTOCOL_41 = 512"
definition INTERACTIVE :: Capabilities where "INTERACTIVE = 1024"
definition SSL :: Capabilities where "SSL = 2048"
definition TRANSACTIONS :: Capabilities where "TRANSACTIONS = 8192"
definition SECURE_CONNECTION :: Capabilities where "SECURE_CONNECTION = push_bit 15 1"
definition MULTI_STATEMENTS :: Capabilities where "MULTI_STATEMENTS = push_bit 16 1"
definition MULTI_RESULTS :: Capabilities where "MULTI_RESULTS = push_bit 17 1"
definition PS_MULTI_RESULTS :: Capabilities where "PS_MULTI_RESULTS = push_bit 18 1"
definition PLUGIN_AUTH :: Capabilities where "PLUGIN_AUTH = push_bit 19 1"
definition CONNECT_ATTRS :: Capabilities where "CONNECT_ATTRS = push_bit 20 1"
definition PLUGIN_AUTH_LENENC_DATA :: Capabilities where "PLUGIN_AUTH_LENENC_DATA = push_bit 21 1"
definition CAN_HANDLE_EXPIRED_PASSWORDS :: Capabilities where
  "CAN_HANDLE_EXPIRED_PASSWORDS = push_bit 22 1"
definition SESSION_TRACK :: Capabilities where "SESSION_TRACK = push_bit 23 1"
definition DEPRECATE_EOF :: Capabilities where "DEPRECATE_EOF = push_bit 24 1"
definition ZSTD_COMPRESSION_ALGORITHM :: Capabilities where
  "ZSTD_COMPRESSION_ALGORITHM = push_bit 26 1"
definition SSL_VERIFY_SERVER_CERT :: Capabilities where "SSL_VERIFY_SERVER_CERT = push_bit 30 1"
definition OPTIONAL_RESULTSET_METADATA :: Capabilities where
  "OPTIONAL_RESULTSET_METADATA = push_bit 25 1"
definition REMEMBER_OPTIONS :: Capabilities where "REMEMBER_OPTIONS = push_bit 31 1"

definition capabilities_all :: Capabilities where
  "capabilities_all = foldr (OR)
     [MYSQL, FOUND_ROWS, LONG_FLAG, CONNECT_WITH_DB, NO_SCHEMA, COMPRESS, ODBC, LOCAL_FILES,
      IGNORE_SPACE, PROTOCOL_41, INTERACTIVE, SSL, TRANSACTIONS, SECURE_CONNECTION,
      MULTI_STATEMENTS, MULTI_RESULTS, PS_MULTI_RESULTS, PLUGIN_AUTH, CONNECT_ATTRS,
      PLUGIN_AUTH_LENENC_DATA, CAN_HANDLE_EXPIRED_PASSWORDS, SESSION_TRACK, DEPRECATE_EOF,
      ZSTD_COMPRESSION_ALGORITHM, SSL_VERIFY_SERVER_CERT, OPTIONAL_RESULTSET_METADATA,
      REMEMBER_OPTIONS] 0"

text \<open>\<open>from_bits_truncate\<close> and \<open>contains\<close> of the \<open>bitflags\<close> crate.\<close>

definition capabilities_truncate :: "u64 \<Rightarrow> Capabilities" where
  "capabilities_truncate bits = bits AND capabilities_all"

definition caps_contains :: "Capabilities \<Rightarrow> Capabilities \<Rightarrow> bool" where
  "caps_contains c f \<longleftrightarrow> c AND f = f"

type_synonym Status = u16

text \<open>All flags of \<open>status.rs\<close>: the bits 0, 1 and 3 to 14.\<close>

definition status_all :: Status where
  "status_all = foldr (OR) [1, 2, 8, 16, 32, 64, 128, push_bit 8 1, push_bit 9 1, push_bit 10 1,
     push_bit 11 1, push_bit 12 1, push_bit 13 1, push_bit 14 1] 0"

definition status_truncate :: "u16 \<Rightarrow> Status" where
  "status_truncate bits = bits AND status_all"

section \<open>Authentication plugins (auth.rs)\<close>

datatype AuthPlugin =
    MySqlClearPassword
  | MySqlNativePassword
  | CachingSha2Password
  | Sha256Password

fun plugin_name :: "AuthPlugin \<Rightarrow> string" where
  "plugin_name MySqlClearPassword = ''mysql_clear_password''"
| "plugin_name MySqlNativePassword = ''mysql_native_password''"
| "plugin_name CachingSha2Password = ''caching_sha2_password''"
| "plugin_name Sha256Password = ''sha256_password''"

definition plugin_from_str :: "string \<Rightarrow> SqlxError + AuthPlugin" where
  "plugin_from_str s =
     (if s = ''mysql_clear_password'' then Inr MySqlClearPassword
      else if s = ''mysql_native_password'' then Inr MySqlNativePassword
      else if s = ''caching_sha2_password'' then Inr CachingSha2Password
      else if s = ''sha256_password'' then Inr Sha256Password
      else Inl Protocol)"

definition get_plugin :: "AuthPlugin reader" where
  "get_plugin = rd get_str_nul (\<lambda>s buf. rbind (plugin_from_str s) (\<lambda>p. Inr (p, buf)))"

section \<open>Greeting of the server (handshake.rs)\<close>

record Handshake =
  hs_protocol_version :: u8
  hs_server_version :: string
  hs_connection_id :: u32
  hs_capabilities :: Capabilities
  hs_collation :: u8
  hs_status :: Status
  hs_auth_plugin :: "AuthPlugin option"
  hs_data_first :: bytes
  hs_data_last :: bytes

definition handshake_data_len :: "u8 \<Rightarrow> nat" where
  "handshake_data_len len = nat (max (int (unat len) - 9) 12)"

definition decode_Handshake :: "bytes \<Rightarrow> SqlxError + Handshake" where
  "decode_Handshake buf =
     rbind
       (rd try_get_u8 (\<lambda>protocol_version.
        rd get_str_nul (\<lambda>server_version.
        rd try_get_u32_le (\<lambda>connection_id.
        rd (get_bytes 8) (\<lambda>auth_plugin_data_1.
        rd (skip 1) (\<lambda>_.
        rd try_get_u16_le (\<lambda>capabilities_1.
        rd try_get_u8 (\<lambda>collation.
        rd try_get_u16_le (\<lambda>status.
        rd try_get_u16_le (\<lambda>capabilities_2.
          let capabilities = capabilities_truncate (ucast capabilities_1) OR
                capabilities_truncate (ucast (push_bit 16 (ucast capabilities_2 :: u32)))
          in
        rd (if caps_contains capabilities PLUGIN_AUTH then try_get_u8
            else rd (skip 1) (\<lambda>_. ret 0)) (\<lambda>auth_plugin_data_len.
        rd (skip 6) (\<lambda>_.
        rd (if caps_contains capabilities MYSQL then rd (skip 4) (\<lambda>_. ret capabilities)
            else rd try_get_u32_le (\<lambda>capabilities_3.
              ret (capabilities OR capabilities_truncate (push_bit 32 (ucast capabilities_3))))) (\<lambda>capabilities.
        rd (if caps_contains capabilities SECURE_CONNECTION
            then rd (get_bytes (handshake_data_len auth_plugin_data_len)) (\<lambda>v. rd (skip 1) (\<lambda>_. ret v))
            else ret []) (\<lambda>auth_plugin_data_2.
        rd (if caps_contains capabilities PLUGIN_AUTH then rd get_plugin (\<lambda>p. ret (Some p))
            else ret None) (\<lambda>auth_plugin.
          ret \<lparr>hs_protocol_version = protocol_version, hs_server_version = server_version,
               hs_connection_id = connection_id, hs_capabilities = capabilities,
               hs_collation = collation, hs_status = status_truncate status,
               hs_auth_plugin = auth_plugin, hs_data_first = auth_plugin_data_1,
               hs_data_last = auth_plugin_data_2\<rparr>)))))))))))))) buf)
       (\<lambda>(h, _). Inr h)"

definition encode_Handshake :: "Handshake \<Rightarrow> bytes" where
  "encode_Handshake h =
     [hs_protocol_version h] @ put_str_nul (hs_server_version h) @ put_u32_le (hs_connection_id h) @
     hs_data_first h @ [0] @
     put_u16_le (ucast (hs_capabilities h AND 0x0000FFFF)) @ [hs_collation h] @
     put_u16_le (hs_status h) @
     put_u16_le (ucast (drop_bit 16 (hs_capabilities h AND 0xFFFF0000))) @
     (if caps_contains (hs_capabilities h) PLUGIN_AUTH
      then [word_of_nat (length (hs_data_last h) + 8 + 1)] else [0]) @
     replicate 10 0 @
     (if caps_contains (hs_capabilities h) SECURE_CONNECTION then hs_data_last h @ [0] else []) @
     (if caps_contains (hs_capabilities h) PLUGIN_AUTH
      then (case hs_auth_plugin h of Some p \<Rightarrow> put_str_nul (plugin_name p) | None \<Rightarrow> [])
      else [])"

section \<open>Answer of the client (ssl\_request.rs, handshake\_response.rs)\<close>

record SslRequest =
  sr_max_packet_size :: u32
  sr_collation :: u8

definition encode_SslRequest :: "Capabilities \<Rightarrow> SslRequest \<Rightarrow> bytes" where
  "encode_SslRequest capabilities r =
     put_u32_le (ucast capabilities) @ put_u32_le (sr_max_packet_size r) @ [sr_collation r] @
     replicate 19 0 @
     (if caps_contains capabilities MYSQL then replicate 4 0
      else put_u32_le (ucast (drop_bit 32 capabilities)))"

record HandshakeResponse =
  hr_database :: "string option"
  hr_max_packet_size :: u32
  hr_collation :: u8
  hr_username :: string
  hr_auth_plugin :: "AuthPlugin option"
  hr_auth_response :: "bytes option"

text \<open>\<open>capabilities.remove(PLUGIN_AUTH)\<close> without a plugin.\<close>

definition response_capabilities :: "HandshakeResponse \<Rightarrow> Capabilities \<Rightarrow> Capabilities" where
  "response_capabilities r capabilities =
     (if hr_auth_plugin r = None then capabilities AND NOT PLUGIN_AUTH else capabilities)"

definition encode_HandshakeResponse :: "Capabilities \<Rightarrow> HandshakeResponse \<Rightarrow> bytes" where
  "encode_HandshakeResponse caps r =
     (let capabilities = response_capabilities r caps
      in encode_SslRequest capabilities
           \<lparr>sr_max_packet_size = hr_max_packet_size r, sr_collation = hr_collation r\<rparr> @
         put_str_nul (hr_username r) @
         (if caps_contains capabilities PLUGIN_AUTH_LENENC_DATA
          then put_bytes_lenenc (case hr_auth_response r of Some v \<Rightarrow> v | None \<Rightarrow> [])
          else if caps_contains capabilities SECURE_CONNECTION
          then (case hr_auth_response r of Some v \<Rightarrow> word_of_nat (length v) # v | None \<Rightarrow> [0])
          else [0]) @
         (if caps_contains capabilities CONNECT_WITH_DB
          then (case hr_database r of Some d \<Rightarrow> put_str_nul d | None \<Rightarrow> [0]) else []) @
         (if caps_contains capabilities PLUGIN_AUTH
          then (case hr_auth_plugin r of Some p \<Rightarrow> put_str_nul (plugin_name p) | None \<Rightarrow> [0])
          else []))"

text \<open>The decoder narrows the capabilities it is given to those of the client; the early return for
  a bare TLS request leaves them.\<close>

definition read_response_caps :: "(u64 \<times> u32 \<times> u8) reader" where
  "read_response_caps =
     rd try_get_u32_le (\<lambda>bits.
     rd try_get_u32_le (\<lambda>max_packet_size.
     rd try_get_u8 (\<lambda>collation.
     rd (skip 19) (\<lambda>_.
     rd (if caps_contains (capabilities_truncate (ucast bits)) MYSQL
         then rd (skip 4) (\<lambda>_. ret (ucast bits))
         else rd try_get_u32_le (\<lambda>ext. ret (ucast bits + push_bit 32 (ucast ext)))) (\<lambda>capabilities.
       ret (capabilities, max_packet_size, collation))))))"

definition read_response_body ::
  "Capabilities \<Rightarrow> u32 \<Rightarrow> u8 \<Rightarrow> HandshakeResponse reader" where
  "read_response_body partial_cap max_packet_size collation =
     rd get_str_nul (\<lambda>username.
     rd (if caps_contains partial_cap PLUGIN_AUTH_LENENC_DATA then get_bytes_lenenc
         else if caps_contains partial_cap SECURE_CONNECTION
         then rd try_get_u8 (\<lambda>len. get_bytes (unat len))
         else get_bytes_nul) (\<lambda>auth_response.
     rd (if caps_contains partial_cap CONNECT_WITH_DB then rd get_str_nul (\<lambda>d. ret (Some d))
         else ret None) (\<lambda>database.
     rd (if caps_contains partial_cap PLUGIN_AUTH then rd get_plugin (\<lambda>p. ret (Some p))
         else ret None) (\<lambda>auth_plugin.
       ret \<lparr>hr_database = database, hr_max_packet_size = max_packet_size, hr_collation = collation,
            hr_username = username, hr_auth_plugin = auth_plugin,
            hr_auth_response = Some auth_response\<rparr>))))"

definition decode_HandshakeResponse ::
  "Capabilities \<Rightarrow> bytes \<Rightarrow> SqlxError + HandshakeResponse \<times> Capabilities" where
  "decode_HandshakeResponse server_capabilities buf =
     rbind (read_response_caps buf) (\<lambda>((capabilities, max_packet_size, collation), rest).
       let partial_cap = capabilities_truncate capabilities
       in if caps_contains partial_cap SSL \<and> rest = []
          then Inr (\<lparr>hr_database = None, hr_max_packet_size = max_packet_size, hr_collation = collation,
                     hr_username = [], hr_auth_plugin = None, hr_auth_response = None\<rparr>,
                    server_capabilities)
          else rbind (read_response_body partial_cap max_packet_size collation rest) (\<lambda>(r, _).
                 Inr (r, server_capabilities AND capabilities_truncate capabilities)))"

section \<open>Switch of the authentication method (auth\_switch.rs)\<close>

record AuthSwitchRequest =
  asw_plugin :: AuthPlugin
  asw_data :: bytes

definition decode_AuthSwitchRequest :: "bytes \<Rightarrow> SqlxError + AuthSwitchRequest" where
  "decode_AuthSwitchRequest buf =
     rbind
       (rd try_get_u8 (\<lambda>header.
          if header \<noteq> 0xfe then err_protocol
          else rd get_plugin (\<lambda>plugin rest.
            if length rest \<noteq> 21 then Inl Protocol
            else rd (get_bytes 20) (\<lambda>d. rd (skip 1) (\<lambda>_.
              ret \<lparr>asw_plugin = plugin, asw_data = d\<rparr>)) rest)) buf)
       (\<lambda>(r, _). Inr r)"

definition encode_AuthSwitchRequest :: "AuthSwitchRequest \<Rightarrow> bytes" where
  "encode_AuthSwitchRequest r = [0xfe] @ put_str_nul (plugin_name (asw_plugin r)) @ asw_data r"

section \<open>Answers and commands (response, text)\<close>

record OkPacket =
  ok_affected_rows :: u64
  ok_last_insert_id :: u64
  ok_status :: Status
  ok_warnings :: u16

definition decode_OkPacket :: "bytes \<Rightarrow> SqlxError + OkPacket" where
  "decode_OkPacket buf =
     rbind
       (rd try_get_u8 (\<lambda>header.
          if header \<noteq> 0 \<and> header \<noteq> 0xfe then err_protocol
          else
        rd get_uint_lenenc (\<lambda>affected_rows.
        rd get_uint_lenenc (\<lambda>last_insert_id.
        rd try_get_u16_le (\<lambda>status.
        rd try_get_u16_le (\<lambda>warnings.
          ret \<lparr>ok_affected_rows = affected_rows, ok_last_insert_id = last_insert_id,
               ok_status = status_truncate status, ok_warnings = warnings\<rparr>))))) buf)
       (\<lambda>(r, _). Inr r)"

definition encode_OkPacket :: "OkPacket \<Rightarrow> bytes" where
  "encode_OkPacket r =
     [0] @ put_uint_lenenc (ok_affected_rows r) @ put_uint_lenenc (ok_last_insert_id r) @
     put_u16_le (ok_status r) @ put_u16_le (ok_warnings r)"

record ErrPacket =
  err_code :: u16
  err_sql_state :: "string option"
  err_message :: string

definition decode_ErrPacket :: "Capabilities \<Rightarrow> bytes \<Rightarrow> SqlxError + ErrPacket" where
  "decode_ErrPacket capabilities buf =
     rbind
       (rd try_get_u8 (\<lambda>header.
          if header \<noteq> 0xff then err_protocol
          else
        rd try_get_u16_le (\<lambda>error_code.
        rd (\<lambda>rest. if caps_contains capabilities PROTOCOL_41 \<and> rest \<noteq> [] \<and> hd rest = 0x23
                  then rd (skip 1) (\<lambda>_. rd (get_str 5) (\<lambda>s. ret (Some s))) rest
                  else ret None rest) (\<lambda>sql_state.
        \<lambda>rest. rd (get_str (length rest)) (\<lambda>error_message.
          ret \<lparr>err_code = error_code, err_sql_state = sql_state, err_message = error_message\<rparr>) rest))) buf)
       (\<lambda>(r, _). Inr r)"

definition encode_ErrPacket :: "ErrPacket \<Rightarrow> bytes" where
  "encode_ErrPacket r = [0xff] @ put_u16_le (err_code r) @ as_bytes (err_message r)"

record EofPacket =
  eof_warnings :: u16
  eof_status :: Status

definition decode_EofPacket :: "bytes \<Rightarrow> SqlxError + EofPacket" where
  "decode_EofPacket buf =
     rbind
       (rd try_get_u8 (\<lambda>header.
          if header \<noteq> 0xfe then err_protocol
          else
        rd try_get_u16_le (\<lambda>warnings.
        rd try_get_u16_le (\<lambda>status.
          ret \<lparr>eof_warnings = warnings, eof_status = status_truncate status\<rparr>))) buf)
       (\<lambda>(r, _). Inr r)"

definition encode_Query :: "string \<Rightarrow> bytes" where
  "encode_Query q = [0x03] @ as_bytes q"

definition decode_Query :: "bytes \<Rightarrow> SqlxError + string" where
  "decode_Query buf = rbind (rd (skip 1) (\<lambda>_ rest. get_str (length rest) rest) buf) (\<lambda>(q, _). Inr q)"

section \<open>Frames (packet.rs)\<close>

text \<open>The assertion on the length is a panic, here \<open>None\<close>.\<close>

definition encode_Packet :: "(Capabilities \<Rightarrow> bytes) \<Rightarrow> Capabilities \<Rightarrow> u8 \<Rightarrow> bytes \<Rightarrow> (bytes \<times> u8) option" where
  "encode_Packet encode capabilities sequence_id buf =
     (let payload = encode capabilities; len = length payload
      in if len < 0xFFFFFF
         then Some (buf @ take 3 (le_bytes 4 len) @ [sequence_id] @ payload, sequence_id + 1)
         else None)"

end
