(* ===== verification/Effects.thy ===== *)
theory Effects
  imports Prelude
begin

text \<open>
  Handlers that change a state and can fail: an action takes the state and returns a result with the
  new state, and an error ends the rest of the handler (Rust's \<open>?\<close>) while the changes made so far
  stay. The rules for \<open>hoare\<close> carry an invariant through a handler, on its normal and on its error
  exits.
\<close>

section \<open>Actions\<close>

type_synonym ('e, 'w, 'a) action = "'w \<Rightarrow> ('e + 'a) \<times> 'w"

definition done_a :: "'a \<Rightarrow> ('e, 'w, 'a) action" where
  "done_a x w = (Inr x, w)"

definition throw_a :: "'e \<Rightarrow> ('e, 'w, 'a) action" where
  "throw_a e w = (Inl e, w)"

definition then_a :: "('e, 'w, 'a) action \<Rightarrow> ('a \<Rightarrow> ('e, 'w, 'b) action) \<Rightarrow> ('e, 'w, 'b) action" where
  "then_a m f w = (case m w of (Inl e, w') \<Rightarrow> (Inl e, w') | (Inr x, w') \<Rightarrow> f x w')"

definition gets_a :: "('w \<Rightarrow> 'a) \<Rightarrow> ('e, 'w, 'a) action" where
  "gets_a f w = (Inr (f w), w)"

definition modify_a :: "('w \<Rightarrow> 'w) \<Rightarrow> ('e, 'w, unit) action" where
  "modify_a f w = (Inr (), f w)"

definition result_a :: "'e + 'a \<Rightarrow> ('e, 'w, 'a) action" where
  "result_a r w = (r, w)"

definition map_error :: "('e \<Rightarrow> 'f) \<Rightarrow> 'e + 'a \<Rightarrow> 'f + 'a" where
  "map_error f r = (case r of Inl e \<Rightarrow> Inl (f e) | Inr x \<Rightarrow> Inr x)"

lemma map_error_simps [simp]: "map_error f (Inl e) = Inl (f e)" "map_error f (Inr x) = Inr x"
  by (simp_all add: map_error_def)

lemma map_error_Inr [res_simps]: "map_error f r = Inr x \<longleftrightarrow> r = Inr x"
  by (cases r) auto

named_theorems act \<open>running actions\<close>

lemma run_simps [act]:
  "done_a x w = (Inr x, w)" "throw_a e w = (Inl e, w)" "gets_a f w = (Inr (f w), w)"
  "modify_a h w = (Inr (), h w)" "result_a r w = (r, w)"
  by (simp_all add: done_a_def throw_a_def gets_a_def modify_a_def result_a_def)

lemma then_a_simps [act]:
  "then_a (done_a x) f w = f x w" "then_a (throw_a e) f w = (Inl e, w)"
  "then_a (gets_a g) f w = f (g w) w" "then_a (modify_a h) k w = k () (h w)"
  "then_a (result_a (Inr x)) f w = f x w" "then_a (result_a (Inl e)) f w = (Inl e, w)"
  by (simp_all add: then_a_def act)

lemma then_a_eq_Inr [act]:
  "then_a m f w = (Inr y, w') \<longleftrightarrow> (\<exists>x w1. m w = (Inr x, w1) \<and> f x w1 = (Inr y, w'))"
  by (auto simp: then_a_def split: prod.splits sum.splits)

lemma then_a_assoc: "then_a (then_a m f) g w = then_a m (\<lambda>x. then_a (f x) g) w"
  by (simp add: then_a_def split: prod.split sum.split)

section \<open>Invariants through handlers\<close>

definition hoare ::
  "('w \<Rightarrow> bool) \<Rightarrow> ('e, 'w, 'a) action \<Rightarrow> ('a \<Rightarrow> 'w \<Rightarrow> bool) \<Rightarrow> ('e \<Rightarrow> 'w \<Rightarrow> bool) \<Rightarrow> bool" where
  "hoare P m Q E \<longleftrightarrow>
     (\<forall>w. P w \<longrightarrow> (case m w of (Inr x, w') \<Rightarrow> Q x w' | (Inl e, w') \<Rightarrow> E e w'))"

lemma hoareI:
  assumes "\<And>w x w'. P w \<Longrightarrow> m w = (Inr x, w') \<Longrightarrow> Q x w'" and "\<And>w e w'. P w \<Longrightarrow> m w = (Inl e, w') \<Longrightarrow> E e w'"
  shows "hoare P m Q E"
  using assms by (auto simp: hoare_def split: prod.split sum.split)

lemma hoareD:
  assumes "hoare P m Q E" "P w"
  shows "m w = (Inr x, w') \<Longrightarrow> Q x w'" and "m w = (Inl e, w') \<Longrightarrow> E e w'"
  using assms by (auto simp: hoare_def)

lemma hoare_done: "(\<And>w. P w \<Longrightarrow> Q x w) \<Longrightarrow> hoare P (done_a x) Q E"
  by (simp add: hoare_def act)

lemma hoare_throw: "(\<And>w. P w \<Longrightarrow> E e w) \<Longrightarrow> hoare P (throw_a e) Q E"
  by (simp add: hoare_def act)

lemma hoare_gets: "(\<And>w. P w \<Longrightarrow> Q (f w) w) \<Longrightarrow> hoare P (gets_a f) Q E"
  by (simp add: hoare_def act)

lemma hoare_modify: "(\<And>w. P w \<Longrightarrow> Q () (f w)) \<Longrightarrow> hoare P (modify_a f) Q E"
  by (simp add: hoare_def act)

lemma hoare_result:
  "(\<And>w x. P w \<Longrightarrow> r = Inr x \<Longrightarrow> Q x w) \<Longrightarrow> (\<And>w e. P w \<Longrightarrow> r = Inl e \<Longrightarrow> E e w) \<Longrightarrow> hoare P (result_a r) Q E"
  by (auto simp: hoare_def act split: sum.split)

lemma hoare_then:
  assumes "hoare P m R E" and "\<And>x. hoare (R x) (f x) Q E"
  shows "hoare P (then_a m f) Q E"
  using assms by (fastforce simp: hoare_def then_a_def split: prod.splits sum.splits)

lemma hoare_if: "(c \<Longrightarrow> hoare P m Q E) \<Longrightarrow> (\<not> c \<Longrightarrow> hoare P n Q E) \<Longrightarrow> hoare P (if c then m else n) Q E"
  by simp

lemma hoare_option:
  "(x = None \<Longrightarrow> hoare P m Q E) \<Longrightarrow> (\<And>y. x = Some y \<Longrightarrow> hoare P (f y) Q E) \<Longrightarrow>
   hoare P (case x of None \<Rightarrow> m | Some y \<Rightarrow> f y) Q E"
  by (cases x) simp_all

lemma hoare_sum:
  "(\<And>y. x = Inl y \<Longrightarrow> hoare P (g y) Q E) \<Longrightarrow> (\<And>y. x = Inr y \<Longrightarrow> hoare P (f y) Q E) \<Longrightarrow>
   hoare P (case x of Inl y \<Rightarrow> g y | Inr y \<Rightarrow> f y) Q E"
  by (cases x) simp_all

lemma hoare_weaken:
  assumes "hoare P m Q E" "\<And>w. P' w \<Longrightarrow> P w" "\<And>x w. Q x w \<Longrightarrow> Q' x w" "\<And>e w. E e w \<Longrightarrow> E' e w"
  shows "hoare P' m Q' E'"
  using assms by (fastforce simp: hoare_def split: prod.splits sum.splits)

text \<open>An invariant kept on every exit.\<close>

definition keeps :: "('w \<Rightarrow> bool) \<Rightarrow> ('e, 'w, 'a) action \<Rightarrow> bool" where
  "keeps I m \<longleftrightarrow> (\<forall>w. I w \<longrightarrow> I (snd (m w)))"

lemma keepsD: "keeps I m \<Longrightarrow> I w \<Longrightarrow> I (snd (m w))"
  by (simp add: keeps_def)

lemma hoare_gets_then:
  assumes "\<And>w. P w \<Longrightarrow> hoare P (g (f w)) Q E"
  shows "hoare P (then_a (gets_a f) g) Q E"
  unfolding hoare_def act using assms by (auto simp: hoare_def)

lemma hoare_keeps:
  assumes "keeps I m" "\<And>w. I w \<Longrightarrow> Q w" "\<And>w. I w \<Longrightarrow> E w"
  shows "hoare I m (\<lambda>_. Q) (\<lambda>_. E)"
  unfolding hoare_def
proof (intro allI impI)
  fix w assume "I w"
  with assms(1) have "I (snd (m w))" by (rule keepsD)
  with assms(2,3) show "case m w of (Inl e, w') \<Rightarrow> E w' | (Inr x, w') \<Rightarrow> Q w'"
    by (cases "m w"; cases "fst (m w)") auto
qed

lemma keeps_done [intro]: "keeps I (done_a x)"
  by (simp add: keeps_def act)

lemma keeps_throw [intro]: "keeps I (throw_a e)"
  by (simp add: keeps_def act)

lemma keeps_gets [intro]: "keeps I (gets_a f)"
  by (simp add: keeps_def act)

lemma keeps_result [intro]: "keeps I (result_a r)"
  by (simp add: keeps_def act)

lemma keeps_modify: "(\<And>w. I w \<Longrightarrow> I (f w)) \<Longrightarrow> keeps I (modify_a f)"
  by (simp add: keeps_def act)

lemma keeps_then [intro]: "keeps I m \<Longrightarrow> (\<And>x. keeps I (f x)) \<Longrightarrow> keeps I (then_a m f)"
  by (fastforce simp: keeps_def then_a_def split: prod.split sum.split)

lemma keeps_if [intro]: "keeps I m \<Longrightarrow> keeps I n \<Longrightarrow> keeps I (if c then m else n)"
  by simp

lemma keeps_option [intro]:
  "keeps I m \<Longrightarrow> (\<And>y. keeps I (f y)) \<Longrightarrow> keeps I (case x of None \<Rightarrow> m | Some y \<Rightarrow> f y)"
  by (cases x) simp_all

lemma keeps_sum [intro]:
  "(\<And>y. keeps I (g y)) \<Longrightarrow> (\<And>y. keeps I (f y)) \<Longrightarrow> keeps I (case x of Inl y \<Rightarrow> g y | Inr y \<Rightarrow> f y)"
  by (cases x) simp_all

end
