(* ===== verification/Auth_Store.thy ===== *)
theory Auth_Store
  imports Command_ACL
begin

text \<open>
  The stores of \<open>gated-core/src/auth_state_store.rs\<close>: authentication attempts in progress, and
  commands that wait for the decision of an administrator, with the administration endpoints of
  \<open>gated-admin/src/api/command_review.rs\<close>. A broadcast channel is an entry of a list, at the
  position it was allocated, with the messages sent on it and whether its sender was dropped. An
  authentication state is shared by the store and the protocol server, so it is an entry of a heap
  under its identifier. Identifiers and the clock are arguments.
\<close>

section \<open>Channels and hash maps\<close>

record 'a channel =
  ch_sent :: "'a list"
  ch_closed :: bool

definition channel_new :: "'a channel" where
  "channel_new = \<lparr>ch_sent = [], ch_closed = False\<rparr>"

definition send_on :: "nat \<Rightarrow> 'a \<Rightarrow> 'a channel list \<Rightarrow> 'a channel list" where
  "send_on c m chs = (if c < length chs then chs[c := (chs ! c)\<lparr>ch_sent := ch_sent (chs ! c) @ [m]\<rparr>] else chs)"

definition drop_sender :: "nat \<Rightarrow> 'a channel list \<Rightarrow> 'a channel list" where
  "drop_sender c chs = (if c < length chs then chs[c := (chs ! c)\<lparr>ch_closed := True\<rparr>] else chs)"

text \<open>A receiver that was subscribed before the first message: a message, the end of the channel, or
  nothing yet.\<close>

datatype 'a received = Message 'a | Closed | Waiting

definition recv :: "nat \<Rightarrow> 'a channel list \<Rightarrow> 'a received" where
  "recv c chs =
     (if c < length chs
      then (case ch_sent (chs ! c) of
              m # _ \<Rightarrow> Message m
            | [] \<Rightarrow> if ch_closed (chs ! c) then Closed else Waiting)
      else Closed)"

definition hash_insert :: "'k \<Rightarrow> 'v \<Rightarrow> ('k \<times> 'v) list \<Rightarrow> ('k \<times> 'v) list" where
  "hash_insert k v m = (k, v) # filter (\<lambda>(k', _). k' \<noteq> k) m"

definition hash_remove :: "'k \<Rightarrow> ('k \<times> 'v) list \<Rightarrow> ('k \<times> 'v) list" where
  "hash_remove k m = filter (\<lambda>(k', _). k' \<noteq> k) m"

lemma hash_insert_map: "map_of (hash_insert k v m) = (map_of m)(k \<mapsto> v)"
proof
  show "map_of (hash_insert k v m) x = ((map_of m)(k \<mapsto> v)) x" for x
    by (induction m) (auto simp: hash_insert_def)
qed

lemma hash_remove_map: "map_of (hash_remove k m) = (map_of m)(k := None)"
proof
  show "map_of (hash_remove k m) x = ((map_of m)(k := None)) x" for x
    by (induction m) (auto simp: hash_remove_def)
qed

section \<open>Pending command reviews\<close>

datatype CommandReviewDecision = ReviewApproved | ReviewRejected

record CommandReviewInfo =
  cri_id :: uuid
  cri_session_id :: "uuid option"
  cri_user_id :: "uuid option"
  cri_username :: "string option"
  cri_target_id :: "uuid option"
  cri_target_name :: string
  cri_origin :: string
  cri_command :: string
  cri_rule_id :: "int option"
  cri_rule_name :: "string option"
  cri_requested_at :: nat

record PendingCommandReview =
  pr_info :: CommandReviewInfo
  pr_sender :: nat
  pr_created_at :: nat

record CommandReviewStore =
  pending :: "(uuid \<times> PendingCommandReview) list"
  review_channels :: "CommandReviewDecision channel list"

definition review_store_new :: CommandReviewStore where
  "review_store_new = \<lparr>pending = [], review_channels = []\<rparr>"

text \<open>The review timeout in seconds, from the environment variable if it is a positive number.\<close>

definition command_review_timeout :: "nat option \<Rightarrow> nat" where
  "command_review_timeout var =
     (case var of Some s \<Rightarrow> if s > 0 then s else 60 * 5 | None \<Rightarrow> 60 * 5)"

definition drop_review :: "uuid \<Rightarrow> CommandReviewStore \<Rightarrow> CommandReviewStore" where
  "drop_review i st =
     (case map_of (pending st) i of
        None \<Rightarrow> st
      | Some p \<Rightarrow> \<lparr>pending = hash_remove i (pending st),
                  review_channels = drop_sender (pr_sender p) (review_channels st)\<rparr>)"

definition review_create :: "nat \<Rightarrow> CommandReviewInfo \<Rightarrow> CommandReviewStore \<Rightarrow> nat \<times> CommandReviewStore" where
  "review_create now info st =
     (let c = length (review_channels st);
          st1 = drop_review (cri_id info) (st\<lparr>review_channels := review_channels st @ [channel_new]\<rparr>)
      in (c, st1\<lparr>pending := hash_insert (cri_id info)
                \<lparr>pr_info = info, pr_sender = c, pr_created_at = now\<rparr> (pending st1)\<rparr>))"

definition review_list :: "CommandReviewStore \<Rightarrow> CommandReviewInfo list" where
  "review_list st = sort_key cri_requested_at (map (\<lambda>(_, p). pr_info p) (pending st))"

definition review_complete ::
  "uuid \<Rightarrow> CommandReviewDecision \<Rightarrow> CommandReviewStore \<Rightarrow> bool \<times> CommandReviewStore" where
  "review_complete i decision st =
     (case map_of (pending st) i of
        None \<Rightarrow> (False, st)
      | Some p \<Rightarrow>
          (True, \<lparr>pending = hash_remove i (pending st),
                  review_channels =
                    drop_sender (pr_sender p) (send_on (pr_sender p) decision (review_channels st))\<rparr>))"

definition review_remove :: "uuid \<Rightarrow> CommandReviewStore \<Rightarrow> CommandReviewStore" where
  "review_remove i st = drop_review i st"

definition review_vacuum :: "nat \<Rightarrow> nat \<Rightarrow> CommandReviewStore \<Rightarrow> CommandReviewStore" where
  "review_vacuum timeout now st =
     fold (\<lambda>(i, _). drop_review i)
       (filter (\<lambda>(_, p). \<not> now - pr_created_at p < timeout) (pending st)) st"

text \<open>The endpoints (command\_review.rs).\<close>

datatype DecisionResponse = DecisionOk | DecisionNotFound

definition api_list :: "CommandReviewStore \<Rightarrow> CommandReviewInfo list" where
  "api_list st = review_list st"

definition api_approve :: "uuid \<Rightarrow> CommandReviewStore \<Rightarrow> DecisionResponse \<times> CommandReviewStore" where
  "api_approve i st =
     (let (found, st') = review_complete i ReviewApproved st
      in (if found then DecisionOk else DecisionNotFound, st'))"

definition api_reject :: "uuid \<Rightarrow> CommandReviewStore \<Rightarrow> DecisionResponse \<times> CommandReviewStore" where
  "api_reject i st =
     (let (found, st') = review_complete i ReviewRejected st
      in (if found then DecisionOk else DecisionNotFound, st'))"

section \<open>Authentication attempts in progress\<close>

definition TIMEOUT :: nat where "TIMEOUT = 60 * 10"

record AuthCompletionSignal =
  acs_sender :: nat
  acs_created_at :: nat

definition signal_is_expired :: "nat \<Rightarrow> AuthCompletionSignal \<Rightarrow> bool" where
  "signal_is_expired now sig \<longleftrightarrow> now - acs_created_at sig > TIMEOUT"

record AuthStateStore =
  store :: "(uuid \<times> nat) list"
  auth_heap :: "uuid \<Rightarrow> AuthState option"
  completion_signals :: "(uuid \<times> AuthCompletionSignal) list"
  auth_channels :: "AuthResult channel list"

definition auth_store_new :: AuthStateStore where
  "auth_store_new = \<lparr>store = [], auth_heap = Map.empty, completion_signals = [], auth_channels = []\<rparr>"

definition store_contains_key :: "uuid \<Rightarrow> AuthStateStore \<Rightarrow> bool" where
  "store_contains_key i st \<longleftrightarrow> map_of (store st) i \<noteq> None"

definition store_get :: "uuid \<Rightarrow> AuthStateStore \<Rightarrow> AuthState option" where
  "store_get i st = (case map_of (store st) i of None \<Rightarrow> None | Some _ \<Rightarrow> auth_heap st i)"

definition all_pending_web_auths_for_user :: "string \<Rightarrow> AuthStateStore \<Rightarrow> uuid list" where
  "all_pending_web_auths_for_user uname st =
     map fst (filter (\<lambda>(i, _).
       case auth_heap st i of
         None \<Rightarrow> False
       | Some a \<Rightarrow> ui_username (as_user_info a) = uname \<and>
           (case verify a of AuthResult.Need need \<Rightarrow> CredentialKind.WebUserApproval \<in> need | _ \<Rightarrow> False)) (store st))"

text \<open>What the task spawned by \<open>create\<close> announces for the results it receives.\<close>

fun web_auth_requests :: "uuid \<Rightarrow> AuthResult list \<Rightarrow> uuid list" where
  "web_auth_requests i (AuthResult.Need need # rs) =
     (if CredentialKind.WebUserApproval \<in> need then [i] else []) @ web_auth_requests i rs"
| "web_auth_requests i _ = []"

definition store_create ::
  "Db option \<Rightarrow> uuid \<Rightarrow> nat \<Rightarrow> string \<Rightarrow> uuid option \<Rightarrow> string \<Rightarrow> string \<Rightarrow> CredentialKind list \<Rightarrow> AuthStateStore
     \<Rightarrow> (GatedError + uuid) \<times> AuthStateStore" where
  "store_create db i now ident session_id uname protocol supported st =
     (case rbind (list_users db) (\<lambda>users.
             case find (\<lambda>u. user_name u = uname) users of
               None \<Rightarrow> Inl (UserNotFound uname)
             | Some user \<Rightarrow>
                 rbind (get_credential_policy db uname supported) (\<lambda>pol.
                   case pol of
                     None \<Rightarrow> Inl (UserNotFound uname)
                   | Some pol \<Rightarrow>
                       Inr (auth_state_new i session_id
                              \<lparr>ui_id = user_id user, ui_username = user_name user\<rparr> protocol pol now ident))) of
        Inl e \<Rightarrow> (Inl e, st)
      | Inr a \<Rightarrow>
          (Inr i, st\<lparr>store := hash_insert i now (store st), auth_heap := (auth_heap st)(i \<mapsto> a)\<rparr>))"

definition store_subscribe :: "nat \<Rightarrow> uuid \<Rightarrow> AuthStateStore \<Rightarrow> nat \<times> AuthStateStore" where
  "store_subscribe now i st =
     (case map_of (completion_signals st) i of
        Some sig \<Rightarrow> (acs_sender sig, st)
      | None \<Rightarrow>
          (let c = length (auth_channels st)
           in (c, st\<lparr>completion_signals := hash_insert i \<lparr>acs_sender = c, acs_created_at = now\<rparr>
                      (completion_signals st),
                    auth_channels := auth_channels st @ [channel_new]\<rparr>)))"

definition store_complete :: "uuid \<Rightarrow> AuthStateStore \<Rightarrow> AuthStateStore" where
  "store_complete i st =
     (case store_get i st of
        None \<Rightarrow> st
      | Some a \<Rightarrow>
          (case map_of (completion_signals st) i of
             None \<Rightarrow> st
           | Some sig \<Rightarrow>
               st\<lparr>completion_signals := hash_remove i (completion_signals st),
                  auth_channels :=
                    drop_sender (acs_sender sig) (send_on (acs_sender sig) (verify a) (auth_channels st))\<rparr>))"

definition store_vacuum :: "nat \<Rightarrow> AuthStateStore \<Rightarrow> AuthStateStore" where
  "store_vacuum now st =
     st\<lparr>store := filter (\<lambda>(_, started_at). now - started_at < TIMEOUT) (store st),
        completion_signals := filter (\<lambda>(_, sig). \<not> signal_is_expired now sig) (completion_signals st),
        auth_channels := fold (\<lambda>(_, sig). drop_sender (acs_sender sig))
          (filter (\<lambda>(_, sig). signal_is_expired now sig) (completion_signals st)) (auth_channels st)\<rparr>"

text \<open>A change of an authentication state through the lock on it.\<close>

definition update_state :: "uuid \<Rightarrow> (AuthState \<Rightarrow> AuthState) \<Rightarrow> AuthStateStore \<Rightarrow> AuthStateStore" where
  "update_state i f st = st\<lparr>auth_heap := (auth_heap st)(i := map_option f (auth_heap st i))\<rparr>"

text \<open>What the browser endpoints do to an attempt (\<open>gated-admin/src/http_service/api/auth.rs\<close>).\<close>

definition approve_attempt :: "uuid \<Rightarrow> AuthStateStore \<Rightarrow> AuthStateStore" where
  "approve_attempt i st =
     (let st1 = update_state i (\<lambda>a. add_valid_credential a AuthCredential.WebUserApproval) st
      in case auth_heap st1 i of
           Some a \<Rightarrow> (case verify a of Accepted _ \<Rightarrow> store_complete i st1 | _ \<Rightarrow> st1)
         | None \<Rightarrow> st1)"

definition reject_attempt :: "uuid \<Rightarrow> AuthStateStore \<Rightarrow> AuthStateStore" where
  "reject_attempt i st = store_complete i (update_state i reject st)"

end
