(* ===== verification/Gateway.thy ===== *)
theory Gateway
  imports Effects Auth_Store Sessions Accounts
begin

text \<open>
  The services that the protocol servers share (\<open>Services\<close> of gated-core): the table of sessions with
  the database connection, the authentication attempts, the consumed one-time codes, and the audit
  events of connected targets. What the protocol servers call on them are actions on this state; the
  clock, fresh identifiers, third-party code and the text of a failed choice of the login (the accounts
  theory keeps these errors as constructors) are in the environment. A login runs without
  changes by other tasks in between.
\<close>

record 'l gateway =
  gw_app :: "'l AppState"
  gw_auth :: AuthStateStore
  gw_consumed :: consumed
  gw_connected :: "(uuid \<times> string \<times> string) list"

record 'l gw_env =
  ge_crypto :: crypto
  ge_governor :: "'l governor"
  ge_snapshot :: "target_row \<Rightarrow> GatedError + string"
  ge_regex :: regex
  ge_now :: nat
  ge_auth_id :: uuid
  ge_ident :: string
  ge_login_text :: "LoginSelectionError \<Rightarrow> string"

datatype gw_error = GwError GatedError | GwPanic

definition gw_db :: "'l gateway \<Rightarrow> Db option" where
  "gw_db g = map_option fst (app_db (gw_app g))"

definition gw_set_db :: "Db option \<Rightarrow> 'l gateway \<Rightarrow> 'l gateway" where
  "gw_set_db db g =
     (case (app_db (gw_app g), db) of
        (Some (_, p), Some d) \<Rightarrow> g\<lparr>gw_app := (gw_app g)\<lparr>app_db := Some (d, p)\<rparr>\<rparr>
      | _ \<Rightarrow> g)"

definition from_rl :: "rl_error \<Rightarrow> gw_error" where
  "from_rl e = (case e of Fail e \<Rightarrow> GwError e | Panic \<Rightarrow> GwPanic)"

definition gw_create_state ::
  "'l gw_env \<Rightarrow> uuid \<Rightarrow> string \<Rightarrow> string \<Rightarrow> CredentialKind list \<Rightarrow> (gw_error, 'l gateway, uuid) action" where
  "gw_create_state env session_id uname protocol supported g =
     (let (r, st) = store_create (gw_db g) (ge_auth_id env) (ge_now env) (ge_ident env) (Some session_id)
                      uname protocol supported (gw_auth g)
      in (map_error GwError r, g\<lparr>gw_auth := st\<rparr>))"

definition gw_state :: "uuid \<Rightarrow> 'l gateway \<Rightarrow> AuthState option" where
  "gw_state i g = auth_heap (gw_auth g) i"

definition gw_validate ::
  "'l gw_env \<Rightarrow> string \<Rightarrow> AuthCredential \<Rightarrow> (gw_error, 'l gateway, bool) action" where
  "gw_validate env uname cred g =
     (let (r, m) = validate_credential (ge_crypto env) (ge_now env) (gw_consumed g) (gw_db g) uname cred
      in (map_error GwError r, g\<lparr>gw_consumed := m\<rparr>))"

definition gw_add_credential :: "uuid \<Rightarrow> AuthCredential \<Rightarrow> (gw_error, 'l gateway, unit) action" where
  "gw_add_credential i cred =
     modify_a (\<lambda>g. g\<lparr>gw_auth := update_state i (\<lambda>a. add_valid_credential a cred) (gw_auth g)\<rparr>)"

definition gw_complete :: "uuid \<Rightarrow> (gw_error, 'l gateway, unit) action" where
  "gw_complete i = modify_a (\<lambda>g. g\<lparr>gw_auth := store_complete i (gw_auth g)\<rparr>)"

definition gw_authorize_target :: "string \<Rightarrow> string \<Rightarrow> (gw_error, 'l gateway, bool) action" where
  "gw_authorize_target uname target g = (map_error GwError (authorize_target (gw_db g) uname target), g)"

definition gw_authorize_ticket ::
  "'l gw_env \<Rightarrow> string \<Rightarrow> (gw_error, 'l gateway, (ticket_row \<times> AuthStateUserInfo) option) action" where
  "gw_authorize_ticket env sec g =
     (map_error GwError (authorize_ticket (ge_crypto env) (ge_now env) (gw_db g) sec), g)"

definition gw_consume_ticket :: "uuid \<Rightarrow> (gw_error, 'l gateway, unit) action" where
  "gw_consume_ticket i g =
     (let (r, db) = consume_ticket i (gw_db g) in (map_error GwError r, gw_set_db db g))"

definition gw_list_targets :: "(gw_error, 'l gateway, target_row list) action" where
  "gw_list_targets g = (map_error GwError (list_targets (gw_db g)), g)"

definition gw_set_user_info ::
  "'l gw_env \<Rightarrow> uuid \<Rightarrow> AuthStateUserInfo \<Rightarrow> (gw_error, 'l gateway, unit) action" where
  "gw_set_user_info env i ui g =
     (let (r, app) = set_user_info (ge_governor env) (ge_snapshot env) (ge_now env) i ui (gw_app g)
      in (map_error from_rl r, g\<lparr>gw_app := app\<rparr>))"

definition gw_set_target :: "'l gw_env \<Rightarrow> uuid \<Rightarrow> target_row \<Rightarrow> (gw_error, 'l gateway, unit) action" where
  "gw_set_target env i t g =
     (let (r, app) = set_target (ge_governor env) (ge_snapshot env) (ge_now env) i t (gw_app g)
      in (map_error from_rl r, g\<lparr>gw_app := app\<rparr>))"

definition gw_db_required :: "(gw_error, 'l gateway, Db) action" where
  "gw_db_required g = (map_error GwError (db_required (gw_db g)), g)"

definition gw_target_connected :: "uuid \<Rightarrow> (gw_error, 'l gateway, unit) action" where
  "gw_target_connected i g =
     (let (event, app) = audit_target_connected i (gw_app g)
      in (Inr (), g\<lparr>gw_app := app,
                    gw_connected := gw_connected g @ (case event of Some e \<Rightarrow> [e] | None \<Rightarrow> [])\<rparr>))"

section \<open>Connections of the database proxies\<close>

text \<open>A connection keeps what was flushed to it, each message with whether the link was encrypted
  at that time; after \<open>cn_writes\<close> flushes the peer is gone and the next one fails. What arrives is a list
  of messages, where \<open>Broken\<close> is a failing read and the end of the list the end of the stream.\<close>

record 'm conn =
  cn_out :: "(bool \<times> 'm) list"
  cn_tls :: bool
  cn_writes :: nat

datatype 'm inbound = Packet 'm | Broken

definition conn_send :: "'e \<Rightarrow> 'm \<Rightarrow> ('e, 'm conn, unit) action" where
  "conn_send e p c =
     (if cn_writes c = 0 then (Inl e, c)
      else (Inr (), c\<lparr>cn_out := cn_out c @ [(cn_tls c, p)], cn_writes := cn_writes c - 1\<rparr>))"

section \<open>Audit of statements\<close>

text \<open>What a statement meets: the rule table at that moment or a failure to load it, whether the
  recording can be written, and the elapsed time.\<close>

record query_env =
  qe_rules :: "CommandAclRuleView list option"
  qe_recording :: bool
  qe_elapsed :: nat

definition classify_sql :: "string \<Rightarrow> string" where
  "classify_sql sql =
     (let first = map to_ascii_upper (takeWhile is_ascii_alphabetic (trim_start sql))
      in if first = ''SELECT'' \<or> first = ''WITH'' then ''SELECT''
         else if first = ''DESC'' \<or> first = ''DESCRIBE'' then ''DESCRIBE''
         else if first \<noteq> [] then first
         else ''UNKNOWN'')"

datatype audit_error =
    DegradedControl
  | BlockedByRule string "int option" string
  | BlockedOutcome string
  | UpstreamError string

record sql_audit =
  sa_target_kind :: string
  sa_target :: string
  sa_database :: "string option"
  sa_sql :: string
  sa_statement_kind :: string
  sa_elapsed_ms :: nat
  sa_success :: bool
  sa_error :: "audit_error option"

definition acl_blocked :: "AclDecision option \<Rightarrow> bool" where
  "acl_blocked decision =
     (case decision of Some d \<Rightarrow> ad_action d = Deny \<or> ad_action d = Review | None \<Rightarrow> False)"

definition acl_outcome :: "AclDecision option \<Rightarrow> string" where
  "acl_outcome decision =
     (if map_option ad_action decision = Some Review then ''blocked-review-unsupported'' else ''blocked'')"

definition acl_audit_error :: "AclDecision option \<Rightarrow> audit_error" where
  "acl_audit_error decision =
     (case Option.bind decision ad_rule_name of
        Some name \<Rightarrow> BlockedByRule (acl_outcome decision) (Option.bind decision ad_rule_id) name
      | None \<Rightarrow> BlockedOutcome (acl_outcome decision))"

end
