(* ===== verification/Mysql_Client.thy ===== *)
theory Mysql_Client
  imports Mysql_Wire Gateway
begin

text \<open>
  The connection of the gateway to a MySQL target (\<open>gated-protocol-mysql/src/client.rs\<close> and
  \<open>common.rs\<close>). The packet framing of the \<open>mysql_common\<close> crate delivers whole payloads. SHA-1, SHA-256,
  the wrapper of \<open>password_hash\<close> and RSA encryption are parameters; how the network and the TLS
  library behave towards the target is the record \<open>upstream_peer\<close>.
\<close>

unbundle bit_operations_syntax

section \<open>Scrambles (common.rs)\<close>

record mysql_crypto =
  sha1 :: "bytes \<Rightarrow> bytes"
  sha256 :: "bytes \<Rightarrow> bytes"
  output_new :: "bytes \<Rightarrow> bytes option"
  rsa_oaep :: "string \<Rightarrow> bytes \<Rightarrow> bytes option"

definition compute_auth_challenge_response :: "mysql_crypto \<Rightarrow> bytes \<Rightarrow> string \<Rightarrow> bytes option" where
  "compute_auth_challenge_response mc challenge password =
     (let password_sha = sha1 mc (as_bytes password);
          password_sha_sha = sha1 mc password_sha;
          password_seed_2sha_sha = sha1 mc (challenge @ password_sha_sha)
      in output_new mc (map2 (XOR) password_sha password_seed_2sha_sha))"

definition compute_caching_sha2_response :: "mysql_crypto \<Rightarrow> bytes \<Rightarrow> string \<Rightarrow> bytes" where
  "compute_caching_sha2_response mc nonce password =
     (let sha_pw = sha256 mc (as_bytes password); sha_sha_pw = sha256 mc sha_pw;
          scrambled = sha256 mc (sha_sha_pw @ nonce)
      in map2 (XOR) sha_pw scrambled)"

definition xor_password_with_nonce :: "string \<Rightarrow> bytes \<Rightarrow> bytes" where
  "xor_password_with_nonce password nonce =
     (let buf = as_bytes password @ [0]
      in if nonce = [] then buf
         else map (\<lambda>(i, b). b XOR nonce ! (i mod length nonce)) (enumerate 0 buf))"

section \<open>Errors (error.rs)\<close>

datatype MySqlError =
    MyProtocolError
  | MyEof
  | MyTlsNotSupported
  | MyTlsNotSupportedByClient
  | MyTlsSetup
  | MyTls
  | MyInvalidDomainName
  | MySqlx SqlxError
  | MyStream
  | MyIo
  | MyDecode
  | MyGated gw_error
  | MyOther

definition decode_error :: "SqlxError \<Rightarrow> MySqlError" where
  "decode_error e = (if e = SqlxDecode then MyDecode else MySqlx e)"

section \<open>Connecting (client.rs)\<close>

record ConnectionOptions =
  co_collation :: u8
  co_database :: "string option"
  co_max_packet_size :: u32
  co_capabilities :: Capabilities

record upstream_peer =
  up_tcp :: bool
  up_inbox :: "bytes inbound list"
  up_tls_setup :: bool
  up_server_name :: bool
  up_tls_handshake :: bool

function strip_nul_padding :: "bytes \<Rightarrow> bytes" where
  "strip_nul_padding n =
     (if n \<noteq> [] \<and> last n = 0 \<and> length n > 20 then strip_nul_padding (butlast n) else n)"
  by pat_completeness auto
termination by (relation "measure length") auto

declare strip_nul_padding.simps [simp del]

definition scramble_of :: "bytes \<Rightarrow> MySqlError + bytes" where
  "scramble_of nonce = (if length nonce < 20 then Inl MyProtocolError else Inr (take 20 nonce))"

definition build_auth_response ::
  "mysql_crypto \<Rightarrow> AuthPlugin option \<Rightarrow> bytes \<Rightarrow> string \<Rightarrow> MySqlError + bytes option" where
  "build_auth_response mc plugin nonce password =
     (case plugin of
        Some MySqlNativePassword \<Rightarrow>
          if password = [] then Inr (Some [])
          else rbind (scramble_of nonce) (\<lambda>scramble.
                 rbind (ok_or MyOther (compute_auth_challenge_response mc scramble password))
                   (\<lambda>out. Inr (Some out)))
      | Some CachingSha2Password \<Rightarrow>
          if password = [] then Inr (Some [])
          else rbind (scramble_of nonce) (\<lambda>scramble.
                 Inr (Some (compute_caching_sha2_response mc scramble password)))
      | Some MySqlClearPassword \<Rightarrow> Inr (Some (as_bytes password @ [0]))
      | Some Sha256Password \<Rightarrow> if password = [] then Inr (Some [0]) else Inr None
      | None \<Rightarrow> Inr None)"

definition rsa_encrypt_password ::
  "mysql_crypto \<Rightarrow> bytes \<Rightarrow> string \<Rightarrow> bytes \<Rightarrow> MySqlError + bytes" where
  "rsa_encrypt_password mc pem_bytes password nonce =
     (if valid_utf8 pem_bytes
      then ok_or MyProtocolError
             (rsa_oaep mc (str_of_bytes pem_bytes) (xor_password_with_nonce password nonce))
      else Inl MyProtocolError)"

definition up_send :: "bytes \<Rightarrow> (MySqlError, bytes conn, unit) action" where
  "up_send = conn_send MyStream"

text \<open>The answer to a packet with more data, on the rest of the inbound packets.\<close>

definition handle_caching_sha2_more_data ::
  "mysql_crypto \<Rightarrow> bytes \<Rightarrow> bytes \<Rightarrow> string \<Rightarrow> bytes inbound list
     \<Rightarrow> (MySqlError, bytes conn, bytes inbound list) action" where
  "handle_caching_sha2_more_data mc payload nonce password inbox =
     (let rest = drop 1 payload
      in if rest \<noteq> [] \<and> hd rest = 0x03 then done_a inbox
         else if rest = [0x04] then
           (if password = [] then then_a (up_send [0]) (\<lambda>_. done_a inbox)
            else then_a (gets_a cn_tls) (\<lambda>tls.
              if tls then then_a (up_send (as_bytes password @ [0])) (\<lambda>_. done_a inbox)
              else then_a (up_send [0x02]) (\<lambda>_.
                case inbox of
                  [] \<Rightarrow> throw_a MyEof
                | Broken # _ \<Rightarrow> throw_a MyStream
                | Packet key_payload # inbox' \<Rightarrow>
                    if key_payload = [] \<or> hd key_payload \<noteq> 0x01 then throw_a MyProtocolError
                    else then_a (result_a (rsa_encrypt_password mc (drop 1 key_payload) password nonce)) (\<lambda>cipher.
                      then_a (up_send cipher) (\<lambda>_. done_a inbox')))))
         else if take 10 rest = as_bytes ''-----BEGIN'' then
           then_a (result_a (rsa_encrypt_password mc rest password nonce)) (\<lambda>cipher.
             then_a (up_send cipher) (\<lambda>_. done_a inbox))
         else throw_a MyProtocolError)"

text \<open>The authentication loop; every turn takes at least one packet, so it is bounded by their number.\<close>

fun auth_loop ::
  "nat \<Rightarrow> mysql_crypto \<Rightarrow> Capabilities \<Rightarrow> string \<Rightarrow> AuthPlugin option \<Rightarrow> bytes \<Rightarrow> bytes inbound list
     \<Rightarrow> (MySqlError, bytes conn, bytes inbound list) action" where
  "auth_loop 0 mc caps password plugin nonce inbox = throw_a MyEof"
| "auth_loop (Suc fuel) mc caps password plugin nonce [] = throw_a MyEof"
| "auth_loop (Suc fuel) mc caps password plugin nonce (Broken # inbox) = throw_a MyStream"
| "auth_loop (Suc fuel) mc caps password plugin nonce (Packet payload # inbox) =
     (case payload of
        [] \<Rightarrow> throw_a MyProtocolError
      | b # _ \<Rightarrow>
          if b = 0x00 then done_a inbox
          else if b = 0xff then
            then_a (result_a (map_error MySqlx (decode_ErrPacket caps payload))) (\<lambda>_. throw_a MyProtocolError)
          else if b = 0xfe then
            (if length payload \<le> 1 then throw_a MyProtocolError
             else then_a (result_a (map_error MySqlx (decode_AuthSwitchRequest payload))) (\<lambda>sw.
               let plugin' = Some (asw_plugin sw); nonce' = strip_nul_padding (asw_data sw)
               in then_a (result_a (build_auth_response mc plugin' nonce' password)) (\<lambda>reply.
                    then_a (up_send (case reply of Some r \<Rightarrow> r | None \<Rightarrow> [])) (\<lambda>_.
                      auth_loop fuel mc caps password plugin' nonce' inbox))))
          else if b = 0x01 then
            then_a (handle_caching_sha2_more_data mc payload nonce password inbox) (\<lambda>inbox'.
              auth_loop fuel mc caps password plugin nonce inbox')
          else throw_a MyProtocolError)"

definition client_capabilities :: "TlsMode \<Rightarrow> Capabilities \<Rightarrow> Capabilities \<Rightarrow> Capabilities" where
  "client_capabilities mode requested server =
     ((requested AND NOT SSL) OR (if mode \<noteq> Disabled then SSL else 0)) AND server"

definition upgrade_upstream ::
  "upstream_peer \<Rightarrow> ConnectionOptions \<Rightarrow> Capabilities \<Rightarrow> (MySqlError, bytes conn, unit) action" where
  "upgrade_upstream peer options caps =
     (if \<not> up_tls_setup peer then throw_a MyTlsSetup
      else then_a (up_send (encode_SslRequest caps
                     \<lparr>sr_max_packet_size = co_max_packet_size options, sr_collation = co_collation options\<rparr>)) (\<lambda>_.
        if \<not> up_server_name peer then throw_a MyInvalidDomainName
        else if \<not> up_tls_handshake peer then throw_a MyTls
        else modify_a (\<lambda>c. c\<lparr>cn_tls := True\<rparr>)))"

definition mysql_connect ::
  "mysql_crypto \<Rightarrow> upstream_peer \<Rightarrow> TargetMySqlOptions \<Rightarrow> ConnectionOptions
     \<Rightarrow> (MySqlError, bytes conn, Capabilities \<times> bytes inbound list) action" where
  "mysql_connect mc peer target options =
     (if \<not> up_tcp peer then throw_a MyIo
      else case up_inbox peer of
        [] \<Rightarrow> throw_a MyEof
      | Broken # _ \<Rightarrow> throw_a MyStream
      | Packet payload # inbox \<Rightarrow>
          then_a (result_a (map_error MySqlx (decode_Handshake payload))) (\<lambda>handshake.
            let mode = tls_mode (my_tls target);
                caps = client_capabilities mode (co_capabilities options) (hs_capabilities handshake);
                tls_active = (caps_contains caps SSL \<and> mode \<noteq> Disabled);
                nonce = strip_nul_padding (hs_data_first handshake @ hs_data_last handshake);
                password = (case my_password target of Some p \<Rightarrow> p | None \<Rightarrow> [])
            in if mode = Required \<and> \<not> caps_contains caps SSL then throw_a MyTlsNotSupported
               else then_a (if tls_active then upgrade_upstream peer options caps else done_a ()) (\<lambda>_.
                 if mode \<noteq> Disabled \<and> \<not> tls_active \<and> password \<noteq> [] then throw_a MyProtocolError
                 else then_a (result_a (build_auth_response mc (hs_auth_plugin handshake) nonce password)) (\<lambda>response.
                   then_a (up_send (encode_HandshakeResponse caps
                       \<lparr>hr_database = co_database options, hr_max_packet_size = co_max_packet_size options,
                        hr_collation = co_collation options, hr_username = my_username target,
                        hr_auth_plugin = hs_auth_plugin handshake, hr_auth_response = response\<rparr>)) (\<lambda>_.
                     then_a (auth_loop (Suc (length inbox)) mc caps password (hs_auth_plugin handshake) nonce inbox) (\<lambda>inbox'.
                       done_a (caps, inbox')))))))"

end
