(* ===== verification/Mysql_Session.thy ===== *)
theory Mysql_Session
  imports Mysql_Client
begin

text \<open>
  One client connection to the MySQL server of the gateway
  (\<open>gated-protocol-mysql/src/session.rs\<close>): greeting, TLS, password, login, and the relay of commands
  and responses. What the client sends is the argument \<open>inp\<close>; what differs from one command to
  the next (the rule table at that moment or a failure to load it, whether the recording can be
  written, the elapsed time) is a function of the number of the command.
\<close>

unbundle bit_operations_syntax

section \<open>State\<close>

record 'l mysql_env =
  me_gw :: "'l gw_env"
  me_crypto :: mysql_crypto
  me_tls_accept :: bool
  me_peer :: "TargetMySqlOptions \<Rightarrow> upstream_peer"
  me_query :: "nat \<Rightarrow> query_env"

record 'l MySqlSession =
  ms_id :: uuid
  ms_capabilities :: Capabilities
  ms_challenge :: bytes
  ms_username :: "string option"
  ms_database :: "string option"
  ms_client :: "bytes conn"
  ms_upstream :: "bytes conn"
  ms_up_inbox :: "bytes inbound list"
  ms_recorded :: "sql_audit list"
  ms_rejected :: "(string \<times> string) list"
  ms_gw :: "'l gateway"

type_synonym ('l, 'a) my_action = "(MySqlError, 'l MySqlSession, 'a) action"

definition session_capabilities :: Capabilities where
  "session_capabilities = foldr (OR)
     [PROTOCOL_41, PLUGIN_AUTH, FOUND_ROWS, LONG_FLAG, NO_SCHEMA, PLUGIN_AUTH_LENENC_DATA,
      CONNECT_WITH_DB, SESSION_TRACK, IGNORE_SPACE, INTERACTIVE, TRANSACTIONS, DEPRECATE_EOF,
      SECURE_CONNECTION, SSL] 0"

definition mysql_session_new :: "uuid \<Rightarrow> bytes \<Rightarrow> nat \<Rightarrow> nat \<Rightarrow> 'l gateway \<Rightarrow> 'l MySqlSession" where
  "mysql_session_new i challenge client_writes upstream_writes g =
     \<lparr>ms_id = i, ms_capabilities = session_capabilities, ms_challenge = challenge,
      ms_username = None, ms_database = None,
      ms_client = \<lparr>cn_out = [], cn_tls = False, cn_writes = client_writes\<rparr>,
      ms_upstream = \<lparr>cn_out = [], cn_tls = False, cn_writes = upstream_writes\<rparr>,
      ms_up_inbox = [], ms_recorded = [], ms_rejected = [], ms_gw = g\<rparr>"

definition gateway_handshake :: "Capabilities \<Rightarrow> bytes \<Rightarrow> Handshake" where
  "gateway_handshake caps challenge =
     \<lparr>hs_protocol_version = 10, hs_server_version = ''8.0.0-Gated'', hs_connection_id = 1,
      hs_capabilities = caps, hs_collation = 45, hs_status = 0,
      hs_auth_plugin = Some MySqlNativePassword,
      hs_data_first = take 8 challenge, hs_data_last = drop 8 challenge\<rparr>"

section \<open>Access to the parts of the state\<close>

definition to_client :: "bytes \<Rightarrow> ('l, unit) my_action" where
  "to_client p s =
     (let (r, c) = conn_send MyStream p (ms_client s) in (r, s\<lparr>ms_client := c\<rparr>))"

definition to_upstream :: "bytes \<Rightarrow> ('l, unit) my_action" where
  "to_upstream p s =
     (let (r, c) = conn_send MyStream p (ms_upstream s) in (r, s\<lparr>ms_upstream := c\<rparr>))"

definition on_gw :: "(gw_error \<Rightarrow> MySqlError) \<Rightarrow> (gw_error, 'l gateway, 'a) action \<Rightarrow> ('l, 'a) my_action" where
  "on_gw f m s = (let (r, g) = m (ms_gw s) in (map_error f r, s\<lparr>ms_gw := g\<rparr>))"

text \<open>\<open>MySqlError::other\<close> hides the error, except that a panic stays one.\<close>

definition my_other :: "gw_error \<Rightarrow> MySqlError" where
  "my_other e = (case e of GwPanic \<Rightarrow> MyGated GwPanic | _ \<Rightarrow> MyOther)"

definition send_error :: "u16 \<Rightarrow> string \<Rightarrow> ('l, unit) my_action" where
  "send_error code message =
     to_client (encode_ErrPacket \<lparr>err_code = code, err_sql_state = None, err_message = message\<rparr>)"

definition record_sql_audit :: "bool \<Rightarrow> sql_audit \<Rightarrow> ('l, unit) my_action" where
  "record_sql_audit available item =
     modify_a (\<lambda>s. if available then s\<lparr>ms_recorded := ms_recorded s @ [item]\<rparr> else s)"

section \<open>Relay of commands\<close>

text \<open>The responses to a command; the result tells whether it succeeded and the message of the error.\<close>

fun relay_response ::
  "Capabilities \<Rightarrow> nat \<Rightarrow> bool \<Rightarrow> bytes inbound list
     \<Rightarrow> (MySqlError, bytes conn, (bool \<times> string option) \<times> bytes inbound list) action" where
  "relay_response caps eof_ctr first [] = throw_a MyEof"
| "relay_response caps eof_ctr first (Broken # inbox) = throw_a MyStream"
| "relay_response caps eof_ctr first (Packet response # inbox) =
     (if first \<and> response \<noteq> [] \<and> hd response = 0xfb then throw_a MyProtocolError
      else then_a (conn_send MyStream response) (\<lambda>_.
        case response of
          [] \<Rightarrow> relay_response caps eof_ctr False inbox
        | com # _ \<Rightarrow>
            if com = 0xff then
              done_a ((False, case decode_ErrPacket caps response of
                                Inr e \<Rightarrow> Some (err_message e) | Inl _ \<Rightarrow> None), inbox)
            else if com = 0xfe then
              (if caps_contains caps DEPRECATE_EOF then done_a ((True, None), inbox)
               else if eof_ctr + 1 = 2 then done_a ((True, None), inbox)
               else relay_response caps (eof_ctr + 1) False inbox)
            else if com = 0 then done_a ((True, None), inbox)
            else relay_response caps eof_ctr False inbox))"

fun passthrough_until_result ::
  "bytes inbound list \<Rightarrow> (MySqlError, bytes conn, bytes inbound list) action" where
  "passthrough_until_result [] = throw_a MyEof"
| "passthrough_until_result (Broken # inbox) = throw_a MyStream"
| "passthrough_until_result (Packet response # inbox) =
     then_a (conn_send MyStream response) (\<lambda>_.
       if response \<noteq> [] \<and> hd response \<in> {0, 0xff, 0xfe} then done_a inbox
       else passthrough_until_result inbox)"

definition from_upstream ::
  "(bytes inbound list \<Rightarrow> (MySqlError, bytes conn, 'a \<times> bytes inbound list) action) \<Rightarrow> ('l, 'a) my_action" where
  "from_upstream m s =
     (case m (ms_up_inbox s) (ms_client s) of
        (Inr (x, inbox), c) \<Rightarrow> (Inr x, s\<lparr>ms_client := c, ms_up_inbox := inbox\<rparr>)
      | (Inl e, c) \<Rightarrow> (Inl e, s\<lparr>ms_client := c\<rparr>))"

definition audit_item ::
  "string \<Rightarrow> string option \<Rightarrow> string \<Rightarrow> nat \<Rightarrow> bool \<Rightarrow> audit_error option \<Rightarrow> sql_audit" where
  "audit_item target database sql elapsed success err =
     \<lparr>sa_target_kind = ''mysql'', sa_target = target, sa_database = database, sa_sql = sql,
      sa_statement_kind = classify_sql sql, sa_elapsed_ms = elapsed, sa_success = success, sa_error = err\<rparr>"

definition handle_query ::
  "'l mysql_env \<Rightarrow> DbCommandAclEnforcer \<Rightarrow> string \<Rightarrow> query_env \<Rightarrow> string \<Rightarrow> ('l, unit) my_action" where
  "handle_query env acl target qe query =
     then_a (gets_a ms_database) (\<lambda>database.
       let decision = map_option (\<lambda>table. enforcer_evaluate (ge_regex (me_gw env)) table acl ''mysql'' query) (qe_rules qe);
           record = (\<lambda>success err. record_sql_audit (qe_recording qe)
                       (audit_item target database query (qe_elapsed qe) success err))
       in then_a (if decision = None then record True (Some DegradedControl) else done_a ()) (\<lambda>_.
            if acl_blocked decision
            then then_a (record False (Some (acl_audit_error decision))) (\<lambda>_.
                   send_error 1045 ''command blocked by policy'')
            else then_a (to_upstream (encode_Query query)) (\<lambda>_.
                   then_a (gets_a ms_capabilities) (\<lambda>caps.
                   then_a (from_upstream (relay_response caps 0 True)) (\<lambda>(success, message).
                     record success (map_option UpstreamError message))))))"

text \<open>Whether the loop goes on after a command.\<close>

definition handle_command ::
  "'l mysql_env \<Rightarrow> DbCommandAclEnforcer \<Rightarrow> string \<Rightarrow> query_env \<Rightarrow> bytes \<Rightarrow> ('l, bool) my_action" where
  "handle_command env acl target qe payload =
     (case payload of
        [] \<Rightarrow> done_a False
      | com # body \<Rightarrow>
          if com = 0x03 then
            then_a (result_a (map_error MySqlx (decode_Query payload))) (\<lambda>query.
              then_a (handle_query env acl target qe query) (\<lambda>_. done_a True))
          else if com = 0x01 then done_a False
          else if com = 0x02 then
            then_a (result_a (map_error MySqlx (get_str (length body) body))) (\<lambda>(db, _).
              then_a (modify_a (\<lambda>s. s\<lparr>ms_database := Some db\<rparr>)) (\<lambda>_.
              then_a (to_upstream payload) (\<lambda>_.
              then_a (from_upstream (\<lambda>inbox. then_a (passthrough_until_result inbox) (\<lambda>rest. done_a ((), rest))))
                (\<lambda>_. done_a True))))
          else if com = 0x04 \<or> com = 0x0e \<or> com = 0x1f then
            then_a (to_upstream payload) (\<lambda>_.
              then_a (from_upstream (\<lambda>inbox. then_a (passthrough_until_result inbox) (\<lambda>rest. done_a ((), rest))))
                (\<lambda>_. done_a True))
          else then_a (send_error 1047 ''Not implemented'') (\<lambda>_. done_a True))"

fun command_loop ::
  "'l mysql_env \<Rightarrow> DbCommandAclEnforcer \<Rightarrow> string \<Rightarrow> nat \<Rightarrow> bytes inbound list \<Rightarrow> ('l, unit) my_action" where
  "command_loop env acl target n [] = done_a ()"
| "command_loop env acl target n (Broken # inp) = throw_a MyStream"
| "command_loop env acl target n (Packet payload # inp) =
     then_a (handle_command env acl target (me_query env n) payload) (\<lambda>continue.
       if continue then command_loop env acl target (Suc n) inp else done_a ())"

definition connect_upstream ::
  "'l mysql_env \<Rightarrow> TargetMySqlOptions \<Rightarrow> ConnectionOptions \<Rightarrow> ('l, unit) my_action" where
  "connect_upstream env options co s =
     (case mysql_connect (me_crypto env) (me_peer env options) options co (ms_upstream s) of
        (Inr (_, inbox), c) \<Rightarrow> (Inr (), s\<lparr>ms_upstream := c, ms_up_inbox := inbox\<rparr>)
      | (Inl e, c) \<Rightarrow>
          then_a (send_error 1045 ''Access denied'') (\<lambda>_. throw_a e) (s\<lparr>ms_upstream := c\<rparr>))"

definition run_authorized_inner ::
  "'l mysql_env \<Rightarrow> HandshakeResponse \<Rightarrow> string \<Rightarrow> TargetMySqlOptions \<Rightarrow> DbCommandAclEnforcer
     \<Rightarrow> bytes inbound list \<Rightarrow> ('l, unit) my_action" where
  "run_authorized_inner env handshake tname options acl inp =
     then_a (modify_a (\<lambda>s. s\<lparr>ms_database := hr_database handshake, ms_username := Some (hr_username handshake)\<rparr>)) (\<lambda>_.
     then_a (gets_a ms_capabilities) (\<lambda>caps.
     then_a (connect_upstream env options
               \<lparr>co_collation = hr_collation handshake, co_database = hr_database handshake,
                co_max_packet_size = hr_max_packet_size handshake, co_capabilities = caps\<rparr>) (\<lambda>_.
     then_a (gets_a ms_id) (\<lambda>i.
     then_a (on_gw MyGated (gw_target_connected i)) (\<lambda>_.
       command_loop env acl tname 0 inp)))))"

section \<open>Login\<close>

fun mysql_target :: "target_row \<Rightarrow> (target_row \<times> TargetMySqlOptions) option" where
  "mysql_target t = (case tr_options t of Some (MySqlOptions opts) \<Rightarrow> Some (t, opts) | _ \<Rightarrow> None)"

definition find_mysql_target :: "string \<Rightarrow> target_row list \<Rightarrow> (target_row \<times> TargetMySqlOptions) option" where
  "find_mysql_target name ts =
     find (\<lambda>(t, _). tr_name t = name) (List.map_filter mysql_target ts)"

text \<open>The options to connect with, or the error sent to the client.\<close>

definition login_options ::
  "(LoginSelectionError \<Rightarrow> string) \<Rightarrow> Db \<Rightarrow> target_row \<Rightarrow> TargetMySqlOptions \<Rightarrow> string \<Rightarrow> string option
     \<Rightarrow> (u16 \<times> string) + TargetMySqlOptions" where
  "login_options login_text db target options login_username requested =
     (case select_login db (tr_id target) login_username requested of
        Inl e \<Rightarrow> Inl (1045, login_text e @ ''. Add the account to the user name: <user>:<target>:<account>'')
      | Inr login \<Rightarrow>
          (case resolve_db_account db (tr_id target) (MySqlOptions options) login of
             Inr (Some (_, creds)) \<Rightarrow>
               Inr (options\<lparr>my_username := dp_username creds, my_password := Some (dp_password creds)\<rparr>)
           | Inr None \<Rightarrow> Inr options
           | Inl _ \<Rightarrow> Inl (1045, ''Access denied'')))"

definition run_authorized ::
  "'l mysql_env \<Rightarrow> HandshakeResponse \<Rightarrow> AuthStateUserInfo \<Rightarrow> string \<Rightarrow> string option \<Rightarrow> bytes inbound list
     \<Rightarrow> ('l, unit) my_action" where
  "run_authorized env handshake user_info tname requested inp =
     then_a (to_client (encode_OkPacket \<lparr>ok_affected_rows = 0, ok_last_insert_id = 0, ok_status = 0, ok_warnings = 0\<rparr>)) (\<lambda>_.
     then_a (on_gw MyGated gw_list_targets) (\<lambda>targets.
       case find_mysql_target tname targets of
         None \<Rightarrow> send_error 1 ''Gated access denied''
       | Some (target, mysql_options) \<Rightarrow>
           then_a (gets_a ms_id) (\<lambda>i.
           then_a (on_gw MyGated (gw_set_user_info (me_gw env) i user_info)) (\<lambda>_.
           then_a (on_gw MyGated (gw_set_target (me_gw env) i target)) (\<lambda>_.
           then_a (on_gw my_other gw_db_required) (\<lambda>db.
             case login_options (ge_login_text (me_gw env)) db target mysql_options (ui_username user_info) requested of
               Inl (code, message) \<Rightarrow> send_error code message
             | Inr options \<Rightarrow>
                 then_a (on_gw my_other gw_db_required) (\<lambda>db.
                   run_authorized_inner env handshake tname options
                     (enforcer_new db (tr_id target) (ui_id user_info)) inp)))))))"

definition auth_fail :: "string \<Rightarrow> string \<Rightarrow> ('l, unit) my_action" where
  "auth_fail uname target =
     then_a (modify_a (\<lambda>s. s\<lparr>ms_rejected := ms_rejected s @ [(uname, target)]\<rparr>)) (\<lambda>_.
       send_error 1 ''Gated access denied'')"

text \<open>The password of a user, checked against the policy for this protocol.\<close>

definition authenticate_user ::
  "'l mysql_env \<Rightarrow> string \<Rightarrow> string \<Rightarrow> ('l, AuthResult) my_action" where
  "authenticate_user env uname password =
     then_a (gets_a ms_id) (\<lambda>i.
     then_a (on_gw MyGated (gw_create_state (me_gw env) i uname ''MySQL'' [CredentialKind.Password])) (\<lambda>a.
     then_a (on_gw MyGated (gw_validate (me_gw env) uname (Password password))) (\<lambda>ok.
     then_a (if ok then on_gw MyGated (gw_add_credential a (Password password)) else done_a ()) (\<lambda>_.
     then_a (gets_a (\<lambda>s. gw_state a (ms_gw s))) (\<lambda>st.
       case st of
         None \<Rightarrow> done_a Rejected
       | Some st \<Rightarrow>
           (case verify st of
              Accepted ui \<Rightarrow> then_a (on_gw MyGated (gw_complete a)) (\<lambda>_. done_a (Accepted ui))
            | r \<Rightarrow> done_a r))))))"

definition run_authorization ::
  "'l mysql_env \<Rightarrow> HandshakeResponse \<Rightarrow> string \<Rightarrow> bytes inbound list \<Rightarrow> ('l, unit) my_action" where
  "run_authorization env handshake password inp =
     (case selector_from (hr_username handshake) of
        User uname tname acct \<Rightarrow>
          then_a (authenticate_user env uname password) (\<lambda>r.
            case r of
              Accepted ui \<Rightarrow>
                then_a (on_gw my_other (gw_authorize_target (ui_username ui) tname)) (\<lambda>allowed.
                  if \<not> allowed then auth_fail uname tname
                  else run_authorized env handshake ui tname acct inp)
            | _ \<Rightarrow> auth_fail uname tname)
      | Ticket sec \<Rightarrow>
          then_a (on_gw my_other (gw_authorize_ticket (me_gw env) sec)) (\<lambda>found.
            case found of
              Some (ticket, ui) \<Rightarrow>
                then_a (on_gw my_other (gw_consume_ticket (ticket_id ticket))) (\<lambda>_.
                  run_authorized env handshake ui (ticket_target ticket) None inp)
            | None \<Rightarrow> auth_fail ''ticket'' []))"

section \<open>Connection phase\<close>

definition upgrade_client :: "'l mysql_env \<Rightarrow> ('l, unit) my_action" where
  "upgrade_client env =
     (if me_tls_accept env then modify_a (\<lambda>s. s\<lparr>ms_client := (ms_client s)\<lparr>cn_tls := True\<rparr>\<rparr>)
      else throw_a MyTls)"

fun handshake_loop ::
  "'l mysql_env \<Rightarrow> bytes inbound list \<Rightarrow> ('l, HandshakeResponse \<times> bytes inbound list) my_action" where
  "handshake_loop env [] = throw_a MyEof"
| "handshake_loop env (Broken # inp) = throw_a MyStream"
| "handshake_loop env (Packet payload # inp) =
     then_a (gets_a ms_capabilities) (\<lambda>caps.
     then_a (result_a (map_error decode_error (decode_HandshakeResponse caps payload))) (\<lambda>(resp, caps').
     then_a (modify_a (\<lambda>s. s\<lparr>ms_capabilities := caps'\<rparr>)) (\<lambda>_.
       if caps_contains caps' SSL then
         then_a (gets_a (\<lambda>s. cn_tls (ms_client s))) (\<lambda>tls.
           if tls then done_a (resp, inp)
           else then_a (upgrade_client env) (\<lambda>_. handshake_loop env inp))
       else then_a (send_error 1002 ''Gated requires TLS - please enable it in your client: add `--ssl` on the CLI or add `?sslMode=PREFERRED` to your database URI'') (\<lambda>_. throw_a MyTlsNotSupportedByClient))))"

definition client_password ::
  "HandshakeResponse \<Rightarrow> bytes inbound list \<Rightarrow> ('l, string \<times> bytes inbound list) my_action" where
  "client_password resp inp =
     (case (hr_auth_plugin resp, hr_auth_response resp) of
        (Some MySqlClearPassword, Some response) \<Rightarrow>
          then_a (result_a (map_error MySqlx (get_str_nul response))) (\<lambda>(password, _). done_a (password, inp))
      | _ \<Rightarrow>
          then_a (to_client (encode_AuthSwitchRequest \<lparr>asw_plugin = MySqlClearPassword, asw_data = []\<rparr>)) (\<lambda>_.
            case inp of
              [] \<Rightarrow> throw_a MyEof
            | Broken # _ \<Rightarrow> throw_a MyStream
            | Packet response # inp' \<Rightarrow>
                then_a (result_a (map_error MySqlx (get_str_nul response))) (\<lambda>(password, _). done_a (password, inp'))))"

definition mysql_run :: "'l mysql_env \<Rightarrow> bytes inbound list \<Rightarrow> ('l, unit) my_action" where
  "mysql_run env inp =
     then_a (gets_a (\<lambda>s. gateway_handshake (ms_capabilities s) (ms_challenge s))) (\<lambda>handshake.
     then_a (to_client (encode_Handshake handshake)) (\<lambda>_.
     then_a (handshake_loop env inp) (\<lambda>(resp, inp1).
     then_a (client_password resp inp1) (\<lambda>(password, inp2).
       run_authorization env resp password inp2))))"

end
