(* ===== verification/Gateway_Laws.thy ===== *)
theory Gateway_Laws
  imports Gateway Access_Laws
begin

text \<open>What the shared services guarantee to the protocol servers: an attempt starts with no
  credential under the policy of the user, and an accepted one has a valid sufficient credential.\<close>

section \<open>Frames\<close>

lemma gw_db_frame [simp]:
  "gw_db (g\<lparr>gw_auth := a\<rparr>) = gw_db g" "gw_db (g\<lparr>gw_consumed := m\<rparr>) = gw_db g"
  "gw_db (g\<lparr>gw_connected := c\<rparr>) = gw_db g"
  by (simp_all add: gw_db_def)

lemma store_create_Inr:
  assumes "store_create db i now ident sid uname protocol kinds st = (Inr a, st')"
  shows "a = i \<and> (\<exists>pol s. get_credential_policy db uname kinds = Inr (Some pol) \<and> auth_heap st' i = Some s \<and>
     policy s = pol \<and> as_protocol s = protocol \<and> valid_credentials s = [] \<and> \<not> force_rejected s \<and>
     ui_username (as_user_info s) = uname)"
proof -
  obtain users u pol where "list_users db = Inr users" and u: "find (\<lambda>u. user_name u = uname) users = Some u"
    and pol: "get_credential_policy db uname kinds = Inr (Some pol)"
    and st: "a = i" "auth_heap st' i = Some (auth_state_new i sid \<lparr>ui_id = user_id u, ui_username = user_name u\<rparr> protocol pol now ident)"
    using assms by (auto simp: store_create_def res_simps split: sum.splits option.splits)
  then show ?thesis using find_Some_in [OF u] by (auto simp: auth_state_new_def)
qed

text \<open>An attempt whose heap entry is as created.\<close>

definition fresh_attempt :: "Db option \<Rightarrow> string \<Rightarrow> string \<Rightarrow> CredentialKind list \<Rightarrow> AuthState \<Rightarrow> bool" where
  "fresh_attempt db uname protocol kinds s \<longleftrightarrow>
     get_credential_policy db uname kinds = Inr (Some (policy s)) \<and> as_protocol s = protocol \<and>
     valid_credentials s = [] \<and> \<not> force_rejected s \<and> ui_username (as_user_info s) = uname"

definition gw_at :: "Db option \<Rightarrow> consumed \<Rightarrow> 'l gateway \<Rightarrow> bool" where
  "gw_at db m g \<longleftrightarrow> gw_db g = db \<and> gw_consumed g = m"

lemma gw_create_state_spec:
  "hoare (gw_at db m) (gw_create_state env sid uname protocol kinds)
     (\<lambda>a g. gw_at db m g \<and> (\<exists>s. gw_state a g = Some s \<and> fresh_attempt db uname protocol kinds s))
     (\<lambda>_. gw_at db m)"
proof (rule hoareI)
  fix w :: "'a gateway" and a w'
  assume w: "gw_at db m w" and r: "gw_create_state env sid uname protocol kinds w = (Inr a, w')"
  obtain r' st where "store_create (gw_db w) (ge_auth_id env) (ge_now env) (ge_ident env) (Some sid) uname protocol kinds (gw_auth w) = (r', st)"
    by fastforce
  with r have "store_create (gw_db w) (ge_auth_id env) (ge_now env) (ge_ident env) (Some sid) uname protocol kinds (gw_auth w) = (Inr a, st)"
    and "w' = w\<lparr>gw_auth := st\<rparr>" by (auto simp: gw_create_state_def res_simps)
  from store_create_Inr [OF this(1)] this(2) w show "gw_at db m w' \<and> (\<exists>s. gw_state a w' = Some s \<and> fresh_attempt db uname protocol kinds s)"
    by (auto simp: gw_at_def gw_state_def fresh_attempt_def)
qed (auto simp: gw_create_state_def gw_at_def split: prod.splits)

lemma gw_validate_spec:
  "hoare (\<lambda>g. gw_at db m g \<and> R g) (gw_validate env uname cred)
     (\<lambda>ok g. gw_db g = db \<and> (ok \<longrightarrow> fst (validate_credential (ge_crypto env) (ge_now env) m db uname cred) = Inr True) \<and>
        (\<exists>g0. R g0 \<and> gw_auth g = gw_auth g0))
     (\<lambda>_ g. gw_db g = db)"
  by (rule hoareI) (auto simp: gw_validate_def gw_at_def map_error_Inr split: prod.splits)

text \<open>The attempt after the validated credential was added.\<close>

definition password_ok :: "'l gw_env \<Rightarrow> Db option \<Rightarrow> consumed \<Rightarrow> string \<Rightarrow> string \<Rightarrow> string \<Rightarrow> bool" where
  "password_ok env db m uname protocol pw \<longleftrightarrow>
     (\<exists>pol. get_credential_policy db uname [CredentialKind.Password] = Inr (Some pol) \<and>
        is_sufficient pol protocol [Password pw] = Ok) \<and>
     fst (validate_credential (ge_crypto env) (ge_now env) m db uname (Password pw)) = Inr True"

lemma verify_accepted:
  "verify s = Accepted ui \<Longrightarrow> is_sufficient (policy s) (as_protocol s) (valid_credentials s) = Ok \<and> ui = as_user_info s"
  by (auto simp: verify_def current_verification_state_def split: if_splits CredentialPolicyResponse.splits)

lemma fresh_not_accepted: "fresh_attempt db u p ks s \<Longrightarrow> verify s \<noteq> Accepted ui"
  using pol.fails_closed verify_accepted by (metis fresh_attempt_def)

lemma add_valid_frame [simp]:
  "policy (add_valid_credential s c) = policy s" "as_protocol (add_valid_credential s c) = as_protocol s"
  "valid_credentials (add_valid_credential s c) = valid_credentials s @ [c]"
  "as_user_info (add_valid_credential s c) = as_user_info s"
  by (simp_all add: add_valid_credential_def)

end
