(* ===== verification/Mysql_Wire_Laws.thy ===== *)
theory Mysql_Wire_Laws
  imports Mysql_Wire
begin

text \<open>Reading back what was written: the primitive readers as codecs, the flag sets, and the packets of
  the connection phase.\<close>
unbundle bit_operations_syntax

section \<open>Readers\<close>

named_theorems wire \<open>reading back what a writer wrote\<close>

lemma ret_apply [wire]: "ret x buf = Inr (x, buf)"
  by (simp add: ret_def)

lemma rd_ret [wire]: "rd (ret x) f buf = f x buf"
  by (simp add: rd_def ret_def)

lemma rd_rd [wire]: "rd (rd p f) g buf = rd p (\<lambda>x. rd (f x) g) buf"
  by (simp add: rd_def rbind_assoc split_def)

lemma rd_ret_Inr: "rd p (\<lambda>x. ret (f x)) buf = Inr (y, rest) \<longleftrightarrow> (\<exists>x. p buf = Inr (x, rest) \<and> y = f x)"
  by (auto simp: rd_def ret_def res_simps)

lemma take_le_bytes_append [simp]: "take k (le_bytes k n @ rest) = le_bytes k n"
  "drop k (le_bytes k n @ rest) = rest"
  by simp_all

lemma try_get_le_put: "n < 256 ^ k \<Longrightarrow> try_get_le k (le_bytes k n @ rest) = Inr (n, rest)"
  by (simp add: try_get_le_def le_val_le_bytes)

lemma try_get_u8_Cons [wire]: "try_get_u8 (b # rest) = Inr (b, rest)"
  by (simp add: try_get_u8_def try_get_le_def rd_def ret_def)

lemma try_get_u16_put [wire]: "try_get_u16_le (put_u16_le v @ rest) = Inr (v, rest)"
proof -
  have "unat v < 256 ^ 2" using unsigned_less [where 'a = nat, of v] by simp
  from try_get_le_put [OF this] show ?thesis
    by (simp add: try_get_u16_le_def put_u16_le_def rd_def ret_def)
qed

lemma try_get_u32_put [wire]: "try_get_u32_le (put_u32_le v @ rest) = Inr (v, rest)"
proof -
  have "unat v < 256 ^ 4" using unsigned_less [where 'a = nat, of v] by simp
  from try_get_le_put [OF this] show ?thesis
    by (simp add: try_get_u32_le_def put_u32_le_def rd_def ret_def)
qed

lemma get_bytes_append [wire]: "length xs = k \<Longrightarrow> get_bytes k (xs @ rest) = Inr (xs, rest)"
  by (auto simp: get_bytes_def)

lemma skip_append [wire]: "length xs = k \<Longrightarrow> skip k (xs @ rest) = Inr ((), rest)"
  by (auto simp: skip_def)

lemma skip_replicate [wire]: "skip k (replicate k x @ rest) = Inr ((), rest)"
  by (simp add: skip_append)

lemma skip_1 [wire]: "skip 1 (x # rest) = Inr ((), rest)" "skip (Suc 0) (x # rest) = Inr ((), rest)"
  by (simp_all add: skip_def)

lemma get_bytes_nul_append [wire]: "0 \<notin> set xs \<Longrightarrow> get_bytes_nul (xs @ 0 # rest) = Inr (xs, rest)"
  by (simp add: get_bytes_nul_def takeWhile_append dropWhile_append)

lemma zero_in_as_bytes: "0 \<in> set (as_bytes s) \<longleftrightarrow> CHR 0x00 \<in> set s"
proof -
  have "(word_of_nat (char_code c) :: u8) = 0 \<longleftrightarrow> c = CHR 0x00" for c
  proof
    assume "(word_of_nat (char_code c) :: u8) = 0"
    then have "char_code c = char_code (CHR 0x00)" using unat_of_code [of c] by (simp add: char_code_def)
    then show "c = CHR 0x00" by (simp only: char_code_inject)
  qed (simp add: char_code_def)
  then show ?thesis by (auto simp: as_bytes_def image_iff)
qed

definition c_str :: "string \<Rightarrow> bool" where
  "c_str s \<longleftrightarrow> str_ok s \<and> CHR 0x00 \<notin> set s"

lemma get_str_nul_put [wire]: "c_str s \<Longrightarrow> get_str_nul (put_str_nul s @ rest) = Inr (s, rest)"
  by (simp add: get_str_nul_def put_str_nul_def c_str_def get_bytes_nul_append zero_in_as_bytes from_utf8_def str_ok_def)

lemma get_str_as_bytes [wire]: "str_ok s \<Longrightarrow> k = length s \<Longrightarrow> get_str k (as_bytes s @ rest) = Inr (s, rest)"
  by (simp add: get_str_def from_utf8_def str_ok_def)

section \<open>Length-encoded values\<close>

lemma take_le_bytes: "k \<le> m \<Longrightarrow> take k (le_bytes m n) = le_bytes k n"
proof (induction m arbitrary: k n)
  case (Suc m)
  then show ?case by (cases k) simp_all
qed simp

lemma get_uint_lenenc_tags:
  "v < 251 \<Longrightarrow> get_uint_lenenc (v # rest) = Inr (ucast v, rest)"
  "n < 256 ^ 2 \<Longrightarrow> get_uint_lenenc (0xfc # le_bytes 2 n @ rest) = Inr (word_of_nat n, rest)"
  "n < 256 ^ 3 \<Longrightarrow> get_uint_lenenc (0xfd # le_bytes 3 n @ rest) = Inr (word_of_nat n, rest)"
  "n < 256 ^ 8 \<Longrightarrow> get_uint_lenenc (0xfe # le_bytes 8 n @ rest) = Inr (word_of_nat n, rest)"
proof -
  show "get_uint_lenenc (v # rest) = Inr (ucast v, rest)" if "v < 251"
  proof -
    have "v \<noteq> 0xfc" "v \<noteq> 0xfd" "v \<noteq> 0xfe" using that by auto
    then show ?thesis by (simp add: get_uint_lenenc_def rd_def ret_def try_get_u8_Cons)
  qed
qed (simp_all only: get_uint_lenenc_def rd_def ret_def try_get_u8_Cons try_get_le_put rbind.simps prod.case,
   simp_all add: rd_def ret_def try_get_le_put)

lemma get_uint_lenenc_put [wire]: "get_uint_lenenc (put_uint_lenenc v @ rest) = Inr (v, rest)"
proof -
  consider "v < 251" | "\<not> v < 251" "v < 0x10000" | "\<not> v < 251" "\<not> v < 0x10000" "v < 0x1000000"
    | "\<not> v < 251" "\<not> v < 0x10000" "\<not> v < 0x1000000"
    by blast
  then show ?thesis
  proof cases
    case 1
    then have n: "unat v < 251" by (simp add: word_less_nat_alt)
    then have u: "unat (ucast v :: u8) = unat v"
      by (simp add: unsigned_ucast_eq unsigned_take_bit_eq take_bit_eq_mod unat_mod)
    then have "(ucast v :: u8) < 251" using n by (simp add: word_less_nat_alt)
    moreover have "ucast (ucast v :: u8) = v"
      using u by (simp add: word_unat_eq_iff unsigned_ucast_eq unsigned_take_bit_eq take_bit_eq_mod unat_mod)
    ultimately show ?thesis using 1 get_uint_lenenc_tags(1) [of "ucast v"] by (simp add: put_uint_lenenc_def)
  next
    case 2
    then have "unat v < 256 ^ 2" by (simp add: word_less_nat_alt)
    from get_uint_lenenc_tags(2) [OF this] 2 show ?thesis by (simp add: put_uint_lenenc_def)
  next
    case 3
    then have "unat v < 256 ^ 3" by (simp add: word_less_nat_alt)
    from get_uint_lenenc_tags(3) [OF this] 3 show ?thesis by (simp add: put_uint_lenenc_def take_le_bytes)
  next
    case 4
    have "unat v < 256 ^ 8" using unsigned_less [where 'a = nat, of v] by simp
    from get_uint_lenenc_tags(4) [OF this] 4 show ?thesis by (simp add: put_uint_lenenc_def)
  qed
qed

lemma get_bytes_lenenc_put [wire]:
  "length v < 2 ^ 64 \<Longrightarrow> get_bytes_lenenc (put_bytes_lenenc v @ rest) = Inr (v, rest)"
  by (simp add: get_bytes_lenenc_def put_bytes_lenenc_def lenenc_len_def rd_def ret_def wire unat_of_nat)

lemma plugin_from_name [wire]: "plugin_from_str (plugin_name p) = Inr p"
  by (cases p) (simp_all add: plugin_from_str_def)

lemma c_str_plugin_names:
  "c_str ''mysql_clear_password''" "c_str ''mysql_native_password''"
  "c_str ''caching_sha2_password''" "c_str ''sha256_password''"
  by (simp_all add: c_str_def str_ok_ascii char_code_def)

lemma c_str_plugin [wire]: "c_str (plugin_name p)"
  by (cases p) (simp_all add: c_str_plugin_names)

lemma get_plugin_put [wire]: "get_plugin (put_str_nul (plugin_name p) @ rest) = Inr (p, rest)"
  by (simp add: get_plugin_def rd_def wire)

interpretation lenenc: codec put_uint_lenenc get_uint_lenenc "\<lambda>_. True"
  by unfold_locales (rule get_uint_lenenc_put)

interpretation lenenc_bytes: codec put_bytes_lenenc get_bytes_lenenc "\<lambda>v. length v < 2 ^ 64"
  by unfold_locales (rule get_bytes_lenenc_put)

interpretation str_nul: codec put_str_nul get_str_nul c_str
  by unfold_locales (rule get_str_nul_put)

interpretation plugin: codec "\<lambda>p. put_str_nul (plugin_name p)" get_plugin "\<lambda>_. True"
  by unfold_locales (rule get_plugin_put)

text \<open>The same laws under the sequencing of readers.\<close>

lemma rd_wire [wire]:
  "rd try_get_u8 f1 (b # rest) = f1 b rest"
  "rd try_get_u16_le f2 (put_u16_le v2 @ rest) = f2 v2 rest"
  "rd try_get_u32_le f3 (put_u32_le v3 @ rest) = f3 v3 rest"
  "rd get_uint_lenenc f4 (put_uint_lenenc v4 @ rest) = f4 v4 rest"
  "rd get_plugin f5 (put_str_nul (plugin_name p) @ rest) = f5 p rest"
  "rd (skip 1) f6 (b # rest) = f6 () rest"
  "rd (skip k) f7 (replicate k x @ rest) = f7 () rest"
  by (simp_all only: rd_def wire rbind.simps prod.case)

lemma rd_wire_cond [wire]:
  "length xs = k \<Longrightarrow> rd (get_bytes k) f1 (xs @ rest) = f1 xs rest"
  "length xs = k \<Longrightarrow> rd (skip k) f2 (xs @ rest) = f2 () rest"
  "c_str s \<Longrightarrow> rd get_str_nul f3 (put_str_nul s @ rest) = f3 s rest"
  "length xs < 2 ^ 64 \<Longrightarrow> rd get_bytes_lenenc f4 (put_bytes_lenenc xs @ rest) = f4 xs rest"
  "0 \<notin> set xs \<Longrightarrow> rd get_bytes_nul f5 (xs @ 0 # rest) = f5 xs rest"
  by (simp_all add: rd_def wire)

section \<open>Flags\<close>

lemmas cap_defs =
  MYSQL_def FOUND_ROWS_def LONG_FLAG_def CONNECT_WITH_DB_def NO_SCHEMA_def COMPRESS_def ODBC_def
  LOCAL_FILES_def IGNORE_SPACE_def PROTOCOL_41_def INTERACTIVE_def SSL_def TRANSACTIONS_def
  SECURE_CONNECTION_def MULTI_STATEMENTS_def MULTI_RESULTS_def PS_MULTI_RESULTS_def PLUGIN_AUTH_def
  CONNECT_ATTRS_def PLUGIN_AUTH_LENENC_DATA_def CAN_HANDLE_EXPIRED_PASSWORDS_def SESSION_TRACK_def
  DEPRECATE_EOF_def ZSTD_COMPRESSION_ALGORITHM_def SSL_VERIFY_SERVER_CERT_def
  OPTIONAL_RESULTSET_METADATA_def REMEMBER_OPTIONS_def

lemma capabilities_all_eq: "capabilities_all = 0xC7FFAFFF"
  by (simp add: capabilities_all_def cap_defs)

lemma status_all_eq: "status_all = 0x7FFB"
  by (simp add: status_all_def)

lemma caps_bound: "capabilities_truncate c = c \<Longrightarrow> bit c n \<Longrightarrow> n < 32"
proof -
  assume c: "capabilities_truncate c = c" and n: "bit c n"
  have "bit (c AND capabilities_all) n" using c n by (simp add: capabilities_truncate_def)
  then have "bit capabilities_all n" by (simp add: bit_simps)
  moreover have "capabilities_all = take_bit 32 capabilities_all" by (simp add: capabilities_all_eq)
  ultimately show "n < 32" by (metis bit_take_bit_iff)
qed

lemma caps_split:
  assumes "capabilities_truncate c = c"
  shows "capabilities_truncate (ucast (ucast (c AND 0xFFFF) :: u16)) OR
     capabilities_truncate (ucast (push_bit 16 (ucast (ucast (drop_bit 16 (c AND 0xFFFF0000)) :: u16) :: u32))) = c"
  (is "?l = c")
proof -
  have all: "c AND capabilities_all = c" using assms by (simp add: capabilities_truncate_def)
  have m: "(0xFFFF :: u64) = mask 16" "(0xFFFF0000 :: u64) = push_bit 16 (mask 16)" by (simp_all add: mask_eq_exp_minus_1)
  have "?l = ((ucast (ucast (c AND 0xFFFF) :: u16)) OR
     (ucast (push_bit 16 (ucast (ucast (drop_bit 16 (c AND 0xFFFF0000)) :: u16) :: u32)))) AND capabilities_all"
    by (simp add: capabilities_truncate_def bit.conj_disj_distrib2)
  also have "(ucast (ucast (c AND 0xFFFF) :: u16)) OR
     (ucast (push_bit 16 (ucast (ucast (drop_bit 16 (c AND 0xFFFF0000)) :: u16) :: u32))) = c"
    unfolding m
    by (rule bit_word_eqI) (auto simp: bit_simps dest: caps_bound [OF assms])
  finally show ?thesis using all by simp
qed

lemma caps_u32:
  assumes "capabilities_truncate c = c"
  shows "ucast (ucast c :: u32) = c" "drop_bit 32 c = 0"
  by (rule bit_word_eqI, use caps_bound [OF assms] in \<open>auto simp: bit_simps\<close>)+


section \<open>Packets\<close>

lemma ten_zeros: "replicate 10 (0 :: u8) = replicate 6 0 @ put_u32_le 0"
proof -
  have "le_bytes k 0 = replicate k 0" for k by (induction k) simp_all
  then show ?thesis by (simp add: put_u32_le_def replicate_add [symmetric])
qed

lemma length_put_u32 [simp]: "length (put_u32_le v) = 4" "length (put_u16_le w) = 2"
  by (simp_all add: put_u32_le_def put_u16_le_def)

lemma put_u32_nonempty [simp]: "put_u32_le v \<noteq> []"
  by (metis length_put_u32(1) list.size(3) zero_neq_numeral)

definition wf_Handshake :: "Handshake \<Rightarrow> bool" where
  "wf_Handshake h \<longleftrightarrow>
     c_str (hs_server_version h) \<and> length (hs_data_first h) = 8 \<and>
     capabilities_truncate (hs_capabilities h) = hs_capabilities h \<and>
     status_truncate (hs_status h) = hs_status h \<and>
     (if caps_contains (hs_capabilities h) SECURE_CONNECTION
      then 12 \<le> length (hs_data_last h) \<and>
           (if caps_contains (hs_capabilities h) PLUGIN_AUTH then length (hs_data_last h) \<le> 246
            else length (hs_data_last h) = 12)
      else hs_data_last h = []) \<and>
     (hs_auth_plugin h \<noteq> None \<longleftrightarrow> caps_contains (hs_capabilities h) PLUGIN_AUTH)"

lemma data_len_put: "12 \<le> n \<Longrightarrow> n \<le> 246 \<Longrightarrow> handshake_data_len (word_of_nat (n + 8 + 1)) = n"
proof -
  assume n: "12 \<le> n" "n \<le> 246"
  have "unat (word_of_nat (n + 8 + 1) :: u8) = n + 9" using n by (simp only: unat_of_nat) (simp add: take_bit_eq_mod)
  then show "handshake_data_len (word_of_nat (n + 8 + 1)) = n" using n by (simp only: handshake_data_len_def)
qed

lemma data_len_0: "handshake_data_len 0 = 12"
  by (simp add: handshake_data_len_def)

lemma caps_ext_0: "c OR capabilities_truncate (push_bit 32 (ucast (0 :: u32))) = c"
  by (simp add: capabilities_truncate_def)

lemma rd_data_last:
  assumes "length d = handshake_data_len n"
  shows "rd (rd (get_bytes (handshake_data_len n)) (\<lambda>v. rd (skip 1) (\<lambda>_. ret v))) f ((d @ [0]) @ rest) = f d rest"
  using assms by (simp add: rd_def get_bytes_append skip_1 ret_def)

lemma handshake_tail:
  assumes "wf_Handshake h"
  shows "rd (if caps_contains (hs_capabilities h) SECURE_CONNECTION
       then rd (get_bytes (handshake_data_len (if caps_contains (hs_capabilities h) PLUGIN_AUTH
              then word_of_nat (length (hs_data_last h) + 8 + 1) else 0))) (\<lambda>v. rd (skip 1) (\<lambda>_. ret v))
       else ret []) f
      ((if caps_contains (hs_capabilities h) SECURE_CONNECTION then hs_data_last h @ [0] else []) @ rest) =
     f (hs_data_last h) rest"
proof (cases "caps_contains (hs_capabilities h) SECURE_CONNECTION")
  case True
  then have "length (hs_data_last h) = handshake_data_len (if caps_contains (hs_capabilities h) PLUGIN_AUTH
      then word_of_nat (length (hs_data_last h) + 8 + 1) else 0)"
    using assms data_len_put [of "length (hs_data_last h)"] data_len_0
    by (cases "caps_contains (hs_capabilities h) PLUGIN_AUTH") (simp_all only: wf_Handshake_def if_True if_False)
  from rd_data_last [OF this] True show ?thesis by (simp only: if_True)
next
  case False
  then show ?thesis using assms by (simp add: wf_Handshake_def rd_def ret_def)
qed

lemma handshake_roundtrip:
  assumes "wf_Handshake h"
  shows "decode_Handshake (encode_Handshake h) = Inr h"
proof -
  let ?c = "hs_capabilities h"
  note h = assms [unfolded wf_Handshake_def]
  have split: "capabilities_truncate (ucast (ucast (?c AND 0xFFFF) :: u16)) OR
     capabilities_truncate (ucast (push_bit 16 (ucast (ucast (drop_bit 16 (?c AND 0xFFFF0000)) :: u16) :: u32))) = ?c"
    using h by (intro caps_split) simp
  have plugin: "rd (if caps_contains ?c PLUGIN_AUTH then rd get_plugin (\<lambda>p. ret (Some p)) else ret None) f
      (if caps_contains ?c PLUGIN_AUTH
      then (case hs_auth_plugin h of Some p \<Rightarrow> put_str_nul (plugin_name p) | None \<Rightarrow> [])
      else []) = f (hs_auth_plugin h) []" for f :: "_ \<Rightarrow> Handshake reader"
    using h get_plugin_put [of _ "[]"] by (auto simp: rd_def ret_def)
  have len: "rd (if caps_contains ?c PLUGIN_AUTH then try_get_u8 else rd (skip 1) (\<lambda>_. ret 0)) f
      ((if caps_contains ?c PLUGIN_AUTH then [word_of_nat (length (hs_data_last h) + 8 + 1)] else [0]) @ rest) =
      f (if caps_contains ?c PLUGIN_AUTH then word_of_nat (length (hs_data_last h) + 8 + 1) else 0) rest"
    for f :: "_ \<Rightarrow> Handshake reader" and rest
    by (simp add: rd_def ret_def try_get_u8_Cons skip_1)
  have ext: "rd (if caps_contains ?c MYSQL then rd (skip 4) (\<lambda>_. ret ?c)
        else rd try_get_u32_le (\<lambda>capabilities_3.
          ret (?c OR capabilities_truncate (push_bit 32 (ucast capabilities_3))))) f (put_u32_le 0 @ rest) = f ?c rest"
    for f :: "_ \<Rightarrow> Handshake reader" and rest
    by (simp add: rd_def ret_def skip_append try_get_u32_put caps_ext_0 capabilities_truncate_def)
  have parts: "length (hs_data_first h) = 8" "c_str (hs_server_version h)"
    and st: "status_truncate (hs_status h) = hs_status h"
    using h by auto
  show ?thesis
    unfolding decode_Handshake_def encode_Handshake_def ten_zeros Let_def
    by (simp only: rd_wire rd_wire_cond(2) rd_wire_cond(1) [OF parts(1)] rd_wire_cond(3) [OF parts(2)]
        split st len ext plugin handshake_tail [OF assms]
        append_Cons append_Nil append_assoc ret_apply rbind.simps prod.case)
      simp
qed

definition wf_HandshakeResponse :: "Capabilities \<Rightarrow> HandshakeResponse \<Rightarrow> bool" where
  "wf_HandshakeResponse caps r \<longleftrightarrow>
     capabilities_truncate caps = caps \<and> c_str (hr_username r) \<and>
     (\<exists>v. hr_auth_response r = Some v \<and>
        (if caps_contains caps PLUGIN_AUTH_LENENC_DATA then length v < 2 ^ 64
         else if caps_contains caps SECURE_CONNECTION then length v < 256 else v = [])) \<and>
     (if caps_contains caps CONNECT_WITH_DB then \<exists>d. hr_database r = Some d \<and> c_str d
      else hr_database r = None) \<and>
     (hr_auth_plugin r \<noteq> None \<longrightarrow> caps_contains caps PLUGIN_AUTH)"

lemma response_capabilities_truncate:
  "capabilities_truncate caps = caps \<Longrightarrow>
   capabilities_truncate (response_capabilities r caps) = response_capabilities r caps"
  by (simp add: capabilities_truncate_def response_capabilities_def ac_simps)
    (metis (no_types, lifting) and.assoc and.commute)

lemma response_capabilities_contains:
  "caps_contains (response_capabilities r caps) PLUGIN_AUTH_LENENC_DATA = caps_contains caps PLUGIN_AUTH_LENENC_DATA"
  "caps_contains (response_capabilities r caps) SECURE_CONNECTION = caps_contains caps SECURE_CONNECTION"
  "caps_contains (response_capabilities r caps) CONNECT_WITH_DB = caps_contains caps CONNECT_WITH_DB"
  "caps_contains (response_capabilities r caps) SSL = caps_contains caps SSL"
  "caps_contains (response_capabilities r caps) PLUGIN_AUTH \<longleftrightarrow>
     hr_auth_plugin r \<noteq> None \<and> caps_contains caps PLUGIN_AUTH"
  by (simp_all add: response_capabilities_def caps_contains_def cap_defs and.assoc)

lemma read_caps_put:
  assumes "capabilities_truncate c = c"
  shows "read_response_caps (encode_SslRequest c \<lparr>sr_max_packet_size = m, sr_collation = k\<rparr> @ rest) =
     Inr ((c, m, k), rest)"
proof (cases "caps_contains c MYSQL")
  case True
  then show ?thesis
    unfolding read_response_caps_def encode_SslRequest_def
    by (simp only: wire caps_u32 [OF assms] assms if_True append_assoc append_Cons append_Nil SslRequest.simps)
next
  case False
  have "ucast (0 :: u32) = (0 :: u64)" "ucast (0 :: u64) = (0 :: u32)" by simp_all
  with False show ?thesis
    unfolding read_response_caps_def encode_SslRequest_def
    by (simp only: wire caps_u32 [OF assms] assms if_False append_assoc append_Cons append_Nil SslRequest.simps
        push_bit_of_0 add_0_right)
qed

lemma read_body_put:
  assumes "wf_HandshakeResponse caps r"
  shows "read_response_body (response_capabilities r caps) (hr_max_packet_size r) (hr_collation r)
     (put_str_nul (hr_username r) @
         (if caps_contains (response_capabilities r caps) PLUGIN_AUTH_LENENC_DATA
          then put_bytes_lenenc (case hr_auth_response r of Some v \<Rightarrow> v | None \<Rightarrow> [])
          else if caps_contains (response_capabilities r caps) SECURE_CONNECTION
          then (case hr_auth_response r of Some v \<Rightarrow> word_of_nat (length v) # v | None \<Rightarrow> [0])
          else [0]) @
         (if caps_contains (response_capabilities r caps) CONNECT_WITH_DB
          then (case hr_database r of Some d \<Rightarrow> put_str_nul d | None \<Rightarrow> [0]) else []) @
         (if caps_contains (response_capabilities r caps) PLUGIN_AUTH
          then (case hr_auth_plugin r of Some p \<Rightarrow> put_str_nul (plugin_name p) | None \<Rightarrow> [0])
          else [])) = Inr (r, [])"
proof -
  obtain v where v: "hr_auth_response r = Some v"
    "if caps_contains caps PLUGIN_AUTH_LENENC_DATA then length v < 2 ^ 64
     else if caps_contains caps SECURE_CONNECTION then length v < 256 else v = []"
    and r: "c_str (hr_username r)"
    using assms by (auto simp: wf_HandshakeResponse_def)
  have auth: "rd (if caps_contains caps PLUGIN_AUTH_LENENC_DATA then get_bytes_lenenc
         else if caps_contains caps SECURE_CONNECTION
         then rd try_get_u8 (\<lambda>len. get_bytes (unat len))
         else get_bytes_nul) f
       ((if caps_contains caps PLUGIN_AUTH_LENENC_DATA then put_bytes_lenenc v
          else if caps_contains caps SECURE_CONNECTION then word_of_nat (length v) # v else [0]) @ rest) = f v rest"
    for f :: "_ \<Rightarrow> HandshakeResponse reader" and rest
  proof -
    have "unat (word_of_nat (length v) :: u8) = length v" if "length v < 256" 
      using that by (simp add: unat_of_nat take_bit_eq_mod)
    then show ?thesis using v(2) rd_wire_cond(5) [of "[]"] 
      by (simp add: rd_wire_cond(4) rd_rd rd_wire(1) rd_wire_cond(1) split: if_splits)
  qed
  have db: "rd (if caps_contains caps CONNECT_WITH_DB then rd get_str_nul (\<lambda>d. ret (Some d)) else ret None) f
       ((if caps_contains caps CONNECT_WITH_DB
          then (case hr_database r of Some d \<Rightarrow> put_str_nul d | None \<Rightarrow> [0]) else []) @ rest) = f (hr_database r) rest"
    for f :: "_ \<Rightarrow> HandshakeResponse reader" and rest
    using assms by (auto simp: wf_HandshakeResponse_def wire split: if_splits)
  have plugin: "rd (if hr_auth_plugin r \<noteq> None \<and> caps_contains caps PLUGIN_AUTH then rd get_plugin (\<lambda>p. ret (Some p))
         else ret None) f
       (if hr_auth_plugin r \<noteq> None \<and> caps_contains caps PLUGIN_AUTH
          then (case hr_auth_plugin r of Some p \<Rightarrow> put_str_nul (plugin_name p) | None \<Rightarrow> [0])
          else []) = f (hr_auth_plugin r) []" for f :: "_ \<Rightarrow> HandshakeResponse reader"
    using assms get_plugin_put [of _ "[]"] by (auto simp: wf_HandshakeResponse_def rd_def ret_def)
  show ?thesis
    unfolding read_response_body_def response_capabilities_contains v(1) option.case
    by (simp only: rd_wire_cond(3) [OF r] auth db plugin ret_apply) (simp add: v(1) [symmetric])
qed

lemma handshake_response_roundtrip:
  assumes "wf_HandshakeResponse caps r"
  shows "decode_HandshakeResponse server (encode_HandshakeResponse caps r) =
     Inr (r, server AND response_capabilities r caps)"
proof -
  have t: "capabilities_truncate (response_capabilities r caps) = response_capabilities r caps"
    using assms by (intro response_capabilities_truncate) (simp add: wf_HandshakeResponse_def)
  show ?thesis
    unfolding decode_HandshakeResponse_def encode_HandshakeResponse_def Let_def
    by (simp add: read_caps_put [OF t] t read_body_put [OF assms]) (simp add: put_str_nul_def)
qed

definition wf_OkPacket :: "OkPacket \<Rightarrow> bool" where
  "wf_OkPacket r \<longleftrightarrow> status_truncate (ok_status r) = ok_status r"

lemma ok_roundtrip: "wf_OkPacket r \<Longrightarrow> decode_OkPacket (encode_OkPacket r) = Inr r"
  using try_get_u16_put [of _ "[]"]
  by (simp add: decode_OkPacket_def encode_OkPacket_def wf_OkPacket_def wire) (simp add: rd_def ret_def)

lemma query_roundtrip: "str_ok q \<Longrightarrow> decode_Query (encode_Query q) = Inr q"
  using get_str_as_bytes [of q _ "[]"] by (simp add: decode_Query_def encode_Query_def rd_def skip_1)

text \<open>The request to switch the authentication method is written without the byte that its reader
  expects after the 20 bytes of data: no request that the gateway writes with a regular challenge is
  readable by the same code.\<close>

lemma auth_switch_not_read_back:
  "length d = 20 \<Longrightarrow> decode_AuthSwitchRequest (encode_AuthSwitchRequest \<lparr>asw_plugin = p, asw_data = d\<rparr>) = Inl Protocol"
  by (simp add: decode_AuthSwitchRequest_def encode_AuthSwitchRequest_def wire)

text \<open>The SQL state of an error is not written.\<close>

lemma as_bytes_Nil: "as_bytes [] = []"
  by (simp add: as_bytes_def)

lemma err_read_back:
  assumes "str_ok m" and "\<not> caps_contains c PROTOCOL_41 \<or> m = [] \<or> hd (as_bytes m) \<noteq> 0x23"
  shows "decode_ErrPacket c (encode_ErrPacket \<lparr>err_code = n, err_sql_state = s, err_message = m\<rparr>) =
    Inr \<lparr>err_code = n, err_sql_state = None, err_message = m\<rparr>"
  using assms get_str_as_bytes [of m _ "[]"]
  by (auto simp add: as_bytes_Nil decode_ErrPacket_def encode_ErrPacket_def rd_def ret_def try_get_u8_Cons try_get_u16_put)

section \<open>All packets\<close>


definition sample_greeting :: Handshake where
  "sample_greeting =
     \<lparr>hs_protocol_version = 10, hs_server_version = ''8.0.0-Gated'', hs_connection_id = 1,
      hs_capabilities = PLUGIN_AUTH OR SECURE_CONNECTION, hs_collation = 45, hs_status = 0,
      hs_auth_plugin = Some MySqlNativePassword,
      hs_data_first = replicate 8 7, hs_data_last = replicate 12 9\<rparr>"

definition sample_answer :: HandshakeResponse where
  "sample_answer =
     \<lparr>hr_database = None, hr_max_packet_size = 1024, hr_collation = 45, hr_username = ''ann:db'',
      hr_auth_plugin = Some MySqlClearPassword, hr_auth_response = Some [112, 119, 0]\<rparr>"


end
