(* ===== verification/Mysql_Laws.thy ===== *)
theory Mysql_Laws
  imports Mysql_Session Gateway_Laws Mysql_Wire_Laws Session_Laws
begin

text \<open>What the MySQL server lets through: nothing is sent to a target before a login over TLS that the
  policy, the password and the roles of the user allow.\<close>

section \<open>Frames\<close>

lemma to_client_frame:
  assumes "to_client p s = (r, s')"
  shows "ms_upstream s' = ms_upstream s \<and> ms_gw s' = ms_gw s \<and> cn_tls (ms_client s') = cn_tls (ms_client s) \<and>
     ms_recorded s' = ms_recorded s \<and> ms_database s' = ms_database s \<and> ms_capabilities s' = ms_capabilities s \<and>
     ms_up_inbox s' = ms_up_inbox s \<and> ms_id s' = ms_id s"
  using assms by (auto simp: to_client_def conn_send_def split: prod.splits if_splits)

text \<open>What reaches the target depends on the outbox towards it and on the encryption of the client.\<close>

definition upstream_view :: "'l MySqlSession \<Rightarrow> (bool \<times> bytes) list \<times> bool" where
  "upstream_view s = (cn_out (ms_upstream s), cn_tls (ms_client s))"

definition quiet :: "Db option \<Rightarrow> consumed \<Rightarrow> bool \<Rightarrow> 'l MySqlSession \<Rightarrow> bool" where
  "quiet db m tls s \<longleftrightarrow> upstream_view s = ([], tls) \<and> gw_at db m (ms_gw s)"

definition silent :: "bool \<Rightarrow> 'l MySqlSession \<Rightarrow> bool" where
  "silent tls s \<longleftrightarrow> upstream_view s = ([], tls)"

lemma to_client_keeps:
  "keeps (quiet db m tls) (to_client p)" "keeps (silent tls) (to_client p)"
  by (auto simp: keeps_def to_client_def conn_send_def quiet_def silent_def upstream_view_def)

lemma keeps_hoare: "keeps I m \<Longrightarrow> hoare I m (\<lambda>_. I) (\<lambda>_. I)"
  by (fastforce simp: keeps_def hoare_def split: prod.split sum.split)

lemma send_error_keeps:
  "keeps (quiet db m tls) (send_error c t)" "keeps (silent tls) (send_error c t)"
  by (simp_all add: send_error_def to_client_keeps)

lemma auth_fail_keeps: "keeps (silent tls) (auth_fail u t)"
  unfolding auth_fail_def by (intro keeps_then keeps_modify send_error_keeps) (simp add: silent_def upstream_view_def)

lemma on_gw_hoare:
  assumes "hoare P m Q E" and "\<And>s g. R (s\<lparr>ms_gw := g\<rparr>) = R s"
  shows "hoare (\<lambda>s. R s \<and> P (ms_gw s)) (on_gw f m) (\<lambda>x s. R s \<and> Q x (ms_gw s)) (\<lambda>e s. R s)"
proof (rule hoareI)
  fix w x w' assume w: "R w \<and> P (ms_gw w)" and r: "on_gw f m w = (Inr x, w')"
  obtain r g where m: "m (ms_gw w) = (r, g)" by fastforce
  with r have "r = Inr x" "w' = w\<lparr>ms_gw := g\<rparr>" by (auto simp: on_gw_def map_error_Inr)
  with m w hoareD(1) [OF assms(1)] show "R w' \<and> Q x (ms_gw w')" by (auto simp: assms(2))
next
  fix w e w' assume "R w \<and> P (ms_gw w)" "on_gw f m w = (Inl e, w')"
  then show "R w'" by (auto simp: on_gw_def assms(2) split: prod.splits)
qed

lemma on_gw_silent: "keeps (silent tls) (on_gw f m)"
  by (auto simp: keeps_def on_gw_def silent_def upstream_view_def split: prod.splits)

lemma silent_gw [simp]: "silent tls (s\<lparr>ms_gw := g\<rparr>) = silent tls s"
  by (simp add: silent_def upstream_view_def)

lemma quiet_alt: "quiet db m tls s \<longleftrightarrow> silent tls s \<and> gw_at db m (ms_gw s)"
  by (simp add: quiet_def silent_def)

section \<open>Login\<close>

lemma authenticate_user_spec:
  "hoare (quiet db m tls) (authenticate_user env uname pw)
     (\<lambda>r s. silent tls s \<and> gw_db (ms_gw s) = db \<and>
        (\<forall>ui. r = Accepted ui \<longrightarrow> password_ok (me_gw env) db m uname ''MySQL'' pw \<and> ui_username ui = uname))
     (\<lambda>_. silent tls)"
proof -
  let ?kinds = "[CredentialKind.Password]"
  have create: "hoare (quiet db m tls) (on_gw MyGated (gw_create_state (me_gw env) i uname ''MySQL'' ?kinds))
      (\<lambda>a s. silent tls s \<and> gw_at db m (ms_gw s) \<and>
         (\<exists>st. gw_state a (ms_gw s) = Some st \<and> fresh_attempt db uname ''MySQL'' ?kinds st)) (\<lambda>_. silent tls)" for i
    using on_gw_hoare [OF gw_create_state_spec, of "silent tls"] by (simp add: quiet_alt [abs_def])
  have validate: "hoare (\<lambda>s. silent tls s \<and> gw_at db m (ms_gw s) \<and>
         (\<exists>st. gw_state a (ms_gw s) = Some st \<and> fresh_attempt db uname ''MySQL'' ?kinds st))
      (on_gw MyGated (gw_validate (me_gw env) uname (Password pw)))
      (\<lambda>ok s. silent tls s \<and> gw_db (ms_gw s) = db \<and>
        (ok \<longrightarrow> fst (validate_credential (ge_crypto (me_gw env)) (ge_now (me_gw env)) m db uname (Password pw)) = Inr True) \<and>
        (\<exists>st. gw_state a (ms_gw s) = Some st \<and> fresh_attempt db uname ''MySQL'' ?kinds st)) (\<lambda>_. silent tls)" for a
    by (rule hoare_weaken [OF on_gw_hoare [OF gw_validate_spec [where R = "\<lambda>g. \<exists>st. gw_state a g = Some st \<and>
          fresh_attempt db uname ''MySQL'' ?kinds st"], of "silent tls"]])
      (auto simp: gw_state_def)
  show ?thesis
    unfolding authenticate_user_def
  proof (rule hoare_then, rule hoare_gets, assumption, rule hoare_then, rule create, rule hoare_then, rule validate,
      rule hoareI)
    fix a ok w x w'
    assume w: "silent tls w \<and> gw_db (ms_gw w) = db \<and>
        (ok \<longrightarrow> fst (validate_credential (ge_crypto (me_gw env)) (ge_now (me_gw env)) m db uname (Password pw)) = Inr True) \<and>
        (\<exists>st. gw_state a (ms_gw w) = Some st \<and> fresh_attempt db uname ''MySQL'' ?kinds st)"
      and run: "then_a (if ok then on_gw MyGated (gw_add_credential a (Password pw)) else done_a ()) (\<lambda>_.
          then_a (gets_a (\<lambda>s. gw_state a (ms_gw s))) (\<lambda>st. case st of None \<Rightarrow> done_a Rejected
            | Some st \<Rightarrow> (case verify st of Accepted ui \<Rightarrow> then_a (on_gw MyGated (gw_complete a)) (\<lambda>_. done_a (Accepted ui))
                | r \<Rightarrow> done_a r))) w = (Inr x, w')"
    from w obtain st where st: "gw_state a (ms_gw w) = Some st" "fresh_attempt db uname ''MySQL'' ?kinds st" by blast
    let ?st = "if ok then add_valid_credential st (Password pw) else st"
    have "x = verify ?st" "silent tls w' \<and> gw_db (ms_gw w') = db"
      using run w st(1)
      by (auto simp: act then_a_def on_gw_def gw_add_credential_def gw_complete_def gw_state_def update_state_def
          split: if_splits AuthResult.splits)
    moreover have "ok \<and> is_sufficient (policy st) ''MySQL'' [Password pw] = Ok \<and> ui = as_user_info st"
      if "verify ?st = Accepted ui" for ui
      using that st(2) fresh_not_accepted [OF st(2)] verify_accepted [OF that]
      by (auto simp: fresh_attempt_def split: if_splits)
    ultimately show "silent tls w' \<and> gw_db (ms_gw w') = db \<and>
        (\<forall>ui. x = Accepted ui \<longrightarrow> password_ok (me_gw env) db m uname ''MySQL'' pw \<and> ui_username ui = uname)"
      using w st(2) by (auto simp: password_ok_def fresh_attempt_def)
  qed (auto simp: act then_a_def on_gw_def gw_add_credential_def gw_complete_def split: if_splits option.splits AuthResult.splits)
qed


definition encrypted :: "'l MySqlSession \<Rightarrow> bool" where
  "encrypted s \<longleftrightarrow> cn_tls (ms_client s)"

named_theorems enc \<open>actions that keep the encryption of the client\<close>

lemma encrypted_updates [simp]:
  "encrypted (s\<lparr>ms_gw := g\<rparr>) = encrypted s" "encrypted (s\<lparr>ms_recorded := x1\<rparr>) = encrypted s"
  "encrypted (s\<lparr>ms_rejected := x2\<rparr>) = encrypted s" "encrypted (s\<lparr>ms_database := x3\<rparr>) = encrypted s"
  "encrypted (s\<lparr>ms_database := x3, ms_username := x4\<rparr>) = encrypted s"
  "encrypted (s\<lparr>ms_upstream := x5\<rparr>) = encrypted s" "encrypted (s\<lparr>ms_upstream := x5, ms_up_inbox := x6\<rparr>) = encrypted s"
  by (simp_all add: encrypted_def)

lemma conn_send_tls: "cn_tls (snd (conn_send e p c)) = cn_tls c"
  by (simp add: conn_send_def)

lemma relay_response_tls: "cn_tls (snd (relay_response caps n first inbox c)) = cn_tls c"
proof (induction inbox arbitrary: n first c)
  case (Cons x inbox)
  show ?case
  proof (cases x)
    case (Packet response)
    obtain r c1 where s: "conn_send MyStream response c = (r, c1)" by fastforce
    then have "cn_tls c1 = cn_tls c" using conn_send_tls by (metis snd_conv)
    with s Cons.IH Packet show ?thesis by (auto simp: act then_a_def split: list.splits sum.splits)
  qed (simp add: act)
qed (simp add: act)

lemma passthrough_tls: "cn_tls (snd (passthrough_until_result inbox c)) = cn_tls c"
proof (induction inbox arbitrary: c rule: passthrough_until_result.induct)
  case (3 response inbox)
  obtain r c1 where s: "conn_send MyStream response c = (r, c1)" by fastforce
  then have "cn_tls c1 = cn_tls c" using conn_send_tls by (metis snd_conv)
  with s 3 show ?case by (auto simp: act then_a_def split: sum.splits)
qed (simp_all add: act)

lemma to_client_enc [enc]: "keeps encrypted (to_client p)"
  by (auto simp: keeps_def to_client_def encrypted_def conn_send_def)

lemma to_upstream_enc [enc]: "keeps encrypted (to_upstream p)"
  by (auto simp: keeps_def to_upstream_def split: prod.split)

lemma on_gw_enc [enc]: "keeps encrypted (on_gw f m)"
  by (auto simp: keeps_def on_gw_def split: prod.split)

lemma send_error_enc [enc]: "keeps encrypted (send_error c t)"
  by (simp add: send_error_def enc)

lemma record_enc [enc]: "keeps encrypted (record_sql_audit b i)"
  unfolding record_sql_audit_def by (rule keeps_modify) simp

lemma from_upstream_enc:
  assumes "\<And>inbox c. cn_tls (snd (m inbox c)) = cn_tls c"
  shows "keeps encrypted (from_upstream m)"
proof -
  have "cn_tls c' = cn_tls c" if "m inbox c = (r, c')" for inbox c r c'
    using assms [of inbox c] that by simp
  then show ?thesis by (fastforce simp: keeps_def from_upstream_def encrypted_def split: prod.splits sum.splits)
qed

lemma passthrough_enc [enc]:
  "keeps encrypted (from_upstream (\<lambda>inbox. then_a (passthrough_until_result inbox) (\<lambda>rest. done_a ((), rest))))"
proof (rule from_upstream_enc)
  fix inbox c
  show "cn_tls (snd (then_a (passthrough_until_result inbox) (\<lambda>rest. done_a ((), rest)) c)) = cn_tls c"
    using passthrough_tls [of inbox c] by (auto simp: then_a_def act split: prod.splits sum.splits)
qed

lemma handle_query_enc [enc]: "keeps encrypted (handle_query env acl tgt qe q)"
  unfolding handle_query_def Let_def
  by (intro keeps_then keeps_if keeps_gets keeps_done enc from_upstream_enc relay_response_tls)
    (auto simp: enc split: prod.split)

lemma handle_command_enc [enc]: "keeps encrypted (handle_command env acl tgt qe p)"
  unfolding handle_command_def
  by (cases p) (auto intro!: keeps_then keeps_modify enc split: prod.split)

lemma command_loop_enc [enc]: "keeps encrypted (command_loop env acl tgt n inp)"
  by (induction env acl tgt n inp rule: command_loop.induct) (auto intro!: keeps_then enc)

lemma connect_upstream_enc [enc]: "keeps encrypted (connect_upstream env o' co)"
proof -
  have e: "keeps encrypted (then_a (send_error c t) (\<lambda>_. throw_a e) :: ('l, unit) my_action)" for c t e
    by (intro keeps_then enc keeps_throw)
  show ?thesis
    by (auto simp: keeps_def connect_upstream_def keepsD [OF e] split: prod.splits sum.splits)
qed

lemma run_inner_enc [enc]: "keeps encrypted (run_authorized_inner env hs t opts acl inp)"
  unfolding run_authorized_inner_def by (intro keeps_then keeps_modify keeps_gets enc) simp

lemma run_authorized_enc [enc]: "keeps encrypted (run_authorized env hs ui t acct inp)"
  unfolding run_authorized_def
  by (auto intro!: keeps_then enc split: option.split sum.split prod.split)

section \<open>Nothing reaches the target without a login\<close>

definition mysql_login_ok :: "'l mysql_env \<Rightarrow> Db option \<Rightarrow> consumed \<Rightarrow> string \<Rightarrow> string \<Rightarrow> bool" where
  "mysql_login_ok env db m name pw \<longleftrightarrow>
     (case selector_from name of
        User uname target acct \<Rightarrow>
          password_ok (me_gw env) db m uname ''MySQL'' pw \<and> authorize_target db uname target = Inr True
      | Ticket sec \<Rightarrow>
          (\<exists>tk ui. authorize_ticket (ge_crypto (me_gw env)) (ge_now (me_gw env)) db sec = Inr (Some (tk, ui)) \<and>
             fst (consume_ticket (ticket_id tk) db) = Inr ()))"

lemma run_authorization_spec:
  "hoare (quiet db m True) (run_authorization env hs pw inp)
     (\<lambda>_ s. silent True s \<or> encrypted s \<and> mysql_login_ok env db m (hr_username hs) pw)
     (\<lambda>_ s. silent True s \<or> encrypted s \<and> mysql_login_ok env db m (hr_username hs) pw)"
  (is "hoare _ _ (\<lambda>_. ?F) _")
proof (cases "selector_from (hr_username hs)")
  case (User uname target acct)
  have fail: "hoare (silent True) (auth_fail u t) (\<lambda>_. ?F) (\<lambda>_. ?F)" for u t
    by (rule hoare_weaken [OF keeps_hoare [OF auth_fail_keeps]]) auto
  have go: "hoare (\<lambda>s. silent True s \<and> password_ok (me_gw env) db m uname ''MySQL'' pw \<and> authorize_target db uname target = Inr True)
      (run_authorized env hs ui target acct inp) (\<lambda>_. ?F) (\<lambda>_. ?F)" for ui
  proof (cases "password_ok (me_gw env) db m uname ''MySQL'' pw \<and> authorize_target db uname target = Inr True")
    case True
    then have "mysql_login_ok env db m (hr_username hs) pw" by (simp add: mysql_login_ok_def User)
    then show ?thesis
      by (intro hoare_weaken [OF keeps_hoare [OF run_authorized_enc]])
        (auto simp: silent_def upstream_view_def encrypted_def)
  next
    case False
    then show ?thesis by (auto simp: hoare_def)
  qed
  have authz: "hoare (\<lambda>s. silent True s \<and> gw_db (ms_gw s) = db \<and> password_ok (me_gw env) db m uname ''MySQL'' pw)
      (on_gw my_other (gw_authorize_target uname target))
      (\<lambda>b s. silent True s \<and> (b \<longrightarrow> password_ok (me_gw env) db m uname ''MySQL'' pw \<and> authorize_target db uname target = Inr True))
      (\<lambda>_. silent True)"
    by (rule hoareI) (auto simp: on_gw_def gw_authorize_target_def map_error_Inr)
  show ?thesis
    unfolding run_authorization_def User AuthSelector.case
  proof (rule hoare_then)
    show "hoare (quiet db m True) (authenticate_user env uname pw)
      (\<lambda>r s. silent True s \<and> gw_db (ms_gw s) = db \<and>
        (\<forall>ui. r = Accepted ui \<longrightarrow> password_ok (me_gw env) db m uname ''MySQL'' pw \<and> ui_username ui = uname)) (\<lambda>_. ?F)"
      by (rule hoare_weaken [OF authenticate_user_spec]) auto
  next
    fix r
    show "hoare (\<lambda>s. silent True s \<and> gw_db (ms_gw s) = db \<and>
        (\<forall>ui. r = Accepted ui \<longrightarrow> password_ok (me_gw env) db m uname ''MySQL'' pw \<and> ui_username ui = uname))
      (case r of Accepted ui \<Rightarrow> then_a (on_gw my_other (gw_authorize_target (ui_username ui) target)) (\<lambda>allowed.
          if \<not> allowed then auth_fail uname target else run_authorized env hs ui target acct inp)
        | _ \<Rightarrow> auth_fail uname target) (\<lambda>_. ?F) (\<lambda>_. ?F)"
    proof (cases r)
      case (Accepted ui)
      show ?thesis
      proof (cases "ui_username ui = uname")
        case True
        show ?thesis unfolding Accepted AuthResult.case True
          by (rule hoare_then [where R = "\<lambda>b s. silent True s \<and> (b \<longrightarrow>
                password_ok (me_gw env) db m uname ''MySQL'' pw \<and> authorize_target db uname target = Inr True)"])
            (auto intro!: hoare_weaken [OF authz] hoare_weaken [OF fail] hoare_weaken [OF go])
      next
        case False
        then show ?thesis using Accepted by (auto simp: hoare_def)
      qed
    qed (auto intro: hoare_weaken [OF fail])
  qed
next
  case (Ticket sec)
  have fail: "hoare (silent True) (auth_fail u t) (\<lambda>_. ?F) (\<lambda>_. ?F)" for u t
    by (rule hoare_weaken [OF keeps_hoare [OF auth_fail_keeps]]) auto
  have authz: "hoare (quiet db m True) (on_gw my_other (gw_authorize_ticket (me_gw env) sec))
      (\<lambda>found s. silent True s \<and> gw_db (ms_gw s) = db \<and>
         authorize_ticket (ge_crypto (me_gw env)) (ge_now (me_gw env)) db sec = Inr found) (\<lambda>_. ?F)"
    by (rule hoareI) (auto simp: on_gw_def gw_authorize_ticket_def map_error_Inr quiet_alt gw_at_def)
  have consume: "hoare (\<lambda>s. silent True s \<and> gw_db (ms_gw s) = db) (on_gw my_other (gw_consume_ticket i))
      (\<lambda>_ s. silent True s \<and> fst (consume_ticket i db) = Inr ()) (\<lambda>_. ?F)" for i
    by (rule hoareI) (auto simp: on_gw_def gw_consume_ticket_def map_error_Inr split: prod.splits)
  show ?thesis
    unfolding run_authorization_def Ticket AuthSelector.case
  proof (rule hoare_then, rule authz)
    fix found
    show "hoare (\<lambda>s. silent True s \<and> gw_db (ms_gw s) = db \<and>
         authorize_ticket (ge_crypto (me_gw env)) (ge_now (me_gw env)) db sec = Inr found)
       (case found of Some (ticket, ui) \<Rightarrow> then_a (on_gw my_other (gw_consume_ticket (ticket_id ticket))) (\<lambda>_.
           run_authorized env hs ui (ticket_target ticket) None inp)
        | None \<Rightarrow> auth_fail ''ticket'' []) (\<lambda>_. ?F) (\<lambda>_. ?F)"
    proof (cases found)
      case None
      then show ?thesis by (auto intro: hoare_weaken [OF fail])
    next
      case (Some p)
      obtain tk ui where p: "p = (tk, ui)" by fastforce
      have go: "hoare (\<lambda>s. silent True s \<and> fst (consume_ticket (ticket_id tk) db) = Inr ())
         (run_authorized env hs ui (ticket_target tk) None inp) (\<lambda>_. ?F) (\<lambda>_. ?F)"
        if "authorize_ticket (ge_crypto (me_gw env)) (ge_now (me_gw env)) db sec = Inr found"
      proof (cases "fst (consume_ticket (ticket_id tk) db) = Inr ()")
        case True
        then have "mysql_login_ok env db m (hr_username hs) pw"
          using that Some p by (auto simp: mysql_login_ok_def Ticket)
        then show ?thesis
          by (intro hoare_weaken [OF keeps_hoare [OF run_authorized_enc]])
            (auto simp: silent_def upstream_view_def encrypted_def)
      next
        case False
        then show ?thesis by (auto simp: hoare_def)
      qed
      show ?thesis
      proof (cases "authorize_ticket (ge_crypto (me_gw env)) (ge_now (me_gw env)) db sec = Inr found")
        case True
        from go [OF True] show ?thesis unfolding Some p option.case prod.case
          by (intro hoare_then [where R = "\<lambda>_ s. silent True s \<and> fst (consume_ticket (ticket_id tk) db) = Inr ()"])
            (auto intro: hoare_weaken [OF consume])
      next
        case False
        then show ?thesis by (auto simp: hoare_def)
      qed
    qed
  qed
qed

definition answered :: "bytes inbound list \<Rightarrow> HandshakeResponse \<Rightarrow> bool" where
  "answered inp resp \<longleftrightarrow> (\<exists>p caps caps'. Packet p \<in> set inp \<and> decode_HandshakeResponse caps p = Inr (resp, caps'))"

lemma handshake_loop_spec:
  "hoare (quiet db m tls) (handshake_loop env inp)
     (\<lambda>(resp, rest) s. quiet db m True s \<and> answered inp resp \<and> set rest \<subseteq> set inp) (\<lambda>_ s. silent tls s \<or> silent True s)"
proof (induction inp arbitrary: tls)
  case Nil
  then show ?case by (auto simp: quiet_alt intro: hoare_throw)
next
  case (Cons x inp)
  show ?case
  proof (cases x)
    case Broken
    then show ?thesis by (auto simp: quiet_alt intro: hoare_throw)
  next
    case (Packet p)
    show ?thesis
    proof (rule hoareI)
      fix w a w' assume w: "quiet db m tls w" and run: "handshake_loop env (x # inp) w = (Inr a, w')"
      from run obtain resp caps' where d: "decode_HandshakeResponse (ms_capabilities w) p = Inr (resp, caps')"
        by (auto simp: Packet act map_error_Inr)
      let ?w = "w\<lparr>ms_capabilities := caps'\<rparr>"
      have q: "quiet db m tls ?w" using w by (simp add: quiet_def upstream_view_def)
      have ssl: "caps_contains caps' SSL" using run d by (auto simp: Packet act split: if_splits)
      show "(\<lambda>(resp, rest) s. quiet db m True s \<and> answered (x # inp) resp \<and> set rest \<subseteq> set (x # inp)) a w'"
      proof (cases "cn_tls (ms_client w)")
        case True
        then have "tls" using w by (simp add: quiet_def upstream_view_def)
        with True run d ssl q show ?thesis by (auto simp: Packet act answered_def)
      next
        case False
        with run d ssl have "handshake_loop env inp (?w\<lparr>ms_client := (ms_client ?w)\<lparr>cn_tls := True\<rparr>\<rparr>) = (Inr a, w')"
          by (auto simp: Packet act upgrade_client_def split: if_splits)
        moreover have "quiet db m True (?w\<lparr>ms_client := (ms_client ?w)\<lparr>cn_tls := True\<rparr>\<rparr>)"
          using q by (simp add: quiet_def upstream_view_def)
        ultimately have "(\<lambda>(resp, rest) s. quiet db m True s \<and> answered inp resp \<and> set rest \<subseteq> set inp) a w'"
          using hoareD(1) [OF Cons.IH] by blast
        then show ?thesis by (auto simp: answered_def)
      qed
    next
      fix w e w' assume w: "quiet db m tls w" and run: "handshake_loop env (x # inp) w = (Inl e, w')"
      show "silent tls w' \<or> silent True w'"
      proof (cases "decode_HandshakeResponse (ms_capabilities w) p")
        case (Inl d)
        then show ?thesis using w run by (auto simp: Packet act then_a_def quiet_alt)
      next
        case (Inr rc)
        obtain resp caps' where rc: "rc = (resp, caps')" by fastforce
        let ?w = "w\<lparr>ms_capabilities := caps'\<rparr>"
        have q: "quiet db m tls ?w" using w by (simp add: quiet_def upstream_view_def)
        show ?thesis
        proof (cases "caps_contains caps' SSL \<and> \<not> cn_tls (ms_client w) \<and> me_tls_accept env")
          case True
          then have "handshake_loop env inp (?w\<lparr>ms_client := (ms_client ?w)\<lparr>cn_tls := True\<rparr>\<rparr>) = (Inl e, w')"
            using run Inr rc by (auto simp: Packet act upgrade_client_def)
          moreover have "quiet db m True (?w\<lparr>ms_client := (ms_client ?w)\<lparr>cn_tls := True\<rparr>\<rparr>)"
            using q by (simp add: quiet_def upstream_view_def)
          ultimately show ?thesis using hoareD(2) [OF Cons.IH] by blast
        next
          case False
          have k: "keeps (silent tls) (then_a (send_error c t) (\<lambda>_. throw_a e) :: ('a, 'b) my_action)" for c t e
            by (intro keeps_then send_error_keeps keeps_throw)
          have "w' = ?w \<or> (\<exists>c t e. w' = snd ((then_a (send_error c t) (\<lambda>_. throw_a e) :: ('a, HandshakeResponse \<times> bytes inbound list) my_action) ?w))"
            using run Inr rc False by (auto simp: Packet act upgrade_client_def split: if_splits) (metis snd_conv)
          then show ?thesis using q keepsD [OF k] by (auto simp: quiet_alt)
        qed
      qed
    qed
  qed
qed

lemma client_password_spec:
  "hoare (quiet db m True) (client_password resp inp)
     (\<lambda>(pw, rest) s. quiet db m True s \<and> (\<exists>bs r. get_str_nul bs = Inr (pw, r) \<and>
        (hr_auth_response resp = Some bs \<or> Packet bs \<in> set inp))) (\<lambda>_. silent True)"
proof (rule hoareI)
  fix w a w' assume w: "quiet db m True w" and run: "client_password resp inp w = (Inr a, w')"
  have k: "quiet db m True s'" if "to_client p w = (r, s')" for p r s'
    using keepsD [OF to_client_keeps(1) w, of p] that by simp
  show "(\<lambda>(pw, rest) s. quiet db m True s \<and> (\<exists>bs r. get_str_nul bs = Inr (pw, r) \<and>
        (hr_auth_response resp = Some bs \<or> Packet bs \<in> set inp))) a w'"
    using w run k
    by (auto simp: client_password_def act map_error_Inr split: option.splits AuthPlugin.splits list.splits inbound.splits)
next
  fix w e w' assume w: "quiet db m True w" and run: "client_password resp inp w = (Inl e, w')"
  have k: "silent True s'" if "to_client p w = (r, s')" for p r s'
    using keepsD [OF to_client_keeps(1) w, of p] that by (simp add: quiet_alt)
  show "silent True w'"
    using w run k
    by (auto simp: client_password_def act then_a_def quiet_alt
        split: option.splits AuthPlugin.splits list.splits inbound.splits sum.splits prod.splits)
qed

text \<open>
  C4. Whatever a client sends, a packet goes to the MySQL target only on a connection that was
  upgraded to TLS, after a password in the packets of the client that is valid for the named user,
  sufficient for the policy of that user on this protocol, and for a target that a role of the user
  opens; or after a usable ticket.
\<close>

theorem mysql_login_required:
  assumes "mysql_run env inp (mysql_session_new i challenge cw uw g) = (r, s)"
    and "cn_out (ms_upstream s) \<noteq> []"
  shows "cn_tls (ms_client s) \<and>
    (\<exists>resp bs pw rest. answered inp resp \<and> (hr_auth_response resp = Some bs \<or> Packet bs \<in> set inp) \<and>
       get_str_nul bs = Inr (pw, rest) \<and>
       mysql_login_ok env (gw_db g) (gw_consumed g) (hr_username resp) pw)"
proof -
  let ?db = "gw_db g" and ?m = "gw_consumed g"
  let ?P = "\<lambda>resp pw. answered inp resp \<and> (\<exists>bs rest. (hr_auth_response resp = Some bs \<or> Packet bs \<in> set inp) \<and>
       get_str_nul bs = Inr (pw, rest))"
  let ?F = "\<lambda>s. silent False s \<or> silent True s \<or> encrypted s \<and> (\<exists>resp pw. ?P resp pw \<and> mysql_login_ok env ?db ?m (hr_username resp) pw)"
  have start: "quiet ?db ?m False (mysql_session_new i challenge cw uw g)"
    by (simp add: quiet_def upstream_view_def gw_at_def mysql_session_new_def)
  have "hoare (quiet ?db ?m False) (mysql_run env inp) (\<lambda>_. ?F) (\<lambda>_. ?F)"
    unfolding mysql_run_def
  proof (rule hoare_then [where R = "\<lambda>_. quiet ?db ?m False"], rule hoare_gets, assumption,
      rule hoare_then [where R = "\<lambda>_. quiet ?db ?m False"])
    show "hoare (quiet ?db ?m False) (to_client p) (\<lambda>_. quiet ?db ?m False) (\<lambda>_. ?F)" for p
      by (rule hoare_weaken [OF keeps_hoare [OF to_client_keeps(1)]]) (auto simp: quiet_alt)
    show "hoare (quiet ?db ?m False) (then_a (handshake_loop env inp) (\<lambda>(resp, inp1).
        then_a (client_password resp inp1) (\<lambda>(password, inp2). run_authorization env resp password inp2))) (\<lambda>_. ?F) (\<lambda>_. ?F)"
    proof (rule hoare_then [where R = "\<lambda>a s. quiet ?db ?m True s \<and> answered inp (fst a) \<and> set (snd a) \<subseteq> set inp"])
      show "hoare (quiet ?db ?m False) (handshake_loop env inp)
          (\<lambda>a s. quiet ?db ?m True s \<and> answered inp (fst a) \<and> set (snd a) \<subseteq> set inp) (\<lambda>_. ?F)"
        by (rule hoare_weaken [OF handshake_loop_spec]) auto
    next
      fix a :: "HandshakeResponse \<times> bytes inbound list"
      obtain resp inp1 where a: "a = (resp, inp1)" by fastforce
      show "hoare (\<lambda>s. quiet ?db ?m True s \<and> answered inp (fst a) \<and> set (snd a) \<subseteq> set inp)
         (case a of (resp, inp1) \<Rightarrow> then_a (client_password resp inp1) (\<lambda>(password, inp2). run_authorization env resp password inp2))
         (\<lambda>_. ?F) (\<lambda>_. ?F)"
        unfolding a prod.case fst_conv snd_conv
      proof (rule hoare_then [where R = "\<lambda>b s. quiet ?db ?m True s \<and> ?P resp (fst b)"])
        show "hoare (\<lambda>s. quiet ?db ?m True s \<and> answered inp resp \<and> set inp1 \<subseteq> set inp) (client_password resp inp1)
           (\<lambda>b s. quiet ?db ?m True s \<and> ?P resp (fst b)) (\<lambda>_. ?F)"
          using client_password_spec [of ?db ?m resp inp1] by (fastforce simp: hoare_def split: prod.splits sum.splits)
      next
        fix b :: "string \<times> bytes inbound list"
        obtain pw inp2 where b: "b = (pw, inp2)" by fastforce
        show "hoare (\<lambda>s. quiet ?db ?m True s \<and> ?P resp (fst b)) (case b of (password, inp2) \<Rightarrow> run_authorization env resp password inp2)
           (\<lambda>_. ?F) (\<lambda>_. ?F)"
        proof (cases "?P resp pw")
          case True
          then show ?thesis unfolding b prod.case
            by (intro hoare_weaken [OF run_authorization_spec [of ?db ?m env resp pw inp2]]) auto
        next
          case False
          then show ?thesis unfolding b prod.case fst_conv hoare_def by blast
        qed
      qed
    qed
  qed
  with start assms(1) have "?F s" by (cases r) (auto simp: hoare_def)
  with assms(2) show ?thesis by (auto simp: silent_def upstream_view_def encrypted_def)
qed

unbundle bit_operations_syntax

section \<open>A sample session\<close>

definition shop_options :: TargetMySqlOptions where
  "shop_options = \<lparr>my_host = ''db'', my_port = 3306, my_username = ''app'', my_password = None,
     my_tls = \<lparr>tls_mode = Disabled, tls_verify = False\<rparr>, my_default_database_name = None, my_readonly = False\<rparr>"

definition shop_target :: target_row where
  "shop_target = \<lparr>tr_id = 5, tr_name = ''box'', tr_description = [], tr_kind = MySqlKind,
     tr_options = Some (MySqlOptions shop_options), tr_rate_limit = None, tr_group_id = None\<rparr>"

definition shop_ticket :: ticket_row where
  "shop_ticket = sample_ticket\<lparr>ticket_secret := ''hs''\<rparr>"

definition shop_db :: Db where
  "shop_db = sample_db\<lparr>targets := [shop_target], target_roles := [], tickets := [shop_ticket]\<rparr>"

definition shop_gateway :: "(RateLimiterDirection \<Rightarrow> nat) gateway" where
  "shop_gateway = \<lparr>gw_app = app_state_new (Some (shop_db, \<lparr>param_rate_limit = None, sql_console_rate_limit_per_user = None,
       sql_console_rate_limit_per_target = None\<rparr>))
       \<lparr>global_rate_limiter = 0, user_rate_limiters = [], target_rate_limiters = []\<rparr> sample_world,
     gw_auth = auth_store_new, gw_consumed = Map.empty, gw_connected = []\<rparr>"

definition shop_env :: "(RateLimiterDirection \<Rightarrow> nat) mysql_env" where
  "shop_env = \<lparr>me_gw = \<lparr>ge_crypto = sample_crypto, ge_governor = open_governor, ge_snapshot = (\<lambda>_. Inr []),
       ge_regex = (\<lambda>_. None), ge_now = 0, ge_auth_id = 1, ge_ident = [], ge_login_text = (\<lambda>_. [])\<rparr>,
     me_crypto = \<lparr>sha1 = (\<lambda>b. b), sha256 = (\<lambda>b. b), output_new = Some, rsa_oaep = (\<lambda>_. Some)\<rparr>,
     me_tls_accept = True,
     me_peer = (\<lambda>_. \<lparr>up_tcp = True, up_inbox = [Packet (encode_Handshake sample_greeting)],
       up_tls_setup = True, up_server_name = True, up_tls_handshake = True\<rparr>),
     me_query = (\<lambda>_. \<lparr>qe_rules = None, qe_recording = True, qe_elapsed = 0\<rparr>)\<rparr>"

definition shop_caps :: Capabilities where
  "shop_caps = PLUGIN_AUTH OR SECURE_CONNECTION OR SSL"

definition shop_answer :: HandshakeResponse where
  "shop_answer = sample_answer\<lparr>hr_username := ''ticket-s''\<rparr>"

definition shop_input :: "bytes inbound list" where
  "shop_input =
     [Packet (encode_SslRequest shop_caps \<lparr>sr_max_packet_size = 1024, sr_collation = 45\<rparr>),
      Packet (encode_HandshakeResponse shop_caps shop_answer)]"

definition shop_session :: "(RateLimiterDirection \<Rightarrow> nat) MySqlSession" where
  "shop_session = mysql_session_new 3 (replicate 20 7) 9 9 shop_gateway"

lemma shop_ssl: "decode_HandshakeResponse caps (encode_SslRequest shop_caps \<lparr>sr_max_packet_size = 1024, sr_collation = 45\<rparr>) =
   Inr (\<lparr>hr_database = None, hr_max_packet_size = 1024, hr_collation = 45,
                     hr_username = [], hr_auth_plugin = None, hr_auth_response = None\<rparr>, caps)"
proof -
  have t: "capabilities_truncate shop_caps = shop_caps"
    by (simp add: shop_caps_def capabilities_truncate_def capabilities_all_eq cap_defs)
  have "caps_contains shop_caps SSL" by (simp add: shop_caps_def caps_contains_def cap_defs)
  with read_caps_put [OF t, of 1024 45 "[]"] t show ?thesis by (simp add: decode_HandshakeResponse_def)
qed

lemma shop_login: "decode_HandshakeResponse caps (encode_HandshakeResponse shop_caps shop_answer) =
   Inr (shop_answer, caps AND shop_caps)"
proof -
  have "wf_HandshakeResponse shop_caps shop_answer"
    by (simp add: wf_HandshakeResponse_def shop_answer_def sample_answer_def shop_caps_def capabilities_truncate_def capabilities_all_eq cap_defs
        caps_contains_def c_str_def str_ok_ascii char_code_def)
  moreover have "response_capabilities shop_answer shop_caps = shop_caps"
    by (simp add: response_capabilities_def shop_answer_def sample_answer_def)
  ultimately show ?thesis using handshake_response_roundtrip [of shop_caps shop_answer caps] by simp
qed

lemma shop_ssl_caps: "caps_contains session_capabilities SSL" "caps_contains (session_capabilities AND shop_caps) SSL"
  by (simp_all add: caps_contains_def session_capabilities_def shop_caps_def cap_defs)

lemma shop_greeting: "decode_Handshake (encode_Handshake sample_greeting) = Inr sample_greeting"
proof -
  have "wf_Handshake sample_greeting"
    by (simp add: wf_Handshake_def sample_greeting_def capabilities_truncate_def capabilities_all_eq cap_defs
        caps_contains_def status_truncate_def c_str_def str_ok_ascii char_code_def)
  then show ?thesis by (rule handshake_roundtrip)
qed

lemma shop_password: "get_str_nul [112, 119, 0] = Inr (''pw'', [])"
proof -
  have "[112, 119, 0] = put_str_nul ''pw'' @ []" by (simp add: put_str_nul_def as_bytes_def char_code_def)
  moreover have "c_str ''pw''" by (simp add: c_str_def str_ok_ascii char_code_def)
  ultimately show ?thesis using get_str_nul_put by metis
qed

lemma then_a_run: "m w = (Inr x, w') \<Longrightarrow> then_a m f w = f x w'"
  by (simp add: then_a_def)

lemma shop_handshake:
  "\<exists>s. mysql_run shop_env shop_input shop_session =
     run_authorization shop_env shop_answer ''pw'' [] s \<and> cn_writes (ms_client s) = 8 \<and>
     ms_upstream s = ms_upstream shop_session \<and> ms_gw s = shop_gateway"
proof -
  have c: "client_password shop_answer [] = done_a (''pw'', [])"
    by (rule ext) (simp add: client_password_def shop_answer_def sample_answer_def shop_password act)
  let ?s = "snd (to_client (encode_Handshake (gateway_handshake session_capabilities (replicate 20 7))) shop_session)"
  let ?s1 = "?s\<lparr>ms_client := (ms_client ?s)\<lparr>cn_tls := True\<rparr>\<rparr>"
  let ?s2 = "?s1\<lparr>ms_capabilities := session_capabilities AND shop_caps\<rparr>"
  have s: "to_client (encode_Handshake (gateway_handshake session_capabilities (replicate 20 7))) shop_session = (Inr (), ?s)"
      "ms_capabilities ?s = session_capabilities" "\<not> cn_tls (ms_client ?s)" "cn_writes (ms_client ?s) = 8"
      "ms_upstream ?s = ms_upstream shop_session" "ms_gw ?s = shop_gateway"
      "ms_capabilities shop_session = session_capabilities" "ms_challenge shop_session = replicate 20 7"
    by (simp_all add: to_client_def conn_send_def shop_session_def mysql_session_new_def)
  have t: "me_tls_accept shop_env" by (simp add: shop_env_def)
  have u: "?s\<lparr>ms_capabilities := session_capabilities\<rparr> = ?s" using s(2) by (metis MySqlSession.surjective MySqlSession.update_convs(2) MySqlSession.select_convs(2))
  have "handshake_loop shop_env shop_input ?s = (Inr (shop_answer, []), ?s2)"
    using s(2,3) t u by (simp add: act shop_input_def shop_ssl shop_login shop_ssl_caps upgrade_client_def)
  then have "mysql_run shop_env shop_input shop_session = run_authorization shop_env shop_answer ''pw'' [] ?s2"
    using s(1,7,8) by (simp add: mysql_run_def act then_a_run c)
  with s show ?thesis by (intro exI [of _ ?s2]) simp
qed

lemma shop_ticket_ok:
  "authorize_ticket sample_crypto 0 (Some shop_db) ''s'' = Inr (Some (shop_ticket, \<lparr>ui_id = 1, ui_username = ''ann''\<rparr>))"
  "\<exists>db. consume_ticket (ticket_id shop_ticket) (Some shop_db) = (Inr (), Some db) \<and> targets db = [shop_target] \<and>
     target_roles db = [] \<and> target_accounts db = []"
  by (simp_all add: authorize_ticket_def shop_db_def shop_ticket_def sample_defs hash_secret_def user_by_name_def
      user_try_from_def consume_ticket_def with_db_def ticket_consumable_def db_required_def Let_def)

lemma shop_login_choice:
  assumes "target_roles db = []" "target_accounts db = []"
  shows "login_options txt db shop_target shop_options ''ann'' None = Inr shop_options"
proof -
  have "login_choices db t u = Inr []" for t u
    using assms by (simp add: login_choices_def login_grants_def Let_def split: option.split)
  then show ?thesis
    using assms by (simp add: login_options_def select_login_def pick_login_def shop_target_def resolve_db_account_def
        login_account_credentials_def primary_account_credentials_def primary_account_id_def)
qed

lemma shop_connects:
  assumes "cn_writes c = 9"
  shows "\<exists>e c' p. mysql_connect (me_crypto shop_env) (me_peer shop_env shop_options) shop_options co c = (Inl e, c') \<and>
    cn_out c' = cn_out c @ [p]"
proof -
  have r: "build_auth_response mc (hs_auth_plugin sample_greeting) nonce [] = Inr (Some [])" for mc nonce
    by (simp add: sample_greeting_def build_auth_response_def)
  have p: "me_peer shop_env shop_options = \<lparr>up_tcp = True, up_inbox = [Packet (encode_Handshake sample_greeting)],
       up_tls_setup = True, up_server_name = True, up_tls_handshake = True\<rparr>" by (simp add: shop_env_def)
  have m: "tls_mode (my_tls shop_options) = Disabled" "my_password shop_options = None" by (simp_all add: shop_options_def)
  have w: "up_send x c = (Inr (), c\<lparr>cn_out := cn_out c @ [(cn_tls c, x)], cn_writes := 8\<rparr>)" for x
    using assms by (simp add: up_send_def conn_send_def)
  show ?thesis
    by (simp add: mysql_connect_def p m act Let_def shop_greeting r then_a_def w)
qed

text \<open>The steps of the services on a session that is not in the table.\<close>

lemma gw_steps:
  assumes "gw_db g = Some db" "session_states (gw_app g) = Map.empty"
  shows "list_targets (Some db) = Inr ts \<Longrightarrow> gw_list_targets g = (Inr ts, g)"
    and "gw_set_user_info env i ui g = (Inr (), g)" "gw_set_target env i t g = (Inr (), g)"
    and "gw_db_required g = (Inr db, g)"
  using assms
  by (simp_all add: gw_list_targets_def gw_set_user_info_def gw_set_target_def set_user_info_def set_target_def
      gw_db_required_def db_required_def)

lemma shop_authorized:
  assumes g: "gw_db (ms_gw s) = Some db" "session_states (gw_app (ms_gw s)) = Map.empty"
    and db: "targets db = [shop_target]" "target_roles db = []" "target_accounts db = []"
    and s: "cn_writes (ms_client s) = 8" "cn_writes (ms_upstream s) = 9" "ui_username ui = ''ann''"
  shows "cn_out (ms_upstream (snd (run_authorized shop_env shop_answer ui ''box'' None [] s))) \<noteq> []"
proof -
  have f: "find_mysql_target ''box'' [shop_target] = Some (shop_target, shop_options)"
    by (simp add: find_mysql_target_def shop_target_def List.map_filter_simps)
  have lt: "list_targets (Some db) = Inr [shop_target]"
    using db(1) by (simp add: list_targets_def db_required_def target_try_from_def shop_target_def)
  define p where "p = encode_OkPacket \<lparr>ok_affected_rows = 0, ok_last_insert_id = 0, ok_status = 0, ok_warnings = 0\<rparr>"
  define s1 where "s1 = snd (to_client p s)"
  have s1: "to_client p s = (Inr (), s1)" "ms_gw s1 = ms_gw s" "ms_upstream s1 = ms_upstream s"
    using s(1) by (simp_all add: s1_def to_client_def conn_send_def)
  have id: "s1\<lparr>ms_gw := ms_gw s\<rparr> = s1" using s1(2) by (metis MySqlSession.surjective MySqlSession.update_convs(11) MySqlSession.select_convs(11))
  note gs = gw_steps [OF g]
  define s2 where "s2 = s1\<lparr>ms_database := hr_database shop_answer, ms_username := Some (hr_username shop_answer)\<rparr>"
  obtain e c' q where cn: "mysql_connect (me_crypto shop_env) (me_peer shop_env shop_options) shop_options
      \<lparr>co_collation = hr_collation shop_answer, co_database = hr_database shop_answer,
       co_max_packet_size = hr_max_packet_size shop_answer, co_capabilities = ms_capabilities s2\<rparr> (ms_upstream s2) = (Inl e, c')"
      "cn_out c' = cn_out (ms_upstream s2) @ [q]"
    using shop_connects [of "ms_upstream s2"] s(2) s1(3) unfolding s2_def by fastforce
  have "run_authorized shop_env shop_answer ui ''box'' None [] s =
     run_authorized_inner shop_env shop_answer ''box'' shop_options (enforcer_new db (tr_id shop_target) (ui_id ui)) [] s1"
    unfolding run_authorized_def p_def [symmetric]
    by (simp add: then_a_def s1 on_gw_def gs(1) [OF lt] gs(2-4) f act id shop_login_choice [OF db(2,3)] s(3))
  moreover have "cn_out (ms_upstream (snd (run_authorized_inner shop_env shop_answer ''box'' shop_options acl [] s1))) \<noteq> []" for acl
    using cn s2_def by (simp add: run_authorized_inner_def act then_a_def connect_upstream_def send_error_def to_client_def
        conn_send_def)
  ultimately show ?thesis by simp
qed

lemma shop_reaches_target:
  "cn_out (ms_upstream (snd (mysql_run shop_env shop_input shop_session))) \<noteq> []"
proof -
  obtain s where run: "mysql_run shop_env shop_input shop_session = run_authorization shop_env shop_answer ''pw'' [] s"
    and s: "cn_writes (ms_client s) = 8" "ms_upstream s = ms_upstream shop_session" "ms_gw s = shop_gateway"
    using shop_handshake by blast
  obtain db where db: "consume_ticket (ticket_id shop_ticket) (Some shop_db) = (Inr (), Some db)" "targets db = [shop_target]"
     "target_roles db = []" "target_accounts db = []"
    using shop_ticket_ok(2) by blast
  let ?g = "gw_set_db (Some db) shop_gateway" and ?ui = "\<lparr>ui_id = 1, ui_username = ''ann''\<rparr>"
  have sel: "selector_from (hr_username shop_answer) = Ticket ''s''"
    by (simp add: shop_answer_def selector_from_def TICKET_SELECTOR_PREFIX_def strip_prefix_def)
  have g: "gw_db shop_gateway = Some shop_db" "gw_db ?g = Some db" "session_states (gw_app ?g) = Map.empty"
    by (simp_all add: gw_db_def shop_gateway_def app_state_new_def gw_set_db_def)
  have a: "gw_authorize_ticket (me_gw shop_env) ''s'' (ms_gw s) = (Inr (Some (shop_ticket, ?ui)), ms_gw s)"
    using s(3) g(1) shop_ticket_ok(1) by (simp add: gw_authorize_ticket_def shop_env_def)
  have c: "gw_consume_ticket (ticket_id shop_ticket) (ms_gw s) = (Inr (), ?g)"
    using s(3) g(1) db(1) by (simp add: gw_consume_ticket_def)
  have tt: "ticket_target shop_ticket = ''box''" by (simp add: shop_ticket_def sample_defs)
  have "run_authorization shop_env shop_answer ''pw'' [] s = run_authorized shop_env shop_answer ?ui ''box'' None [] (s\<lparr>ms_gw := ?g\<rparr>)"
    unfolding run_authorization_def sel AuthSelector.case
    by (simp add: then_a_def on_gw_def a c tt)
  with run shop_authorized [of "s\<lparr>ms_gw := ?g\<rparr>" db ?ui] db g s show ?thesis
    by (simp add: shop_session_def mysql_session_new_def)
qed

theorem mysql_login_required_witness:
  "cn_tls (ms_client (snd (mysql_run shop_env shop_input shop_session))) \<and>
   (\<exists>resp pw. answered shop_input resp \<and> mysql_login_ok shop_env (Some shop_db) Map.empty (hr_username resp) pw)"
proof -
  have "gw_db shop_gateway = Some shop_db" "gw_consumed shop_gateway = Map.empty"
    by (simp_all add: gw_db_def shop_gateway_def app_state_new_def)
  with mysql_login_required [OF prod.collapse [symmetric, unfolded shop_session_def], of shop_env shop_input 3 "replicate 20 7" 9 9 shop_gateway]
    shop_reaches_target show ?thesis by (fastforce simp: shop_session_def)
qed

end
