(* ===== verification/Mysql_Relay_Laws.thy ===== *)
theory Mysql_Relay_Laws
  imports Mysql_Laws
begin

text \<open>The relay of commands and the connection to the target: what reaches the target, what is
  recorded, what goes in plain text, and where a response ends.\<close>

unbundle bit_operations_syntax

section \<open>What reaches the target\<close>

definition passes ::
  "'l mysql_env \<Rightarrow> DbCommandAclEnforcer \<Rightarrow> query_env \<Rightarrow> bytes \<Rightarrow> bytes \<Rightarrow> bool" where
  "passes env acl qe payload p \<longleftrightarrow>
     (\<exists>q. hd payload = 0x03 \<and> decode_Query payload = Inr q \<and> p = encode_Query q \<and>
        (\<forall>table. qe_rules qe = Some table \<longrightarrow>
           ad_action (enforcer_evaluate (ge_regex (me_gw env)) table acl ''mysql'' q) \<notin> {Deny, Review})) \<or>
     p = payload \<and> payload \<noteq> [] \<and> hd payload \<in> {0x02, 0x04, 0x0e, 0x1f}"

definition audited :: "'l MySqlSession \<Rightarrow> string list" where
  "audited s = map sa_sql (filter (\<lambda>a. sa_error a \<noteq> Some DegradedControl) (ms_recorded s))"

lemma from_upstream_frame:
  assumes "from_upstream m s = (r, s')"
  shows "ms_upstream s' = ms_upstream s \<and> ms_recorded s' = ms_recorded s \<and> audited s' = audited s"
  using assms by (auto simp: from_upstream_def audited_def split: prod.splits sum.splits)

lemma to_upstream_frame:
  assumes "to_upstream p s = (r, s')"
  shows "ms_recorded s' = ms_recorded s" "audited s' = audited s"
    and "r = Inr () \<Longrightarrow> cn_out (ms_upstream s') = cn_out (ms_upstream s) @ [(cn_tls (ms_upstream s), p)]"
    and "r \<noteq> Inr () \<Longrightarrow> ms_upstream s' = ms_upstream s"
  using assms by (auto simp: to_upstream_def conn_send_def audited_def split: if_splits)

text \<open>The new packets to the target, and the recorded statements, after a step.\<close>

definition adds :: "(bytes \<Rightarrow> bool) \<Rightarrow> 'l MySqlSession \<Rightarrow> 'l MySqlSession \<Rightarrow> bool" where
  "adds P s s' \<longleftrightarrow> (\<exists>ps. cn_out (ms_upstream s') = cn_out (ms_upstream s) @ ps \<and> (\<forall>x \<in> set ps. P (snd x)))"

lemma adds_refl [simp]: "ms_upstream s' = ms_upstream s \<Longrightarrow> adds P s s'"
  by (auto simp: adds_def)

lemma adds_trans: "adds P s s1 \<Longrightarrow> adds P s1 s2 \<Longrightarrow> adds P s s2"
  unfolding adds_def by (metis (no_types, lifting) Un_iff append.assoc set_append)

lemma adds_mono: "adds P s s' \<Longrightarrow> (\<And>p. P p \<Longrightarrow> Q p) \<Longrightarrow> adds Q s s'"
  by (auto simp: adds_def)

definition growing :: "(bytes \<Rightarrow> bool) \<Rightarrow> ('l, 'a) my_action \<Rightarrow> bool" where
  "growing P m \<longleftrightarrow> (\<forall>s. adds P s (snd (m s)))"

named_theorems grow \<open>actions that add only some packets to the target\<close>

lemma growing_then [grow]: "growing P m \<Longrightarrow> (\<And>x. growing P (f x)) \<Longrightarrow> growing P (then_a m f)"
  unfolding growing_def
proof
  fix s
  assume m: "\<forall>s. adds P s (snd (m s))" and f: "\<And>x. \<forall>s. adds P s (snd (f x s))"
  obtain r s1 where r: "m s = (r, s1)" by fastforce
  with m have "adds P s s1" by (metis snd_conv)
  then show "adds P s (snd (then_a m f s))"
    using r f by (cases r) (auto simp: then_a_def intro: adds_trans)
qed

lemma growing_basic [grow]:
  "growing P (done_a x)" "growing P (throw_a e)" "growing P (gets_a f)" "growing P (result_a r)"
  by (simp_all add: growing_def act)

lemma growing_if [grow]: "growing P m \<Longrightarrow> growing P n \<Longrightarrow> growing P (if c then m else n)"
  by simp

lemma growing_quiet [grow]:
  "growing P (to_client p)" "growing P (send_error c t)" "growing P (record_sql_audit b i)"
  "growing P (from_upstream m)"
  "(\<And>s. ms_upstream (h s) = ms_upstream s) \<Longrightarrow> growing P (modify_a h)"
proof -
  show c: "growing P (to_client p)" for p :: bytes
    by (simp add: growing_def to_client_def split: prod.split)
  show "growing P (send_error c t)" by (simp add: send_error_def c)
  show "growing P (record_sql_audit b i)" by (simp add: growing_def record_sql_audit_def act)
  show "growing P (from_upstream m)"
    unfolding growing_def using from_upstream_frame by (metis adds_refl prod.exhaust_sel)
  show "(\<And>s. ms_upstream (h s) = ms_upstream s) \<Longrightarrow> growing P (modify_a h)" by (simp add: growing_def act)
qed

lemma growing_send [grow]: "P p \<Longrightarrow> growing P (to_upstream p)"
  by (auto simp: growing_def adds_def to_upstream_def conn_send_def split: prod.splits)

lemma handle_query_grows:
  assumes "hd payload = 0x03" "decode_Query payload = Inr q"
  shows "growing (passes env acl qe payload) (handle_query env acl tgt qe q)"
proof -
  have ok: "passes env acl qe payload (encode_Query q)"
    if "\<not> acl_blocked (map_option (\<lambda>table. enforcer_evaluate (ge_regex (me_gw env)) table acl ''mysql'' q) (qe_rules qe))"
    using that assms by (cases "qe_rules qe") (auto simp: passes_def acl_blocked_def)
  show ?thesis
    unfolding handle_query_def Let_def
    by (intro growing_then growing_basic) (auto intro!: grow ok split: prod.split)
qed

lemma handle_command_grows: "growing (passes env acl qe payload) (handle_command env acl tgt qe payload)"
proof (cases payload)
  case Nil
  then show ?thesis by (simp add: handle_command_def grow)
next
  case (Cons com body)
  have fwd: "passes env acl qe payload payload" if "com \<in> {0x02, 0x04, 0x0e, 0x1f}"
    using that Cons by (auto simp: passes_def)
  have q: "growing (passes env acl qe payload) (handle_query env acl tgt qe q)"
    if "com = 3" "decode_Query payload = Inr q" for q
    using handle_query_grows [of payload q] that Cons by simp
  have "growing (passes env acl qe payload) (then_a (result_a (map_error MySqlx (decode_Query payload)))
      (\<lambda>q. then_a (handle_query env acl tgt qe q) (\<lambda>_. done_a True)))" if "com = 3"
    using q [OF that] by (cases "decode_Query payload") (auto simp: growing_def act intro!: growing_then [unfolded growing_def, rule_format])
  with fwd show ?thesis
    unfolding handle_command_def Cons list.case
    by (auto intro!: grow split: prod.split)
qed


section \<open>Audit of the queries\<close>

fun queries :: "bytes inbound list \<Rightarrow> string list" where
  "queries (Packet (com # body) # inp) =
     (if com = 0x01 then []
      else if com = 0x03 then
        (case decode_Query (com # body) of Inr q \<Rightarrow> q # queries inp | Inl _ \<Rightarrow> [])
      else queries inp)"
| "queries _ = []"

lemma handle_query_audit:
  assumes "handle_query env acl tgt qe q s = (Inr (), s')" "qe_recording qe"
  shows "audited s' = audited s @ [q]"
proof -
  have c: "audited s' = audited s" if "to_client p s = (r, s')" for p r and s s' :: "'a MySqlSession"
    using to_client_frame [OF that] by (simp add: audited_def)
  note s = c to_upstream_frame(2) conjunct2 [OF conjunct2 [OF from_upstream_frame]]
  show ?thesis
    using assms
    by (auto simp: handle_query_def Let_def act record_sql_audit_def send_error_def audit_item_def
        split: if_splits prod.splits dest!: s)
      (auto simp: audited_def acl_audit_error_def split: option.splits)
qed

lemma handle_command_audit:
  assumes "handle_command env acl tgt qe (com # body) s = (Inr b, s')" "qe_recording qe"
  shows "b = (com \<noteq> 0x01) \<and> (if com = 0x03 then \<exists>q. decode_Query (com # body) = Inr q \<and> audited s' = audited s @ [q]
     else audited s' = audited s)"
proof -
  have c: "audited s' = audited s" if "to_client p s = (r, s')" for p r and s s' :: "'a MySqlSession"
    using to_client_frame [OF that] by (simp add: audited_def)
  have d: "audited (s\<lparr>ms_database := x\<rparr>) = audited s" for x by (simp add: audited_def)
  show ?thesis
  proof (cases "com = 3")
    case True
    with assms show ?thesis by (auto simp: handle_command_def act map_error_Inr dest: handle_query_audit)
  next
    case False
    with assms(1) show ?thesis
      by (auto simp: handle_command_def act send_error_def d split: if_splits prod.splits
          dest!: c to_upstream_frame(2) conjunct2 [OF conjunct2 [OF from_upstream_frame]])
  qed
qed

text \<open>
  C28. While recordings can be written, the log of a session that ends regularly has exactly the
  queries of the client in their order, refused ones included.
\<close>

theorem mysql_audit_complete:
  assumes "\<And>k. qe_recording (me_query env k)" and "command_loop env acl tgt n inp s = (Inr (), s')"
  shows "audited s' = audited s @ queries inp"
  using assms(2)
proof (induction inp arbitrary: n s)
  case Nil
  then show ?case by (simp add: act)
next
  case (Cons x inp)
  show ?case
  proof (cases x)
    case Broken
    with Cons.prems show ?thesis by (simp add: act)
  next
    case (Packet payload)
    show ?thesis
    proof (cases payload)
      case Nil
      with Cons.prems Packet show ?thesis by (simp add: act handle_command_def)
    next
      case C: (Cons com body)
      from Cons.prems obtain b s1 where h: "handle_command env acl tgt (me_query env n) (com # body) s = (Inr b, s1)"
        and rest: "(if b then command_loop env acl tgt (Suc n) inp else done_a ()) s1 = (Inr (), s')"
        by (auto simp: Packet C act)
      from handle_command_audit [OF h assms(1)] rest Cons.IH show ?thesis
        by (auto simp: Packet C act split: if_splits)
    qed
  qed
qed

section \<open>The connection to the target\<close>

text \<open>A turn of the authentication loop takes packets from the inbox, so the bound on the number of
  turns never ends it.\<close>

lemma more_data_shrinks:
  "handle_caching_sha2_more_data mc payload nonce pw inbox c = (Inr inbox', c') \<Longrightarrow> length inbox' \<le> length inbox"
  by (auto simp: handle_caching_sha2_more_data_def Let_def act
      split: if_splits list.splits inbound.splits)

lemma auth_loop_fuel:
  assumes "length inbox < f" "length inbox < f'"
  shows "auth_loop f mc caps pw plugin nonce inbox c = auth_loop f' mc caps pw plugin nonce inbox c"
  using assms
proof (induction f arbitrary: f' plugin nonce inbox c)
  case (Suc f)
  from Suc.prems obtain g where f': "f' = Suc g" by (cases f') auto
  show ?case
  proof (cases inbox)
    case (Cons x rest)
    show ?thesis
    proof (cases x)
      case (Packet payload)
      have IH: "auth_loop f mc caps pw pl n i k = auth_loop g mc caps pw pl n i k" if "length i \<le> length rest" for pl n i k
        using Suc.IH [of i g] that Suc.prems Cons f' by simp
      have m: "then_a (handle_caching_sha2_more_data mc p nonce pw rest) (auth_loop f mc caps pw plugin nonce) c =
          then_a (handle_caching_sha2_more_data mc p nonce pw rest) (auth_loop g mc caps pw plugin nonce) c" for p
        using more_data_shrinks IH by (auto simp: then_a_def split: prod.split sum.split)
      have "auth_loop f mc caps pw pl n rest = auth_loop g mc caps pw pl n rest" for pl n
        using IH by (intro ext) simp
      then show ?thesis
        by (cases payload) (simp_all add: Cons Packet f' Let_def m)
    qed (simp add: Cons f')
  qed (simp add: f')
qed simp

definition only_requests :: "ConnectionOptions \<Rightarrow> bytes conn \<Rightarrow> bool" where
  "only_requests opts c \<longleftrightarrow> (\<forall>p. (False, p) \<in> set (cn_out c) \<longrightarrow>
     (\<exists>caps. p = encode_SslRequest caps \<lparr>sr_max_packet_size = co_max_packet_size opts, sr_collation = co_collation opts\<rparr>))"

definition sealed :: "ConnectionOptions \<Rightarrow> bytes conn \<Rightarrow> bool" where
  "sealed opts c \<longleftrightarrow> cn_tls c \<and> only_requests opts c"

lemma up_send_sealed: "keeps (sealed opts) (up_send p)"
  by (auto simp: keeps_def up_send_def conn_send_def sealed_def only_requests_def)

lemma more_data_sealed: "keeps (sealed opts) (handle_caching_sha2_more_data mc payload nonce pw inbox)"
  unfolding handle_caching_sha2_more_data_def Let_def
  by (auto intro!: keeps_then up_send_sealed split: list.split inbound.split)

lemma auth_loop_sealed: "keeps (sealed opts) (auth_loop f mc caps pw plugin nonce inbox)"
proof (induction f arbitrary: plugin nonce inbox)
  case (Suc f)
  show ?case
  proof (cases inbox)
    case (Cons x rest)
    show ?thesis
    proof (cases x)
      case (Packet payload)
      show ?thesis
        by (cases payload) (auto simp: Cons Packet Let_def intro!: keeps_then up_send_sealed more_data_sealed Suc.IH)
    qed (auto simp: Cons)
  qed auto
qed auto

lemma keeps_cases: "keeps I m \<Longrightarrow> I w \<Longrightarrow> m w = (r, w') \<Longrightarrow> I w'"
  by (metis keepsD snd_conv)

text \<open>
  Unless TLS is disabled for the target, a connection with a password sends nothing but the
  request for TLS in plain text, whatever the target answers.
\<close>

lemma mysql_credentials_encrypted:
  assumes "mysql_connect mc peer target opts c = (r, c')" "cn_out c = []" "\<not> cn_tls c"
    and "tls_mode (my_tls target) \<noteq> Disabled" "my_password target \<notin> {None, Some []}"
  shows "\<forall>p. (False, p) \<in> set (cn_out c') \<longrightarrow>
    (\<exists>caps. p = encode_SslRequest caps \<lparr>sr_max_packet_size = co_max_packet_size opts, sr_collation = co_collation opts\<rparr>)"
proof -
  have c: "only_requests opts c" using assms(2) by (simp add: only_requests_def)
  have up: "only_requests opts c1 \<and> (q = Inr () \<longrightarrow> cn_tls c1)"
    if "upgrade_upstream peer opts caps c = (q, c1)" for caps q c1
    using that c assms(3)
    by (auto simp: upgrade_upstream_def then_a_def up_send_def conn_send_def only_requests_def act split: if_splits)
  have rest: "only_requests opts c2" if "only_requests opts c1 \<and> cn_tls c1"
    "then_a (result_a (build_auth_response mc pl nonce pw)) (\<lambda>response. then_a (up_send (q response)) (\<lambda>_.
       then_a (auth_loop f mc caps pw pl nonce inbox) (\<lambda>i. done_a (caps, i)))) c1 = (r, c2)" for c1 c2 pl nonce pw q f caps inbox
  proof -
    have "keeps (sealed opts) (then_a (result_a (build_auth_response mc pl nonce pw)) (\<lambda>response. then_a (up_send (q response)) (\<lambda>_.
       then_a (auth_loop f mc caps pw pl nonce inbox) (\<lambda>i. done_a (caps, i)))))"
      by (intro keeps_then keeps_result keeps_done up_send_sealed auth_loop_sealed)
    from keeps_cases [OF this _ that(2)] that(1) show ?thesis by (simp add: sealed_def)
  qed
  have "only_requests opts c'"
  proof (cases "up_inbox peer")
    case Nil
    then show ?thesis using assms(1) c by (auto simp: mysql_connect_def act split: if_splits)
  next
    case (Cons x inbox)
    show ?thesis
    proof (cases x)
      case Broken
      then show ?thesis using assms(1) c Cons by (auto simp: mysql_connect_def act split: if_splits)
    next
      case (Packet payload)
      show ?thesis
      proof (cases "decode_Handshake payload")
        case (Inl e)
        then show ?thesis using assms(1) c Cons Packet by (auto simp: mysql_connect_def act split: if_splits)
      next
        case (Inr h)
        let ?caps = "client_capabilities (tls_mode (my_tls target)) (co_capabilities opts) (hs_capabilities h)"
        obtain q c1 where u: "upgrade_upstream peer opts ?caps c = (q, c1)" by fastforce
        obtain pw where pw: "my_password target = Some pw" "pw \<noteq> []" using assms(5) by auto
        show ?thesis
          using assms(1,4) c Cons Packet Inr u up [OF u] pw rest
          by (auto simp: mysql_connect_def act Let_def then_a_def [where m = "upgrade_upstream _ _ _"] split: if_splits sum.splits)
      qed
    qed
  qed
  then show ?thesis by (simp add: only_requests_def)
qed

section \<open>The end of a response\<close>

definition ends_response :: "bytes \<Rightarrow> bool" where
  "ends_response p \<longleftrightarrow> p \<noteq> [] \<and> hd p \<in> {0x00, 0xfe, 0xff}"

text \<open>
  With the usual capabilities the relay of a response forwards packets up to the first one that
  starts with 00, FE or FF and leaves the rest for the next command. The rows of a result are such
  packets too: one whose first column is the empty string starts with 00 and ends the relay.
\<close>

lemma mysql_relay_stops:
  assumes "caps_contains caps DEPRECATE_EOF" "\<forall>p \<in> set ps. \<not> ends_response p" "ends_response e"
    and "first \<longrightarrow> hd (ps @ [e]) = [] \<or> hd (hd (ps @ [e])) \<noteq> 0xfb" and "length ps < cn_writes c"
  shows "\<exists>res. relay_response caps n first (map Packet (ps @ e # rest)) c =
     (Inr (res, map Packet rest),
      c\<lparr>cn_out := cn_out c @ map (Pair (cn_tls c)) (ps @ [e]), cn_writes := cn_writes c - Suc (length ps)\<rparr>)"
  using assms
proof (induction ps arbitrary: first c)
  case Nil
  then show ?case by (cases e) (auto simp: ends_response_def act then_a_def conn_send_def)
next
  case (Cons p ps)
  let ?c = "c\<lparr>cn_out := cn_out c @ [(cn_tls c, p)], cn_writes := cn_writes c - 1\<rparr>"
  from Cons.IH [of False ?c] Cons.prems show ?case
    by (cases p) (auto simp: ends_response_def act then_a_def conn_send_def)
qed

section \<open>Instances\<close>


definition shop_loop_state :: "(RateLimiterDirection \<Rightarrow> nat) MySqlSession" where
  "shop_loop_state = shop_session\<lparr>ms_up_inbox := [Packet [0, 0, 0]]\<rparr>"

definition shop_commands :: "bytes inbound list" where
  "shop_commands = [Packet (encode_Query ''SELECT 1''), Packet [0x16], Packet [0x01], Packet (encode_Query ''DROP'')]"

lemma shop_query: "decode_Query (0x03 # as_bytes ''SELECT 1'') = Inr ''SELECT 1''"
  using query_roundtrip [of "''SELECT 1''"] by (simp add: str_ok_ascii char_code_def encode_Query_def)

lemma shop_queries: "queries shop_commands = [''SELECT 1'']"
  by (simp add: shop_commands_def encode_Query_def shop_query)

theorem mysql_audit_complete_witness:
  "audited (snd (command_loop shop_env \<lparr>enf_target_id = 5, enf_role_ids = []\<rparr> ''box'' 0 shop_commands shop_loop_state)) =
     [''SELECT 1'']"
proof -
  let ?acl = "\<lparr>enf_target_id = 5, enf_role_ids = []\<rparr> :: DbCommandAclEnforcer"
  have q: "me_query shop_env n = \<lparr>qe_rules = None, qe_recording = True, qe_elapsed = 0\<rparr>" for n
    by (simp add: shop_env_def)
  have "fst (command_loop shop_env ?acl ''box'' 0 shop_commands shop_loop_state) = Inr ()"
    by (simp add: shop_commands_def encode_Query_def act then_a_def handle_command_def shop_query handle_query_def Let_def
        q acl_blocked_def record_sql_audit_def to_upstream_def from_upstream_def conn_send_def send_error_def to_client_def
        shop_loop_state_def shop_session_def mysql_session_new_def)
  then obtain s where s: "command_loop shop_env ?acl ''box'' 0 shop_commands shop_loop_state = (Inr (), s)"
    by (metis prod.collapse)
  have "audited shop_loop_state = []" by (simp add: audited_def shop_loop_state_def shop_session_def mysql_session_new_def)
  with s mysql_audit_complete [OF _ s] q shop_queries show ?thesis by simp
qed

definition tls_greeting :: Handshake where
  "tls_greeting = sample_greeting\<lparr>hs_capabilities := shop_caps\<rparr>"

definition vault_options :: TargetMySqlOptions where
  "vault_options = shop_options\<lparr>my_password := Some ''pw'', my_tls := \<lparr>tls_mode = Preferred, tls_verify = True\<rparr>\<rparr>"

definition vault_request :: ConnectionOptions where
  "vault_request = \<lparr>co_collation = 45, co_database = None, co_max_packet_size = 1024, co_capabilities = session_capabilities\<rparr>"

definition vault_run :: "bytes conn" where
  "vault_run = snd (mysql_connect (me_crypto shop_env)
     \<lparr>up_tcp = True, up_inbox = [Packet (encode_Handshake tls_greeting)],
      up_tls_setup = True, up_server_name = True, up_tls_handshake = True\<rparr> vault_options vault_request
     \<lparr>cn_out = [], cn_tls = False, cn_writes = 9\<rparr>)"

lemma tls_greeting_read: "decode_Handshake (encode_Handshake tls_greeting) = Inr tls_greeting"
proof -
  have "wf_Handshake tls_greeting"
    by (simp add: wf_Handshake_def tls_greeting_def sample_greeting_def shop_caps_def capabilities_truncate_def capabilities_all_eq cap_defs
        caps_contains_def status_truncate_def c_str_def str_ok_ascii char_code_def)
  then show ?thesis by (rule handshake_roundtrip)
qed

lemma vault_out: "\<exists>p q. cn_out vault_run = [(False, p), (True, q)]"
proof -
  have c: "caps_contains (client_capabilities Preferred session_capabilities shop_caps) SSL"
    by (simp add: client_capabilities_def shop_caps_def session_capabilities_def caps_contains_def cap_defs)
  let ?nonce = "hs_data_first tls_greeting @ hs_data_last tls_greeting"
  have n: "length ?nonce = 20" "hs_auth_plugin tls_greeting = Some MySqlNativePassword" "hs_capabilities tls_greeting = shop_caps"
    by (simp_all add: tls_greeting_def sample_greeting_def)
  have "strip_nul_padding ?nonce = ?nonce" using n(1) by (subst strip_nul_padding.simps) simp
  then obtain x where r: "build_auth_response (me_crypto shop_env) (Some MySqlNativePassword) (strip_nul_padding ?nonce) ''pw'' = Inr (Some x)"
    using n(1) by (simp add: build_auth_response_def scramble_of_def compute_auth_challenge_response_def shop_env_def Let_def)
  show ?thesis
    using c n(2,3) by (simp add: vault_run_def mysql_connect_def tls_greeting_read vault_options_def shop_options_def vault_request_def act Let_def
      upgrade_upstream_def up_send_def conn_send_def then_a_def r)
qed

lemma mysql_credentials_encrypted_witness:
  "\<exists>caps q. cn_out vault_run =
     [(False, encode_SslRequest caps \<lparr>sr_max_packet_size = 1024, sr_collation = 45\<rparr>), (True, q)]"
proof -
  obtain p q where o: "cn_out vault_run = [(False, p), (True, q)]" using vault_out by blast
  have "\<exists>caps. p = encode_SslRequest caps \<lparr>sr_max_packet_size = co_max_packet_size vault_request,
      sr_collation = co_collation vault_request\<rparr>"
    using mysql_credentials_encrypted [OF prod.collapse [symmetric], of "\<lparr>cn_out = [], cn_tls = False, cn_writes = 9\<rparr>" vault_options
        "me_crypto shop_env" "\<lparr>up_tcp = True, up_inbox = [Packet (encode_Handshake tls_greeting)],
      up_tls_setup = True, up_server_name = True, up_tls_handshake = True\<rparr>" vault_request, folded vault_run_def] o
    by (simp add: vault_options_def)
  with o show ?thesis by (auto simp: vault_request_def)
qed

lemma mysql_relay_stops_witness:
  "\<exists>res. relay_response DEPRECATE_EOF 0 True (map Packet ([[1], [3, 100], [1, 65]] @ [0, 1, 66] # [[1, 67], [0xfe]]))
      \<lparr>cn_out = [], cn_tls = True, cn_writes = 9\<rparr> =
     (Inr (res, map Packet [[1, 67], [0xfe]]),
      \<lparr>cn_out = map (Pair True) ([[1], [3, 100], [1, 65]] @ [[0, 1, 66]]), cn_tls = True, cn_writes = 5\<rparr>)"
  using mysql_relay_stops [of DEPRECATE_EOF "[[1], [3, 100], [1, 65]]" "[0, 1, 66]" True "\<lparr>cn_out = [], cn_tls = True, cn_writes = 9\<rparr>" 0
      "[[1, 67], [0xfe]]"]
  by (simp add: ends_response_def caps_contains_def)

end
