(* ===== verification/Postgres_Wire.thy ===== *)
theory Postgres_Wire
  imports Gateway
begin

text \<open>
  The connection of the PostgreSQL proxy (\<open>gated-protocol-postgres/src/stream.rs\<close>) and its client
  towards a target (\<open>client.rs\<close>). Messages are those of the \<open>pgwire\<close> crate, with the fields the proxy
  looks at and the rest as bytes; a message that the expected decoder cannot read is an error. A
  read delivers the messages that are complete with it. The bytes read but not yet decoded stay in
  the stream when it is upgraded to TLS. SASL mechanisms (\<open>rsasl\<close>) and the MD5 scheme are parameters.
\<close>

section \<open>Messages\<close>

record pg_startup =
  su_major :: u16
  su_minor :: u16
  su_parameters :: "(string \<times> string) list"

datatype pg_frontend =
    PgSslRequest
  | PgStartup pg_startup
  | PgPassword string
  | PgPasswordFamily "string option"
  | PgSASLInitialResponse string bytes
  | PgSASLResponse bytes
  | PgParse "string option" string bytes
  | PgBind "string option" "string option" bytes
  | PgExecute "string option" bytes
  | PgQuery string
  | PgSync
  | PgFrontendOther bytes

datatype pg_backend =
    PgSslAccept
  | PgSslRefuse
  | PgErrorResponse string string string
  | PgNoticeResponse "(char \<times> string) list"
  | PgAuthOk
  | PgAuthCleartext
  | PgAuthMD5 bytes
  | PgAuthSASL "string list"
  | PgAuthSASLContinue bytes
  | PgAuthSASLFinal bytes
  | PgAuthOther bytes
  | PgReadyForQuery
  | PgCommandComplete bytes
  | PgEmptyQueryResponse
  | PgPortalSuspended
  | PgBackendOther bytes

text \<open>\<open>PgWireStartupOrSslRequest\<close>, \<open>PgWireGenericFrontendMessage\<close>, \<open>SslResponse\<close> and
  \<open>PgWireGenericBackendMessage\<close>.\<close>

fun decode_startup :: "pg_frontend \<Rightarrow> pg_frontend option" where
  "decode_startup PgSslRequest = Some PgSslRequest"
| "decode_startup (PgStartup s) = Some (PgStartup s)"
| "decode_startup _ = None"

fun decode_frontend :: "pg_frontend \<Rightarrow> pg_frontend option" where
  "decode_frontend PgSslRequest = None"
| "decode_frontend (PgStartup _) = None"
| "decode_frontend m = Some m"

fun decode_ssl_response :: "pg_backend \<Rightarrow> pg_backend option" where
  "decode_ssl_response PgSslAccept = Some PgSslAccept"
| "decode_ssl_response PgSslRefuse = Some PgSslRefuse"
| "decode_ssl_response _ = None"

fun decode_backend :: "pg_backend \<Rightarrow> pg_backend option" where
  "decode_backend PgSslAccept = None"
| "decode_backend PgSslRefuse = None"
| "decode_backend m = Some m"

section \<open>Errors (error.rs)\<close>

datatype PostgresError =
    PgProtocolError
  | PgRemoteError
  | PgDecode
  | PgEof
  | PgStreamError
  | PgTlsNotSupported
  | PgTlsSetup
  | PgTls
  | PgInvalidDomainName
  | PgIo
  | PgUtf8
  | PgSasl
  | PgSaslSession
  | PgPasswordRequired
  | PgGated gw_error
  | PgOther

section \<open>Streams (stream.rs)\<close>

datatype 'i pg_read = Chunk "'i list" | ReadError

record ('o, 'i) pg_stream =
  st_out :: "(bool \<times> 'o) list"
  st_outbound :: "'o list"
  st_tls :: bool
  st_writes :: nat
  st_inbound :: "'i list"
  st_plain_reads :: "'i pg_read list"
  st_tls_reads :: "'i pg_read list"

definition pg_stream_new :: "nat \<Rightarrow> 'i pg_read list \<Rightarrow> 'i pg_read list \<Rightarrow> ('o, 'i) pg_stream" where
  "pg_stream_new writes plain tls =
     \<lparr>st_out = [], st_outbound = [], st_tls = False, st_writes = writes, st_inbound = [],
      st_plain_reads = plain, st_tls_reads = tls\<rparr>"

definition pg_push :: "'o \<Rightarrow> (PostgresError, ('o, 'i) pg_stream, unit) action" where
  "pg_push m = modify_a (\<lambda>st. st\<lparr>st_outbound := st_outbound st @ [m]\<rparr>)"

definition pg_flush :: "(PostgresError, ('o, 'i) pg_stream, unit) action" where
  "pg_flush st =
     (if st_writes st = 0 then (Inl PgIo, st)
      else (Inr (), st\<lparr>st_out := st_out st @ map (Pair (st_tls st)) (st_outbound st), st_outbound := [],
                       st_writes := st_writes st - 1\<rparr>))"

text \<open>The loop of \<open>recv\<close> over the reads that follow: the next message or the end of the stream, the
  rest of the buffer and the remaining reads.\<close>

fun pg_read_loop ::
  "('i \<Rightarrow> 'a option) \<Rightarrow> 'i list \<Rightarrow> 'i pg_read list
     \<Rightarrow> (PostgresError + 'a option) \<times> 'i list \<times> 'i pg_read list" where
  "pg_read_loop decode (m # buffer) reads =
     (case decode m of Some x \<Rightarrow> (Inr (Some x), buffer, reads) | None \<Rightarrow> (Inl PgStreamError, buffer, reads))"
| "pg_read_loop decode [] [] = (Inr None, [], [])"
| "pg_read_loop decode [] (ReadError # reads) = (Inl PgStreamError, [], reads)"
| "pg_read_loop decode [] (Chunk ms # reads) = pg_read_loop decode ms reads"

definition pg_recv :: "('i \<Rightarrow> 'a option) \<Rightarrow> (PostgresError, ('o, 'i) pg_stream, 'a option) action" where
  "pg_recv decode st =
     (if st_tls st
      then (let (r, buffer, reads) = pg_read_loop decode (st_inbound st) (st_tls_reads st)
            in (r, st\<lparr>st_inbound := buffer, st_tls_reads := reads\<rparr>))
      else (let (r, buffer, reads) = pg_read_loop decode (st_inbound st) (st_plain_reads st)
            in (r, st\<lparr>st_inbound := buffer, st_plain_reads := reads\<rparr>)))"

definition pg_upgrade :: "bool \<Rightarrow> (PostgresError, ('o, 'i) pg_stream, unit) action" where
  "pg_upgrade ok =
     (if ok then modify_a (\<lambda>st. st\<lparr>st_tls := True\<rparr>) else throw_a PgTls)"

definition pg_pushflush :: "'o \<Rightarrow> (PostgresError, ('o, 'i) pg_stream, unit) action" where
  "pg_pushflush m = then_a (pg_push m) (\<lambda>_. pg_flush)"

text \<open>The messages that can still be received.\<close>

fun reads_size :: "'i pg_read list \<Rightarrow> nat" where
  "reads_size [] = 0"
| "reads_size (Chunk ms # reads) = length ms + reads_size reads"
| "reads_size (ReadError # reads) = reads_size reads"

definition stream_size :: "('o, 'i) pg_stream \<Rightarrow> nat" where
  "stream_size st = length (st_inbound st) + reads_size (st_plain_reads st) + reads_size (st_tls_reads st)"

section \<open>Connecting to a target (client.rs)\<close>

record 's sasl =
  sasl_mechname :: "string \<Rightarrow> bool"
  sasl_start :: "string list \<Rightarrow> string \<Rightarrow> string \<Rightarrow> 's option"
  sasl_we_first :: "'s \<Rightarrow> bool"
  sasl_get_mechname :: "'s \<Rightarrow> string"
  sasl_step :: "'s \<Rightarrow> bytes option \<Rightarrow> ('s \<times> bool \<times> bytes option) option"

record pg_peer =
  pp_tcp :: bool
  pp_plain :: "pg_backend pg_read list"
  pp_tls :: "pg_backend pg_read list"
  pp_tls_setup :: bool
  pp_server_name :: bool
  pp_tls_handshake :: bool

record pg_options =
  po_major :: u16
  po_minor :: u16
  po_parameters :: "(string \<times> string) list"

text \<open>Insertion into a \<open>BTreeMap\<close>.\<close>

definition btree_insert :: "string \<Rightarrow> 'v \<Rightarrow> (string \<times> 'v) list \<Rightarrow> (string \<times> 'v) list" where
  "btree_insert k v m = insort_key fst (k, v) (filter (\<lambda>(k', _). k' \<noteq> k) m)"

type_synonym 'a up_action = "(PostgresError, (pg_frontend, pg_backend) pg_stream, 'a) action"

fun sasl_loop :: "nat \<Rightarrow> 's sasl \<Rightarrow> 's \<Rightarrow> bool \<Rightarrow> bytes option \<Rightarrow> unit up_action" where
  "sasl_loop 0 sl session is_first data = throw_a PgEof"
| "sasl_loop (Suc fuel) sl session is_first data =
     (case sasl_step sl session data of
        None \<Rightarrow> throw_a PgSaslSession
      | Some (session', running, to_send) \<Rightarrow>
          then_a (case to_send of
                    Some d \<Rightarrow> pg_pushflush (if is_first then PgSASLInitialResponse (sasl_get_mechname sl session') d
                                           else PgSASLResponse d)
                  | None \<Rightarrow> done_a ()) (\<lambda>_.
            if \<not> running then done_a ()
            else then_a (pg_recv decode_backend) (\<lambda>payload.
              case payload of
                None \<Rightarrow> throw_a PgEof
              | Some (PgErrorResponse _ _ _) \<Rightarrow> throw_a PgRemoteError
              | Some (PgAuthSASLContinue msg) \<Rightarrow>
                  sasl_loop fuel sl session' (is_first \<and> to_send = None) (Some msg)
              | Some (PgAuthSASLFinal msg) \<Rightarrow>
                  sasl_loop fuel sl session' (is_first \<and> to_send = None) (Some msg)
              | Some _ \<Rightarrow> throw_a PgProtocolError)))"

definition run_sasl_auth :: "'s sasl \<Rightarrow> string list \<Rightarrow> string \<Rightarrow> string \<Rightarrow> unit up_action" where
  "run_sasl_auth sl mechanisms uname pw =
     (case sasl_start sl (filter (sasl_mechname sl) mechanisms) uname pw of
        None \<Rightarrow> throw_a PgSasl
      | Some session \<Rightarrow>
          if \<not> sasl_we_first sl session then throw_a PgProtocolError
          else then_a (gets_a stream_size) (\<lambda>n. sasl_loop (Suc n) sl session True None))"

definition get_password :: "bool \<Rightarrow> string option \<Rightarrow> PostgresError + string" where
  "get_password refuse_plaintext_creds password =
     (if refuse_plaintext_creds then Inl PgProtocolError else ok_or PgPasswordRequired password)"

fun pg_auth_loop ::
  "nat \<Rightarrow> 's sasl \<Rightarrow> (string \<Rightarrow> string \<Rightarrow> bytes \<Rightarrow> string) \<Rightarrow> bool \<Rightarrow> TargetPostgresOptions \<Rightarrow> unit up_action" where
  "pg_auth_loop 0 sl md5 refuse target = throw_a PgEof"
| "pg_auth_loop (Suc fuel) sl md5 refuse target =
     then_a (pg_recv decode_backend) (\<lambda>payload.
       case payload of
         None \<Rightarrow> throw_a PgEof
       | Some (PgErrorResponse _ _ _) \<Rightarrow> throw_a PgRemoteError
       | Some PgAuthOk \<Rightarrow> done_a ()
       | Some PgAuthCleartext \<Rightarrow>
           then_a (result_a (get_password refuse (pg_password target))) (\<lambda>pw.
             then_a (pg_pushflush (PgPassword pw)) (\<lambda>_. pg_auth_loop fuel sl md5 refuse target))
       | Some (PgAuthMD5 scramble) \<Rightarrow>
           then_a (result_a (get_password refuse (pg_password target))) (\<lambda>pw.
             then_a (pg_pushflush (PgPassword (md5 (pg_username target) pw scramble))) (\<lambda>_.
               pg_auth_loop fuel sl md5 refuse target))
       | Some (PgAuthSASL mechanisms) \<Rightarrow>
           then_a (result_a (get_password refuse (pg_password target))) (\<lambda>pw.
             then_a (run_sasl_auth sl mechanisms (pg_username target) pw) (\<lambda>_.
               pg_auth_loop fuel sl md5 refuse target))
       | Some _ \<Rightarrow> throw_a PgProtocolError)"

text \<open>The negotiation of TLS; the result tells whether the link is encrypted.\<close>

definition pg_negotiate_tls :: "pg_peer \<Rightarrow> TlsMode \<Rightarrow> bool up_action" where
  "pg_negotiate_tls peer mode =
     (if mode = Disabled then done_a False
      else then_a (pg_pushflush PgSslRequest) (\<lambda>_.
           then_a (pg_recv decode_ssl_response) (\<lambda>response.
             case response of
               None \<Rightarrow> throw_a PgEof
             | Some r \<Rightarrow>
                 if mode = Required \<and> r = PgSslRefuse then throw_a PgTlsNotSupported
                 else if r = PgSslAccept then
                   (if \<not> pp_tls_setup peer then throw_a PgTlsSetup
                    else if \<not> pp_server_name peer then throw_a PgInvalidDomainName
                    else then_a (pg_upgrade (pp_tls_handshake peer)) (\<lambda>_. done_a True))
                 else done_a False)))"

definition pg_connect ::
  "'s sasl \<Rightarrow> (string \<Rightarrow> string \<Rightarrow> bytes \<Rightarrow> string) \<Rightarrow> pg_peer \<Rightarrow> TargetPostgresOptions \<Rightarrow> pg_options
     \<Rightarrow> unit up_action" where
  "pg_connect sl md5 peer target options =
     (if \<not> pp_tcp peer then throw_a PgIo
      else then_a (pg_negotiate_tls peer (tls_mode (pg_tls target))) (\<lambda>tls_active.
        let refuse_plaintext_creds = (tls_mode (pg_tls target) \<noteq> Disabled \<and> \<not> tls_active);
            startup = \<lparr>su_major = po_major options, su_minor = po_minor options,
                       su_parameters = btree_insert ''user'' (pg_username target) (po_parameters options)\<rparr>
        in then_a (pg_pushflush (PgStartup startup)) (\<lambda>_.
             then_a (gets_a stream_size) (\<lambda>n.
               pg_auth_loop (Suc n) sl md5 refuse_plaintext_creds target))))"

end
