(* ===== verification/Postgres_Session.thy ===== *)
theory Postgres_Session
  imports Postgres_Wire Pem
begin

text \<open>
  One client connection to the PostgreSQL server of the gateway
  (\<open>gated-protocol-postgres/src/session.rs\<close>). The relay waits on the client, the target and a timer
  at once: which of them is served next, and at which time, is the list of its turns. While a login
  waits for an approval in the browser, the outcome of that wait is given by the environment.
\<close>

section \<open>State\<close>

datatype web_outcome = WebApproved | WebRejected | WebExpired

record ('l, 's) pg_env =
  pe_gw :: "'l gw_env"
  pe_sasl :: "'s sasl"
  pe_md5 :: "string \<Rightarrow> string \<Rightarrow> bytes \<Rightarrow> string"
  pe_tls_accept :: bool
  pe_peer :: "TargetPostgresOptions \<Rightarrow> pg_peer"
  pe_query :: "nat \<Rightarrow> query_env"
  pe_web :: web_outcome
  pe_login_url :: "uuid \<Rightarrow> string option"
  pe_account_text :: "account_error \<Rightarrow> string"
  pe_error_debug :: "string \<Rightarrow> string \<Rightarrow> string \<Rightarrow> string"
  pe_parse_duration :: "string \<Rightarrow> nat option"
  pe_format_duration :: "nat \<Rightarrow> string"

record 'l PostgresSession =
  ps_id :: uuid
  ps_username :: "string option"
  ps_database :: "string option"
  ps_client :: "(pg_backend, pg_frontend) pg_stream"
  ps_upstream :: "(pg_frontend, pg_backend) pg_stream"
  ps_recorded :: "sql_audit list"
  ps_rejected :: "(string \<times> string) list"
  ps_gw :: "'l gateway"

type_synonym ('l, 'a) pg_action = "(PostgresError, 'l PostgresSession, 'a) action"

definition pg_session_new ::
  "uuid \<Rightarrow> nat \<Rightarrow> nat \<Rightarrow> pg_frontend pg_read list \<Rightarrow> pg_frontend pg_read list \<Rightarrow> 'l gateway \<Rightarrow> 'l PostgresSession" where
  "pg_session_new i client_writes upstream_writes plain tls g =
     \<lparr>ps_id = i, ps_username = None, ps_database = None,
      ps_client = pg_stream_new client_writes plain tls,
      ps_upstream = pg_stream_new upstream_writes [] [],
      ps_recorded = [], ps_rejected = [], ps_gw = g\<rparr>"

definition on_client ::
  "(PostgresError, (pg_backend, pg_frontend) pg_stream, 'a) action \<Rightarrow> ('l, 'a) pg_action" where
  "on_client m s = (let (r, c) = m (ps_client s) in (r, s\<lparr>ps_client := c\<rparr>))"

definition on_upstream :: "'a up_action \<Rightarrow> ('l, 'a) pg_action" where
  "on_upstream m s = (let (r, c) = m (ps_upstream s) in (r, s\<lparr>ps_upstream := c\<rparr>))"

definition pg_gw :: "(gw_error \<Rightarrow> PostgresError) \<Rightarrow> (gw_error, 'l gateway, 'a) action \<Rightarrow> ('l, 'a) pg_action" where
  "pg_gw f m s = (let (r, g) = m (ps_gw s) in (map_error f r, s\<lparr>ps_gw := g\<rparr>))"

definition pg_other :: "gw_error \<Rightarrow> PostgresError" where
  "pg_other e = (case e of GwPanic \<Rightarrow> PgGated GwPanic | _ \<Rightarrow> PgOther)"

definition send_error_response :: "string \<Rightarrow> string \<Rightarrow> ('l, unit) pg_action" where
  "send_error_response code message = on_client (pg_pushflush (PgErrorResponse ''FATAL'' code message))"

definition enforce_tls :: "bool \<Rightarrow> ('l, unit) pg_action" where
  "enforce_tls tls_negotiated =
     (if tls_negotiated then done_a ()
      else then_a (on_client (pg_pushflush (PgErrorResponse ''FATAL'' ''28000''
             ''Gated requires TLS - please enable it in your client: use `sslmode=require` (or stronger) in your connection string'')))
             (\<lambda>_. throw_a PgTlsNotSupported))"

section \<open>Relay\<close>

record PendingSqlAudit =
  pa_sql :: string
  pa_statement_kind :: string
  pa_started_at :: nat

record pg_relay =
  pr_prepared_sql :: "(string option \<times> string) list"
  pr_portal_sql :: "(string option \<times> string) list"
  pr_pending_audit :: "PendingSqlAudit option"
  pr_last_activity :: nat

definition pg_relay_new :: "nat \<Rightarrow> pg_relay" where
  "pg_relay_new now = \<lparr>pr_prepared_sql = [], pr_portal_sql = [], pr_pending_audit = None, pr_last_activity = now\<rparr>"

definition pg_audit ::
  "string \<Rightarrow> string option \<Rightarrow> string \<Rightarrow> string \<Rightarrow> nat \<Rightarrow> bool \<Rightarrow> audit_error option \<Rightarrow> sql_audit" where
  "pg_audit target database sql statement_kind elapsed success err =
     \<lparr>sa_target_kind = ''postgres'', sa_target = target, sa_database = database, sa_sql = sql,
      sa_statement_kind = statement_kind, sa_elapsed_ms = elapsed, sa_success = success, sa_error = err\<rparr>"

definition pg_record :: "bool \<Rightarrow> (string option \<Rightarrow> sql_audit) \<Rightarrow> ('l, unit) pg_action" where
  "pg_record available item =
     modify_a (\<lambda>s. if available then s\<lparr>ps_recorded := ps_recorded s @ [item (ps_database s)]\<rparr> else s)"

definition record_blocked_sql_audit :: "query_env \<Rightarrow> string \<Rightarrow> string \<Rightarrow> audit_error \<Rightarrow> ('l, unit) pg_action" where
  "record_blocked_sql_audit qe target sql err =
     pg_record (qe_recording qe) (\<lambda>d. pg_audit target d sql (classify_sql sql) 0 False (Some err))"

definition record_degraded_sql_audit :: "query_env \<Rightarrow> string \<Rightarrow> string \<Rightarrow> ('l, unit) pg_action" where
  "record_degraded_sql_audit qe target sql =
     pg_record (qe_recording qe) (\<lambda>d. pg_audit target d sql (classify_sql sql) 0 True (Some DegradedControl))"

text \<open>What a message of the client does to the maps of statements and portals, and the SQL that
  the rules have to allow.\<close>

fun track_message :: "pg_frontend \<Rightarrow> pg_relay \<Rightarrow> string option \<times> bool \<times> pg_relay" where
  "track_message (PgParse name query _) st =
     (None, False, st\<lparr>pr_prepared_sql := hash_insert name query (pr_prepared_sql st)\<rparr>)"
| "track_message (PgBind portal statement _) st =
     (None, False,
      case map_of (pr_prepared_sql st) statement of
        Some sql \<Rightarrow> st\<lparr>pr_portal_sql := hash_insert portal sql (pr_portal_sql st)\<rparr>
      | None \<Rightarrow> st)"
| "track_message (PgExecute name _) st =
     (Some (case map_of (pr_portal_sql st) name of
              Some sql \<Rightarrow> sql | None \<Rightarrow> ''<unknown prepared statement>''), False, st)"
| "track_message (PgQuery query) st = (Some query, True, st)"
| "track_message _ st = (None, False, st)"

definition client_message ::
  "('l, 's) pg_env \<Rightarrow> DbCommandAclEnforcer \<Rightarrow> string \<Rightarrow> query_env \<Rightarrow> nat \<Rightarrow> pg_relay \<Rightarrow> pg_frontend
     \<Rightarrow> ('l, pg_relay) pg_action" where
  "client_message env acl target qe now st msg =
     (let (acl_sql, is_simple, st1) = track_message msg (st\<lparr>pr_last_activity := now\<rparr>)
      in case acl_sql of
           None \<Rightarrow> then_a (on_upstream (pg_pushflush msg)) (\<lambda>_. done_a st1)
         | Some sql \<Rightarrow>
             (let decision = map_option (\<lambda>table. enforcer_evaluate (ge_regex (pe_gw env)) table acl ''postgres'' sql) (qe_rules qe)
              in then_a (if decision = None then record_degraded_sql_audit qe target sql else done_a ()) (\<lambda>_.
                   if acl_blocked decision then
                     then_a (record_blocked_sql_audit qe target sql (acl_audit_error decision)) (\<lambda>_.
                     then_a (on_client (pg_push (PgErrorResponse ''ERROR'' ''42501'' ''command blocked by policy''))) (\<lambda>_.
                     then_a (if is_simple then on_client (pg_push PgReadyForQuery) else done_a ()) (\<lambda>_.
                     then_a (on_client pg_flush) (\<lambda>_. done_a st1))))
                   else then_a (on_upstream (pg_pushflush msg)) (\<lambda>_.
                     done_a (st1\<lparr>pr_pending_audit :=
                       Some \<lparr>pa_sql = sql, pa_statement_kind = classify_sql sql, pa_started_at = now\<rparr>\<rparr>)))))"

text \<open>Whether a message of the target ends a statement, and how.\<close>

fun statement_end :: "(string \<Rightarrow> string \<Rightarrow> string \<Rightarrow> string) \<Rightarrow> pg_backend \<Rightarrow> (bool \<times> audit_error option) option" where
  "statement_end debug (PgErrorResponse a b c) = Some (False, Some (UpstreamError (debug a b c)))"
| "statement_end debug (PgCommandComplete _) = Some (True, None)"
| "statement_end debug PgEmptyQueryResponse = Some (True, None)"
| "statement_end debug PgPortalSuspended = Some (True, None)"
| "statement_end debug _ = None"

definition server_message ::
  "('l, 's) pg_env \<Rightarrow> string \<Rightarrow> query_env \<Rightarrow> nat \<Rightarrow> pg_relay \<Rightarrow> pg_backend \<Rightarrow> ('l, pg_relay) pg_action" where
  "server_message env target qe now st msg =
     (let st1 = st\<lparr>pr_last_activity := now\<rparr>
      in then_a (case (statement_end (pe_error_debug env) msg, pr_pending_audit st1) of
                   (Some (success, err), Some waiting) \<Rightarrow>
                     then_a (pg_record (qe_recording qe) (\<lambda>d. pg_audit target d (pa_sql waiting)
                               (pa_statement_kind waiting) (now - pa_started_at waiting) success err))
                       (\<lambda>_. done_a (st1\<lparr>pr_pending_audit := None\<rparr>))
                 | _ \<Rightarrow> done_a st1) (\<lambda>st2.
           then_a (on_client (pg_pushflush msg)) (\<lambda>_. done_a st2)))"

datatype pg_ready = ClientReady | TargetReady | TimerReady

record pg_turn =
  pt_checked_at :: nat
  pt_ready :: pg_ready
  pt_ready_at :: nat

text \<open>A read error of one side ends the relay regularly.\<close>

definition try_a :: "('e, 'w, 'a) action \<Rightarrow> ('f, 'w, 'e + 'a) action" where
  "try_a m w = (let (r, w') = m w in (Inr r, w'))"

fun pg_relay_loop ::
  "('l, 's) pg_env \<Rightarrow> DbCommandAclEnforcer \<Rightarrow> string \<Rightarrow> nat \<Rightarrow> nat \<Rightarrow> pg_relay \<Rightarrow> pg_turn list \<Rightarrow> ('l, pg_relay) pg_action" where
  "pg_relay_loop env acl target idle_timeout n st [] = done_a st"
| "pg_relay_loop env acl target idle_timeout n st (turn # turns) =
     (let elapsed = pt_checked_at turn - pr_last_activity st
      in if elapsed > idle_timeout then
           then_a (send_error_response ''57P01''
                     (''Session idle for '' @ pe_format_duration env elapsed @ '' exceeded configured timeout of '' @
                      pe_format_duration env idle_timeout @ ''. Please reconnect.'')) (\<lambda>_. done_a st)
         else (case pt_ready turn of
             TimerReady \<Rightarrow> pg_relay_loop env acl target idle_timeout (Suc n) st turns
           | ClientReady \<Rightarrow>
               then_a (try_a (on_client (pg_recv decode_frontend))) (\<lambda>r.
                 case r of
                   Inr (Some msg) \<Rightarrow>
                     then_a (client_message env acl target (pe_query env n) (pt_ready_at turn) st msg) (\<lambda>st1.
                       pg_relay_loop env acl target idle_timeout (Suc n) st1 turns)
                 | _ \<Rightarrow> done_a st)
           | TargetReady \<Rightarrow>
               then_a (try_a (on_upstream (pg_recv decode_backend))) (\<lambda>r.
                 case r of
                   Inr (Some msg) \<Rightarrow>
                     then_a (server_message env target (pe_query env n) (pt_ready_at turn) st msg) (\<lambda>st1.
                       pg_relay_loop env acl target idle_timeout (Suc n) st1 turns)
                 | _ \<Rightarrow> done_a st)))"

definition idle_timeout_of :: "('l, 's) pg_env \<Rightarrow> TargetPostgresOptions \<Rightarrow> nat" where
  "idle_timeout_of env options =
     (case Option.bind (pg_idle_timeout options) (\<lambda>s.
             let trimmed = trim s in if trimmed = [] then None else pe_parse_duration env trimmed) of
        Some d \<Rightarrow> d
      | None \<Rightarrow> 60 * 10 * 1000)"

definition pg_connect_upstream ::
  "('l, 's) pg_env \<Rightarrow> TargetPostgresOptions \<Rightarrow> pg_options \<Rightarrow> ('l, unit) pg_action" where
  "pg_connect_upstream env options co =
     then_a (modify_a (\<lambda>s. s\<lparr>ps_upstream := (ps_upstream s)
               \<lparr>st_plain_reads := pp_plain (pe_peer env options), st_tls_reads := pp_tls (pe_peer env options)\<rparr>\<rparr>)) (\<lambda>_.
     then_a (try_a (on_upstream (pg_connect (pe_sasl env) (pe_md5 env) (pe_peer env options) options co))) (\<lambda>r.
       case r of
         Inr _ \<Rightarrow> done_a ()
       | Inl e \<Rightarrow> then_a (send_error_response ''0W002'' ''Gated target connection failed'') (\<lambda>_. throw_a e)))"

definition pg_run_authorized_inner ::
  "('l, 's) pg_env \<Rightarrow> pg_startup \<Rightarrow> string \<Rightarrow> TargetPostgresOptions \<Rightarrow> DbCommandAclEnforcer \<Rightarrow> pg_turn list
     \<Rightarrow> ('l, unit) pg_action" where
  "pg_run_authorized_inner env startup tname options acl turns =
     then_a (pg_connect_upstream env options
               \<lparr>po_major = su_major startup, po_minor = su_minor startup, po_parameters = su_parameters startup\<rparr>) (\<lambda>_.
     then_a (gets_a ps_id) (\<lambda>i.
     then_a (pg_gw PgGated (gw_target_connected i)) (\<lambda>_.
     then_a (pg_relay_loop env acl tname (idle_timeout_of env options) 0
               (pg_relay_new (ge_now (pe_gw env))) turns) (\<lambda>_. done_a ()))))"

section \<open>Login\<close>

fun postgres_target :: "target_row \<Rightarrow> (target_row \<times> TargetPostgresOptions) option" where
  "postgres_target t = (case tr_options t of Some (PostgresOptions opts) \<Rightarrow> Some (t, opts) | _ \<Rightarrow> None)"

definition find_postgres_target :: "string \<Rightarrow> target_row list \<Rightarrow> (target_row \<times> TargetPostgresOptions) option" where
  "find_postgres_target name ts =
     find (\<lambda>(t, _). tr_name t = name) (List.map_filter postgres_target ts)"

definition pg_login_options ::
  "('l, 's) pg_env \<Rightarrow> Db \<Rightarrow> target_row \<Rightarrow> TargetPostgresOptions \<Rightarrow> string \<Rightarrow> string option
     \<Rightarrow> (string \<times> string) + TargetPostgresOptions" where
  "pg_login_options env db target options login_username requested =
     (case select_login db (tr_id target) login_username requested of
        Inl e \<Rightarrow> Inl (''28000'', ge_login_text (pe_gw env) e @ ''. Add the account to the user name: <user>:<target>:<account>'')
      | Inr login \<Rightarrow>
          (case resolve_db_account db (tr_id target) (PostgresOptions options) login of
             Inr (Some (_, creds)) \<Rightarrow>
               Inr (options\<lparr>pg_username := dp_username creds, pg_password := Some (dp_password creds)\<rparr>)
           | Inr None \<Rightarrow> Inr options
           | Inl e \<Rightarrow> Inl (''0W001'', ''Account resolution failed: '' @ pe_account_text env e)))"

definition pg_run_authorized ::
  "('l, 's) pg_env \<Rightarrow> pg_startup \<Rightarrow> AuthStateUserInfo \<Rightarrow> string \<Rightarrow> string option \<Rightarrow> pg_turn list
     \<Rightarrow> ('l, unit) pg_action" where
  "pg_run_authorized env startup user_info tname requested turns =
     then_a (on_client pg_flush) (\<lambda>_.
     then_a (pg_gw PgGated gw_list_targets) (\<lambda>targets.
       case find_postgres_target tname targets of
         None \<Rightarrow> send_error_response ''0W001'' (''Gated target '' @ tname @ '' not found'')
       | Some (target, options) \<Rightarrow>
           then_a (gets_a ps_id) (\<lambda>i.
           then_a (pg_gw PgGated (gw_set_user_info (pe_gw env) i user_info)) (\<lambda>_.
           then_a (pg_gw PgGated (gw_set_target (pe_gw env) i target)) (\<lambda>_.
           then_a (pg_gw pg_other gw_db_required) (\<lambda>db.
             case pg_login_options env db target options (ui_username user_info) requested of
               Inl (code, message) \<Rightarrow> send_error_response code message
             | Inr options \<Rightarrow>
                 then_a (pg_gw pg_other gw_db_required) (\<lambda>db.
                   pg_run_authorized_inner env startup tname options
                     (enforcer_new db (tr_id target) (ui_id user_info)) turns)))))))"

definition pg_auth_fail :: "string \<Rightarrow> string \<Rightarrow> ('l, unit) pg_action" where
  "pg_auth_fail uname target =
     then_a (modify_a (\<lambda>s. s\<lparr>ps_rejected := ps_rejected s @ [(uname, target)]\<rparr>)) (\<lambda>_.
       on_client (pg_pushflush (PgErrorResponse ''FATAL'' ''28P01'' ''Authentication failed'')))"

text \<open>The wait for the browser: the attempt is approved or rejected there, or its signal is dropped
  after the timeout.\<close>

definition gw_subscribe :: "'l gw_env \<Rightarrow> uuid \<Rightarrow> (gw_error, 'l gateway, nat) action" where
  "gw_subscribe env i g =
     (let (c, st) = store_subscribe (ge_now env) i (gw_auth g) in (Inr c, g\<lparr>gw_auth := st\<rparr>))"

definition gw_await :: "web_outcome \<Rightarrow> uuid \<Rightarrow> nat \<Rightarrow> (gw_error, 'l gateway, AuthResult received) action" where
  "gw_await outcome i c g =
     (let st = (case outcome of
                  WebApproved \<Rightarrow> approve_attempt i (gw_auth g)
                | WebRejected \<Rightarrow> reject_attempt i (gw_auth g)
                | WebExpired \<Rightarrow> gw_auth g)
      in (Inr (recv c (auth_channels st)), g\<lparr>gw_auth := st\<rparr>))"

fun is_accepted :: "AuthResult received \<Rightarrow> bool" where
  "is_accepted (Message (Accepted _)) = True"
| "is_accepted _ = False"

definition web_notice :: "string \<Rightarrow> string \<Rightarrow> pg_backend" where
  "web_notice login_url ident =
     PgNoticeResponse
       [(CHR ''S'', ''WARNING''), (CHR ''V'', ''WARNING''), (CHR ''C'', ''WG001''),
        (CHR ''M'', ''Gated authentication: please open the following URL in your browser:''),
        (CHR ''D'', login_url),
        (CHR ''H'', ''Make sure you'' @ [CHR 0x27] @ ''re seeing this security key: '' @ join '' '' (map (\<lambda>c. [c]) ident) @ [CHR 0x0A])]"

fun pg_auth_turns ::
  "nat \<Rightarrow> ('l, 's) pg_env \<Rightarrow> pg_startup \<Rightarrow> uuid \<Rightarrow> string \<Rightarrow> string \<Rightarrow> string option \<Rightarrow> bool \<Rightarrow> pg_turn list
     \<Rightarrow> ('l, unit) pg_action" where
  "pg_auth_turns 0 env startup a uname tname acct auth_ok_sent turns = throw_a PgEof"
| "pg_auth_turns (Suc fuel) env startup a uname tname acct auth_ok_sent turns =
     then_a (gets_a (\<lambda>s. gw_state a (ps_gw s))) (\<lambda>st.
       case map_option verify st of
         None \<Rightarrow> pg_auth_fail uname tname
       | Some (Accepted ui) \<Rightarrow>
           then_a (pg_gw PgGated (gw_complete a)) (\<lambda>_.
           then_a (pg_gw pg_other (gw_authorize_target (ui_username ui) tname)) (\<lambda>allowed.
             if \<not> allowed then pg_auth_fail uname tname
             else then_a (if auth_ok_sent then done_a () else on_client (pg_push PgAuthOk)) (\<lambda>_.
                    pg_run_authorized env startup ui tname acct turns)))
       | Some (AuthResult.Need kinds) \<Rightarrow>
           if CredentialKind.Password \<in> kinds then
             then_a (on_client (pg_pushflush PgAuthCleartext)) (\<lambda>_.
             then_a (on_client (pg_recv decode_frontend)) (\<lambda>m.
               case m of
                 Some (PgPasswordFamily p) \<Rightarrow>
                   then_a (result_a (ok_or PgDecode p)) (\<lambda>password.
                   then_a (pg_gw PgGated (gw_validate (pe_gw env) uname (Password password))) (\<lambda>ok.
                     if ok then
                       then_a (pg_gw PgGated (gw_add_credential a (Password password))) (\<lambda>_.
                         pg_auth_turns fuel env startup a uname tname acct auth_ok_sent turns)
                     else pg_auth_fail uname tname))
               | _ \<Rightarrow> throw_a PgEof))
           else if CredentialKind.WebUserApproval \<in> kinds then
             then_a (pg_gw PgGated (gw_subscribe (pe_gw env) a)) (\<lambda>c.
               case pe_login_url env a of
                 None \<Rightarrow> pg_auth_fail uname tname
               | Some login_url \<Rightarrow>
                   then_a (if auth_ok_sent then done_a () else on_client (pg_push PgAuthOk)) (\<lambda>_.
                   then_a (on_client (pg_pushflush (web_notice login_url (case st of Some s \<Rightarrow> identification_string s | None \<Rightarrow> [])))) (\<lambda>_.
                   then_a (pg_gw PgGated (gw_await (pe_web env) a c)) (\<lambda>r.
                     if \<not> is_accepted r then pg_auth_fail uname tname
                     else pg_auth_turns fuel env startup a uname tname acct True turns))))
           else pg_auth_fail uname tname
       | Some AuthResult.Rejected \<Rightarrow> pg_auth_fail uname tname)"

definition pg_run_authorization ::
  "('l, 's) pg_env \<Rightarrow> pg_startup \<Rightarrow> string \<Rightarrow> pg_turn list \<Rightarrow> ('l, unit) pg_action" where
  "pg_run_authorization env startup name turns =
     (case selector_from name of
        User uname tname acct \<Rightarrow>
          then_a (gets_a ps_id) (\<lambda>i.
          then_a (pg_gw PgGated (gw_create_state (pe_gw env) i uname ''PostgreSQL'' [CredentialKind.Password])) (\<lambda>a.
            pg_auth_turns 3 env startup a uname tname acct False turns))
      | Ticket sec \<Rightarrow>
          then_a (pg_gw pg_other (gw_authorize_ticket (pe_gw env) sec)) (\<lambda>found.
            case found of
              Some (ticket, ui) \<Rightarrow>
                then_a (pg_gw pg_other (gw_consume_ticket (ticket_id ticket))) (\<lambda>_.
                then_a (on_client (pg_push PgAuthOk)) (\<lambda>_.
                  pg_run_authorized env startup ui (ticket_target ticket) None turns))
            | None \<Rightarrow> pg_auth_fail ''ticket'' []))"

definition pg_run :: "('l, 's) pg_env \<Rightarrow> pg_turn list \<Rightarrow> ('l, unit) pg_action" where
  "pg_run env turns =
     then_a (on_client (pg_recv decode_startup)) (\<lambda>m.
       case m of
         None \<Rightarrow> throw_a PgEof
       | Some initial_message \<Rightarrow>
           then_a (if initial_message = PgSslRequest then
                     then_a (on_client (pg_pushflush PgSslAccept)) (\<lambda>_.
                     then_a (on_client (pg_upgrade (pe_tls_accept env))) (\<lambda>_.
                     then_a (on_client (pg_recv decode_startup)) (\<lambda>next.
                       case next of None \<Rightarrow> throw_a PgEof | Some m \<Rightarrow> done_a (m, True))))
                   else done_a (initial_message, False)) (\<lambda>(initial_message, tls_negotiated).
             case initial_message of
               PgStartup startup \<Rightarrow>
                 then_a (enforce_tls tls_negotiated) (\<lambda>_.
                 then_a (modify_a (\<lambda>s. s\<lparr>ps_username := map_of (su_parameters startup) ''user'',
                                           ps_database := map_of (su_parameters startup) ''database''\<rparr>)) (\<lambda>_.
                   pg_run_authorization env startup
                     (case map_of (su_parameters startup) ''user'' of Some u \<Rightarrow> u | None \<Rightarrow> []) turns))
             | _ \<Rightarrow> throw_a PgProtocolError))"

end
