(* ===== verification/Postgres_Laws.thy ===== *)
theory Postgres_Laws
  imports Postgres_Session Gateway_Laws
begin

text \<open>The PostgreSQL proxy up to the relay: what the streams keep, that nothing reaches a target without
  a login, that the exchanges with the target end, and that credentials leave encrypted.\<close>

section \<open>Streams\<close>

definition reads_msgs :: "'i pg_read list \<Rightarrow> 'i set" where
  "reads_msgs reads = \<Union> (set (map (\<lambda>r. case r of Chunk ms \<Rightarrow> set ms | ReadError \<Rightarrow> {}) reads))"

definition stream_msgs :: "('o, 'i) pg_stream \<Rightarrow> 'i set" where
  "stream_msgs st = set (st_inbound st) \<union> reads_msgs (st_plain_reads st) \<union> reads_msgs (st_tls_reads st)"

lemma reads_msgs_Cons: "reads_msgs (r # rs) = (case r of Chunk ms \<Rightarrow> set ms | ReadError \<Rightarrow> {}) \<union> reads_msgs rs"
  by (simp add: reads_msgs_def)

lemma read_loop_msgs:
  assumes "pg_read_loop d buf reads = (r, buf', reads')"
  shows "set buf' \<subseteq> set buf \<union> reads_msgs reads" "reads_msgs reads' \<subseteq> reads_msgs reads"
    and "r = Inr (Some x) \<Longrightarrow> \<exists>m \<in> set buf \<union> reads_msgs reads. d m = Some x"
  using assms
  by (induction d buf reads rule: pg_read_loop.induct)
    (auto simp: reads_msgs_Cons split: option.splits)

lemma read_loop_size:
  assumes "pg_read_loop d buf reads = (Inr (Some x), buf', reads')"
  shows "Suc (length buf' + reads_size reads') = length buf + reads_size reads"
  using assms by (induction d buf reads rule: pg_read_loop.induct) (auto split: option.splits)

lemma pg_recv_frame:
  assumes "pg_recv d st = (r, st')"
  shows "st_out st' = st_out st" "st_outbound st' = st_outbound st" "st_tls st' = st_tls st"
    and "stream_msgs st' \<subseteq> stream_msgs st"
    and "r = Inr (Some x) \<Longrightarrow> \<exists>m \<in> stream_msgs st. d m = Some x"
    and "r = Inr (Some x) \<Longrightarrow> Suc (stream_size st') = stream_size st"
proof -
  obtain b rs where l: "pg_read_loop d (st_inbound st) (if st_tls st then st_tls_reads st else st_plain_reads st) = (r, b, rs)"
    and st': "st' = (if st_tls st then st\<lparr>st_inbound := b, st_tls_reads := rs\<rparr> else st\<lparr>st_inbound := b, st_plain_reads := rs\<rparr>)"
    using assms by (auto simp: pg_recv_def split: if_splits prod.splits)
  show "st_out st' = st_out st" "st_outbound st' = st_outbound st" "st_tls st' = st_tls st"
    by (simp_all add: st')
  show "stream_msgs st' \<subseteq> stream_msgs st"
    using read_loop_msgs(1,2) [OF l] by (auto simp: st' stream_msgs_def split: if_splits)
  show "r = Inr (Some x) \<Longrightarrow> \<exists>m \<in> stream_msgs st. d m = Some x"
    using read_loop_msgs(3) [OF l, of x] by (auto simp: stream_msgs_def split: if_splits)
  show "r = Inr (Some x) \<Longrightarrow> Suc (stream_size st') = stream_size st"
    using read_loop_size [of d "st_inbound st" _ x b rs] l by (auto simp: st' stream_size_def split: if_splits)
qed

lemma pg_send_frame:
  assumes "pg_push m st = (r, st') \<or> pg_flush st = (r, st') \<or> pg_pushflush m st = (r, st')"
  shows "st_tls st' = st_tls st" "stream_msgs st' = stream_msgs st"
  using assms
  by (auto simp: pg_push_def pg_flush_def pg_pushflush_def act then_a_def stream_msgs_def split: if_splits)

section \<open>The login\<close>

definition pg_silent :: "bool \<Rightarrow> 'l PostgresSession \<Rightarrow> bool" where
  "pg_silent tls s \<longleftrightarrow> st_out (ps_upstream s) = [] \<and> st_outbound (ps_upstream s) = [] \<and> st_tls (ps_client s) = tls"

definition pgI :: "('l gateway \<Rightarrow> bool) \<Rightarrow> pg_frontend set \<Rightarrow> bool \<Rightarrow> 'l PostgresSession \<Rightarrow> bool" where
  "pgI R msgs tls s \<longleftrightarrow> pg_silent tls s \<and> stream_msgs (ps_client s) \<subseteq> msgs \<and> R (ps_gw s)"

lemma pgI_weaken: "pgI R msgs tls s \<Longrightarrow> (\<And>g. R g \<Longrightarrow> R' g) \<Longrightarrow> pgI R' msgs tls s"
  by (simp add: pgI_def)

lemma pgI_silent: "pgI R msgs tls s \<Longrightarrow> pg_silent tls s"
  by (simp add: pgI_def)

lemma keeps_triple: "keeps I m \<Longrightarrow> hoare I m (\<lambda>_. I) (\<lambda>_. I)"
  by (fastforce simp: keeps_def hoare_def split: prod.split sum.split)

lemma on_client_keeps:
  assumes "\<And>st. st_tls (snd (m st)) = st_tls st" "\<And>st. stream_msgs (snd (m st)) \<subseteq> stream_msgs st"
  shows "keeps (pgI R msgs tls) (on_client m)" and "keeps (pg_silent tls) (on_client m)"
  using assms by (auto simp: keeps_def on_client_def pgI_def pg_silent_def split: prod.splits) (metis snd_conv subsetD)+

lemma send_props:
  "st_tls (snd (pg_push m st)) = st_tls st" "stream_msgs (snd (pg_push m st)) \<subseteq> stream_msgs st"
  "st_tls (snd (pg_flush st)) = st_tls st" "stream_msgs (snd (pg_flush st)) \<subseteq> stream_msgs st"
  "st_tls (snd (pg_pushflush m st)) = st_tls st" "stream_msgs (snd (pg_pushflush m st)) \<subseteq> stream_msgs st"
  using pg_send_frame [where m = m and st = st] by (metis prod.collapse subset_refl)+

lemmas send_keeps =
  on_client_keeps [OF send_props(1,2)] on_client_keeps [OF send_props(3,4)] on_client_keeps [OF send_props(5,6)]

lemma recv_spec:
  "hoare (pgI R msgs tls) (on_client (pg_recv d))
     (\<lambda>x s. pgI R msgs tls s \<and> (\<forall>y. x = Some y \<longrightarrow> (\<exists>m \<in> msgs. d m = Some y))) (\<lambda>_. pgI R msgs tls)"
proof (rule hoareI)
  fix w x w' assume w: "pgI R msgs tls w" and r: "on_client (pg_recv d) w = (Inr x, w')"
  then obtain st where st: "pg_recv d (ps_client w) = (Inr x, st)" "w' = w\<lparr>ps_client := st\<rparr>"
    by (auto simp: on_client_def split: prod.splits)
  from w pg_recv_frame [OF st(1)] show "pgI R msgs tls w' \<and> (\<forall>y. x = Some y \<longrightarrow> (\<exists>m \<in> msgs. d m = Some y))"
    by (fastforce simp: pgI_def pg_silent_def st(2))
next
  fix w e w' assume w: "pgI R msgs tls w" and r: "on_client (pg_recv d) w = (Inl e, w')"
  then obtain st where st: "pg_recv d (ps_client w) = (Inl e, st)" "w' = w\<lparr>ps_client := st\<rparr>"
    by (auto simp: on_client_def split: prod.splits)
  from w pg_recv_frame(3,4) [OF st(1)] show "pgI R msgs tls w'"
    by (auto simp: pgI_def pg_silent_def st(2))
qed

lemma pg_gw_hoare:
  assumes "hoare P m Q E"
  shows "hoare (pgI P msgs tls) (pg_gw f m) (\<lambda>x. pgI (Q x) msgs tls) (\<lambda>_. pg_silent tls)"
proof (rule hoareI)
  fix w x w' assume w: "pgI P msgs tls w" and r: "pg_gw f m w = (Inr x, w')"
  obtain r' g where m: "m (ps_gw w) = (r', g)" by fastforce
  with r have "r' = Inr x" "w' = w\<lparr>ps_gw := g\<rparr>" by (auto simp: pg_gw_def map_error_Inr)
  with m w hoareD(1) [OF assms] show "pgI (Q x) msgs tls w'" by (auto simp: pgI_def pg_silent_def)
next
  fix w e w' assume "pgI P msgs tls w" "pg_gw f m w = (Inl e, w')"
  then show "pg_silent tls w'" by (auto simp: pg_gw_def pgI_def pg_silent_def split: prod.splits)
qed

lemma pg_auth_fail_keeps: "keeps (pg_silent tls) (pg_auth_fail u t)"
  unfolding pg_auth_fail_def by (intro keeps_then keeps_modify send_keeps) (simp add: pg_silent_def)

text \<open>A credential the login may rest on: a valid password from the client, or an approval given in
  the browser.\<close>

definition pg_cred_ok ::
  "('l, 's) pg_env \<Rightarrow> Db option \<Rightarrow> string \<Rightarrow> pg_frontend set \<Rightarrow> AuthCredential \<Rightarrow> bool" where
  "pg_cred_ok env db uname msgs c \<longleftrightarrow>
     (\<exists>pw m. c = Password pw \<and> PgPasswordFamily (Some pw) \<in> msgs \<and>
        fst (validate_credential (ge_crypto (pe_gw env)) (ge_now (pe_gw env)) m db uname (Password pw)) = Inr True) \<or>
     c = AuthCredential.WebUserApproval \<and> pe_web env = WebApproved"

definition pg_login_ok ::
  "('l, 's) pg_env \<Rightarrow> Db option \<Rightarrow> string \<Rightarrow> pg_frontend set \<Rightarrow> bool" where
  "pg_login_ok env db name msgs \<longleftrightarrow>
     (case selector_from name of
        User uname target acct \<Rightarrow>
          (\<exists>pol creds. get_credential_policy db uname [CredentialKind.Password] = Inr (Some pol) \<and>
             is_sufficient pol ''PostgreSQL'' creds = Ok \<and> list_all (pg_cred_ok env db uname msgs) creds) \<and>
          authorize_target db uname target = Inr True
      | Ticket sec \<Rightarrow>
          (\<exists>tk ui. authorize_ticket (ge_crypto (pe_gw env)) (ge_now (pe_gw env)) db sec = Inr (Some (tk, ui)) \<and>
             fst (consume_ticket (ticket_id tk) db) = Inr ()))"

definition attempt_ok ::
  "('l, 's) pg_env \<Rightarrow> Db option \<Rightarrow> CredentialPolicy \<Rightarrow> string \<Rightarrow> pg_frontend set \<Rightarrow> AuthState \<Rightarrow> bool" where
  "attempt_ok env db pol uname msgs st \<longleftrightarrow>
     policy st = pol \<and> as_protocol st = ''PostgreSQL'' \<and> ui_username (as_user_info st) = uname \<and>
     list_all (pg_cred_ok env db uname msgs) (valid_credentials st)"

definition pg_attempt ::
  "('l, 's) pg_env \<Rightarrow> Db option \<Rightarrow> CredentialPolicy \<Rightarrow> string \<Rightarrow> pg_frontend set \<Rightarrow> uuid \<Rightarrow> 'l gateway \<Rightarrow> bool" where
  "pg_attempt env db pol uname msgs a g \<longleftrightarrow>
     gw_db g = db \<and> (\<exists>st. gw_state a g = Some st \<and> attempt_ok env db pol uname msgs st)"

lemma store_complete_heap [simp]: "auth_heap (store_complete i st) = auth_heap st"
  by (simp add: store_complete_def split: option.splits)

lemma approve_heap:
  "auth_heap (approve_attempt i st) =
     (auth_heap st)(i := map_option (\<lambda>a. add_valid_credential a AuthCredential.WebUserApproval) (auth_heap st i))"
  by (simp add: approve_attempt_def Let_def update_state_def split: option.splits AuthResult.splits)

lemma reject_heap: "auth_heap (reject_attempt i st) = (auth_heap st)(i := map_option reject (auth_heap st i))"
  by (simp add: reject_attempt_def update_state_def)

lemma attempt_ok_add:
  "attempt_ok env db pol uname msgs st \<Longrightarrow> pg_cred_ok env db uname msgs c \<Longrightarrow>
   attempt_ok env db pol uname msgs (add_valid_credential st c)"
  by (simp add: attempt_ok_def)

lemma gw_complete_spec: "hoare (pg_attempt env db pol u ms a) (gw_complete a) (\<lambda>_. pg_attempt env db pol u ms a) (\<lambda>_ _. True)"
  by (rule hoareI) (auto simp: gw_complete_def act pg_attempt_def gw_state_def)

lemma gw_subscribe_spec: "hoare (pg_attempt env db pol u ms a) (gw_subscribe genv a) (\<lambda>_. pg_attempt env db pol u ms a) (\<lambda>_ _. True)"
  by (rule hoareI) (auto simp: gw_subscribe_def store_subscribe_def Let_def pg_attempt_def gw_state_def split: option.splits)

lemma gw_await_spec:
  "hoare (pg_attempt env db pol u ms a) (gw_await (pe_web env) a c) (\<lambda>_. pg_attempt env db pol u ms a) (\<lambda>_ _. True)"
proof (rule hoareI)
  fix g :: "'a gateway" and x g'
  assume g: "pg_attempt env db pol u ms a g" and r: "gw_await (pe_web env) a c g = (Inr x, g')"
  from g obtain st where st: "gw_db g = db" "gw_state a g = Some st" "attempt_ok env db pol u ms st"
    by (auto simp: pg_attempt_def)
  show "pg_attempt env db pol u ms a g'"
  proof (cases "pe_web env")
    case WebApproved
    then have "pg_cred_ok env db u ms AuthCredential.WebUserApproval" by (simp add: pg_cred_ok_def)
    with st attempt_ok_add r WebApproved show ?thesis
      by (auto simp: gw_await_def pg_attempt_def gw_state_def approve_heap Let_def)
  next
    case WebRejected
    have "attempt_ok env db pol u ms (reject st)" using st(3) by (simp add: attempt_ok_def reject_def)
    with st r WebRejected show ?thesis by (auto simp: gw_await_def pg_attempt_def gw_state_def reject_heap Let_def)
  next
    case WebExpired
    with g r show ?thesis by (auto simp: gw_await_def pg_attempt_def gw_state_def Let_def)
  qed
qed simp

lemma gw_validate_attempt:
  "hoare (pg_attempt env db pol u ms a) (gw_validate (pe_gw env) u (Password pw))
     (\<lambda>ok g. pg_attempt env db pol u ms a g \<and>
        (ok \<longrightarrow> (\<exists>m. fst (validate_credential (ge_crypto (pe_gw env)) (ge_now (pe_gw env)) m db u (Password pw)) = Inr True)))
     (\<lambda>_ _. True)"
  by (rule hoareI) (auto simp: gw_validate_def pg_attempt_def gw_state_def map_error_Inr split: prod.splits, metis fst_conv)

lemma gw_add_attempt:
  "pg_cred_ok env db u ms c \<Longrightarrow>
   hoare (pg_attempt env db pol u ms a) (gw_add_credential a c) (\<lambda>_. pg_attempt env db pol u ms a) (\<lambda>_ _. True)"
  by (rule hoareI) (auto simp: gw_add_credential_def act pg_attempt_def gw_state_def update_state_def attempt_ok_add)

lemma gw_authorize_spec:
  "hoare (\<lambda>g. gw_db g = db) (gw_authorize_target u t) (\<lambda>b g. b \<longrightarrow> authorize_target db u t = Inr True) (\<lambda>_ _. True)"
  by (rule hoareI) (auto simp: gw_authorize_target_def map_error_Inr)

section \<open>Encryption is kept\<close>

definition pg_encrypted :: "'l PostgresSession \<Rightarrow> bool" where
  "pg_encrypted s \<longleftrightarrow> st_tls (ps_client s)"

named_theorems pgenc \<open>actions that keep the encryption of the client\<close>

lemma pg_enc_client:
  "(\<And>st. st_tls (snd (m st)) = st_tls st) \<Longrightarrow>
   keeps pg_encrypted (on_client m :: ('l, 'a) pg_action)"
  unfolding keeps_def
proof (intro allI impI)
  fix w :: "'l PostgresSession"
  assume m: "\<And>st. st_tls (snd (m st)) = st_tls st" and w: "pg_encrypted w"
  show "pg_encrypted (snd (on_client m w))"
    using m [of "ps_client w"] w by (auto simp: on_client_def pg_encrypted_def split: prod.splits)
qed

lemma pg_enc_basic [pgenc]:
  "keeps pg_encrypted (on_client (pg_push m))" "keeps pg_encrypted (on_client pg_flush)"
  "keeps pg_encrypted (on_client (pg_pushflush m))" "keeps pg_encrypted (on_client (pg_recv d))"
  "keeps pg_encrypted (on_upstream u)" "keeps pg_encrypted (pg_gw f g)" "keeps pg_encrypted (send_error_response c t)"
  "keeps pg_encrypted (pg_record b i)"
proof -
  show "keeps pg_encrypted (on_client (pg_push m))" "keeps pg_encrypted (on_client pg_flush)"
    "keeps pg_encrypted (on_client (pg_pushflush m))" "keeps pg_encrypted (send_error_response c t)"
    by (auto intro!: pg_enc_client simp: send_props send_error_response_def)
  have "st_tls (snd (pg_recv d st)) = st_tls st" for st :: "(pg_backend, pg_frontend) pg_stream"
    using pg_recv_frame(3) [of d st] by (metis prod.collapse)
  then show "keeps pg_encrypted (on_client (pg_recv d))" by (rule pg_enc_client)
qed (auto simp: keeps_def on_upstream_def pg_gw_def pg_record_def act pg_encrypted_def split: prod.splits)

lemma keeps_try: "keeps I m \<Longrightarrow> keeps I (try_a m)"
  by (auto simp: keeps_def try_a_def split: prod.splits)

lemmas keeps_all = keeps_then keeps_try keeps_gets keeps_done keeps_throw keeps_result keeps_if

lemma client_message_enc [pgenc]: "keeps pg_encrypted (client_message env acl t qe now st msg)"
  unfolding client_message_def Let_def record_degraded_sql_audit_def record_blocked_sql_audit_def
  by (auto intro!: keeps_all pgenc split: prod.split option.split)

lemma server_message_enc [pgenc]: "keeps pg_encrypted (server_message env t qe now st msg)"
  unfolding server_message_def Let_def
  by (auto intro!: keeps_all pgenc split: prod.split option.split)

lemma relay_loop_enc [pgenc]: "keeps pg_encrypted (pg_relay_loop env acl t idle n st turns)"
proof (induction turns arbitrary: n st)
  case (Cons turn turns)
  show ?case
    unfolding pg_relay_loop.simps Let_def
    by (cases "pt_ready turn") (auto intro!: keeps_all pgenc Cons.IH split: sum.split option.split)
qed auto

lemma run_authorized_pgenc [pgenc]: "keeps pg_encrypted (pg_run_authorized env su ui t acct turns)"
  unfolding pg_run_authorized_def pg_run_authorized_inner_def pg_connect_upstream_def
  by (auto intro!: keeps_all keeps_modify pgenc split: option.split sum.split prod.split)
    (simp_all add: pg_encrypted_def)

lemma pg_gw_silent: "keeps (pg_silent tls) (pg_gw f m)"
  by (auto simp: keeps_def pg_gw_def pg_silent_def split: prod.splits)

section \<open>Nothing reaches the target without a login\<close>

abbreviation pg_end :: "('l, 's) pg_env \<Rightarrow> Db option \<Rightarrow> string \<Rightarrow> pg_frontend set \<Rightarrow> 'l PostgresSession \<Rightarrow> bool" where
  "pg_end env db name msgs s \<equiv> pg_silent True s \<or> pg_encrypted s \<and> pg_login_ok env db name msgs"

lemma pg_fail_end: "hoare (pgI R msgs True) (pg_auth_fail u t) (\<lambda>_. pg_end env db name msgs) (\<lambda>_. pg_end env db name msgs)"
  by (rule hoare_weaken [OF keeps_triple [OF pg_auth_fail_keeps]]) (auto dest: pgI_silent)

lemma pg_authorized_end:
  assumes "pg_login_ok env db name msgs"
  shows "hoare (pgI R ms True) (pg_run_authorized env su ui t acct turns) (\<lambda>_. pg_end env db name msgs) (\<lambda>_. pg_end env db name msgs)"
  by (rule hoare_weaken [OF keeps_triple [OF run_authorized_pgenc]])
    (auto simp: assms pgI_def pg_silent_def pg_encrypted_def)

lemma pg_gw_step:
  assumes "hoare P m Q E" and "\<And>x. hoare (pgI (Q x) msgs True) (f x) (\<lambda>_. pg_end env db name msgs) (\<lambda>_. pg_end env db name msgs)"
  shows "hoare (pgI P msgs True) (then_a (pg_gw h m) f) (\<lambda>_. pg_end env db name msgs) (\<lambda>_. pg_end env db name msgs)"
  by (rule hoare_then [OF hoare_weaken [OF pg_gw_hoare [OF assms(1)]] assms(2)]) auto

lemma pg_client_step:
  assumes "keeps (pgI P msgs True) m" and "\<And>x. hoare (pgI P msgs True) (f x) (\<lambda>_. pg_end env db name msgs) (\<lambda>_. pg_end env db name msgs)"
  shows "hoare (pgI P msgs True) (then_a m f) (\<lambda>_. pg_end env db name msgs) (\<lambda>_. pg_end env db name msgs)"
  by (rule hoare_then [OF hoare_weaken [OF keeps_triple [OF assms(1)]] assms(2)]) (auto dest: pgI_silent)

lemma hoare_pgI_False [simp]: "hoare (pgI (\<lambda>g. False) ms tls) m Q E"
  by (simp add: pgI_def hoare_def)

lemma decode_frontend_Some: "decode_frontend m = Some y \<Longrightarrow> m = y"
  by (cases m) auto

lemma pg_auth_turns_spec:
  assumes sel: "selector_from name = User uname tname acct"
    and pol: "get_credential_policy db uname [CredentialKind.Password] = Inr (Some pol)"
  shows "hoare (pgI (pg_attempt env db pol uname msgs a) msgs True) (pg_auth_turns fuel env su a uname tname acct sent turns)
     (\<lambda>_. pg_end env db name msgs) (\<lambda>_. pg_end env db name msgs)"
proof (induction fuel arbitrary: sent)
  case 0
  show ?case by (auto intro!: hoare_throw dest: pgI_silent)
next
  case (Suc fuel)
  let ?I = "pg_attempt env db pol uname msgs a"
  let ?E = "pg_end env db name msgs"
  have accepted: "hoare (pgI ?I msgs True) (then_a (pg_gw PgGated (gw_complete a)) (\<lambda>_.
           then_a (pg_gw pg_other (gw_authorize_target (ui_username ui) tname)) (\<lambda>allowed.
             if \<not> allowed then pg_auth_fail uname tname
             else then_a (if sent then done_a () else on_client (pg_push PgAuthOk)) (\<lambda>_.
                    pg_run_authorized env su ui tname acct turns)))) (\<lambda>_. ?E) (\<lambda>_. ?E)"
    if v: "verify st = Accepted ui" "attempt_ok env db pol uname msgs st" for st ui
  proof -
    have ok: "is_sufficient pol ''PostgreSQL'' (valid_credentials st) = Ok" "ui_username ui = uname"
      using verify_accepted [OF v(1)] v(2) by (auto simp: attempt_ok_def)
    have login: "pg_login_ok env db name msgs" if "authorize_target db uname tname = Inr True"
      using that ok(1) v(2) pol by (auto simp: pg_login_ok_def sel attempt_ok_def)
    show ?thesis
    proof (rule pg_gw_step [OF gw_complete_spec])
      fix x
      have fin: "hoare (pgI (\<lambda>g. allowed \<longrightarrow> authorize_target db uname tname = Inr True) msgs True)
         (if \<not> allowed then pg_auth_fail uname tname
             else then_a (if sent then done_a () else on_client (pg_push PgAuthOk)) (\<lambda>_.
                    pg_run_authorized env su ui tname acct turns)) (\<lambda>_. ?E) (\<lambda>_. ?E)" for allowed
      proof (cases "allowed \<and> authorize_target db uname tname = Inr True")
        case True
        show ?thesis
          using True by (auto intro!: pg_client_step keeps_if keeps_done send_keeps pg_authorized_end login)
      next
        case False
        then show ?thesis by (cases allowed) (auto intro: pg_fail_end)
      qed
      show "hoare (pgI ?I msgs True) (then_a (pg_gw pg_other (gw_authorize_target (ui_username ui) tname)) (\<lambda>allowed.
             if \<not> allowed then pg_auth_fail uname tname
             else then_a (if sent then done_a () else on_client (pg_push PgAuthOk)) (\<lambda>_.
                    pg_run_authorized env su ui tname acct turns))) (\<lambda>_. ?E) (\<lambda>_. ?E)"
        unfolding ok(2)
        by (rule pg_gw_step [OF hoare_weaken [OF gw_authorize_spec [of db]] fin]) (auto simp: pg_attempt_def)
    qed
  qed
  have password: "hoare (pgI ?I msgs True) (then_a (on_client (pg_pushflush PgAuthCleartext)) (\<lambda>_.
             then_a (on_client (pg_recv decode_frontend)) (\<lambda>m.
               case m of
                 Some (PgPasswordFamily p) \<Rightarrow>
                   then_a (result_a (ok_or PgDecode p)) (\<lambda>password.
                   then_a (pg_gw PgGated (gw_validate (pe_gw env) uname (Password password))) (\<lambda>ok.
                     if ok then
                       then_a (pg_gw PgGated (gw_add_credential a (Password password))) (\<lambda>_.
                         pg_auth_turns fuel env su a uname tname acct sent turns)
                     else pg_auth_fail uname tname))
               | _ \<Rightarrow> throw_a PgEof))) (\<lambda>_. ?E) (\<lambda>_. ?E)"
  proof (rule pg_client_step [OF send_keeps(5)], rule hoare_then)
    show "hoare (pgI ?I msgs True) (on_client (pg_recv decode_frontend))
       (\<lambda>m s. pgI ?I msgs True s \<and> (\<forall>y. m = Some y \<longrightarrow> (\<exists>x \<in> msgs. decode_frontend x = Some y))) (\<lambda>_. ?E)"
      by (rule hoare_weaken [OF recv_spec]) (auto dest: pgI_silent)
  next
    fix m :: "pg_frontend option"
    have eof: "hoare (\<lambda>s. pgI ?I msgs True s \<and> R) (throw_a PgEof) (\<lambda>_. ?E) (\<lambda>_. ?E)" for R :: bool
      by (auto intro!: hoare_throw dest: pgI_silent)
    have check: "hoare (pgI ?I msgs True) (then_a (pg_gw PgGated (gw_validate (pe_gw env) uname (Password pw))) (\<lambda>ok.
                     if ok then
                       then_a (pg_gw PgGated (gw_add_credential a (Password pw))) (\<lambda>_.
                         pg_auth_turns fuel env su a uname tname acct sent turns)
                     else pg_auth_fail uname tname)) (\<lambda>_. ?E) (\<lambda>_. ?E)" if msg: "PgPasswordFamily (Some pw) \<in> msgs" for pw
    proof (rule pg_gw_step [OF gw_validate_attempt])
      fix ok
      let ?V = "\<exists>m. fst (validate_credential (ge_crypto (pe_gw env)) (ge_now (pe_gw env)) m db uname (Password pw)) = Inr True"
      show "hoare (pgI (\<lambda>g. ?I g \<and> (ok \<longrightarrow> ?V)) msgs True) (if ok then
                       then_a (pg_gw PgGated (gw_add_credential a (Password pw))) (\<lambda>_.
                         pg_auth_turns fuel env su a uname tname acct sent turns)
                     else pg_auth_fail uname tname) (\<lambda>_. ?E) (\<lambda>_. ?E)"
      proof (cases "ok \<and> ?V")
        case True
        then have c: "pg_cred_ok env db uname msgs (Password pw)" using msg by (auto simp: pg_cred_ok_def)
        have "hoare (pgI ?I msgs True) (then_a (pg_gw PgGated (gw_add_credential a (Password pw))) (\<lambda>_.
                         pg_auth_turns fuel env su a uname tname acct sent turns)) (\<lambda>_. ?E) (\<lambda>_. ?E)"
          by (rule pg_gw_step [OF gw_add_attempt [OF c] Suc.IH])
        with True show ?thesis by (auto intro: hoare_weaken simp: pgI_def)
      next
        case False
        then show ?thesis by (cases ok) (auto intro: pg_fail_end)
      qed
    qed
    show "hoare (\<lambda>s. pgI ?I msgs True s \<and> (\<forall>y. m = Some y \<longrightarrow> (\<exists>x \<in> msgs. decode_frontend x = Some y)))
       (case m of
                 Some (PgPasswordFamily p) \<Rightarrow>
                   then_a (result_a (ok_or PgDecode p)) (\<lambda>password.
                   then_a (pg_gw PgGated (gw_validate (pe_gw env) uname (Password password))) (\<lambda>ok.
                     if ok then
                       then_a (pg_gw PgGated (gw_add_credential a (Password password))) (\<lambda>_.
                         pg_auth_turns fuel env su a uname tname acct sent turns)
                     else pg_auth_fail uname tname))
               | _ \<Rightarrow> throw_a PgEof) (\<lambda>_. ?E) (\<lambda>_. ?E)"
    proof (cases "\<exists>pw. m = Some (PgPasswordFamily (Some pw)) \<and> PgPasswordFamily (Some pw) \<in> msgs")
      case True
      then obtain pw where m: "m = Some (PgPasswordFamily (Some pw))" "PgPasswordFamily (Some pw) \<in> msgs" by blast
      have r: "then_a (result_a (Inr pw)) f = f pw" for f :: "string \<Rightarrow> ('a, unit) pg_action"
        by (rule ext) (simp add: act)
      show ?thesis unfolding m(1) by (simp add: r) (rule hoare_weaken [OF check [OF m(2)]], auto)
    next
      case False
      have d: "then_a (result_a (Inl e)) f = throw_a e" for e and f :: "string \<Rightarrow> ('a, unit) pg_action"
        by (rule ext) (simp add: act)
      have throw: "hoare (\<lambda>s. pgI ?I msgs True s \<and> R) (throw_a e) (\<lambda>_. ?E) (\<lambda>_. ?E)" for R :: bool and e
        by (auto intro!: hoare_throw dest: pgI_silent)
      show ?thesis
      proof (cases m)
        case (Some x)
        show ?thesis
        proof (cases x)
          case (PgPasswordFamily p)
          show ?thesis
          proof (cases p)
            case (Some pw)
            with False \<open>m = Some x\<close> PgPasswordFamily show ?thesis
              by (auto simp: hoare_def dest!: decode_frontend_Some)
          qed (use \<open>m = Some x\<close> PgPasswordFamily in \<open>simp add: d throw\<close>)
        qed (use Some in \<open>simp_all add: throw\<close>)
      qed (use throw [of True] in simp)
    qed
  qed
  have web: "hoare (pgI ?I msgs True) (then_a (pg_gw PgGated (gw_subscribe (pe_gw env) a)) (\<lambda>c.
               case pe_login_url env a of
                 None \<Rightarrow> pg_auth_fail uname tname
               | Some login_url \<Rightarrow>
                   then_a (if sent then done_a () else on_client (pg_push PgAuthOk)) (\<lambda>_.
                   then_a (on_client (pg_pushflush (web_notice login_url ident))) (\<lambda>_.
                   then_a (pg_gw PgGated (gw_await (pe_web env) a c)) (\<lambda>r.
                     if \<not> is_accepted r then pg_auth_fail uname tname
                     else pg_auth_turns fuel env su a uname tname acct True turns))))) (\<lambda>_. ?E) (\<lambda>_. ?E)" for ident
  proof (rule pg_gw_step [OF gw_subscribe_spec])
    show "hoare (pgI ?I msgs True) (case pe_login_url env a of
                 None \<Rightarrow> pg_auth_fail uname tname
               | Some login_url \<Rightarrow>
                   then_a (if sent then done_a () else on_client (pg_push PgAuthOk)) (\<lambda>_.
                   then_a (on_client (pg_pushflush (web_notice login_url ident))) (\<lambda>_.
                   then_a (pg_gw PgGated (gw_await (pe_web env) a c)) (\<lambda>r.
                     if \<not> is_accepted r then pg_auth_fail uname tname
                     else pg_auth_turns fuel env su a uname tname acct True turns)))) (\<lambda>_. ?E) (\<lambda>_. ?E)" for c
      by (auto intro!: hoare_option pg_fail_end pg_client_step keeps_if keeps_done send_keeps pg_gw_step [OF gw_await_spec]
          hoare_if Suc.IH)
  qed
  show ?case
    unfolding pg_auth_turns.simps
  proof (rule hoare_gets_then)
    fix w :: "'a PostgresSession" assume "pgI ?I msgs True w"
    then obtain st where st: "gw_state a (ps_gw w) = Some st" "attempt_ok env db pol uname msgs st"
      by (auto simp: pgI_def pg_attempt_def)
    show "hoare (pgI ?I msgs True) (case map_option verify (gw_state a (ps_gw w)) of
         None \<Rightarrow> pg_auth_fail uname tname
       | Some (Accepted ui) \<Rightarrow>
           then_a (pg_gw PgGated (gw_complete a)) (\<lambda>_.
           then_a (pg_gw pg_other (gw_authorize_target (ui_username ui) tname)) (\<lambda>allowed.
             if \<not> allowed then pg_auth_fail uname tname
             else then_a (if sent then done_a () else on_client (pg_push PgAuthOk)) (\<lambda>_.
                    pg_run_authorized env su ui tname acct turns)))
       | Some (AuthResult.Need kinds) \<Rightarrow>
           if CredentialKind.Password \<in> kinds then
             then_a (on_client (pg_pushflush PgAuthCleartext)) (\<lambda>_.
             then_a (on_client (pg_recv decode_frontend)) (\<lambda>m.
               case m of
                 Some (PgPasswordFamily p) \<Rightarrow>
                   then_a (result_a (ok_or PgDecode p)) (\<lambda>password.
                   then_a (pg_gw PgGated (gw_validate (pe_gw env) uname (Password password))) (\<lambda>ok.
                     if ok then
                       then_a (pg_gw PgGated (gw_add_credential a (Password password))) (\<lambda>_.
                         pg_auth_turns fuel env su a uname tname acct sent turns)
                     else pg_auth_fail uname tname))
               | _ \<Rightarrow> throw_a PgEof))
           else if CredentialKind.WebUserApproval \<in> kinds then
             then_a (pg_gw PgGated (gw_subscribe (pe_gw env) a)) (\<lambda>c.
               case pe_login_url env a of
                 None \<Rightarrow> pg_auth_fail uname tname
               | Some login_url \<Rightarrow>
                   then_a (if sent then done_a () else on_client (pg_push PgAuthOk)) (\<lambda>_.
                   then_a (on_client (pg_pushflush (web_notice login_url
                     (case gw_state a (ps_gw w) of Some s \<Rightarrow> identification_string s | None \<Rightarrow> [])))) (\<lambda>_.
                   then_a (pg_gw PgGated (gw_await (pe_web env) a c)) (\<lambda>r.
                     if \<not> is_accepted r then pg_auth_fail uname tname
                     else pg_auth_turns fuel env su a uname tname acct True turns))))
           else pg_auth_fail uname tname
       | Some AuthResult.Rejected \<Rightarrow> pg_auth_fail uname tname) (\<lambda>_. ?E) (\<lambda>_. ?E)"
    proof (cases "verify st")
      case Rejected
      show ?thesis unfolding st(1) option.map Rejected option.case AuthResult.case by (rule pg_fail_end)
    next
      case (Need kinds)
      show ?thesis unfolding st(1) option.map Need option.case AuthResult.case
        by (intro hoare_if password web pg_fail_end)
    next
      case (Accepted ui)
      show ?thesis unfolding st(1) option.map Accepted option.case AuthResult.case
        by (rule accepted [OF Accepted st(2)])
    qed
  qed
qed

lemma pg_run_authorization_spec:
  "hoare (pgI (\<lambda>g. gw_db g = db) msgs True) (pg_run_authorization env su name turns)
     (\<lambda>_. pg_end env db name msgs) (\<lambda>_. pg_end env db name msgs)"
proof (cases "selector_from name")
  case (User uname tname acct)
  have turns: "hoare (pgI (\<lambda>g. gw_db g = db \<and> (\<exists>st. gw_state a g = Some st \<and>
        fresh_attempt db uname ''PostgreSQL'' [CredentialKind.Password] st)) msgs True)
      (pg_auth_turns 3 env su a uname tname acct False turns) (\<lambda>_. pg_end env db name msgs) (\<lambda>_. pg_end env db name msgs)" for a
  proof (rule hoareI)
    fix w :: "'a PostgresSession" and x w'
    assume w: "pgI (\<lambda>g. gw_db g = db \<and> (\<exists>st. gw_state a g = Some st \<and>
        fresh_attempt db uname ''PostgreSQL'' [CredentialKind.Password] st)) msgs True w"
      and r: "pg_auth_turns 3 env su a uname tname acct False turns w = (Inr x, w')"
    from w obtain st where st: "gw_state a (ps_gw w) = Some st" "fresh_attempt db uname ''PostgreSQL'' [CredentialKind.Password] st"
      "gw_db (ps_gw w) = db" by (auto simp: pgI_def)
    then have "pgI (pg_attempt env db (policy st) uname msgs a) msgs True w"
      using w by (auto simp: pgI_def pg_attempt_def attempt_ok_def fresh_attempt_def)
    moreover have "get_credential_policy db uname [CredentialKind.Password] = Inr (Some (policy st))"
      using st(2) by (simp add: fresh_attempt_def)
    ultimately show "pg_end env db name msgs w'" using hoareD(1) [OF pg_auth_turns_spec [OF User] _ r] by blast
  next
    fix w :: "'a PostgresSession" and e w'
    assume w: "pgI (\<lambda>g. gw_db g = db \<and> (\<exists>st. gw_state a g = Some st \<and>
        fresh_attempt db uname ''PostgreSQL'' [CredentialKind.Password] st)) msgs True w"
      and r: "pg_auth_turns 3 env su a uname tname acct False turns w = (Inl e, w')"
    from w obtain st where st: "gw_state a (ps_gw w) = Some st" "fresh_attempt db uname ''PostgreSQL'' [CredentialKind.Password] st"
      "gw_db (ps_gw w) = db" by (auto simp: pgI_def)
    then have "pgI (pg_attempt env db (policy st) uname msgs a) msgs True w"
      using w by (auto simp: pgI_def pg_attempt_def attempt_ok_def fresh_attempt_def)
    moreover have "get_credential_policy db uname [CredentialKind.Password] = Inr (Some (policy st))"
      using st(2) by (simp add: fresh_attempt_def)
    ultimately show "pg_end env db name msgs w'" using hoareD(2) [OF pg_auth_turns_spec [OF User] _ r] by blast
  qed
  have create: "hoare (\<lambda>g. gw_db g = db) (gw_create_state (pe_gw env) i uname ''PostgreSQL'' [CredentialKind.Password])
      (\<lambda>a g. gw_db g = db \<and> (\<exists>st. gw_state a g = Some st \<and>
        fresh_attempt db uname ''PostgreSQL'' [CredentialKind.Password] st)) (\<lambda>_ _. True)" for i
  proof (rule hoareI)
    fix g :: "'a gateway" and a g'
    assume "gw_db g = db" "gw_create_state (pe_gw env) i uname ''PostgreSQL'' [CredentialKind.Password] g = (Inr a, g')"
    then show "gw_db g' = db \<and> (\<exists>st. gw_state a g' = Some st \<and>
        fresh_attempt db uname ''PostgreSQL'' [CredentialKind.Password] st)"
      using hoareD(1) [OF gw_create_state_spec [of db "gw_consumed g"], of g] by (auto simp: gw_at_def)
  qed simp
  show ?thesis
    unfolding pg_run_authorization_def User AuthSelector.case
    by (rule hoare_gets_then, rule pg_gw_step [OF create turns])
next
  case (Ticket sec)
  let ?E = "pg_end env db name msgs"
  have find: "hoare (\<lambda>g. gw_db g = db) (gw_authorize_ticket (pe_gw env) sec)
      (\<lambda>found g. gw_db g = db \<and> authorize_ticket (ge_crypto (pe_gw env)) (ge_now (pe_gw env)) db sec = Inr found) (\<lambda>_ _. True)"
    by (rule hoareI) (auto simp: gw_authorize_ticket_def map_error_Inr)
  have use_it: "hoare (\<lambda>g. gw_db g = db) (gw_consume_ticket i) (\<lambda>_ g. fst (consume_ticket i db) = Inr ()) (\<lambda>_ _. True)" for i
    by (rule hoareI) (auto simp: gw_consume_ticket_def map_error_Inr split: prod.splits)
  show ?thesis
    unfolding pg_run_authorization_def Ticket AuthSelector.case
  proof (rule pg_gw_step [OF find])
    fix found
    show "hoare (pgI (\<lambda>g. gw_db g = db \<and> authorize_ticket (ge_crypto (pe_gw env)) (ge_now (pe_gw env)) db sec = Inr found) msgs True)
       (case found of Some (ticket, ui) \<Rightarrow> then_a (pg_gw pg_other (gw_consume_ticket (ticket_id ticket))) (\<lambda>_.
            then_a (on_client (pg_push PgAuthOk)) (\<lambda>_. pg_run_authorized env su ui (ticket_target ticket) None turns))
        | None \<Rightarrow> pg_auth_fail ''ticket'' []) (\<lambda>_. ?E) (\<lambda>_. ?E)"
    proof (cases "authorize_ticket (ge_crypto (pe_gw env)) (ge_now (pe_gw env)) db sec = Inr found")
      case True
      have go: "hoare (pgI (\<lambda>g. fst (consume_ticket (ticket_id tk) db) = Inr ()) msgs True)
          (then_a (on_client (pg_push PgAuthOk)) (\<lambda>_. pg_run_authorized env su ui (ticket_target tk) None turns)) (\<lambda>_. ?E) (\<lambda>_. ?E)"
        if "found = Some (tk, ui)" for tk ui
      proof (cases "fst (consume_ticket (ticket_id tk) db) = Inr ()")
        case c: True
        then have "pg_login_ok env db name msgs" using True that by (auto simp: pg_login_ok_def Ticket)
        then show ?thesis by (intro pg_client_step send_keeps pg_authorized_end)
      qed simp
      show ?thesis
        by (auto simp: True split: option.split intro!: pg_fail_end pg_gw_step [OF use_it go])
    qed simp
  qed
qed

text \<open>C5. Nothing is sent to a PostgreSQL target before a login. The client is on an encrypted
  connection by then, and its startup message names a user whose credentials satisfy the policy and
  who may use the target, or a ticket that is valid.\<close>

theorem pg_login_required:
  assumes "pg_run env turns (pg_session_new i cw uw plain tls g) = (r, s)" and "st_out (ps_upstream s) \<noteq> []"
  shows "st_tls (ps_client s) \<and>
     (\<exists>startup. PgStartup startup \<in> reads_msgs plain \<union> reads_msgs tls \<and>
        pg_login_ok env (gw_db g) (case map_of (su_parameters startup) ''user'' of Some u \<Rightarrow> u | None \<Rightarrow> [])
          (reads_msgs plain \<union> reads_msgs tls))"
proof -
  let ?msgs = "reads_msgs plain \<union> reads_msgs tls" and ?R = "\<lambda>h. gw_db h = gw_db g"
  let ?name = "\<lambda>su. case map_of (su_parameters su) ''user'' of Some u \<Rightarrow> u | None \<Rightarrow> []"
  let ?F = "\<lambda>s. pg_silent False s \<or> pg_silent True s \<or> pg_encrypted s \<and>
     (\<exists>su. PgStartup su \<in> ?msgs \<and> pg_login_ok env (gw_db g) (?name su) ?msgs)"
  have start: "pgI ?R ?msgs False (pg_session_new i cw uw plain tls g)"
    by (auto simp: pgI_def pg_silent_def pg_session_new_def pg_stream_new_def stream_msgs_def)
  have d: "decode_startup m = Some y \<Longrightarrow> m = y" for m y by (cases m) auto
  have silent: "pgI ?R ?msgs b w \<Longrightarrow> ?F w" for b w by (cases b) (auto dest: pgI_silent)
  have recv: "hoare (pgI ?R ?msgs b) (on_client (pg_recv decode_startup))
      (\<lambda>x s. pgI ?R ?msgs b s \<and> (\<forall>y. x = Some y \<longrightarrow> y \<in> ?msgs)) (\<lambda>_. ?F)" for b
    by (rule hoare_weaken [OF recv_spec [of ?R ?msgs b decode_startup]]) (auto dest!: d silent)
  have upgrade: "hoare (pgI ?R ?msgs False) (on_client (pg_upgrade ok)) (\<lambda>_. pgI ?R ?msgs True) (\<lambda>_. ?F)" for ok
    by (rule hoareI) (auto simp: on_client_def pg_upgrade_def act pgI_def pg_silent_def stream_msgs_def split: if_splits)
  have send: "hoare (pgI ?R ?msgs b) (on_client (pg_pushflush m)) (\<lambda>_. pgI ?R ?msgs b) (\<lambda>_. ?F)" for b m
    by (rule hoare_weaken [OF keeps_triple [OF send_keeps(5)]]) (auto dest: silent)
  have login: "hoare (pgI ?R ?msgs True) (then_a (modify_a (\<lambda>s. s\<lparr>ps_username := u, ps_database := v\<rparr>)) (\<lambda>_.
      pg_run_authorization env su (?name su) turns)) (\<lambda>_. ?F) (\<lambda>_. ?F)" if "PgStartup su \<in> ?msgs" for su u v
    by (rule hoare_then [OF hoare_modify [where Q = "\<lambda>_. pgI ?R ?msgs True"] hoare_weaken [OF pg_run_authorization_spec [of "gw_db g" ?msgs env su]]])
      (use that in \<open>auto simp: pgI_def pg_silent_def\<close>)
  have throw: "hoare (\<lambda>s. pgI ?R ?msgs b s \<and> Q) (throw_a e) Q' (\<lambda>_. ?F)" for b Q e and Q' :: "'c \<Rightarrow> 'a PostgresSession \<Rightarrow> bool"
    by (auto intro!: hoare_throw dest: silent)
  have after: "hoare (\<lambda>s. pgI ?R ?msgs t s \<and> im \<in> ?msgs) (case im of
               PgStartup startup \<Rightarrow>
                 then_a (enforce_tls t) (\<lambda>_.
                 then_a (modify_a (\<lambda>s. s\<lparr>ps_username := map_of (su_parameters startup) ''user'',
                                           ps_database := map_of (su_parameters startup) ''database''\<rparr>)) (\<lambda>_.
                   pg_run_authorization env startup (?name startup) turns))
             | _ \<Rightarrow> throw_a PgProtocolError) (\<lambda>_. ?F) (\<lambda>_. ?F)" for im t
  proof (cases "\<exists>su. im = PgStartup su \<and> im \<in> ?msgs")
    case True
    then obtain su where im: "im = PgStartup su" "PgStartup su \<in> ?msgs" by blast
    have e: "hoare (\<lambda>s. pgI ?R ?msgs t s \<and> im \<in> ?msgs) (enforce_tls t) (\<lambda>_. pgI ?R ?msgs True) (\<lambda>_. ?F)"
    proof (cases t)
      case False
      have "hoare (pgI ?R ?msgs False) (enforce_tls False) (\<lambda>_. pgI ?R ?msgs True) (\<lambda>_. ?F)"
        unfolding enforce_tls_def if_False by (rule hoare_then [OF send hoare_throw], rule silent)
      with False show ?thesis by (auto simp: hoare_def)
    qed (auto simp: enforce_tls_def intro: hoare_done)
    show ?thesis unfolding im(1) pg_frontend.case by (rule hoare_then [OF e [unfolded im(1)] login [OF im(2)]])
  next
    case False
    show ?thesis
    proof (cases im)
      case (PgStartup su)
      with False show ?thesis by (simp add: hoare_def)
    qed (simp_all only: pg_frontend.case throw)
  qed
  have "hoare (pgI ?R ?msgs False) (pg_run env turns) (\<lambda>_. ?F) (\<lambda>_. ?F)"
    unfolding pg_run_def
  proof (rule hoare_then [OF recv])
    fix m :: "pg_frontend option"
    show "hoare (\<lambda>s. pgI ?R ?msgs False s \<and> (\<forall>y. m = Some y \<longrightarrow> y \<in> ?msgs)) (case m of
         None \<Rightarrow> throw_a PgEof
       | Some initial_message \<Rightarrow>
           then_a (if initial_message = PgSslRequest then
                     then_a (on_client (pg_pushflush PgSslAccept)) (\<lambda>_.
                     then_a (on_client (pg_upgrade (pe_tls_accept env))) (\<lambda>_.
                     then_a (on_client (pg_recv decode_startup)) (\<lambda>next.
                       case next of None \<Rightarrow> throw_a PgEof | Some m \<Rightarrow> done_a (m, True))))
                   else done_a (initial_message, False)) (\<lambda>(initial_message, tls_negotiated).
             case initial_message of
               PgStartup startup \<Rightarrow>
                 then_a (enforce_tls tls_negotiated) (\<lambda>_.
                 then_a (modify_a (\<lambda>s. s\<lparr>ps_username := map_of (su_parameters startup) ''user'',
                                           ps_database := map_of (su_parameters startup) ''database''\<rparr>)) (\<lambda>_.
                   pg_run_authorization env startup (?name startup) turns))
             | _ \<Rightarrow> throw_a PgProtocolError)) (\<lambda>_. ?F) (\<lambda>_. ?F)"
    proof (cases m)
      case None
      then show ?thesis using throw [of False True] by simp
    next
      case (Some im)
      let ?Q = "\<lambda>(im, t) s. pgI ?R ?msgs t s \<and> im \<in> ?msgs"
      have second: "hoare (pgI ?R ?msgs True) (then_a (on_client (pg_recv decode_startup)) (\<lambda>next.
           case next of None \<Rightarrow> throw_a PgEof | Some m \<Rightarrow> done_a (m, True))) ?Q (\<lambda>_. ?F)"
      proof (rule hoare_then [OF recv])
        fix nx
        show "hoare (\<lambda>s. pgI ?R ?msgs True s \<and> (\<forall>y. nx = Some y \<longrightarrow> y \<in> ?msgs))
          (case nx of None \<Rightarrow> throw_a PgEof | Some m \<Rightarrow> done_a (m, True)) ?Q (\<lambda>_. ?F)"
          by (cases nx) (auto intro!: hoare_done hoare_throw dest!: silent)
      qed
      have first: "hoare (\<lambda>s. pgI ?R ?msgs False s \<and> im \<in> ?msgs) (if im = PgSslRequest then
                     then_a (on_client (pg_pushflush PgSslAccept)) (\<lambda>_.
                     then_a (on_client (pg_upgrade (pe_tls_accept env))) (\<lambda>_.
                     then_a (on_client (pg_recv decode_startup)) (\<lambda>next.
                       case next of None \<Rightarrow> throw_a PgEof | Some m \<Rightarrow> done_a (m, True))))
                   else done_a (im, False)) ?Q (\<lambda>_. ?F)"
      proof (rule hoare_if)
        show "hoare (\<lambda>s. pgI ?R ?msgs False s \<and> im \<in> ?msgs) (then_a (on_client (pg_pushflush PgSslAccept)) (\<lambda>_.
                     then_a (on_client (pg_upgrade (pe_tls_accept env))) (\<lambda>_.
                     then_a (on_client (pg_recv decode_startup)) (\<lambda>next.
                       case next of None \<Rightarrow> throw_a PgEof | Some m \<Rightarrow> done_a (m, True))))) ?Q (\<lambda>_. ?F)"
          by (rule hoare_weaken [OF hoare_then [OF send hoare_then [OF upgrade second]]]) auto
      qed (auto intro: hoare_done)
      show ?thesis
        unfolding Some option.case
        by (rule hoare_weaken [OF hoare_then [OF first]]) (auto intro!: after [simplified] split: prod.splits)
    qed
  qed
  with start assms(1) have "?F s" by (cases r) (auto simp: hoare_def)
  with assms(2) show ?thesis by (auto simp: pg_silent_def pg_encrypted_def)
qed

section \<open>Fuel\<close>

lemma pushflush_size: "pg_pushflush m st = (r, st') \<Longrightarrow> stream_size st' = stream_size st"
  by (auto simp: pg_pushflush_def act then_a_def pg_push_def pg_flush_def stream_size_def split: if_splits)

text \<open>One turn of the SASL exchange: send, then continue with a message.\<close>

definition sasl_send :: "'s sasl \<Rightarrow> 's \<Rightarrow> bool \<Rightarrow> bytes option \<Rightarrow> unit up_action" where
  "sasl_send sl session first to_send =
     (case to_send of
        Some d \<Rightarrow> pg_pushflush (if first then PgSASLInitialResponse (sasl_get_mechname sl session) d else PgSASLResponse d)
      | None \<Rightarrow> done_a ())"

definition sasl_continue :: "(bytes \<Rightarrow> unit up_action) \<Rightarrow> pg_backend option \<Rightarrow> unit up_action" where
  "sasl_continue k payload =
     (case payload of
        None \<Rightarrow> throw_a PgEof
      | Some (PgErrorResponse _ _ _) \<Rightarrow> throw_a PgRemoteError
      | Some (PgAuthSASLContinue msg) \<Rightarrow> k msg
      | Some (PgAuthSASLFinal msg) \<Rightarrow> k msg
      | Some _ \<Rightarrow> throw_a PgProtocolError)"

lemma sasl_loop_Suc:
  "sasl_loop (Suc f) sl session first d =
     (case sasl_step sl session d of
        None \<Rightarrow> throw_a PgSaslSession
      | Some (session', running, to_send) \<Rightarrow>
          then_a (sasl_send sl session' first to_send) (\<lambda>_.
            if \<not> running then done_a ()
            else then_a (pg_recv decode_backend)
              (sasl_continue (\<lambda>msg. sasl_loop f sl session' (first \<and> to_send = None) (Some msg)))))"
  unfolding sasl_loop.simps sasl_send_def sasl_continue_def [abs_def] by (rule refl)

lemma sasl_send_size: "sasl_send sl session first to_send st = (r, st') \<Longrightarrow> stream_size st' = stream_size st"
  by (auto simp: sasl_send_def act dest: pushflush_size split: option.splits)

lemma sasl_continue_cases:
  "sasl_continue k payload st = (r, st') \<Longrightarrow> (\<exists>msg. k msg st = (r, st')) \<or> st' = st"
  by (auto simp: sasl_continue_def act split: option.splits pg_backend.splits)

lemma recv_size: "pg_recv d st = (r, st') \<Longrightarrow> stream_size st' \<le> stream_size st"
proof -
  have *: "length b' + reads_size rs' \<le> length b + reads_size rs" if "pg_read_loop d b rs = (q, b', rs')" for b rs q b' rs'
    using that by (induction d b rs rule: pg_read_loop.induct) (auto split: option.splits)
  assume "pg_recv d st = (r, st')"
  then show ?thesis
    using * [of "st_inbound st" "st_tls_reads st"] * [of "st_inbound st" "st_plain_reads st"]
    by (fastforce simp: pg_recv_def stream_size_def split: if_splits prod.splits)
qed

lemma sasl_loop_size: "sasl_loop f sl session first d st = (r, st') \<Longrightarrow> stream_size st' \<le> stream_size st"
proof (induction f arbitrary: session first d st r st')
  case (Suc f)
  show ?case
  proof (cases "sasl_step sl session d")
    case None
    with Suc.prems show ?thesis by (simp add: sasl_loop_Suc act del: sasl_loop.simps)
  next
    case (Some x)
    obtain session' running to_send where x: "x = (session', running, to_send)" by (cases x)
    obtain q st1 where q: "sasl_send sl session' first to_send st = (q, st1)" by fastforce
    obtain p st2 where p: "pg_recv decode_backend st1 = (p, st2)" by fastforce
    have "stream_size st' \<le> stream_size st1"
      using Suc.prems q p Some x recv_size [OF p] Suc.IH
      by (fastforce simp: sasl_loop_Suc then_a_def act simp del: sasl_loop.simps
          split: sum.splits if_splits dest: sasl_continue_cases)
    with sasl_send_size [OF q] show ?thesis by simp
  qed
qed (simp add: act)

lemma sasl_loop_fuel:
  "stream_size st < f \<Longrightarrow> stream_size st < f' \<Longrightarrow> sasl_loop f sl session first d st = sasl_loop f' sl session first d st"
proof (induction f arbitrary: f' session first d st)
  case (Suc f)
  then obtain g where g: "f' = Suc g" by (cases f') auto
  show ?case
  proof (cases "sasl_step sl session d")
    case (Some x)
    obtain session' running to_send where x: "x = (session', running, to_send)" by (cases x)
    obtain q st1 where q: "sasl_send sl session' first to_send st = (q, st1)" by fastforce
    obtain p st2 where p: "pg_recv decode_backend st1 = (p, st2)" by fastforce
    have "sasl_loop f sl session' b (Some m) st2 = sasl_loop g sl session' b (Some m) st2" if "p = Inr (Some y)" for b m y
      using Suc.IH [of st2 g] Suc.prems g pg_recv_frame(6) [OF p that] sasl_send_size [OF q] by simp
    then show ?thesis
      by (auto simp: g sasl_loop_Suc Some x then_a_def q p sasl_continue_def simp del: sasl_loop.simps
          split: sum.split option.split pg_backend.split)
  qed (simp add: g)
qed simp

lemma pg_auth_loop_fuel:
  "stream_size st < f \<Longrightarrow> stream_size st < f' \<Longrightarrow>
   pg_auth_loop f sl md5 refuse target st = pg_auth_loop f' sl md5 refuse target st"
proof (induction f arbitrary: f' st)
  case (Suc f)
  then obtain g where g: "f' = Suc g" by (cases f') auto
  obtain p st1 where p: "pg_recv decode_backend st = (p, st1)" by fastforce
  have IH: "pg_auth_loop f sl md5 refuse target st2 = pg_auth_loop g sl md5 refuse target st2"
    if "p = Inr (Some y)" "stream_size st2 \<le> stream_size st1" for y st2
    using Suc.IH [of st2 g] Suc.prems g pg_recv_frame(6) [OF p that(1)] that(2) by simp
  have sasl: "stream_size st2 \<le> stream_size st1" if "run_sasl_auth sl ms u pw st1 = (q, st2)" for ms u pw q st2
    using that by (auto simp: run_sasl_auth_def act dest: sasl_loop_size split: option.splits if_splits simp del: sasl_loop.simps)
  show ?case
    using IH sasl pushflush_size [of _ st1]
    by (auto simp: g then_a_def p act split: sum.split option.split pg_backend.split prod.split)
qed simp

text \<open>After a validated password the policy no longer asks for one, and an accepted approval ends the
  login: three turns are always enough.\<close>

lemma need_after_password:
  assumes "verify st = AuthResult.Need ks" "CredentialKind.Password \<in> ks" "verify (add_valid_credential st (Password pw)) = AuthResult.Need ks'"
  shows "CredentialKind.Password \<notin> ks'"
  using assms pol.need_missing [of "policy st" "as_protocol st" "valid_credentials st @ [Password pw]"]
  by (auto simp: verify_def current_verification_state_def split: if_splits CredentialPolicyResponse.splits)

section \<open>Credentials stay encrypted\<close>

definition pg_sealed_out :: "(pg_frontend, pg_backend) pg_stream \<Rightarrow> bool" where
  "pg_sealed_out st \<longleftrightarrow> (\<forall>m. (False, m) \<in> set (st_out st) \<longrightarrow> m = PgSslRequest \<or> (\<exists>su. m = PgStartup su))"

definition pg_sealed :: "(pg_frontend, pg_backend) pg_stream \<Rightarrow> bool" where
  "pg_sealed st \<longleftrightarrow> st_outbound st = [] \<and> pg_sealed_out st"

definition pg_sealed_tls :: "(pg_frontend, pg_backend) pg_stream \<Rightarrow> bool" where
  "pg_sealed_tls st \<longleftrightarrow> st_tls st \<and> pg_sealed_out st"

lemma tls_send: "keeps pg_sealed_tls (pg_pushflush m)"
  by (auto simp: keeps_def pg_sealed_tls_def pg_sealed_out_def pg_pushflush_def act then_a_def pg_push_def pg_flush_def)

lemma tls_recv: "keeps pg_sealed_tls (pg_recv d)"
  unfolding keeps_def pg_sealed_tls_def pg_sealed_out_def using pg_recv_frame(1,3) [of d] by (metis prod.collapse)

lemma tls_sasl_loop: "keeps pg_sealed_tls (sasl_loop f sl session first d)"
proof (induction f arbitrary: session first d)
  case (Suc f)
  show ?case
    by (auto intro!: keeps_all tls_send tls_recv Suc.IH split: option.split prod.split pg_backend.split)
qed auto

lemma tls_auth_loop: "keeps pg_sealed_tls (pg_auth_loop f sl md5 refuse target)"
proof (induction f)
  case (Suc f)
  show ?case
    by (auto simp: run_sasl_auth_def intro!: keeps_all tls_send tls_recv tls_sasl_loop Suc.IH split: option.split pg_backend.split)
qed auto

lemma refused_auth_loop:
  assumes "pg_auth_loop f sl md5 True target st = (r, st')"
  shows "st_out st' = st_out st"
  using assms
proof (induction f arbitrary: st)
  case (Suc f)
  obtain q st1 where rc: "pg_recv decode_backend st = (q, st1)" by fastforce
  from Suc.prems pg_recv_frame(1) [OF rc] show ?case
    by (auto simp: then_a_def rc get_password_def act split: sum.splits option.splits pg_backend.splits)
qed (simp add: act)

lemma sealed_upgrade: "hoare pg_sealed (pg_upgrade hs) (\<lambda>_. pg_sealed_tls) (\<lambda>_. pg_sealed_out)"
  by (auto simp: hoare_def pg_upgrade_def pg_sealed_def pg_sealed_tls_def pg_sealed_out_def act split: if_splits)

lemma sealed_push:
  "m = PgSslRequest \<or> m = PgStartup su \<Longrightarrow> hoare pg_sealed (pg_pushflush m) (\<lambda>_. pg_sealed) (\<lambda>_. pg_sealed_out)"
  by (auto simp: hoare_def pg_sealed_def pg_sealed_out_def pg_pushflush_def act then_a_def pg_push_def pg_flush_def split: if_splits)

lemma sealed_recv: "hoare pg_sealed (pg_recv d) (\<lambda>_. pg_sealed) (\<lambda>_. pg_sealed_out)"
proof (rule hoare_keeps)
  have "pg_sealed st'" if a: "pg_sealed st" and b: "pg_recv d st = (r, st')" for st r st'
    using a unfolding pg_sealed_def pg_sealed_out_def pg_recv_frame(1,2) [OF b] .
  then show "keeps pg_sealed (pg_recv d)" unfolding keeps_def by (metis prod.collapse)
qed (simp_all add: pg_sealed_def)

lemma sealed_negotiate:
  assumes "mode \<noteq> Disabled"
  shows "hoare pg_sealed (pg_negotiate_tls peer mode) (\<lambda>b st. if b then pg_sealed_tls st else pg_sealed st) (\<lambda>_. pg_sealed_out)"
proof -
  have out: "pg_sealed st \<Longrightarrow> pg_sealed_out st" for st by (simp add: pg_sealed_def)
  show ?thesis
    unfolding pg_negotiate_tls_def
    by (intro hoare_if hoare_then [OF sealed_push] hoare_then [OF sealed_recv] hoare_then [OF sealed_upgrade]
        hoare_option hoare_done hoare_throw) (simp_all add: assms out)
qed

lemma refused_auth: "hoare pg_sealed (pg_auth_loop f sl md5 True target) (\<lambda>_. pg_sealed_out) (\<lambda>_. pg_sealed_out)"
  using refused_auth_loop by (fastforce simp: hoare_def pg_sealed_def pg_sealed_out_def)

lemma tls_auth: "hoare pg_sealed_tls (pg_auth_loop f sl md5 b target) (\<lambda>_. pg_sealed_out) (\<lambda>_. pg_sealed_out)"
  by (rule hoare_keeps [OF tls_auth_loop]) (simp_all add: pg_sealed_tls_def)


end
