(* ===== verification/Postgres_Relay_Laws.thy ===== *)
theory Postgres_Relay_Laws
  imports Postgres_Laws Mysql_Laws
begin

text \<open>The relay of the PostgreSQL proxy against the target it filters for: which statements are
  executed, and two ways around the filter and the encryption.\<close>

section \<open>What the target executes\<close>

text \<open>The target, as far as it decides which statement runs: prepared statements and portals by name,
  and the statements executed. Every message is performed.\<close>

record pg_server =
  sv_statements :: "string option \<Rightarrow> string option"
  sv_portals :: "string option \<Rightarrow> string option"
  sv_executed :: "string list"

definition pg_server_new :: pg_server where
  "pg_server_new = \<lparr>sv_statements = Map.empty, sv_portals = Map.empty, sv_executed = []\<rparr>"

fun pg_perform :: "pg_frontend \<Rightarrow> pg_server \<Rightarrow> pg_server" where
  "pg_perform (PgParse name query _) sv = sv\<lparr>sv_statements := (sv_statements sv)(name \<mapsto> query)\<rparr>"
| "pg_perform (PgBind portal name _) sv =
     (case sv_statements sv name of
        Some query \<Rightarrow> sv\<lparr>sv_portals := (sv_portals sv)(portal \<mapsto> query)\<rparr>
      | None \<Rightarrow> sv)"
| "pg_perform (PgExecute portal _) sv =
     (case sv_portals sv portal of
        Some query \<Rightarrow> sv\<lparr>sv_executed := sv_executed sv @ [query]\<rparr>
      | None \<Rightarrow> sv)"
| "pg_perform (PgQuery query) sv = sv\<lparr>sv_executed := sv_executed sv @ [query]\<rparr>"
| "pg_perform _ sv = sv"

definition pg_executed :: "pg_frontend list \<Rightarrow> string list" where
  "pg_executed ms = sv_executed (fold pg_perform ms pg_server_new)"

definition pg_decision :: "('l, 's) pg_env \<Rightarrow> DbCommandAclEnforcer \<Rightarrow> nat \<Rightarrow> string \<Rightarrow> AclDecision option" where
  "pg_decision env acl n sql =
     map_option (\<lambda>table. enforcer_evaluate (ge_regex (pe_gw env)) table acl ''postgres'' sql) (qe_rules (pe_query env n))"

definition up_sent :: "'l PostgresSession \<Rightarrow> pg_frontend list" where
  "up_sent s = map snd (st_out (ps_upstream s))"

definition only_allowed :: "('l, 's) pg_env \<Rightarrow> DbCommandAclEnforcer \<Rightarrow> 'l PostgresSession \<Rightarrow> bool" where
  "only_allowed env acl s \<longleftrightarrow> (\<forall>q \<in> set (pg_executed (up_sent s)). \<exists>n. \<not> acl_blocked (pg_decision env acl n q))"

text \<open>The messages that matter to it.\<close>

fun is_sql :: "pg_frontend \<Rightarrow> bool" where
  "is_sql (PgParse _ _ _) = True"
| "is_sql (PgBind _ _ _) = True"
| "is_sql (PgExecute _ _) = True"
| "is_sql (PgQuery _) = True"
| "is_sql _ = False"

definition no_sql :: "(pg_frontend, pg_backend) pg_stream \<Rightarrow> bool" where
  "no_sql st \<longleftrightarrow> list_all (\<lambda>m. \<not> is_sql m) (st_outbound st @ map snd (st_out st))"

lemma no_sql_perform: "list_all (\<lambda>m. \<not> is_sql m) ms \<Longrightarrow> fold pg_perform ms sv = sv"
proof (induction ms)
  case (Cons m ms)
  then show ?case by (cases m) auto
qed simp

text \<open>The maps of the relay are those of the target.\<close>

definition tracks :: "('l, 's) pg_env \<Rightarrow> DbCommandAclEnforcer \<Rightarrow> pg_relay \<Rightarrow> 'l PostgresSession \<Rightarrow> bool" where
  "tracks env acl st s \<longleftrightarrow> list_all (\<lambda>m. \<not> is_sql m) (st_outbound (ps_upstream s)) \<and> only_allowed env acl s \<and>
     sv_statements (fold pg_perform (up_sent s) pg_server_new) = map_of (pr_prepared_sql st) \<and>
     sv_portals (fold pg_perform (up_sent s) pg_server_new) = map_of (pr_portal_sql st)"

lemma tracks_allowed: "tracks env acl st s \<Longrightarrow> only_allowed env acl s"
  by (simp add: tracks_def)

lemma tracks_frame:
  "ps_upstream s' = ps_upstream s \<Longrightarrow> tracks env acl st s' = tracks env acl st s"
  "ps_upstream s' = ps_upstream s \<Longrightarrow> only_allowed env acl s' = only_allowed env acl s"
  by (simp_all add: tracks_def only_allowed_def up_sent_def)

lemma tracks_fields [simp]:
  "tracks env acl (st\<lparr>pr_pending_audit := a\<rparr>) s = tracks env acl st s"
  "tracks env acl (st\<lparr>pr_last_activity := t\<rparr>) s = tracks env acl st s"
  by (simp_all add: tracks_def)

text \<open>Actions that leave the link to the target alone.\<close>

definition up_quiet :: "('e, 'l PostgresSession, 'a) action \<Rightarrow> bool" where
  "up_quiet m \<longleftrightarrow> (\<forall>s. ps_upstream (snd (m s)) = ps_upstream s)"

lemma up_quiet_basic [intro]:
  "up_quiet (done_a x)" "up_quiet (on_client c)" "up_quiet (pg_record b i)" "up_quiet (send_error_response a t)"
  "up_quiet (pg_gw f g)"
  by (auto simp: up_quiet_def act on_client_def pg_record_def send_error_response_def pg_gw_def split: prod.split)

lemma up_quiet_then [intro]: "up_quiet m \<Longrightarrow> (\<And>x. up_quiet (f x)) \<Longrightarrow> up_quiet (then_a m f)"
  by (simp add: up_quiet_def then_a_def split: prod.split sum.split) (metis snd_conv)

lemma up_quiet_if [intro]: "up_quiet m \<Longrightarrow> up_quiet n \<Longrightarrow> up_quiet (if c then m else n)"
  by simp

lemma hoare_quiet:
  assumes "up_quiet m"
  shows "hoare (tracks env acl st) m (\<lambda>_. tracks env acl st) (\<lambda>_. only_allowed env acl)"
proof -
  have "ps_upstream w' = ps_upstream w" if "m w = (r, w')" for w r w'
    using assms that by (metis up_quiet_def snd_conv)
  then show ?thesis
    by (intro hoareI) (metis tracks_frame tracks_allowed)+
qed

lemma executed_snoc:
  "list_all (\<lambda>m. \<not> is_sql m) os \<Longrightarrow>
   fold pg_perform (ms @ os @ [m]) sv = pg_perform m (fold pg_perform ms sv)"
  by (simp add: no_sql_perform)

declare hash_insert_map [simp]

text \<open>A forwarded message: the target performs what the relay has tracked.\<close>

lemma forward_tracks:
  assumes "track_message msg st = (q, simple, st1)" "\<And>sql. q = Some sql \<Longrightarrow> \<exists>n. \<not> acl_blocked (pg_decision env acl n sql)"
  shows "hoare (tracks env acl st) (on_upstream (pg_pushflush msg)) (\<lambda>_. tracks env acl st1) (\<lambda>_. only_allowed env acl)"
proof (rule hoareI)
  fix w x w' assume w: "tracks env acl st w" and r: "on_upstream (pg_pushflush msg) w = (Inr x, w')"
  then have s: "up_sent w' = up_sent w @ st_outbound (ps_upstream w) @ [msg]" "st_outbound (ps_upstream w') = []"
    by (auto simp: on_upstream_def pg_pushflush_def pg_push_def pg_flush_def act then_a_def up_sent_def comp_def split: if_splits)
  have f: "fold pg_perform (up_sent w') pg_server_new = pg_perform msg (fold pg_perform (up_sent w) pg_server_new)"
    unfolding s(1) using w by (intro executed_snoc) (simp add: tracks_def)
  show "tracks env acl st1 w'"
    using w assms
    by (cases msg) (auto simp: tracks_def only_allowed_def s(2) f pg_executed_def split: option.splits)
next
  fix w e w' assume w: "tracks env acl st w" and r: "on_upstream (pg_pushflush msg) w = (Inl e, w')"
  then have "up_sent w' = up_sent w"
    by (auto simp: on_upstream_def pg_pushflush_def pg_push_def pg_flush_def act then_a_def up_sent_def split: if_splits)
  with w show "only_allowed env acl w'" by (simp add: tracks_def only_allowed_def)
qed

lemma tracked_sql: "track_message msg st = (Some q, simple, st1) \<Longrightarrow> st1 = st"
  by (cases msg) auto

lemma client_message_tracks:
  "hoare (tracks env acl st) (client_message env acl tgt (pe_query env n) now st msg)
     (\<lambda>st1. tracks env acl st1) (\<lambda>_. only_allowed env acl)"
proof -
  obtain q simple st1 where t: "track_message msg (st\<lparr>pr_last_activity := now\<rparr>) = (q, simple, st1)"
    by (metis prod_cases3)
  have st: "tracks env acl st = tracks env acl (st\<lparr>pr_last_activity := now\<rparr>)" by (simp add: fun_eq_iff)
  show ?thesis
  proof (cases q)
    case None
    then show ?thesis
      unfolding client_message_def Let_def t st by (auto intro: hoare_then [OF forward_tracks [OF t]] hoare_done)
  next
    case (Some sql)
    let ?d = "pg_decision env acl n sql"
    have same: "tracks env acl (st\<lparr>pr_last_activity := now\<rparr>) = tracks env acl st1" using tracked_sql [OF t [unfolded Some]] by simp
    have quiet: "hoare (tracks env acl st1) m (\<lambda>_. tracks env acl st1) (\<lambda>_. only_allowed env acl)" if "up_quiet m"
      for m :: "('a, unit) pg_action" by (rule hoare_quiet [OF that])
    have go: "hoare (tracks env acl st1) (on_upstream (pg_pushflush msg)) (\<lambda>_. tracks env acl st1) (\<lambda>_. only_allowed env acl)"
      if "\<not> acl_blocked ?d" using forward_tracks [OF t, of env acl] Some that unfolding same by blast
    show ?thesis
      unfolding client_message_def Let_def t st same prod.case Some option.case pg_decision_def [symmetric]
        record_blocked_sql_audit_def record_degraded_sql_audit_def
      by (intro hoare_then [OF quiet] hoare_if hoare_then [OF go] up_quiet_if up_quiet_basic) (auto intro: hoare_done)
  qed
qed

lemma server_message_tracks:
  "hoare (tracks env acl st) (server_message env tgt qe now st msg) (\<lambda>st1. tracks env acl st1) (\<lambda>_. only_allowed env acl)"
proof -
  have *: "hoare (tracks env acl st) (case (e, pa) of (Some (b, err), Some waiting) \<Rightarrow>
       then_a (pg_record c (i b err waiting)) (\<lambda>_. done_a (st\<lparr>pr_last_activity := now\<rparr>\<lparr>pr_pending_audit := None\<rparr>))
     | _ \<Rightarrow> done_a (st\<lparr>pr_last_activity := now\<rparr>)) (\<lambda>st1. tracks env acl st1) (\<lambda>_. only_allowed env acl)"
    for e pa c i
    by (auto split: option.split intro!: hoare_then [OF hoare_quiet] hoare_done)
  show ?thesis
    unfolding server_message_def Let_def
    by (rule hoare_then [OF *]) (auto intro!: hoare_then [OF hoare_quiet] hoare_done)
qed

lemma recv_tracks:
  "hoare (tracks env acl st) (try_a (on_client (pg_recv d))) (\<lambda>_. tracks env acl st) (\<lambda>_. only_allowed env acl)"
  "hoare (tracks env acl st) (try_a (on_upstream (pg_recv d'))) (\<lambda>_. tracks env acl st) (\<lambda>_. only_allowed env acl)"
proof -
  show "hoare (tracks env acl st) (try_a (on_client (pg_recv d))) (\<lambda>_. tracks env acl st) (\<lambda>_. only_allowed env acl)"
    by (rule hoare_quiet) (auto simp: up_quiet_def try_a_def on_client_def split: prod.split)
  have "tracks env acl st (s\<lparr>ps_upstream := c\<rparr>)" if "tracks env acl st s" "pg_recv d' (ps_upstream s) = (r, c)" for s r c
    using that(1) pg_recv_frame(1,2) [OF that(2)] by (simp add: tracks_def only_allowed_def up_sent_def)
  then show "hoare (tracks env acl st) (try_a (on_upstream (pg_recv d'))) (\<lambda>_. tracks env acl st) (\<lambda>_. only_allowed env acl)"
    by (auto simp: hoare_def try_a_def on_upstream_def split: prod.splits)
qed

lemma relay_loop_tracks:
  "hoare (tracks env acl st) (pg_relay_loop env acl tgt idle n st turns) (\<lambda>_. only_allowed env acl) (\<lambda>_. only_allowed env acl)"
proof (induction turns arbitrary: n st)
  case (Cons turn turns)
  have stop: "hoare (tracks env acl st) (done_a y) (\<lambda>_. only_allowed env acl) (\<lambda>_. only_allowed env acl)" for y st
    by (auto intro: hoare_done tracks_allowed)
  have idle: "hoare (tracks env acl st) (then_a (send_error_response a t) (\<lambda>_. done_a y)) (\<lambda>_. only_allowed env acl) (\<lambda>_. only_allowed env acl)"
    for a t y by (rule hoare_then [OF hoare_quiet stop]) auto
  show ?case
    unfolding pg_relay_loop.simps Let_def
    by (cases "pt_ready turn")
      (auto intro!: idle Cons.IH stop hoare_then [OF recv_tracks(1)] hoare_then [OF recv_tracks(2)]
        hoare_then [OF client_message_tracks] hoare_then [OF server_message_tracks] split: sum.split option.split)
qed (auto intro: hoare_done tracks_allowed)

text \<open>The connection sends no statement.\<close>

lemma no_sql_send: "\<not> is_sql m \<Longrightarrow> keeps no_sql (pg_pushflush m)"
  by (auto simp: keeps_def no_sql_def pg_pushflush_def act then_a_def pg_push_def pg_flush_def comp_def)

lemma no_sql_recv: "keeps no_sql (pg_recv d)"
  unfolding keeps_def no_sql_def using pg_recv_frame(1,2) [of d] by (metis prod.collapse)

lemma no_sql_sasl: "keeps no_sql (sasl_loop f sl session first d)"
proof (induction f arbitrary: session first d)
  case (Suc f)
  show ?case
    by (auto intro!: keeps_all no_sql_send no_sql_recv Suc.IH split: option.split prod.split pg_backend.split)
qed auto

lemma no_sql_auth: "keeps no_sql (pg_auth_loop f sl md5 refuse target)"
proof (induction f)
  case (Suc f)
  show ?case
    by (auto simp: run_sasl_auth_def intro!: keeps_all no_sql_send no_sql_recv no_sql_sasl Suc.IH
        split: option.split pg_backend.split)
qed auto

lemma no_sql_upgrade: "keeps no_sql (pg_upgrade ok)"
  by (auto simp: keeps_def pg_upgrade_def no_sql_def act)

lemma no_sql_connect: "keeps no_sql (pg_connect sl md5 peer target options)"
  unfolding pg_connect_def pg_negotiate_tls_def Let_def
  by (intro keeps_all keeps_option no_sql_send no_sql_recv no_sql_auth no_sql_upgrade) simp_all

lemma keeps_on_upstream:
  assumes "keeps I m"
  shows "keeps (\<lambda>s. I (ps_upstream s)) (on_upstream m)"
  unfolding keeps_def
proof (intro allI impI)
  fix s :: "'c PostgresSession" assume "I (ps_upstream s)"
  from keepsD [OF assms this] show "I (ps_upstream (snd (on_upstream m s)))"
    by (cases "m (ps_upstream s)") (simp add: on_upstream_def)
qed

lemma keeps_pg_gw: "keeps (\<lambda>s. I (ps_upstream s)) (pg_gw f m)"
  by (auto simp: keeps_def pg_gw_def split: prod.split)


section \<open>A sample session\<close>

definition desk_options :: TargetPostgresOptions where
  "desk_options = \<lparr>pg_host = ''db'', pg_port = 5432, pg_username = ''app'', pg_password = Some ''pw'',
     pg_tls = \<lparr>tls_mode = Preferred, tls_verify = True\<rparr>, pg_idle_timeout = None, pg_default_database_name = None,
     pg_readonly = False\<rparr>"

definition desk_peer :: pg_peer where
  "desk_peer = \<lparr>pp_tcp = True, pp_plain = [Chunk [PgSslAccept]], pp_tls = [Chunk [PgAuthCleartext, PgAuthOk]],
     pp_tls_setup = True, pp_server_name = True, pp_tls_handshake = True\<rparr>"

definition desk_sasl :: "unit sasl" where
  "desk_sasl = \<lparr>sasl_mechname = (\<lambda>_. False), sasl_start = (\<lambda>_ _ _. None), sasl_we_first = (\<lambda>_. False),
     sasl_get_mechname = (\<lambda>_. []), sasl_step = (\<lambda>_ _. None)\<rparr>"

definition desk_env :: "(RateLimiterDirection \<Rightarrow> nat, unit) pg_env" where
  "desk_env = \<lparr>pe_gw = me_gw shop_env, pe_sasl = desk_sasl, pe_md5 = (\<lambda>_ _ _. []), pe_tls_accept = True,
     pe_peer = (\<lambda>_. desk_peer), pe_query = (\<lambda>_. \<lparr>qe_rules = Some [], qe_recording = True, qe_elapsed = 0\<rparr>),
     pe_web = WebExpired, pe_login_url = (\<lambda>_. None), pe_account_text = (\<lambda>_. []), pe_error_debug = (\<lambda>_ _ _. []),
     pe_parse_duration = (\<lambda>_. None), pe_format_duration = (\<lambda>_. [])\<rparr>"

definition desk_startup :: pg_startup where
  "desk_startup = \<lparr>su_major = 3, su_minor = 0, su_parameters = [(''user'', ''ticket-s'')]\<rparr>"

definition desk_turns :: "pg_turn list" where
  "desk_turns = [\<lparr>pt_checked_at = 0, pt_ready = ClientReady, pt_ready_at = 0\<rparr>]"

definition desk_session :: "(RateLimiterDirection \<Rightarrow> nat) gateway \<Rightarrow> (RateLimiterDirection \<Rightarrow> nat) PostgresSession" where
  "desk_session g = pg_session_new 3 9 9 [Chunk [PgSslRequest]] [Chunk [PgStartup desk_startup, PgQuery ''SELECT 1'']] g"

lemmas desk_defs = desk_options_def desk_peer_def desk_env_def desk_startup_def desk_turns_def
lemmas pg_io = then_a_def act on_client_def on_upstream_def pg_pushflush_def pg_push_def pg_flush_def pg_recv_def
  pg_upgrade_def

lemma desk_connect:
  assumes "st_out st = []" "st_outbound st = []" "st_writes st = 9" "\<not> st_tls st" "st_inbound st = []"
    "st_plain_reads st = [Chunk [PgSslAccept]]" "st_tls_reads st = [Chunk [PgAuthCleartext, PgAuthOk]]"
  shows "\<exists>su. pg_connect sl md5 desk_peer desk_options po st =
     (Inr (), st\<lparr>st_out := [(False, PgSslRequest), (True, PgStartup su), (True, PgPassword ''pw'')], st_outbound := [],
        st_writes := 6, st_tls := True, st_inbound := [], st_plain_reads := [], st_tls_reads := []\<rparr>)"
  using assms
  by (cases st) (simp add: pg_connect_def pg_negotiate_tls_def desk_defs pg_io stream_size_def get_password_def numeral_nat)


lemma desk_inner:
  assumes up: "ps_upstream s = pg_stream_new 9 [] []"
    and cl: "st_inbound (ps_client s) = [PgQuery ''SELECT 1'']" "st_tls (ps_client s)"
  shows "\<exists>su. up_sent (snd (pg_run_authorized_inner desk_env startup tgt desk_options acl desk_turns s)) =
    [PgSslRequest, PgStartup su, PgPassword ''pw'', PgQuery ''SELECT 1'']"
proof -
  let ?po = "\<lparr>po_major = su_major startup, po_minor = su_minor startup, po_parameters = su_parameters startup\<rparr>"
  let ?up = "(ps_upstream s)\<lparr>st_plain_reads := [Chunk [PgSslAccept]], st_tls_reads := [Chunk [PgAuthCleartext, PgAuthOk]]\<rparr>"
  obtain su where c: "pg_connect desk_sasl (\<lambda>_ _ _. []) desk_peer desk_options ?po ?up =
     (Inr (), ?up\<lparr>st_out := [(False, PgSslRequest), (True, PgStartup su), (True, PgPassword ''pw'')], st_outbound := [],
        st_writes := 6, st_tls := True, st_inbound := [], st_plain_reads := [], st_tls_reads := []\<rparr>)"
    using desk_connect [of ?up desk_sasl "\<lambda>_ _ _. []" ?po] up by (auto simp: pg_stream_new_def)
  let ?s1 = "s\<lparr>ps_upstream := ?up\<lparr>st_out := [(False, PgSslRequest), (True, PgStartup su), (True, PgPassword ''pw'')], st_outbound := [],
        st_writes := 6, st_tls := True, st_inbound := [], st_plain_reads := [], st_tls_reads := []\<rparr>\<rparr>"
  have env: "pe_sasl desk_env = desk_sasl" "pe_md5 desk_env = (\<lambda>_ _ _. [])" "pe_peer desk_env desk_options = desk_peer"
    by (simp_all add: desk_env_def)
  have p: "pp_plain desk_peer = [Chunk [PgSslAccept]]" "pp_tls desk_peer = [Chunk [PgAuthCleartext, PgAuthOk]]"
    by (simp_all add: desk_peer_def)
  have con: "pg_connect_upstream desk_env desk_options ?po s = (Inr (), ?s1)"
    using c by (simp add: pg_connect_upstream_def env p then_a_def act on_upstream_def try_a_def)
  obtain g where g: "pg_gw PgGated (gw_target_connected i) s1 = (Inr (), s1\<lparr>ps_gw := g i s1\<rparr>)" for i and s1 :: "(RateLimiterDirection \<Rightarrow> nat) PostgresSession"
  proof
    show "pg_gw PgGated (gw_target_connected i) s1 = (Inr (), s1\<lparr>ps_gw := snd (gw_target_connected i (ps_gw s1))\<rparr>)" for i and s1 :: "(RateLimiterDirection \<Rightarrow> nat) PostgresSession"
      by (simp add: pg_gw_def gw_target_connected_def Let_def split: prod.split)
  qed
  have q: "pe_query desk_env n = \<lparr>qe_rules = Some [], qe_recording = True, qe_elapsed = 0\<rparr>" for n by (simp add: desk_env_def)
  have free: "\<not> acl_blocked (Some (enforcer_evaluate rx [] acl p sql))" for rx p sql
    by (simp add: acl_blocked_def enforcer_evaluate_def load_enabled_rules_def evaluate_def default_allow_def)
  have idle: "idle_timeout_of desk_env desk_options = 600000" by (simp add: idle_timeout_of_def desk_options_def)
  show ?thesis
    unfolding pg_run_authorized_inner_def
    by (rule exI [of _ su])
      (simp add: then_a_def con g idle desk_turns_def act try_a_def on_client_def pg_recv_def cl client_message_def pg_relay_new_def
        env q free on_upstream_def pg_pushflush_def pg_push_def pg_flush_def up_sent_def up)
qed


text \<open>The gateway with this target.\<close>

definition desk_target :: target_row where
  "desk_target = \<lparr>tr_id = 5, tr_name = ''box'', tr_description = [], tr_kind = PostgresKind,
     tr_options = Some (PostgresOptions desk_options), tr_rate_limit = None, tr_group_id = None\<rparr>"

definition desk_db :: Db where
  "desk_db = shop_db\<lparr>targets := [desk_target]\<rparr>"

definition desk_gateway :: "(RateLimiterDirection \<Rightarrow> nat) gateway" where
  "desk_gateway = gw_set_db (Some desk_db) shop_gateway"

lemma desk_ticket_ok:
  "authorize_ticket sample_crypto 0 (Some desk_db) ''s'' = Inr (Some (shop_ticket, \<lparr>ui_id = 1, ui_username = ''ann''\<rparr>))"
  "\<exists>db. consume_ticket (ticket_id shop_ticket) (Some desk_db) = (Inr (), Some db) \<and> targets db = [desk_target] \<and>
     target_roles db = [] \<and> target_accounts db = []"
  by (simp_all add: authorize_ticket_def desk_db_def shop_db_def shop_ticket_def sample_defs hash_secret_def user_by_name_def
      user_try_from_def consume_ticket_def with_db_def ticket_consumable_def db_required_def Let_def)

lemma desk_login_choice:
  assumes "target_roles db = []" "target_accounts db = []"
  shows "pg_login_options env db desk_target desk_options ''ann'' None = Inr desk_options"
proof -
  have "login_choices db t u = Inr []" for t u
    using assms by (simp add: login_choices_def login_grants_def Let_def split: option.split)
  then show ?thesis
    using assms by (simp add: pg_login_options_def select_login_def pick_login_def desk_target_def resolve_db_account_def
        login_account_credentials_def primary_account_credentials_def primary_account_id_def)
qed

lemma desk_authorized:
  assumes g: "gw_db (ps_gw s) = Some db" "session_states (gw_app (ps_gw s)) = Map.empty"
    and db: "targets db = [desk_target]" "target_roles db = []" "target_accounts db = []"
    and s: "st_writes (ps_client s) = 8" "ps_upstream s = pg_stream_new 9 [] []" "ui_username ui = ''ann''"
      "st_inbound (ps_client s) = [PgQuery ''SELECT 1'']" "st_tls (ps_client s)"
  shows "up_sent (snd (pg_run_authorized desk_env desk_startup ui ''box'' None desk_turns s)) \<noteq> []"
proof -
  have f: "find_postgres_target ''box'' [desk_target] = Some (desk_target, desk_options)"
    by (simp add: find_postgres_target_def desk_target_def List.map_filter_simps)
  have lt: "list_targets (Some db) = Inr [desk_target]"
    using db(1) by (simp add: list_targets_def db_required_def target_try_from_def desk_target_def)
  define s1 where "s1 = snd (on_client pg_flush s)"
  have s1: "on_client pg_flush s = (Inr (), s1)" "ps_gw s1 = ps_gw s" "ps_upstream s1 = ps_upstream s"
    "st_inbound (ps_client s1) = [PgQuery ''SELECT 1'']" "st_tls (ps_client s1)"
    using s by (simp_all add: s1_def on_client_def pg_flush_def)
  have id: "s1\<lparr>ps_gw := ps_gw s\<rparr> = s1" using s1(2) by (metis PostgresSession.surjective PostgresSession.update_convs(8) PostgresSession.select_convs(8))
  note gs = gw_steps [OF g]
  have "pg_run_authorized desk_env desk_startup ui ''box'' None desk_turns s =
     pg_run_authorized_inner desk_env desk_startup ''box'' desk_options (enforcer_new db (tr_id desk_target) (ui_id ui)) desk_turns s1"
    unfolding pg_run_authorized_def
    by (simp add: then_a_def s1 pg_gw_def gs(1) [OF lt] gs(2-4) f act id desk_login_choice [OF db(2,3)] s(3))
  moreover obtain su where "up_sent (snd (pg_run_authorized_inner desk_env desk_startup ''box'' desk_options
      (enforcer_new db (tr_id desk_target) (ui_id ui)) desk_turns s1)) = [PgSslRequest, PgStartup su, PgPassword ''pw'', PgQuery ''SELECT 1'']"
    using desk_inner [of s1] s1 s(2) by metis
  ultimately show ?thesis by simp
qed

lemma desk_reaches_target: "up_sent (snd (pg_run desk_env desk_turns (desk_session desk_gateway))) \<noteq> []"
proof -
  obtain db where db: "consume_ticket (ticket_id shop_ticket) (Some desk_db) = (Inr (), Some db)" "targets db = [desk_target]"
     "target_roles db = []" "target_accounts db = []"
    using desk_ticket_ok(2) by blast
  let ?g = "gw_set_db (Some db) desk_gateway" and ?ui = "\<lparr>ui_id = 1, ui_username = ''ann''\<rparr>"
  have g: "gw_db desk_gateway = Some desk_db" "gw_db ?g = Some db" "session_states (gw_app ?g) = Map.empty"
    by (simp_all add: gw_db_def desk_gateway_def shop_gateway_def app_state_new_def gw_set_db_def)
  have u: "map_of (su_parameters desk_startup) ''user'' = Some ''ticket-s''" by (simp add: desk_startup_def)
  have sel: "selector_from ''ticket-s'' = Ticket ''s''"
    by (simp add: selector_from_def TICKET_SELECTOR_PREFIX_def strip_prefix_def)
  have a: "gw_authorize_ticket (pe_gw desk_env) ''s'' desk_gateway = (Inr (Some (shop_ticket, ?ui)), desk_gateway)"
    using g(1) desk_ticket_ok(1) by (simp add: gw_authorize_ticket_def desk_env_def shop_env_def)
  have c: "gw_consume_ticket (ticket_id shop_ticket) desk_gateway = (Inr (), ?g)"
    using g(1) db(1) by (simp add: gw_consume_ticket_def)
  have tt: "ticket_target shop_ticket = ''box''" by (simp add: shop_ticket_def sample_defs)
  have acc: "pe_tls_accept desk_env" by (simp add: desk_env_def)
  obtain s where s: "pg_run desk_env desk_turns (desk_session desk_gateway) = pg_run_authorized desk_env desk_startup ?ui ''box'' None desk_turns s"
    "ps_gw s = ?g" "st_writes (ps_client s) = 8" "ps_upstream s = pg_stream_new 9 [] []"
    "st_inbound (ps_client s) = [PgQuery ''SELECT 1'']" "st_tls (ps_client s)"
    by (simp add: pg_run_def pg_run_authorization_def pg_io desk_session_def pg_session_new_def pg_stream_new_def acc enforce_tls_def u sel
        pg_gw_def a c tt)
  then show ?thesis using desk_authorized [of s db ?ui] g db by simp
qed

theorem pg_login_required_witness:
  "up_sent (snd (pg_run desk_env desk_turns (desk_session desk_gateway))) \<noteq> [] \<and>
   st_tls (ps_client (snd (pg_run desk_env desk_turns (desk_session desk_gateway)))) \<and>
   (\<exists>startup. PgStartup startup \<in> {PgSslRequest, PgStartup desk_startup, PgQuery ''SELECT 1''} \<and>
      pg_login_ok desk_env (Some desk_db) (case map_of (su_parameters startup) ''user'' of Some u \<Rightarrow> u | None \<Rightarrow> [])
        {PgSslRequest, PgStartup desk_startup, PgQuery ''SELECT 1''})"
proof -
  have g: "gw_db desk_gateway = Some desk_db" by (simp add: gw_db_def desk_gateway_def shop_gateway_def app_state_new_def gw_set_db_def)
  have msgs: "reads_msgs [Chunk [PgSslRequest]] \<union> reads_msgs [Chunk [PgStartup desk_startup, PgQuery ''SELECT 1'']] =
      {PgSslRequest, PgStartup desk_startup, PgQuery ''SELECT 1''}"
    by (auto simp: reads_msgs_def)
  have out: "st_out (ps_upstream (snd (pg_run desk_env desk_turns (desk_session desk_gateway)))) \<noteq> []"
    using desk_reaches_target by (simp add: up_sent_def)
  from pg_login_required [OF prod.collapse [symmetric, unfolded desk_session_def] out [unfolded desk_session_def]] desk_reaches_target
  show ?thesis unfolding desk_session_def [symmetric] g msgs by simp
qed

section \<open>Statements the target refuses to prepare\<close>

text \<open>A target that refuses some messages, in the state it is in; a refused message changes nothing.\<close>

definition pg_serve :: "(pg_server \<Rightarrow> pg_frontend \<Rightarrow> bool) \<Rightarrow> pg_frontend \<Rightarrow> pg_server \<Rightarrow> pg_server" where
  "pg_serve refuses m sv = (if refuses sv m then sv else pg_perform m sv)"

text \<open>The messages of a client that prepares a statement under a name twice.\<close>

definition reprepare :: "string \<Rightarrow> string \<Rightarrow> string \<Rightarrow> pg_frontend list" where
  "reprepare name first second =
     [PgParse (Some name) first [], PgSync, PgParse (Some name) second [], PgSync, PgBind None (Some name) [], PgExecute None []]"

text \<open>C34. The command rules can be evaded with prepared statements. A target that refuses to prepare a name
  that is in use, as PostgreSQL does, keeps the first statement, while the relay evaluates the second one:
  whatever the first statement is, it is executed.\<close>

theorem pg_acl_bypass:
  assumes "\<not> acl_blocked (pg_decision env acl 5 allowed)" "0 < idle"
    and "\<And>sv m. refuses sv m \<longleftrightarrow> (\<exists>n q b. m = PgParse (Some n) q b \<and> sv_statements sv (Some n) \<noteq> None)"
    and "st_inbound (ps_client s) = reprepare name forbidden allowed" "ps_upstream s = pg_stream_new 6 [] []"
  shows "sv_executed (fold (pg_serve refuses)
      (up_sent (snd (pg_relay_loop env acl tgt idle 0 (pg_relay_new 0)
         (replicate 6 \<lparr>pt_checked_at = 0, pt_ready = ClientReady, pt_ready_at = 0\<rparr>) s))) pg_server_new) = [forbidden]"
proof -
  have "up_sent (snd (pg_relay_loop env acl tgt idle 0 (pg_relay_new 0)
         (replicate 6 \<lparr>pt_checked_at = 0, pt_ready = ClientReady, pt_ready_at = 0\<rparr>) s)) = reprepare name forbidden allowed"
    using assms(1,2)
    by (simp add: eval_nat_numeral pg_relay_new_def then_a_def act try_a_def on_client_def pg_recv_def assms(4,5) reprepare_def
        client_message_def Let_def on_upstream_def pg_pushflush_def pg_push_def pg_flush_def up_sent_def pg_stream_new_def hash_insert_def
        pg_decision_def record_degraded_sql_audit_def pg_record_def)
  then show ?thesis
    by (simp add: reprepare_def pg_serve_def assms(3) pg_server_new_def)
qed

text \<open>C35. Bytes that follow the request for TLS in plain text are taken for the start of the encrypted
  stream: the session behaves as if it had received them encrypted.\<close>

theorem pg_plaintext_injection:
  assumes "injected \<noteq> []" "0 < cw" "pe_tls_accept env"
  shows "pg_run env turns (pg_session_new i cw uw (Chunk (PgSslRequest # injected) # plain) tls g) =
    pg_run env turns (pg_session_new i cw uw (Chunk [PgSslRequest] # plain) (Chunk injected # tls) g)"
proof -
  obtain m ms where "injected = m # ms" using assms(1) by (cases injected) auto
  with assms(2,3) show ?thesis
    by (simp add: pg_run_def pg_io pg_session_new_def pg_stream_new_def split: option.split)
qed

theorem pg_plaintext_injection_witness:
  "up_sent (snd (pg_run desk_env desk_turns
     (pg_session_new 3 9 9 [Chunk [PgSslRequest, PgStartup desk_startup, PgQuery ''SELECT 1'']] [] desk_gateway))) \<noteq> []"
  using pg_plaintext_injection [of "[PgStartup desk_startup, PgQuery ''SELECT 1'']" 9 desk_env desk_turns 3 9 "[]" "[]" desk_gateway]
    desk_reaches_target by (simp add: desk_session_def desk_env_def)

section \<open>A forbidden statement\<close>

definition drop_rule :: CommandAclRuleView where
  "drop_rule = \<lparr>rule_id = 1, rule_name = ''no drop'', enabled = True, priority = 1, rule_protocol = ''any'',
     match_type = ''regex'', pattern = ''DROP t'', rule_action = ''deny'', rule_target_id = None, rule_role_id = None\<rparr>"

definition strict_env :: "(RateLimiterDirection \<Rightarrow> nat, unit) pg_env" where
  "strict_env = desk_env\<lparr>pe_gw := (pe_gw desk_env)\<lparr>ge_regex := \<lambda>p. Some (\<lambda>c. c = p)\<rparr>,
     pe_query := \<lambda>_. \<lparr>qe_rules = Some [drop_rule], qe_recording = True, qe_elapsed = 0\<rparr>\<rparr>"

lemma strict_decisions:
  "acl_blocked (pg_decision strict_env acl n ''DROP t'')" "\<not> acl_blocked (pg_decision strict_env acl n ''SELECT 1'')"
  by (simp_all add: pg_decision_def strict_env_def acl_blocked_def enforcer_evaluate_def load_enabled_rules_def evaluate_def
      to_rule_view_def rule_applies_def pattern_matches_def drop_rule_def decide_def parse_action_def default_allow_def desk_env_def)

theorem pg_acl_bypass_witness:
  "acl_blocked (pg_decision strict_env (enforcer_new shop_db 5 1) 5 ''DROP t'') \<and>
   sv_executed (fold (pg_serve (\<lambda>sv m. case m of PgParse (Some n) _ _ \<Rightarrow> sv_statements sv (Some n) \<noteq> None | _ \<Rightarrow> False))
      (up_sent (snd (pg_relay_loop strict_env (enforcer_new shop_db 5 1) ''box'' 600 0 (pg_relay_new 0)
         (replicate 6 \<lparr>pt_checked_at = 0, pt_ready = ClientReady, pt_ready_at = 0\<rparr>)
         ((pg_session_new 3 9 6 [] [] shop_gateway)
           \<lparr>ps_client := (pg_stream_new 9 [] [])\<lparr>st_inbound := reprepare ''a'' ''DROP t'' ''SELECT 1''\<rparr>\<rparr>)))) pg_server_new) = [''DROP t'']"
proof -
  let ?s = "(pg_session_new 3 9 6 [] [] shop_gateway)\<lparr>ps_client := (pg_stream_new 9 [] [])\<lparr>st_inbound := reprepare ''a'' ''DROP t'' ''SELECT 1''\<rparr>\<rparr>"
  have r: "(case m of PgParse (Some n) _ _ \<Rightarrow> sv_statements sv (Some n) \<noteq> None | _ \<Rightarrow> False) =
      (\<exists>n q b. m = PgParse (Some n) q b \<and> sv_statements sv (Some n) \<noteq> None)" for sv m
    by (auto split: pg_frontend.split option.split)
  have s: "st_inbound (ps_client ?s) = reprepare ''a'' ''DROP t'' ''SELECT 1''" "ps_upstream ?s = pg_stream_new 6 [] []"
    by (simp_all add: pg_session_new_def)
  show ?thesis
    using pg_acl_bypass [OF strict_decisions(2) _ r s, of 600] strict_decisions(1) by simp
qed

end
