(* ===== verification/Sftp_Audit.thy ===== *)
theory Sftp_Audit
  imports Auth_Store
begin

text \<open>
  The audit of file transfers over SSH (\<open>gated-protocol-ssh/src/sftp_audit.rs\<close>). The gateway does not take
  part in the SFTP conversation: it reads the bytes of both directions, splits them into packets, pairs
  replies with requests by their identifier and reports the file operations it sees.
\<close>

unbundle bit_operations_syntax

section \<open>Data\<close>

record SftpFileOperation =
  op_operation :: string
  op_path :: string
  op_new_path :: "string option"
  op_bytes :: "u64 option"
  op_success :: bool
  op_error :: "string option"

definition SSH_FXP_OPEN :: u8 where "SSH_FXP_OPEN = 3"
definition SSH_FXP_CLOSE :: u8 where "SSH_FXP_CLOSE = 4"
definition SSH_FXP_READ :: u8 where "SSH_FXP_READ = 5"
definition SSH_FXP_WRITE :: u8 where "SSH_FXP_WRITE = 6"
definition SSH_FXP_SETSTAT :: u8 where "SSH_FXP_SETSTAT = 9"
definition SSH_FXP_FSETSTAT :: u8 where "SSH_FXP_FSETSTAT = 10"
definition SSH_FXP_REMOVE :: u8 where "SSH_FXP_REMOVE = 13"
definition SSH_FXP_MKDIR :: u8 where "SSH_FXP_MKDIR = 14"
definition SSH_FXP_RMDIR :: u8 where "SSH_FXP_RMDIR = 15"
definition SSH_FXP_RENAME :: u8 where "SSH_FXP_RENAME = 18"
definition SSH_FXP_SYMLINK :: u8 where "SSH_FXP_SYMLINK = 20"
definition SSH_FXP_STATUS :: u8 where "SSH_FXP_STATUS = 101"
definition SSH_FXP_HANDLE :: u8 where "SSH_FXP_HANDLE = 102"
definition SSH_FXP_DATA :: u8 where "SSH_FXP_DATA = 103"
definition SSH_FXP_EXTENDED :: u8 where "SSH_FXP_EXTENDED = 200"

definition SSH_FXF_WRITE :: u32 where "SSH_FXF_WRITE = 0x02"
definition SSH_FXF_APPEND :: u32 where "SSH_FXF_APPEND = 0x04"
definition SSH_FXF_CREAT :: u32 where "SSH_FXF_CREAT = 0x08"
definition SSH_FXF_TRUNC :: u32 where "SSH_FXF_TRUNC = 0x10"

lemmas fxp_defs = SSH_FXP_OPEN_def SSH_FXP_CLOSE_def SSH_FXP_READ_def SSH_FXP_WRITE_def SSH_FXP_SETSTAT_def
  SSH_FXP_FSETSTAT_def SSH_FXP_REMOVE_def SSH_FXP_MKDIR_def SSH_FXP_RMDIR_def SSH_FXP_RENAME_def
  SSH_FXP_SYMLINK_def SSH_FXP_STATUS_def SSH_FXP_HANDLE_def SSH_FXP_DATA_def SSH_FXP_EXTENDED_def

definition MAX_PACKET_LEN :: nat where "MAX_PACKET_LEN = 4 * 1024 * 1024"

definition UNCLOSED_FILE_ERROR :: string where
  "UNCLOSED_FILE_ERROR = ''channel closed before the file was closed''"

record OpenFile =
  of_path :: string
  of_write :: bool
  of_bytes :: u64

datatype Pending =
    PendingOpen string bool
  | PendingRead bytes
  | PendingWrite bytes u64
  | PendingClose bytes
  | PendingPath string string "string option"

record SftpAuditor =
  au_client :: bytes
  au_server :: bytes
  au_pending :: "(u32 \<times> Pending) list"
  au_files :: "(bytes \<times> OpenFile) list"
  au_disabled :: bool

definition sftp_auditor_new :: SftpAuditor where
  "sftp_auditor_new = \<lparr>au_client = [], au_server = [], au_pending = [], au_files = [], au_disabled = False\<rparr>"

section \<open>Framing\<close>

text \<open>The loop of \<open>Framer::push\<close>: the complete packets of the buffer, and what is left of it.\<close>

function framer_loop :: "bytes \<Rightarrow> bytes list \<Rightarrow> bytes list option \<times> bytes" where
  "framer_loop buffer packets =
     (if length buffer < 4 then (Some packets, buffer)
      else (let len = be_val (take 4 buffer)
            in if len > MAX_PACKET_LEN then (None, buffer)
               else if length buffer < 4 + len then (Some packets, buffer)
               else framer_loop (drop (4 + len) buffer) (packets @ [take len (drop 4 buffer)])))"
  by pat_completeness auto
termination by (relation "measure (\<lambda>(b, _). length b)") auto

declare framer_loop.simps [simp del]

definition framer_push :: "bytes \<Rightarrow> bytes \<Rightarrow> bytes list option \<times> bytes" where
  "framer_push buffer data = framer_loop (buffer @ data) []"

section \<open>Fields of a packet\<close>

definition read_u32 :: "bytes \<Rightarrow> (u32 \<times> bytes) option" where
  "read_u32 buf = (if length buf \<ge> 4 then Some (word_of_nat (be_val (take 4 buf)), drop 4 buf) else None)"

definition read_string :: "bytes \<Rightarrow> (bytes \<times> bytes) option" where
  "read_string buf =
     Option.bind (read_u32 buf) (\<lambda>(len, buf).
       if length buf \<ge> unat len then Some (take (unat len) buf, drop (unat len) buf) else None)"

definition read_path :: "bytes \<Rightarrow> (string \<times> bytes) option" where
  "read_path buf = map_option (\<lambda>(b, rest). (from_utf8_lossy b, rest)) (read_string buf)"

definition open_request :: "bytes \<Rightarrow> Pending option" where
  "open_request packet =
     Option.bind (read_path packet) (\<lambda>(path, packet).
     Option.bind (read_u32 packet) (\<lambda>(pflags, _).
       Some (PendingOpen path
         (pflags AND (SSH_FXF_WRITE OR SSH_FXF_APPEND OR SSH_FXF_CREAT OR SSH_FXF_TRUNC) \<noteq> 0))))"

definition write_request :: "bytes \<Rightarrow> Pending option" where
  "write_request packet =
     Option.bind (read_string packet) (\<lambda>(handle, packet).
       if length packet < 8 then None
       else Option.bind (read_u32 (drop 8 packet)) (\<lambda>(len, _). Some (PendingWrite handle (ucast len))))"

definition path_op :: "string \<Rightarrow> bytes \<Rightarrow> bool \<Rightarrow> Pending option" where
  "path_op operation packet two_paths =
     Option.bind (read_path packet) (\<lambda>(path, packet).
       if two_paths
       then Option.bind (read_path packet) (\<lambda>(new_path, _). Some (PendingPath operation path (Some new_path)))
       else Some (PendingPath operation path None))"

definition file_operation :: "OpenFile \<Rightarrow> string option \<Rightarrow> SftpFileOperation" where
  "file_operation file err =
     \<lparr>op_operation = (if of_write file then ''write'' else ''read''), op_path = of_path file, op_new_path = None,
      op_bytes = Some (of_bytes file), op_success = (err = None), op_error = err\<rparr>"

section \<open>Requests and replies\<close>

definition request_kind :: "(bytes \<times> OpenFile) list \<Rightarrow> u8 \<Rightarrow> bytes \<Rightarrow> Pending option" where
  "request_kind files tag packet =
     (if tag = SSH_FXP_OPEN then open_request packet
      else if tag = SSH_FXP_READ then map_option (\<lambda>(handle, _). PendingRead handle) (read_string packet)
      else if tag = SSH_FXP_WRITE then write_request packet
      else if tag = SSH_FXP_CLOSE then map_option (\<lambda>(handle, _). PendingClose handle) (read_string packet)
      else if tag = SSH_FXP_REMOVE then path_op ''remove'' packet False
      else if tag = SSH_FXP_MKDIR then path_op ''mkdir'' packet False
      else if tag = SSH_FXP_RMDIR then path_op ''rmdir'' packet False
      else if tag = SSH_FXP_SETSTAT then path_op ''setstat'' packet False
      else if tag = SSH_FXP_RENAME then path_op ''rename'' packet True
      else if tag = SSH_FXP_SYMLINK then path_op ''symlink'' packet True
      else if tag = SSH_FXP_FSETSTAT then
        Option.bind (read_string packet) (\<lambda>(handle, _).
          map_option (\<lambda>f. PendingPath ''setstat'' (of_path f) None) (map_of files handle))
      else if tag = SSH_FXP_EXTENDED then
        Option.bind (read_string packet) (\<lambda>(name, packet).
          if name = as_bytes ''posix-rename@openssh.com'' then path_op ''rename'' packet True else None)
      else None)"

definition sftp_request :: "bytes \<Rightarrow> SftpAuditor \<Rightarrow> SftpAuditor" where
  "sftp_request packet a =
     (if length packet < 5 then a
      else (case request_kind (au_files a) (hd packet) (drop 5 packet) of
              Some p \<Rightarrow> a\<lparr>au_pending := hash_insert (word_of_nat (be_val (take 4 (tl packet)))) p (au_pending a)\<rparr>
            | None \<Rightarrow> a))"

text \<open>The decimal form of \<open>format!\<close>.\<close>

fun show_nat :: "nat \<Rightarrow> string" where
  "show_nat n = (if n < 10 then [char_of (48 + n)] else show_nat (n div 10) @ [char_of (48 + n mod 10)])"

declare show_nat.simps [simp del]

definition reply_status :: "u8 \<Rightarrow> bytes \<Rightarrow> (u32 \<times> string) option" where
  "reply_status tag packet =
     (if tag = SSH_FXP_STATUS
      then Option.bind (read_u32 packet) (\<lambda>(code, packet).
             Some (code, case read_path packet of Some (message, _) \<Rightarrow> message | None \<Rightarrow> []))
      else None)"

definition reply_error :: "(u32 \<times> string) option \<Rightarrow> string option" where
  "reply_error status =
     (case status of
        None \<Rightarrow> None
      | Some (code, message) \<Rightarrow>
          if code = 0 then None
          else if message = [] then Some (''status '' @ show_nat (unat code))
          else Some message)"

definition reply_pending ::
  "Pending \<Rightarrow> u8 \<Rightarrow> bytes \<Rightarrow> SftpAuditor \<Rightarrow> SftpFileOperation option \<times> SftpAuditor" where
  "reply_pending p tag packet a =
     (let status = reply_status tag packet; err = reply_error status
      in case p of
           PendingOpen path w \<Rightarrow>
             if tag = SSH_FXP_HANDLE
             then (case read_string packet of
                     None \<Rightarrow> (None, a)
                   | Some (handle, _) \<Rightarrow>
                       (None, a\<lparr>au_files := hash_insert handle \<lparr>of_path = path, of_write = w, of_bytes = 0\<rparr> (au_files a)\<rparr>))
             else (Some (file_operation \<lparr>of_path = path, of_write = w, of_bytes = 0\<rparr>
                     (case err of Some e \<Rightarrow> Some e | None \<Rightarrow> Some ''open failed'')), a)
         | PendingRead handle \<Rightarrow>
             (None,
              if tag = SSH_FXP_DATA
              then (case (read_string packet, map_of (au_files a) handle) of
                      (Some (data, _), Some f) \<Rightarrow>
                        a\<lparr>au_files := hash_insert handle (f\<lparr>of_bytes := of_bytes f + word_of_nat (length data)\<rparr>) (au_files a)\<rparr>
                    | _ \<Rightarrow> a)
              else a)
         | PendingWrite handle len \<Rightarrow>
             (None,
              if err = None
              then (case map_of (au_files a) handle of
                      Some f \<Rightarrow> a\<lparr>au_files := hash_insert handle (f\<lparr>of_bytes := of_bytes f + len\<rparr>) (au_files a)\<rparr>
                    | None \<Rightarrow> a)
              else a)
         | PendingClose handle \<Rightarrow>
             (case map_of (au_files a) handle of
                None \<Rightarrow> (None, a)
              | Some f \<Rightarrow> (Some (file_operation f err), a\<lparr>au_files := hash_remove handle (au_files a)\<rparr>))
         | PendingPath operation path new_path \<Rightarrow>
             ((case status of
                 None \<Rightarrow> None
               | Some _ \<Rightarrow>
                   Some \<lparr>op_operation = operation, op_path = path, op_new_path = new_path, op_bytes = None,
                         op_success = (err = None), op_error = err\<rparr>), a))"

definition sftp_reply :: "bytes \<Rightarrow> SftpAuditor \<Rightarrow> SftpFileOperation option \<times> SftpAuditor" where
  "sftp_reply packet a =
     (if length packet < 5 then (None, a)
      else (let i = word_of_nat (be_val (take 4 (tl packet)))
            in case map_of (au_pending a) i of
                 None \<Rightarrow> (None, a)
               | Some p \<Rightarrow> reply_pending p (hd packet) (drop 5 packet)
                            (a\<lparr>au_pending := hash_remove i (au_pending a)\<rparr>)))"

section \<open>The auditor\<close>

definition sftp_disable :: "SftpAuditor \<Rightarrow> SftpAuditor" where
  "sftp_disable a = a\<lparr>au_disabled := True, au_client := [], au_server := [], au_pending := [], au_files := []\<rparr>"

definition client_data :: "bytes \<Rightarrow> SftpAuditor \<Rightarrow> SftpAuditor" where
  "client_data data a =
     (if au_disabled a then a
      else (case framer_push (au_client a) data of
              (Some packets, buffer) \<Rightarrow> fold sftp_request packets (a\<lparr>au_client := buffer\<rparr>)
            | (None, buffer) \<Rightarrow> sftp_disable (a\<lparr>au_client := buffer\<rparr>)))"

fun reply_all :: "bytes list \<Rightarrow> SftpAuditor \<Rightarrow> SftpFileOperation list \<times> SftpAuditor" where
  "reply_all [] a = ([], a)"
| "reply_all (packet # packets) a =
     (let (r, a1) = sftp_reply packet a; (rs, a2) = reply_all packets a1
      in (case r of Some x \<Rightarrow> x # rs | None \<Rightarrow> rs, a2))"

definition server_data :: "bytes \<Rightarrow> SftpAuditor \<Rightarrow> SftpFileOperation list \<times> SftpAuditor" where
  "server_data data a =
     (if au_disabled a then ([], a)
      else (case framer_push (au_server a) data of
              (Some packets, buffer) \<Rightarrow> reply_all packets (a\<lparr>au_server := buffer\<rparr>)
            | (None, buffer) \<Rightarrow> ([], sftp_disable (a\<lparr>au_server := buffer\<rparr>))))"

definition sftp_finish :: "SftpAuditor \<Rightarrow> SftpFileOperation list \<times> SftpAuditor" where
  "sftp_finish a =
     (map (\<lambda>(_, f). file_operation f (Some UNCLOSED_FILE_ERROR)) (au_files a),
      a\<lparr>au_pending := [], au_files := []\<rparr>)"

end
