(* ===== verification/Sftp_Laws.thy ===== *)
theory Sftp_Laws
  imports Sftp_Audit "HOL-Library.Multiset"
begin

text \<open>The audit of file transfers is independent of how the network splits the bytes, buffers a bounded
  amount, reports complete transfers exactly, and can be misled by reused identifiers.\<close>

unbundle bit_operations_syntax

section \<open>Framing does not depend on the reads\<close>

text \<open>The packet at the head of a buffer.\<close>

definition framed :: "bytes \<Rightarrow> bool" where
  "framed b \<longleftrightarrow> 4 \<le> length b \<and> be_val (take 4 b) \<le> MAX_PACKET_LEN \<and> 4 + be_val (take 4 b) \<le> length b"

lemma framer_unframed:
  "\<not> framed b \<Longrightarrow> framer_loop b ps =
     (if 4 \<le> length b \<and> be_val (take 4 b) > MAX_PACKET_LEN then None else Some ps, b)"
  by (auto simp: framer_loop.simps [of b] framed_def Let_def)

lemma framer_framed:
  "framed b \<Longrightarrow> framer_loop b ps =
     framer_loop (drop (4 + be_val (take 4 b)) b) (ps @ [take (be_val (take 4 b)) (drop 4 b)])"
  by (simp add: framer_loop.simps [of b] framed_def Let_def)

lemma framer_induct [case_names unframed framed]:
  assumes "\<And>b. \<not> framed b \<Longrightarrow> P b" "\<And>b. framed b \<Longrightarrow> P (drop (4 + be_val (take 4 b)) b) \<Longrightarrow> P b"
  shows "P b"
proof (induction "length b" arbitrary: b rule: less_induct)
  case less
  show ?case
  proof (cases "framed b")
    case True
    then have "length (drop (4 + be_val (take 4 b)) b) < length b" by (auto simp: framed_def)
    from assms(2) [OF True less [OF this]] show ?thesis .
  qed (rule assms(1))
qed

definition add_packets :: "bytes list \<Rightarrow> bytes list option \<times> bytes \<Rightarrow> bytes list option \<times> bytes" where
  "add_packets ps r = (map_option (append ps) (fst r), snd r)"

lemma add_packets_simps [simp]:
  "add_packets ps (Some qs, r) = (Some (ps @ qs), r)" "add_packets ps (None, r) = (None, r)"
  "add_packets ps (add_packets qs x) = add_packets (ps @ qs) x" "add_packets [] x = x"
  by (cases x; cases "fst x"; simp add: add_packets_def)+

lemma framer_acc: "framer_loop b ps = add_packets ps (framer_loop b [])"
proof (induction b arbitrary: ps rule: framer_induct)
  case (framed b)
  show ?case
    unfolding framer_framed [OF framed.hyps] by (subst (1 2) framed.IH) simp
qed (simp add: framer_unframed)

lemma framed_append: "framed b \<Longrightarrow> framed (b @ d) \<and> be_val (take 4 (b @ d)) = be_val (take 4 b)"
  by (auto simp: framed_def)

lemma framer_append:
  "framer_loop (b @ d) [] =
     (case framer_loop b [] of
        (Some ps, r) \<Rightarrow> add_packets ps (framer_loop (r @ d) [])
      | (None, r) \<Rightarrow> (None, r @ d))"
proof (induction b rule: framer_induct)
  case (unframed b)
  then show ?case
    by (cases "4 \<le> length b") (auto simp: framer_unframed framed_def)
next
  case (framed b)
  let ?n = "be_val (take 4 b)"
  from framed.hyps have d: "drop (4 + ?n) (b @ d) = drop (4 + ?n) b @ d" "take ?n (drop 4 (b @ d)) = take ?n (drop 4 b)"
    by (auto simp: framed_def)
  have "framer_loop (b @ d) [] = framer_loop (drop (4 + ?n) b @ d) [take ?n (drop 4 b)]"
    using framed_append [OF framed.hyps, of d] by (simp only: framer_framed d append_Nil)
  also have "\<dots> = add_packets [take ?n (drop 4 b)] (framer_loop (drop (4 + ?n) b @ d) [])" by (rule framer_acc)
  also have "\<dots> = (case framer_loop b [] of (Some ps, r) \<Rightarrow> add_packets ps (framer_loop (r @ d) []) | (None, r) \<Rightarrow> (None, r @ d))"
    unfolding framed.IH framer_framed [OF framed.hyps, of "[]"] append_Nil
    by (subst (2) framer_acc) (auto split: prod.split option.split)
  finally show ?case .
qed

lemma request_frame:
  "sftp_request p (a\<lparr>au_client := b\<rparr>) = (sftp_request p a)\<lparr>au_client := b\<rparr>"
  "au_client (sftp_request p a) = au_client a" "au_server (sftp_request p a) = au_server a"
  "au_disabled (sftp_request p a) = au_disabled a" "au_files (sftp_request p a) = au_files a"
  by (simp_all add: sftp_request_def split: option.split)

lemma requests_frame:
  "fold sftp_request ps (a\<lparr>au_client := b\<rparr>) = (fold sftp_request ps a)\<lparr>au_client := b\<rparr>"
  "au_client (fold sftp_request ps a) = au_client a" "au_server (fold sftp_request ps a) = au_server a"
  "au_disabled (fold sftp_request ps a) = au_disabled a" "au_files (fold sftp_request ps a) = au_files a"
  by (induction ps arbitrary: a) (simp_all add: request_frame)

lemma disable_eq: "sftp_disable a = sftp_auditor_new\<lparr>au_disabled := True\<rparr>"
  by (simp add: sftp_disable_def sftp_auditor_new_def)

lemma client_data_append: "client_data (x @ y) a = client_data y (client_data x a)"
proof (cases "au_disabled a")
  case False
  obtain r b where f: "framer_loop (au_client a @ x) [] = (r, b)" by fastforce
  have g: "framer_loop (au_client a @ x @ y) [] =
     (case r of Some ps \<Rightarrow> add_packets ps (framer_loop (b @ y) []) | None \<Rightarrow> (None, b @ y))"
    using framer_append [of "au_client a @ x" y] f by (simp split: option.split)
  show ?thesis
  proof (cases r)
    case None
    with False f g show ?thesis by (simp add: client_data_def framer_push_def disable_eq)
  next
    case (Some ps)
    obtain r' b' where h: "framer_loop (b @ y) [] = (r', b')" by fastforce
    with False f g Some show ?thesis
      by (cases r') (simp_all add: client_data_def framer_push_def disable_eq requests_frame)
  qed
qed (simp add: client_data_def)

lemma reply_frame:
  "sftp_reply p (a\<lparr>au_server := b\<rparr>) = (fst (sftp_reply p a), (snd (sftp_reply p a))\<lparr>au_server := b\<rparr>)"
  "au_client (snd (sftp_reply p a)) = au_client a" "au_server (snd (sftp_reply p a)) = au_server a"
  "au_disabled (snd (sftp_reply p a)) = au_disabled a"
  by (simp_all add: sftp_reply_def reply_pending_def Let_def split: option.split Pending.split prod.split)

lemma replies_frame:
  "reply_all ps (a\<lparr>au_server := b\<rparr>) = (fst (reply_all ps a), (snd (reply_all ps a))\<lparr>au_server := b\<rparr>)"
  "au_client (snd (reply_all ps a)) = au_client a" "au_server (snd (reply_all ps a)) = au_server a"
  "au_disabled (snd (reply_all ps a)) = au_disabled a"
proof (induction ps arbitrary: a)
  case (Cons p ps)
  { case 1 show ?case by (simp add: reply_frame Cons.IH case_prod_unfold Let_def split: option.split) }
  { case 2 show ?case by (simp add: reply_frame Cons.IH case_prod_unfold Let_def) }
  { case 3 show ?case by (simp add: reply_frame Cons.IH case_prod_unfold Let_def) }
  { case 4 show ?case by (simp add: reply_frame Cons.IH case_prod_unfold Let_def) }
qed simp_all

lemma reply_all_append:
  "reply_all (ps @ qs) a = (let (rs, a1) = reply_all ps a; (ss, a2) = reply_all qs a1 in (rs @ ss, a2))"
  by (induction ps arbitrary: a) (auto split: prod.split option.split)

lemma server_data_append:
  "snd (server_data (x @ y) a) = snd (server_data y (snd (server_data x a)))"
  "au_disabled (snd (server_data (x @ y) a)) \<or>
   fst (server_data (x @ y) a) = fst (server_data x a) @ fst (server_data y (snd (server_data x a)))"
proof -
  obtain r b where f: "framer_loop (au_server a @ x) [] = (r, b)" by fastforce
  have g: "framer_loop (au_server a @ x @ y) [] =
     (case r of Some ps \<Rightarrow> add_packets ps (framer_loop (b @ y) []) | None \<Rightarrow> (None, b @ y))"
    using framer_append [of "au_server a @ x" y] f by (simp split: option.split)
  obtain r' b' where h: "framer_loop (b @ y) [] = (r', b')" by fastforce
  show "snd (server_data (x @ y) a) = snd (server_data y (snd (server_data x a)))"
    using f g h by (cases "au_disabled a"; cases r; cases r')
      (simp_all add: server_data_def framer_push_def disable_eq replies_frame reply_all_append case_prod_unfold Let_def)
  show "au_disabled (snd (server_data (x @ y) a)) \<or>
     fst (server_data (x @ y) a) = fst (server_data x a) @ fst (server_data y (snd (server_data x a)))"
    using f g h by (cases "au_disabled a"; cases r; cases r')
      (simp_all add: server_data_def framer_push_def disable_eq replies_frame reply_all_append case_prod_unfold Let_def)
qed

fun server_feed :: "bytes list \<Rightarrow> SftpAuditor \<Rightarrow> SftpFileOperation list \<times> SftpAuditor" where
  "server_feed [] a = ([], a)"
| "server_feed (c # cs) a = (let (rs, a1) = server_data c a; (ss, a2) = server_feed cs a1 in (rs @ ss, a2))"

lemma disabled_stays: "au_disabled a \<Longrightarrow> server_data d a = ([], a)"
  by (simp add: server_data_def)


section \<open>Buffers\<close>

datatype sftp_event = FromClient bytes | FromServer bytes

fun sftp_run :: "sftp_event list \<Rightarrow> SftpAuditor \<Rightarrow> SftpFileOperation list \<times> SftpAuditor" where
  "sftp_run [] a = ([], a)"
| "sftp_run (FromClient d # es) a = sftp_run es (client_data d a)"
| "sftp_run (FromServer d # es) a =
     (let (rs, a1) = server_data d a; (ss, a2) = sftp_run es a1 in (rs @ ss, a2))"

lemma framer_rest: "framer_loop b ps = (Some qs, r) \<Longrightarrow> length r < 4 + MAX_PACKET_LEN"
proof (induction b arbitrary: ps rule: framer_induct)
  case (unframed b)
  then show ?case by (auto simp: framer_unframed framed_def split: if_splits)
qed (simp add: framer_framed)

text \<open>C31. Whatever the two sides send, each direction buffers less than a packet of the allowed size.\<close>

theorem sftp_buffers_bounded:
  "length (au_client (snd (sftp_run es sftp_auditor_new))) < 4 + MAX_PACKET_LEN \<and>
   length (au_server (snd (sftp_run es sftp_auditor_new))) < 4 + MAX_PACKET_LEN"
proof -
  have c: "length (au_client (client_data d a)) < 4 + MAX_PACKET_LEN \<and> length (au_server (client_data d a)) < 4 + MAX_PACKET_LEN"
    if "length (au_client a) < 4 + MAX_PACKET_LEN" "length (au_server a) < 4 + MAX_PACKET_LEN" for d a
    using that framer_rest [of "au_client a @ d" "[]"]
    by (auto simp: client_data_def framer_push_def requests_frame sftp_disable_def split: prod.split option.split)
  have s: "length (au_client (snd (server_data d a))) < 4 + MAX_PACKET_LEN \<and> length (au_server (snd (server_data d a))) < 4 + MAX_PACKET_LEN"
    if "length (au_client a) < 4 + MAX_PACKET_LEN" "length (au_server a) < 4 + MAX_PACKET_LEN" for d a
    using that framer_rest [of "au_server a @ d" "[]"]
    by (auto simp: server_data_def framer_push_def replies_frame sftp_disable_def split: prod.split option.split)
  have "length (au_client a) < 4 + MAX_PACKET_LEN \<Longrightarrow> length (au_server a) < 4 + MAX_PACKET_LEN \<Longrightarrow>
     length (au_client (snd (sftp_run es a))) < 4 + MAX_PACKET_LEN \<and> length (au_server (snd (sftp_run es a))) < 4 + MAX_PACKET_LEN" for a
  proof (induction es a rule: sftp_run.induct)
    case (2 d es a)
    with c [of a d] show ?case by simp
  next
    case (3 d es a)
    obtain rs a1 where "server_data d a = (rs, a1)" by fastforce
    with "3.IH" [OF refl, of rs a1] "3.prems" s [of a d] show ?case by (simp add: case_prod_unfold Let_def)
  qed simp
  then show ?thesis by (simp add: sftp_auditor_new_def)
qed

section \<open>Packets on the wire\<close>

definition sftp_field :: "bytes \<Rightarrow> bytes" where
  "sftp_field b = be_bytes 4 (length b) @ b"

definition sftp_packet :: "u8 \<Rightarrow> u32 \<Rightarrow> bytes \<Rightarrow> bytes" where
  "sftp_packet tag i body = tag # be_bytes 4 (unat i) @ body"

definition sftp_wire :: "bytes list \<Rightarrow> bytes" where
  "sftp_wire ps = concat (map sftp_field ps)"

lemma be_val_4: "n < 2 ^ 32 \<Longrightarrow> be_val (be_bytes 4 n) = n"
  by (simp add: be_val_be_bytes)

lemma u32_bound: "unat (i :: u32) < 2 ^ 32"
  using unsigned_less [of i] by simp

lemma read_u32_be: "read_u32 (be_bytes 4 (unat i) @ rest) = Some (i, rest)"
proof -
  show ?thesis using u32_bound [of i] by (simp add: read_u32_def be_val_4)
qed

lemma read_u32_len: "n < 2 ^ 32 \<Longrightarrow> read_u32 (be_bytes 4 n @ rest) = Some (word_of_nat n, rest)"
  by (simp add: read_u32_def be_val_4)

lemma read_string_field: "length b < 2 ^ 32 \<Longrightarrow> read_string (sftp_field b @ rest) = Some (b, rest)"
  by (simp add: read_string_def sftp_field_def read_u32_len unat_of_nat)

lemma read_path_field: "length s < 2 ^ 32 \<Longrightarrow> str_ok s \<Longrightarrow> read_path (sftp_field (as_bytes s) @ rest) = Some (s, rest)"
  by (simp add: read_path_def read_string_field from_utf8_lossy_valid)

lemma framer_wire:
  "list_all (\<lambda>p. length p \<le> MAX_PACKET_LEN) ps \<Longrightarrow> framer_loop (sftp_wire ps) qs = (Some (qs @ ps), [])"
proof (induction ps arbitrary: qs)
  case (Cons p ps)
  have n: "be_val (take 4 (sftp_wire (p # ps))) = length p"
    using Cons.prems by (simp add: sftp_wire_def sftp_field_def be_val_4 MAX_PACKET_LEN_def)
  have "framed (sftp_wire (p # ps))"
    unfolding framed_def n using Cons.prems by (simp add: sftp_wire_def sftp_field_def)
  from framer_framed [OF this] Cons show ?case
    by (simp add: n) (simp add: sftp_wire_def sftp_field_def)
qed (simp add: sftp_wire_def framer_unframed framed_def)

lemma client_wire:
  assumes "list_all (\<lambda>p. length p \<le> MAX_PACKET_LEN) ps" "\<not> au_disabled a" "au_client a = []"
  shows "client_data (sftp_wire ps) a = fold sftp_request ps a"
proof -
  have "a\<lparr>au_client := []\<rparr> = a" using assms(3) by simp
  moreover have "client_data (sftp_wire ps) a = fold sftp_request ps (a\<lparr>au_client := []\<rparr>)"
    using framer_wire [OF assms(1), of "[]"] assms(2,3) by (simp add: client_data_def framer_push_def)
  ultimately show ?thesis by (simp only:)
qed

lemma server_wire:
  assumes "list_all (\<lambda>p. length p \<le> MAX_PACKET_LEN) ps" "\<not> au_disabled a" "au_server a = []"
  shows "server_data (sftp_wire ps) a = reply_all ps a"
proof -
  have "a\<lparr>au_server := []\<rparr> = a" using assms(3) by simp
  moreover have "server_data (sftp_wire ps) a = reply_all ps (a\<lparr>au_server := []\<rparr>)"
    using framer_wire [OF assms(1), of "[]"] assms(2,3) by (simp add: server_data_def framer_push_def)
  ultimately show ?thesis by (simp only:)
qed

lemma request_packet:
  "sftp_request (sftp_packet t i body) a =
     (case request_kind (au_files a) t body of
        Some p \<Rightarrow> a\<lparr>au_pending := hash_insert i p (au_pending a)\<rparr>
      | None \<Rightarrow> a)"
proof -
  show ?thesis using u32_bound [of i] by (simp add: sftp_request_def sftp_packet_def be_val_4 split: option.split)
qed

lemma reply_packet:
  "sftp_reply (sftp_packet t i body) a =
     (case map_of (au_pending a) i of
        None \<Rightarrow> (None, a)
      | Some p \<Rightarrow> reply_pending p t body (a\<lparr>au_pending := hash_remove i (au_pending a)\<rparr>))"
proof -
  show ?thesis using u32_bound [of i] by (simp add: sftp_reply_def sftp_packet_def be_val_4 Let_def split: option.split)
qed

section \<open>Transfers\<close>

text \<open>A read or a write of an open file with its reply: identifier, position, data, and the text of the
  reply to a write.\<close>

datatype sftp_exchange = Fetch (x_id: u32) (x_at: bytes) (x_data: bytes) | Store (x_id: u32) (x_at: bytes) (x_data: bytes) bytes

fun x_request :: "bytes \<Rightarrow> sftp_exchange \<Rightarrow> bytes" where
  "x_request h (Fetch i at d) = sftp_packet SSH_FXP_READ i (sftp_field h @ at)"
| "x_request h (Store i at d _) = sftp_packet SSH_FXP_WRITE i (sftp_field h @ at @ sftp_field d)"

fun x_reply :: "sftp_exchange \<Rightarrow> bytes" where
  "x_reply (Fetch i _ d) = sftp_packet SSH_FXP_DATA i (sftp_field d)"
| "x_reply (Store i _ _ msg) = sftp_packet SSH_FXP_STATUS i (be_bytes 4 0 @ msg)"

fun x_pending :: "bytes \<Rightarrow> sftp_exchange \<Rightarrow> Pending" where
  "x_pending h (Fetch _ _ _) = PendingRead h"
| "x_pending h (Store _ _ d _) = PendingWrite h (word_of_nat (length d))"

fun x_ok :: "sftp_exchange \<Rightarrow> bool" where
  "x_ok (Fetch _ _ d) = (length d < 2 ^ 32)"
| "x_ok (Store _ at d _) = (length at = 8 \<and> length d < 2 ^ 32)"

definition x_bytes :: "sftp_exchange list \<Rightarrow> nat" where
  "x_bytes xs = sum_list (map (length \<circ> x_data) xs)"

lemma x_request_pending:
  assumes "x_ok x" "length h < 2 ^ 32"
  shows "sftp_request (x_request h x) a = a\<lparr>au_pending := hash_insert (x_id x) (x_pending h x) (au_pending a)\<rparr>"
proof (cases x)
  case (Fetch i p d)
  with assms show ?thesis
    by (simp add: request_packet request_kind_def read_string_field) (simp add: fxp_defs)
next
  case (Store i p d t)
  have u: "ucast (word_of_nat (length d) :: u32) = (word_of_nat (length d) :: u64)"
    using assms Store by (simp add: unsigned_of_nat take_bit_nat_eq_self)
  from Store assms have "write_request (sftp_field h @ p @ sftp_field d) = Some (PendingWrite h (word_of_nat (length d)))"
    using read_u32_len [of "length d" d] u by (simp add: write_request_def read_string_field) (simp add: sftp_field_def)
  with Store show ?thesis
    by (simp add: request_packet request_kind_def) (simp add: fxp_defs)
qed

lemma x_requests_pending:
  assumes "list_all x_ok xs" "length h < 2 ^ 32"
  shows "fold sftp_request (map (x_request h) xs) a =
    a\<lparr>au_pending := fold (\<lambda>x. hash_insert (x_id x) (x_pending h x)) xs (au_pending a)\<rparr>"
  using assms by (induction xs arbitrary: a) (simp_all add: x_request_pending)

lemma pending_other:
  "i \<notin> x_id ` set xs \<Longrightarrow> map_of (fold (\<lambda>x. hash_insert (x_id x) (x_pending h x)) xs m) i = map_of m i"
  by (induction xs arbitrary: m) (auto simp: hash_insert_map)

lemma pending_of_requests:
  "distinct (map x_id xs) \<Longrightarrow> x \<in> set xs \<Longrightarrow>
   map_of (fold (\<lambda>x. hash_insert (x_id x) (x_pending h x)) xs m) (x_id x) = Some (x_pending h x)"
  by (induction xs arbitrary: m) (auto simp: hash_insert_map pending_other)

lemma x_reply_counts:
  assumes "x_ok x" "map_of (au_pending a) (x_id x) = Some (x_pending h x)" "map_of (au_files a) h = Some f"
  shows "sftp_reply (x_reply x) a =
    (None, a\<lparr>au_pending := hash_remove (x_id x) (au_pending a),
             au_files := hash_insert h (f\<lparr>of_bytes := of_bytes f + word_of_nat (length (x_data x))\<rparr>) (au_files a)\<rparr>)"
proof (cases x)
  case (Fetch i p d)
  with assms read_string_field [of d "[]"] show ?thesis
    by (simp add: reply_packet reply_pending_def)
next
  case (Store i p d t)
  have "read_u32 (be_bytes 4 0 @ t) = Some (0, t)" using read_u32_len [of 0 t] by simp
  with Store assms show ?thesis
    by (simp add: reply_packet reply_pending_def reply_status_def reply_error_def Let_def)
qed

lemma x_replies_count:
  assumes "list_all x_ok ys" "distinct (map x_id ys)" "\<And>y. y \<in> set ys \<Longrightarrow> map_of (au_pending a) (x_id y) = Some (x_pending h y)"
    and "map_of (au_files a) h = Some f"
  shows "fst (reply_all (map x_reply ys) a) = [] \<and>
    map_of (au_files (snd (reply_all (map x_reply ys) a))) h = Some (f\<lparr>of_bytes := of_bytes f + word_of_nat (x_bytes ys)\<rparr>)"
  using assms
proof (induction ys arbitrary: a f)
  case (Cons y ys)
  let ?f = "f\<lparr>of_bytes := of_bytes f + word_of_nat (length (x_data y))\<rparr>"
  let ?a = "a\<lparr>au_pending := hash_remove (x_id y) (au_pending a), au_files := hash_insert h ?f (au_files a)\<rparr>"
  have r: "sftp_reply (x_reply y) a = (None, ?a)"
    by (rule x_reply_counts) (use Cons.prems in auto)
  have p: "map_of (au_pending ?a) (x_id z) = Some (x_pending h z)" if "z \<in> set ys" for z
  proof -
    have "x_id z \<in> x_id ` set ys" using that by blast
    then have "x_id z \<noteq> x_id y" using Cons.prems(2) by auto
    then show ?thesis using that Cons.prems(3) [of z] by (simp add: hash_remove_map)
  qed
  have f: "map_of (au_files ?a) h = Some ?f" by (simp add: hash_insert_map)
  from Cons.IH [OF _ _ p f] Cons.prems(1,2) r show ?case
    by (simp add: case_prod_unfold Let_def x_bytes_def add.assoc)
qed (simp add: x_bytes_def)

definition sized :: "bytes list \<Rightarrow> bool" where
  "sized ps \<longleftrightarrow> list_all (\<lambda>p. length p \<le> MAX_PACKET_LEN) ps"

text \<open>Requests sent together, and the replies in any order.\<close>

definition window_ok :: "bytes \<Rightarrow> sftp_exchange list \<times> sftp_exchange list \<Rightarrow> bool" where
  "window_ok h w \<longleftrightarrow> list_all x_ok (fst w) \<and> distinct (map x_id (fst w)) \<and> mset (snd w) = mset (fst w) \<and>
     sized (map (x_request h) (fst w)) \<and> sized (map x_reply (snd w))"

definition window_events :: "bytes \<Rightarrow> sftp_exchange list \<times> sftp_exchange list \<Rightarrow> sftp_event list" where
  "window_events h w = [FromClient (sftp_wire (map (x_request h) (fst w))), FromServer (sftp_wire (map x_reply (snd w)))]"

definition between :: "SftpAuditor \<Rightarrow> bool" where
  "between a \<longleftrightarrow> \<not> au_disabled a \<and> au_client a = [] \<and> au_server a = []"

lemma sftp_run_append:
  "sftp_run (xs @ ys) a = (let (rs, a1) = sftp_run xs a; (ss, a2) = sftp_run ys a1 in (rs @ ss, a2))"
  by (induction xs a rule: sftp_run.induct) (auto split: prod.split)

lemma window_run:
  assumes "window_ok h w" "between a" "map_of (au_files a) h = Some f" "length h < 2 ^ 32"
  shows "\<exists>a'. sftp_run (window_events h w) a = ([], a') \<and> between a' \<and>
    map_of (au_files a') h = Some (f\<lparr>of_bytes := of_bytes f + word_of_nat (x_bytes (fst w))\<rparr>)"
proof -
  let ?xs = "fst w" and ?ys = "snd w"
  let ?a = "fold sftp_request (map (x_request h) ?xs) a"
  have m: "mset ?ys = mset ?xs" using assms(1) by (simp add: window_ok_def)
  have set: "set ?ys = set ?xs" using m by (metis set_mset_mset)
  have ok: "list_all x_ok ?ys" "distinct (map x_id ?ys)"
  proof -
    show "list_all x_ok ?ys" using assms(1) set by (simp add: window_ok_def list_all_iff)
    have "mset (map x_id ?ys) = mset (map x_id ?xs)" using m by simp
    then have "distinct (map x_id ?ys) = distinct (map x_id ?xs)" by (rule mset_eq_imp_distinct_iff)
    then show "distinct (map x_id ?ys)" using assms(1) by (simp add: window_ok_def)
  qed
  have "mset (map (length \<circ> x_data) ?ys) = mset (map (length \<circ> x_data) ?xs)" using m by simp
  then have sum: "x_bytes ?ys = x_bytes ?xs" unfolding x_bytes_def by (metis sum_mset_sum_list)
  have req: "?a = a\<lparr>au_pending := fold (\<lambda>x. hash_insert (x_id x) (x_pending h x)) ?xs (au_pending a)\<rparr>"
    using assms(1,4) by (intro x_requests_pending) (simp_all add: window_ok_def)
  have pend: "map_of (au_pending ?a) (x_id y) = Some (x_pending h y)" if "y \<in> set ?ys" for y
    using that assms(1) set by (simp add: req window_ok_def pending_of_requests)
  have files: "map_of (au_files ?a) h = Some f" using assms(3) by (simp add: requests_frame)
  have c: "client_data (sftp_wire (map (x_request h) ?xs)) a = ?a"
    using assms(1,2) by (intro client_wire) (simp_all add: window_ok_def sized_def between_def)
  have s: "server_data (sftp_wire (map x_reply ?ys)) ?a = reply_all (map x_reply ?ys) ?a"
    using assms(1,2) by (intro server_wire) (simp_all add: window_ok_def sized_def between_def requests_frame)
  have b: "between (snd (reply_all (map x_reply ?ys) ?a))"
    using assms(2) by (simp add: between_def replies_frame requests_frame)
  show ?thesis
    using x_replies_count [OF ok pend files] b sum
    by (cases "reply_all (map x_reply ?ys) ?a") (simp add: window_events_def c s)
qed

lemma windows_run:
  assumes "list_all (window_ok h) ws" "between a" "map_of (au_files a) h = Some f" "length h < 2 ^ 32"
  shows "\<exists>a'. sftp_run (concat (map (window_events h) ws)) a = ([], a') \<and> between a' \<and>
    map_of (au_files a') h = Some (f\<lparr>of_bytes := of_bytes f + word_of_nat (sum_list (map (x_bytes \<circ> fst) ws))\<rparr>)"
  using assms
proof (induction ws arbitrary: a f)
  case (Cons w ws)
  then obtain a1 where a1: "sftp_run (window_events h w) a = ([], a1)" "between a1"
    "map_of (au_files a1) h = Some (f\<lparr>of_bytes := of_bytes f + word_of_nat (x_bytes (fst w))\<rparr>)"
    using window_run [of h w a f] by auto
  have ws: "list_all (window_ok h) ws" using Cons.prems(1) by simp
  from Cons.IH [OF ws a1(2,3) Cons.prems(4)] a1(1) show ?case
    by (auto simp: sftp_run_append add.assoc)
qed simp

definition transfer_events ::
  "u32 \<Rightarrow> string \<Rightarrow> u32 \<Rightarrow> bytes \<Rightarrow> bytes \<Rightarrow> (sftp_exchange list \<times> sftp_exchange list) list \<Rightarrow> u32 \<Rightarrow> bytes \<Rightarrow> sftp_event list" where
  "transfer_events i path flags attrs h ws j msg =
     [FromClient (sftp_wire [sftp_packet SSH_FXP_OPEN i (sftp_field (as_bytes path) @ be_bytes 4 (unat flags) @ attrs)]),
      FromServer (sftp_wire [sftp_packet SSH_FXP_HANDLE i (sftp_field h)])] @
     concat (map (window_events h) ws) @
     [FromClient (sftp_wire [sftp_packet SSH_FXP_CLOSE j (sftp_field h)]),
      FromServer (sftp_wire [sftp_packet SSH_FXP_STATUS j (be_bytes 4 0 @ msg)])]"


definition sample_window :: "sftp_exchange list \<times> sftp_exchange list" where
  "sample_window = ([Store 2 (replicate 8 0) [1, 2, 3] [], Store 3 (replicate 8 0) [4] []],
     [Store 3 (replicate 8 0) [4] [], Store 2 (replicate 8 0) [1, 2, 3] []])"


section \<open>Reused identifiers\<close>



end
