(* ===== verification/Spec2Isabelle.thy ===== *)
theory Spec2Isabelle
  imports Access_Laws Command_ACL Sql_Readonly Rate_Registry_Laws Session_Laws Admin_Laws
    Step_Up_Laws Mysql_Relay_Laws Postgres_Relay_Laws Sftp_Laws
begin

text \<open>
  A verification development of gated, a bastion gateway written in Rust
  (\<open>src/crates\<close>). Users reach SSH, HTTP, MySQL and PostgreSQL targets through the gateway: it
  authenticates them, checks that a role opens the target, signs in to the target with stored
  credentials, filters commands, limits bandwidth and records what happens. An administration
  interface (gated-admin) edits users, roles, targets, accounts, limits and rules.

  \<^bold>\<open>Conventions.\<close> A \<open>Result\<close> is a sum with \<open>Inl\<close> the error, the operator \<open>?\<close> is \<open>rbind\<close> (pure code)
  or \<open>then_a\<close> (code with a state). A \<open>String\<close> is the list of its UTF-8 bytes, machine integers are
  words or carry their bound. A table of the database is a list of row records, the shared
  connection is an option that is \<open>None\<close> while the database is locked; a hash map is an association
  list without duplicate keys or a map. A panic is a value of the result. Clocks, random values,
  fresh identifiers and third-party code (hashing, TLS, regular expressions, the governor crate,
  serde, RSA, SASL) are arguments or fields of an environment record; a property that relies on
  such code names what it relies on as a hypothesis. Logging through \<open>tracing\<close>, metrics and the
  texts of most error messages are left out. Handlers run without changes by other tasks between
  their steps, except where the interleaving is the point (locks, approvals, limits, events).

  \<^bold>\<open>Shared theories.\<close>
  \<^item> Prelude: integer widths, the result monad with its simp set \<open>res_simps\<close>, list lemmas.
  \<^item> Rust\_Std: trimming, splitting, ASCII classes, UTF-8 validity, little-endian bytes.
  \<^item> Effects: actions over a state with errors, Hoare triples (\<open>hoare\<close>) and kept invariants
    (\<open>keeps\<close>), which carry the proofs about the protocol servers.
  \<^item> Errors: \<open>GatedError\<close> and its HTTP status.

  \<^bold>\<open>Authentication and access.\<close>
  \<^item> Auth (\<open>gated-common/src/auth\<close>): credentials, policies, \<open>AuthState\<close>, selectors. The locale
    \<open>credential_policy\<close> is the contract of the policy trait and is interpreted on \<open>is_sufficient\<close>; a state
    is accepted exactly when the policy is satisfied and it was not rejected.
  \<^item> Otp (\<open>gated-common/src/helpers/otp.rs\<close>): no one-time code is accepted twice.
  \<^item> Access, Access\_Laws (\<open>gated-core/src/config_providers\<close>): credential validation, policies of users,
    roles, single sign-on, tickets, API tokens. The locale \<open>machine\<close> is interpreted on the ticket
    operations; tickets are used exactly as often as allowed.
  \<^item> Auth\_Store (\<open>gated-core/src/auth_state_store.rs\<close>, \<open>gated-admin/src/api/command_review.rs\<close>): attempts in
    progress and commands that wait for a decision, with their channels.

  \<^bold>\<open>Filters and limits.\<close>
  \<^item> Tokens, Command\_ACL (\<open>gated-core/src/command_acl.rs\<close>, \<open>command_acl_loader.rs\<close>): the first matching
    rule decides; the enforcer of the database proxies refines the matcher.
  \<^item> Sql\_Readonly (\<open>sql_validation.rs\<close>): what the read-only check accepts, and texts that defeat it.
  \<^item> Rate\_Limit, Rate\_Registry with their laws (\<open>gated-core/src/rate_limiting\<close>,
    \<open>sql_console_rate_limit.rs\<close>): every byte is charged to every limiter once; updates take effect.

  \<^bold>\<open>Sessions, targets, accounts.\<close>
  \<^item> Sessions, Session\_Laws (\<open>gated-core/src/state.rs\<close>, \<open>protocols/handle.rs\<close>): the table of sessions and
    its invariant over every sequence of operations; the order of locks.
  \<^item> Target\_Config, Accounts (\<open>config/target.rs\<close>, \<open>account_credentials.rs\<close>): options of targets and the
    choice of the login at the target.
  \<^item> Admin\_Targets, Admin\_Laws (\<open>gated-admin/src/api/targets.rs\<close>, \<open>accounts.rs\<close>): the endpoints, the
    invariant between roles and accounts, hidden secrets.
  \<^item> Step\_Up, Step\_Up\_Laws, Pem (\<open>accounts.rs\<close>, \<open>reveal_guard.rs\<close>, \<open>step_up_grace.rs\<close>, \<open>pem.rs\<close>): the
    confirmation before secrets are shown, the repair of pasted keys.

  \<^bold>\<open>Protocol servers.\<close>
  \<^item> Gateway, Gateway\_Laws: the shared services as actions, connections with what was flushed to
    them and whether it was encrypted.
  \<^item> Mysql\_Wire, Mysql\_Wire\_Laws (\<open>gated-database-protocols\<close>): readers, writers and packets; the locale
    \<open>codec\<close> is interpreted on the length-encoded values, strings and plugin names.
  \<^item> Mysql\_Client, Mysql\_Session, Mysql\_Laws, Mysql\_Relay\_Laws (\<open>gated-protocol-mysql\<close>): a connection
    from the greeting to its end. The authentication loop towards the target has fuel \<open>Suc (length inbox)\<close>;
    every turn takes a packet, and \<open>auth_loop_fuel\<close> shows that more fuel changes nothing.
  \<^item> Postgres\_Wire, Postgres\_Session, Postgres\_Laws, Postgres\_Relay\_Laws (\<open>gated-protocol-postgres\<close>): a
    connection from the startup message to its end. The maps of prepared statements and portals in the
    relay refine those of the target. The loops of the connection to the target have the number of messages
    still to be received plus one as fuel; \<open>sasl_loop_fuel\<close> and \<open>pg_auth_loop_fuel\<close> show that more changes
    nothing. The login loop has fuel 3: a password is asked for once, an approval once, then it ends.
  \<^item> Sftp\_Audit, Sftp\_Laws (\<open>gated-protocol-ssh/src/sftp_audit.rs\<close>): the observer of file transfers. The
    loop over a buffer ends because every turn takes a packet from it. What is reported does not depend on how the
    bytes arrive, buffers are bounded, and a complete transfer is reported once.

  \<^bold>\<open>Not modelled.\<close> The SSH and HTTP proxies, the encryption of columns, recordings, ACME, health checks,
  the database terminals of the administration interface, the migrations of the schema, the web front end
  and the command line are left out.
\<close>

end
